(* ===== verification/Prelude.thy ===== *)
theory Prelude
  imports Main
begin

text \<open>
  Shared vocabulary of the development: the JavaScript value idioms the lifecycle code uses everywhere
  (a present-or-absent property, the nullish operator, the falsy string test, a throwing call) and the
  generic lemmas the component theories share.

  A property that may be absent or null is an option; \<open>orelse\<close> is the
  right-hand side of an \<open>Object.assign\<close> (a later present key wins); a call that may throw returns a
  sum whose left side is the error.  The collections declared here gather the per-state step
  definitions, the write-builder definitions and the per-step facts of the state machine, so that a
  property names the collection and not thirty equations.
\<close>

named_theorems write_defs "the field-write builders and their merge"
named_theorems step_defs "the per-state step functions of the state machine"
named_theorems resolver_defs "the guard resolvers"

section \<open>Options as optional and nullable properties\<close>

definition orelse :: "'a option \<Rightarrow> 'a option \<Rightarrow> 'a option" where
  "orelse later earlier = (case later of Some v \<Rightarrow> Some v | None \<Rightarrow> earlier)"

lemma orelse_simps [simp]:
  "orelse (Some v) e = Some v"
  "orelse None e = e"
  "orelse x None = x"
  by (auto simp: orelse_def split: option.splits)

lemma orelse_assoc [simp]: "orelse (orelse a b) c = orelse a (orelse b c)"
  by (auto simp: orelse_def split: option.splits)

lemma orelse_eq_None [simp]: "orelse a b = None \<longleftrightarrow> a = None \<and> b = None"
  by (auto simp: orelse_def split: option.splits)

text \<open>The nullish operator \<open>x ?? d\<close>.\<close>

definition nullish :: "'a option \<Rightarrow> 'a \<Rightarrow> 'a" where
  "nullish x d = (case x of None \<Rightarrow> d | Some v \<Rightarrow> v)"

lemma nullish_simps [simp]:
  "nullish None d = d"
  "nullish (Some v) d = v"
  by (simp_all add: nullish_def)

lemma nullish_False [simp]: "nullish x False \<longleftrightarrow> x = Some True"
  by (simp add: nullish_def split: option.splits)

lemma nullish_Nil [simp]: "nullish x [] = [] \<longleftrightarrow> x = None \<or> x = Some []"
  by (simp add: nullish_def split: option.splits)

text \<open>The JavaScript truth test of an optional string: absent, null and the empty string are falsy.\<close>

definition truthy :: "string option \<Rightarrow> bool" where
  "truthy x = (case x of None \<Rightarrow> False | Some s \<Rightarrow> s \<noteq> [])"

lemma truthy_simps [simp]:
  "truthy None = False"
  "truthy (Some s) = (s \<noteq> [])"
  by (simp_all add: truthy_def)

lemma truthyE: "truthy x \<Longrightarrow> (\<And>s. x = Some s \<Longrightarrow> s \<noteq> [] \<Longrightarrow> P) \<Longrightarrow> P"
  by (cases x) auto

section \<open>Numbers in template literals\<close>

fun digits :: "nat \<Rightarrow> string" where
  "digits n =
    (if n < 10 then [char_of (48 + n)] else digits (n div 10) @ [char_of (48 + n mod 10)])"

declare digits.simps [simp del]

definition show_int :: "int \<Rightarrow> string" where
  "show_int n = (if n < 0 then ''-'' @ digits (nat (- n)) else digits (nat n))"

section \<open>Calls that may throw\<close>

definition rbind :: "'e + 'a \<Rightarrow> ('a \<Rightarrow> 'e + 'b) \<Rightarrow> 'e + 'b" where
  "rbind r k = (case r of Inl e \<Rightarrow> Inl e | Inr a \<Rightarrow> k a)"

lemma rbind_simps [simp]:
  "rbind (Inl e) k = Inl e"
  "rbind (Inr a) k = k a"
  by (simp_all add: rbind_def)

lemma rbind_eq_Inr [simp]: "rbind r k = Inr b \<longleftrightarrow> (\<exists>a. r = Inr a \<and> k a = Inr b)"
  by (cases r) simp_all

lemma rbind_eq_Inl: "rbind r k = Inl e \<longleftrightarrow> r = Inl e \<or> (\<exists>a. r = Inr a \<and> k a = Inl e)"
  by (cases r) auto

section \<open>Results of a step function\<close>

text \<open>
  A step answers \<open>Inl e\<close> (it threw), \<open>Inr None\<close> (no edge) or \<open>Inr (Some d)\<close>.  \<open>step_all P r\<close> says that
  a decision, if there is one, satisfies \<open>P\<close>; its equations let the simplifier walk a step function
  branch by branch.
\<close>

definition step_all :: "('d \<Rightarrow> bool) \<Rightarrow> 'e + 'd option \<Rightarrow> bool" where
  "step_all P r = (case r of Inr (Some d) \<Rightarrow> P d | _ \<Rightarrow> True)"

lemma step_all_simps [simp]:
  "step_all P (Inl e)"
  "step_all P (Inr None)"
  "step_all P (Inr (Some d)) = P d"
  by (simp_all add: step_all_def)

lemma step_all_if [simp]:
  "step_all P (if b then r else r') = ((b \<longrightarrow> step_all P r) \<and> (\<not> b \<longrightarrow> step_all P r'))"
  by simp

lemma step_all_rbind [simp]:
  "step_all P (rbind r k) = (\<forall>a. r = Inr a \<longrightarrow> step_all P (k a))"
  by (cases r) simp_all

lemma step_allD: "step_all P r \<Longrightarrow> r = Inr (Some d) \<Longrightarrow> P d"
  by simp

lemma step_all_mono: "step_all P r \<Longrightarrow> (\<And>d. P d \<Longrightarrow> Q d) \<Longrightarrow> step_all Q r"
  by (auto simp: step_all_def split: sum.splits option.splits)

lemma step_allI: "(\<And>d. r = Inr (Some d) \<Longrightarrow> P d) \<Longrightarrow> step_all P r"
  by (auto simp: step_all_def split: sum.splits option.splits)

end
