(* ===== verification/Fsm_Types.thy ===== *)
theory Fsm_Types
  imports Prelude
begin

text \<open>
  The type contract of the lifecycle state machine (\<open>session/fsm/types.ts\<close>, with the canonical state and
  reason unions of \<open>shared/session/lifecycle-chip.ts\<close> and the coordination record of
  \<open>session/pr-coordination-db.ts\<close>): states, closed enums, events, the record, partial field writes,
  side-effect descriptors, worklist registrations and decisions.

  A property the code declares optional or nullable, and reads only through \<open>?? null\<close>, \<open>=== value\<close> or
  \<open>typeof\<close>, is one option.  JavaScript numbers (counters, versions, millisecond instants) are integers.
\<close>

section \<open>Closed enums\<close>

datatype fsm_state =
    CREATED | PROVISIONING | GENERATING | AWAITING_INPUT | FINALIZING | PUBLISHING | ANSWERED_NO_PR
  | REVIEW | VERIFYING | MERGE_READY | NEEDS_YOU | FAILED | STOPPED
  | MERGED | CLOSED | SUPERSEDED | ARCHIVED

datatype blocked_reason =
    Owner_Approval | Verification_Noconverge | Verification_Unresolved | Verification_Run_Limit_Reached
  | Verification_No_Verdict | Ci_Fix_Exhausted | Ci_Flapping | Review_Stuck | Review_Response_Failed
  | Internal_Inconsistency

datatype failure_reason =
    Codegen_Error | Publish_Failed_Reason | Post_Prep_Failed | Spawn_Timeout | Execution_Timeout
  | Sandbox_Failed

datatype verdict = Verdict_Pass | Verdict_App_Breaks | Verdict_Skipped | Verdict_None

datatype stop_mode = Stop_User | Stop_Resumable

datatype reviewer_kind = Reviewer_Bot | Reviewer_Human

datatype ci_signal_state = Signal_Green | Signal_Failing | Signal_Absent

datatype epoch_block_reason = Block_Owner_Approval | Block_Response_Failed

datatype epoch_trigger = Trigger_Ci_Fix | Trigger_Review

datatype epoch_deferral_kind = Deferral_Contention | Deferral_Transient

datatype disposition =
    Disposition_None | Disposition_Fixed | Disposition_Replied | Disposition_Declined
  | Disposition_Informational

datatype event_actor =
    Actor_Transport | Actor_Webhook | Actor_Verification | Actor_Cron | Actor_User | Actor_Internal

datatype prompt_outcome = Outcome_Changes | Outcome_No_Changes | Outcome_Error

type_synonym error_code = string

definition aborted :: error_code where
  "aborted = ''aborted''"

text \<open>The runtime list of the states, \<open>FSM_STATES\<close>.\<close>

definition FSM_STATES :: "fsm_state list" where
  "FSM_STATES =
    [CREATED, PROVISIONING, GENERATING, AWAITING_INPUT, FINALIZING, PUBLISHING, ANSWERED_NO_PR,
     REVIEW, VERIFYING, MERGE_READY, NEEDS_YOU, FAILED, STOPPED,
     MERGED, CLOSED, SUPERSEDED, ARCHIVED]"

lemma FSM_STATES_complete: "s \<in> set FSM_STATES"
  by (cases s) (simp_all add: FSM_STATES_def)

lemma FSM_STATES_distinct: "distinct FSM_STATES"
  by (simp add: FSM_STATES_def)

instantiation fsm_state :: enum
begin

definition enum_fsm_state :: "fsm_state list" where
  "enum_fsm_state = FSM_STATES"

definition enum_all_fsm_state :: "(fsm_state \<Rightarrow> bool) \<Rightarrow> bool" where
  "enum_all_fsm_state P = list_all P FSM_STATES"

definition enum_ex_fsm_state :: "(fsm_state \<Rightarrow> bool) \<Rightarrow> bool" where
  "enum_ex_fsm_state P = list_ex P FSM_STATES"

instance
proof
  show "(UNIV :: fsm_state set) = set Enum.enum"
    using FSM_STATES_complete by (auto simp: enum_fsm_state_def)
  show "distinct (Enum.enum :: fsm_state list)"
    by (simp add: enum_fsm_state_def FSM_STATES_distinct)
  show "Enum.enum_all P = Ball UNIV P" for P :: "fsm_state \<Rightarrow> bool"
    using FSM_STATES_complete by (auto simp: enum_all_fsm_state_def list_all_iff)
  show "Enum.enum_ex P = Bex UNIV P" for P :: "fsm_state \<Rightarrow> bool"
    using FSM_STATES_complete by (auto simp: enum_ex_fsm_state_def list_ex_iff)
qed

end

section \<open>Events\<close>

datatype fsm_event =
    Sandbox_Spawn_Requested
  | Sandbox_Ready
  | Sandbox_Spawn_Failed
  | Sandbox_Death
  | Sandbox_Liveness_Expired
  | Prompt_Enqueued
  | Prompt_Awaiting_Input
  | Prompt_Terminal (e_outcome: prompt_outcome) (e_errorCode: "error_code option")
      (e_stoppedByUser: "bool option")
  | Prompt_Max_Duration_Exceeded
  | Postexec_Done (e_hasChanges: bool) (e_promptIntendsChange: bool)
  | Publish_Pr_Opened (e_prHead: string)
  | Publish_No_Changes
  | Publish_Failed
  | Publish_Superseded
  | User_Input
  | User_Stop
  | User_Retrigger
  | Session_Archived
  | Ci_Signal (e_ciState: ci_signal_state)
  | Review_Received (e_reviewerKind: reviewer_kind) (e_actionable: bool)
  | Review_Item_Ready (e_itemId: string)
  | Epoch_Committed (e_epochId: string)
  | Epoch_Replied (e_epochId: string)
  | Epoch_Declined (e_epochId: string)
  | Epoch_Blocked (e_epochId: string) (e_blockReason: epoch_block_reason) (e_trigger: epoch_trigger)
  | Epoch_Deferred (e_epochId: string) (e_deferralKind: epoch_deferral_kind)
  | Epoch_Settled (e_epochId: string)
  | Caught_Up (e_headSha: string)
  | Verification_Pass (e_headSha: string) (e_runId: int)
  | Verification_App_Breaks (e_headSha: string) (e_runId: int)
  | Verification_Skipped (e_headSha: string) (e_runId: int)
  | Verification_Stopped (e_runId: int)
  | Verification_Failed (e_runId: int)
  | Verification_Run_Limit (e_runId: int)
  | Verification_Requested (e_headSha: string) (e_force: bool) (e_bypassRunLimit: bool)
  | Head_Changed (e_headSha: string)
  | Head_Noop_Changed (e_headSha: string)
  | Pr_Merged
  | Pr_Closed
  | Deadline_Exceeded

text \<open>The discriminator string of an event and the runtime list \<open>FSM_EVENT_TYPES\<close>.\<close>

fun event_type :: "fsm_event \<Rightarrow> string" where
  "event_type Sandbox_Spawn_Requested = ''sandbox.spawn_requested''"
| "event_type Sandbox_Ready = ''sandbox.ready''"
| "event_type Sandbox_Spawn_Failed = ''sandbox.spawn_failed''"
| "event_type Sandbox_Death = ''sandbox.death''"
| "event_type Sandbox_Liveness_Expired = ''sandbox.liveness_expired''"
| "event_type Prompt_Enqueued = ''prompt.enqueued''"
| "event_type Prompt_Awaiting_Input = ''prompt.awaiting_input''"
| "event_type (Prompt_Terminal _ _ _) = ''prompt.terminal''"
| "event_type Prompt_Max_Duration_Exceeded = ''prompt.max_duration_exceeded''"
| "event_type (Postexec_Done _ _) = ''postexec.done''"
| "event_type (Publish_Pr_Opened _) = ''publish.pr_opened''"
| "event_type Publish_No_Changes = ''publish.no_changes''"
| "event_type Publish_Failed = ''publish.failed''"
| "event_type Publish_Superseded = ''publish.superseded''"
| "event_type User_Input = ''user.input''"
| "event_type User_Stop = ''user.stop''"
| "event_type User_Retrigger = ''user.retrigger''"
| "event_type Session_Archived = ''session.archived''"
| "event_type (Ci_Signal _) = ''ci.signal''"
| "event_type (Review_Received _ _) = ''review.received''"
| "event_type (Review_Item_Ready _) = ''review.item_ready''"
| "event_type (Epoch_Committed _) = ''epoch.committed''"
| "event_type (Epoch_Replied _) = ''epoch.replied''"
| "event_type (Epoch_Declined _) = ''epoch.declined''"
| "event_type (Epoch_Blocked _ _ _) = ''epoch.blocked''"
| "event_type (Epoch_Deferred _ _) = ''epoch.deferred''"
| "event_type (Epoch_Settled _) = ''epoch.settled''"
| "event_type (Caught_Up _) = ''caught_up''"
| "event_type (Verification_Pass _ _) = ''verification.pass''"
| "event_type (Verification_App_Breaks _ _) = ''verification.app_breaks''"
| "event_type (Verification_Skipped _ _) = ''verification.skipped''"
| "event_type (Verification_Stopped _) = ''verification.stopped''"
| "event_type (Verification_Failed _) = ''verification.failed''"
| "event_type (Verification_Run_Limit _) = ''verification.run_limit''"
| "event_type (Verification_Requested _ _ _) = ''verification.requested''"
| "event_type (Head_Changed _) = ''head.changed''"
| "event_type (Head_Noop_Changed _) = ''head.noop_changed''"
| "event_type Pr_Merged = ''pr.merged''"
| "event_type Pr_Closed = ''pr.closed''"
| "event_type Deadline_Exceeded = ''deadline_exceeded''"

definition FSM_EVENT_TYPES :: "string list" where
  "FSM_EVENT_TYPES =
    [''sandbox.spawn_requested'', ''sandbox.ready'', ''sandbox.spawn_failed'', ''sandbox.death'',
     ''sandbox.liveness_expired'', ''prompt.enqueued'', ''prompt.awaiting_input'', ''prompt.terminal'',
     ''prompt.max_duration_exceeded'', ''postexec.done'', ''publish.pr_opened'',
     ''publish.no_changes'', ''publish.failed'', ''publish.superseded'', ''user.input'', ''user.stop'',
     ''user.retrigger'', ''session.archived'', ''ci.signal'', ''review.received'',
     ''review.item_ready'', ''epoch.committed'', ''epoch.replied'', ''epoch.declined'',
     ''epoch.blocked'', ''epoch.deferred'', ''epoch.settled'', ''caught_up'', ''verification.pass'',
     ''verification.app_breaks'', ''verification.skipped'', ''verification.stopped'',
     ''verification.failed'', ''verification.run_limit'', ''verification.requested'',
     ''head.changed'', ''head.noop_changed'', ''pr.merged'', ''pr.closed'', ''deadline_exceeded'']"

lemma event_type_listed: "event_type e \<in> set FSM_EVENT_TYPES"
  by (cases e) (simp_all add: FSM_EVENT_TYPES_def)

section \<open>The coordination record\<close>

record fsm_record =
  sessionId :: string
  version :: int
  state :: fsm_state
  prUrl :: "string option"
  headSha :: "string option"
  verdict :: "verdict option"
  verdictHeadSha :: "string option"
  verificationRunHead :: "string option"
  verificationRunId :: int
  verificationChildId :: "string option"
  verificationRunCount :: int
  ciFixRounds :: int
  inFlightEpochId :: "string option"
  codeChangedSinceVerification :: bool
  promptIntendsChange :: "bool option"
  mergeReadyReopenCount :: int
  blockedReason :: "blocked_reason option"
  failureReason :: "failure_reason option"
  stopMode :: "stop_mode option"
  preStopState :: "fsm_state option"
  updateBranchQueuedAt :: "int option"
  deadlineAt :: "int option"
  stateEnteredAt :: "int option"

text \<open>
  \<open>FsmFieldWrites\<close>, a partial record: the outer option of a field says whether the key is present; the
  inner one, where there is one, is the nullable value it carries.
\<close>

record fsm_field_writes =
  w_prUrl :: "string option option"
  w_headSha :: "string option option"
  w_verdict :: "verdict option option"
  w_verdictHeadSha :: "string option option"
  w_verificationRunHead :: "string option option"
  w_verificationRunId :: "int option"
  w_verificationChildId :: "string option option"
  w_verificationRunCount :: "int option"
  w_ciFixRounds :: "int option"
  w_inFlightEpochId :: "string option option"
  w_codeChangedSinceVerification :: "bool option"
  w_promptIntendsChange :: "bool option option"
  w_mergeReadyReopenCount :: "int option"
  w_blockedReason :: "blocked_reason option option"
  w_failureReason :: "failure_reason option option"
  w_stopMode :: "stop_mode option option"
  w_preStopState :: "fsm_state option option"
  w_updateBranchQueuedAt :: "int option option"
  w_deadlineAt :: "int option option"
  w_stateEnteredAt :: "int option option"

text \<open>The empty object literal.\<close>

definition no_writes :: fsm_field_writes where
  "no_writes = \<lparr>
    w_prUrl = None, w_headSha = None, w_verdict = None, w_verdictHeadSha = None,
    w_verificationRunHead = None, w_verificationRunId = None, w_verificationChildId = None,
    w_verificationRunCount = None, w_ciFixRounds = None, w_inFlightEpochId = None,
    w_codeChangedSinceVerification = None, w_promptIntendsChange = None,
    w_mergeReadyReopenCount = None, w_blockedReason = None, w_failureReason = None,
    w_stopMode = None, w_preStopState = None, w_updateBranchQueuedAt = None,
    w_deadlineAt = None, w_stateEnteredAt = None\<rparr>"

text \<open>One step of \<open>Object.assign\<close>: every key the second object has wins.\<close>

definition merge2 :: "fsm_field_writes \<Rightarrow> fsm_field_writes \<Rightarrow> fsm_field_writes" where
  "merge2 a b = \<lparr>
    w_prUrl = orelse (w_prUrl b) (w_prUrl a),
    w_headSha = orelse (w_headSha b) (w_headSha a),
    w_verdict = orelse (w_verdict b) (w_verdict a),
    w_verdictHeadSha = orelse (w_verdictHeadSha b) (w_verdictHeadSha a),
    w_verificationRunHead = orelse (w_verificationRunHead b) (w_verificationRunHead a),
    w_verificationRunId = orelse (w_verificationRunId b) (w_verificationRunId a),
    w_verificationChildId = orelse (w_verificationChildId b) (w_verificationChildId a),
    w_verificationRunCount = orelse (w_verificationRunCount b) (w_verificationRunCount a),
    w_ciFixRounds = orelse (w_ciFixRounds b) (w_ciFixRounds a),
    w_inFlightEpochId = orelse (w_inFlightEpochId b) (w_inFlightEpochId a),
    w_codeChangedSinceVerification =
      orelse (w_codeChangedSinceVerification b) (w_codeChangedSinceVerification a),
    w_promptIntendsChange = orelse (w_promptIntendsChange b) (w_promptIntendsChange a),
    w_mergeReadyReopenCount = orelse (w_mergeReadyReopenCount b) (w_mergeReadyReopenCount a),
    w_blockedReason = orelse (w_blockedReason b) (w_blockedReason a),
    w_failureReason = orelse (w_failureReason b) (w_failureReason a),
    w_stopMode = orelse (w_stopMode b) (w_stopMode a),
    w_preStopState = orelse (w_preStopState b) (w_preStopState a),
    w_updateBranchQueuedAt = orelse (w_updateBranchQueuedAt b) (w_updateBranchQueuedAt a),
    w_deadlineAt = orelse (w_deadlineAt b) (w_deadlineAt a),
    w_stateEnteredAt = orelse (w_stateEnteredAt b) (w_stateEnteredAt a)\<rparr>"

definition merge_writes :: "fsm_field_writes list \<Rightarrow> fsm_field_writes" where
  "merge_writes parts = foldl merge2 no_writes parts"

lemma no_writes_sel [simp]:
  "w_prUrl no_writes = None" "w_headSha no_writes = None" "w_verdict no_writes = None"
  "w_verdictHeadSha no_writes = None" "w_verificationRunHead no_writes = None"
  "w_verificationRunId no_writes = None" "w_verificationChildId no_writes = None"
  "w_verificationRunCount no_writes = None" "w_ciFixRounds no_writes = None"
  "w_inFlightEpochId no_writes = None" "w_codeChangedSinceVerification no_writes = None"
  "w_promptIntendsChange no_writes = None" "w_mergeReadyReopenCount no_writes = None"
  "w_blockedReason no_writes = None" "w_failureReason no_writes = None"
  "w_stopMode no_writes = None" "w_preStopState no_writes = None"
  "w_updateBranchQueuedAt no_writes = None" "w_deadlineAt no_writes = None"
  "w_stateEnteredAt no_writes = None"
  by (simp_all add: no_writes_def)

lemma merge2_sel [simp]:
  "w_prUrl (merge2 a b) = orelse (w_prUrl b) (w_prUrl a)"
  "w_headSha (merge2 a b) = orelse (w_headSha b) (w_headSha a)"
  "w_verdict (merge2 a b) = orelse (w_verdict b) (w_verdict a)"
  "w_verdictHeadSha (merge2 a b) = orelse (w_verdictHeadSha b) (w_verdictHeadSha a)"
  "w_verificationRunHead (merge2 a b) = orelse (w_verificationRunHead b) (w_verificationRunHead a)"
  "w_verificationRunId (merge2 a b) = orelse (w_verificationRunId b) (w_verificationRunId a)"
  "w_verificationChildId (merge2 a b) = orelse (w_verificationChildId b) (w_verificationChildId a)"
  "w_verificationRunCount (merge2 a b) = orelse (w_verificationRunCount b) (w_verificationRunCount a)"
  "w_ciFixRounds (merge2 a b) = orelse (w_ciFixRounds b) (w_ciFixRounds a)"
  "w_inFlightEpochId (merge2 a b) = orelse (w_inFlightEpochId b) (w_inFlightEpochId a)"
  "w_codeChangedSinceVerification (merge2 a b) =
     orelse (w_codeChangedSinceVerification b) (w_codeChangedSinceVerification a)"
  "w_promptIntendsChange (merge2 a b) = orelse (w_promptIntendsChange b) (w_promptIntendsChange a)"
  "w_mergeReadyReopenCount (merge2 a b) =
     orelse (w_mergeReadyReopenCount b) (w_mergeReadyReopenCount a)"
  "w_blockedReason (merge2 a b) = orelse (w_blockedReason b) (w_blockedReason a)"
  "w_failureReason (merge2 a b) = orelse (w_failureReason b) (w_failureReason a)"
  "w_stopMode (merge2 a b) = orelse (w_stopMode b) (w_stopMode a)"
  "w_preStopState (merge2 a b) = orelse (w_preStopState b) (w_preStopState a)"
  "w_updateBranchQueuedAt (merge2 a b) = orelse (w_updateBranchQueuedAt b) (w_updateBranchQueuedAt a)"
  "w_deadlineAt (merge2 a b) = orelse (w_deadlineAt b) (w_deadlineAt a)"
  "w_stateEnteredAt (merge2 a b) = orelse (w_stateEnteredAt b) (w_stateEnteredAt a)"
  by (simp_all add: merge2_def)

lemma merge_writes_simps [simp]:
  "merge_writes [] = no_writes"
  "merge_writes (xs @ [b]) = merge2 (merge_writes xs) b"
  by (simp_all add: merge_writes_def)

lemma merge2_no_writes [simp]: "merge2 no_writes b = b" "merge2 a no_writes = a"
  by (simp_all add: merge2_def)

lemma merge_writes_lits [simp]:
  "merge_writes [a] = a"
  "merge_writes [a, b] = merge2 a b"
  "merge_writes [a, b, c] = merge2 (merge2 a b) c"
  "merge_writes [a, b, c, d] = merge2 (merge2 (merge2 a b) c) d"
  "merge_writes [a, b, c, d, e] = merge2 (merge2 (merge2 (merge2 a b) c) d) e"
  "merge_writes [a, b, c, d, e, f] = merge2 (merge2 (merge2 (merge2 (merge2 a b) c) d) e) f"
  "merge_writes [a, b, c, d, e, f, g] =
     merge2 (merge2 (merge2 (merge2 (merge2 (merge2 a b) c) d) e) f) g"
  by (simp_all add: merge_writes_def)

section \<open>Side effects, registrations, decisions\<close>

datatype cap_trip_name = Merge_Ready_Reopen

datatype side_effect =
    Spawn_Sandbox
  | Dispatch_Prompt
  | Open_Pr
  | Kill_Verification "string option"
  | Terminate_Runtime
  | Spawn_Verification_Child
  | Dispatch_Epoch epoch_trigger
  | Set_Disposition string disposition
  | Resolve_Owned_Threads
  | Release_Queued_Reviews
  | Emit_Settle
  | Notify_User
  | Notify_Qa_Issue
  | Loud
  | Emit_Cap_Trip cap_trip_name int
  | Project_Card
  | Log_Noop

datatype registration_origin = Origin_Review | Origin_Findings

record worklist_registration =
  reg_sourceId :: string
  reg_origin :: registration_origin
  reg_disposition :: disposition

record decision =
  d_to :: fsm_state
  d_writes :: fsm_field_writes
  d_effects :: "side_effect list"
  d_regs :: "worklist_registration list option"

text \<open>What a step may throw.\<close>

datatype fsm_error =
    Missing_New_Epoch_Id
  | Missing_Pr_Url
  | Unknown_Fsm_State string

section \<open>Event metadata\<close>

text \<open>
  \<open>EventMetadata\<close>, journalled beside each transition.  The minimal variants differ only in their
  discriminator, which they carry; the epoch terminals and the verification reports share their payload.
\<close>

datatype review_loop_ci_state = Ci_State_Pending | Ci_State_Failing | Ci_State_Green | Ci_State_Absent

datatype event_metadata =
    Meta_Plain (m_type: string)
  | Meta_Prompt_Terminal prompt_outcome "error_code option" "bool option"
  | Meta_Postexec_Done bool bool
  | Meta_Publish_Pr_Opened "(int \<times> int) option"
  | Meta_Ci_Signal review_loop_ci_state
  | Meta_Review_Received reviewer_kind string string bool
  | Meta_Epoch_Terminal (m_type: string) string "epoch_block_reason option" epoch_trigger
      "string list" "string option" "string option" "string option"
  | Meta_Epoch_Deferred string epoch_deferral_kind string
  | Meta_Verification (m_type: string) int verdict "string option"
  | Meta_Verification_Requested string bool bool
  | Meta_Head (m_type: string) string "string option"

end
