(* ===== verification/Fsm_Guards.thy ===== *)
theory Fsm_Guards
  imports Fsm_Types
begin

text \<open>
  The guard predicates (\<open>session/fsm/guards.ts\<close>), the caps they compare against
  (\<open>constants/review-loop.ts\<close>, \<open>constants/verification.ts\<close>) and the evaluated guard bag that \<open>transition\<close>
  receives (the \<open>Guards\<close> interface of \<open>session/fsm/transition.ts\<close>).
\<close>

section \<open>Caps\<close>

definition MAX_CI_FIX_ROUNDS :: int where "MAX_CI_FIX_ROUNDS = 3"

definition MAX_MERGE_READY_REOPENS :: int where "MAX_MERGE_READY_REOPENS = 5"

definition MAX_VERIFICATION_RUNS_PER_PR :: int where "MAX_VERIFICATION_RUNS_PER_PR = 3"

section \<open>The CI ternary\<close>

datatype ci_bucket = Ci_Green | Ci_Red | Ci_Pending

fun CI_BUCKET_OF :: "review_loop_ci_state \<Rightarrow> ci_bucket" where
  "CI_BUCKET_OF Ci_State_Green = Ci_Green"
| "CI_BUCKET_OF Ci_State_Absent = Ci_Green"
| "CI_BUCKET_OF Ci_State_Failing = Ci_Red"
| "CI_BUCKET_OF Ci_State_Pending = Ci_Pending"

definition classifyCi :: "review_loop_ci_state \<Rightarrow> ci_bucket" where
  "classifyCi s = CI_BUCKET_OF s"

definition ciGreen :: "review_loop_ci_state \<Rightarrow> bool" where
  "ciGreen s \<longleftrightarrow> classifyCi s = Ci_Green"

definition ciRed :: "review_loop_ci_state \<Rightarrow> bool" where
  "ciRed s \<longleftrightarrow> classifyCi s = Ci_Red"

definition ciPending :: "review_loop_ci_state \<Rightarrow> bool" where
  "ciPending s \<longleftrightarrow> classifyCi s = Ci_Pending"

lemma ci_partition:
  "ciGreen s \<or> ciRed s \<or> ciPending s"
  "\<not> (ciGreen s \<and> ciRed s)" "\<not> (ciGreen s \<and> ciPending s)" "\<not> (ciRed s \<and> ciPending s)"
  by (cases s; simp add: ciGreen_def ciRed_def ciPending_def classifyCi_def)+

section \<open>Record predicates\<close>

definition verificationPass :: "verdict option \<Rightarrow> bool" where
  "verificationPass v \<longleftrightarrow> v = Some Verdict_Pass \<or> v = Some Verdict_Skipped"

definition verificationFresh :: "string option \<Rightarrow> string option \<Rightarrow> bool" where
  "verificationFresh verdict_head head \<longleftrightarrow> verdict_head \<noteq> None \<and> verdict_head = head"

definition underVerificationCap :: "int \<Rightarrow> bool" where
  "underVerificationCap n \<longleftrightarrow> n < MAX_VERIFICATION_RUNS_PER_PR"

definition noInflightEpoch :: "string option \<Rightarrow> bool" where
  "noInflightEpoch epoch_id \<longleftrightarrow> epoch_id = None"

definition underCiFixCap :: "int \<Rightarrow> bool" where
  "underCiFixCap n \<longleftrightarrow> n < MAX_CI_FIX_ROUNDS"

definition underMergeReadyReopenCap :: "int \<Rightarrow> bool" where
  "underMergeReadyReopenCap n \<longleftrightarrow> n < MAX_MERGE_READY_REOPENS"

definition resumable :: "stop_mode option \<Rightarrow> bool" where
  "resumable m \<longleftrightarrow> m = Some Stop_Resumable"

text \<open>
  \<open>CaughtUpStore\<close> is an interface with one synchronous read; the snapshot it wraps is the count itself.
\<close>

definition caughtUp :: "bool \<Rightarrow> int \<Rightarrow> bool" where
  "caughtUp no_inflight undispositioned \<longleftrightarrow> no_inflight \<and> undispositioned = 0"

section \<open>The guard bag\<close>

record guards =
  g_sandboxAlive :: bool
  g_blockedReason :: "blocked_reason option"
  g_prUrl :: "string option"
  g_noInflightEpoch :: "bool option"
  g_newEpochId :: "string option"
  g_underCiFixCap :: "bool option"
  g_ciFixRounds :: "int option"
  g_epoch1Fired :: "bool option"
  g_actionableExists :: "bool option"
  g_ciSettled :: "bool option"
  g_codeChangedSinceVerification :: "bool option"
  g_reviewSourceId :: "string option"
  g_committedHead :: "string option"
  g_uncoveredActionableSourceIds :: "string list option"
  g_underVerificationCap :: "bool option"
  g_autoVerifyDisabled :: "bool option"
  g_ciBucket :: "ci_bucket option"
  g_verificationPass :: "bool option"
  g_verificationFresh :: "bool option"
  g_verificationRunCount :: "int option"
  g_verificationRunId :: "int option"
  g_headSha :: "string option option"
  g_verificationChildId :: "string option"
  g_verdictVerificationChildId :: "string option"
  g_underMergeReadyReopenCap :: "bool option"
  g_mergeReadyReopenCount :: "int option"
  g_recordedVerdict :: "verdict option"
  g_verdictHeadSha :: "string option"
  g_currentHeadSha :: "string option"
  g_verificationRunHead :: "string option"
  g_committedEpochDispositionedQaFinding :: "bool option"
  g_stopMode :: "stop_mode option"
  g_preStopState :: "fsm_state option"
  g_unpushedDiff :: "bool option"

text \<open>The bag a caller starts from: only \<open>sandboxAlive\<close> is required, every other guard is absent.\<close>

definition bare_guards :: "bool \<Rightarrow> guards" where
  "bare_guards alive = \<lparr>
    g_sandboxAlive = alive, g_blockedReason = None, g_prUrl = None, g_noInflightEpoch = None,
    g_newEpochId = None, g_underCiFixCap = None, g_ciFixRounds = None, g_epoch1Fired = None,
    g_actionableExists = None, g_ciSettled = None, g_codeChangedSinceVerification = None,
    g_reviewSourceId = None, g_committedHead = None, g_uncoveredActionableSourceIds = None,
    g_underVerificationCap = None, g_autoVerifyDisabled = None, g_ciBucket = None,
    g_verificationPass = None, g_verificationFresh = None, g_verificationRunCount = None,
    g_verificationRunId = None, g_headSha = None, g_verificationChildId = None,
    g_verdictVerificationChildId = None, g_underMergeReadyReopenCap = None,
    g_mergeReadyReopenCount = None, g_recordedVerdict = None, g_verdictHeadSha = None,
    g_currentHeadSha = None, g_verificationRunHead = None,
    g_committedEpochDispositionedQaFinding = None, g_stopMode = None, g_preStopState = None,
    g_unpushedDiff = None\<rparr>"

end
