(* ===== verification/Fsm_Actions.thy ===== *)
theory Fsm_Actions
  imports Fsm_Guards
begin

text \<open>
  The field-write builders and side-effect descriptors of \<open>session/fsm/actions.ts\<close>, one definition per
  exported function, and the application of a set of writes to a record (the effect the compare-and-swap
  UPDATE has on the row).
\<close>

section \<open>Head and verdict writers\<close>

definition advanceHead :: "string \<Rightarrow> fsm_field_writes" where
  "advanceHead head = no_writes\<lparr>w_headSha := Some (Some head), w_updateBranchQueuedAt := Some None\<rparr>"

definition recordVerification :: "verdict \<Rightarrow> string option \<Rightarrow> fsm_field_writes" where
  "recordVerification v head =
    (let writes = no_writes\<lparr>w_verdict := Some (Some v), w_verdictHeadSha := Some head,
                            w_codeChangedSinceVerification := Some False\<rparr>
     in if verificationPass (Some v) then writes\<lparr>w_verificationRunCount := Some 0\<rparr> else writes)"

definition clearVerification :: fsm_field_writes where
  "clearVerification = no_writes\<lparr>w_verdict := Some (Some Verdict_None), w_verdictHeadSha := Some None\<rparr>"

definition restampVerification :: "string option \<Rightarrow> fsm_field_writes" where
  "restampVerification head = no_writes\<lparr>w_verdictHeadSha := Some head\<rparr>"

section \<open>Verification dispatch and teardown\<close>

definition requestVerification :: "int \<Rightarrow> int \<Rightarrow> string option \<Rightarrow> fsm_field_writes" where
  "requestVerification run_count run_id head =
    no_writes\<lparr>w_verificationRunCount := Some (run_count + 1), w_verificationRunHead := Some head,
              w_verificationRunId := Some (run_id + 1), w_verificationChildId := Some None\<rparr>"

definition redispatchVerification :: "int \<Rightarrow> string option \<Rightarrow> fsm_field_writes" where
  "redispatchVerification run_id head =
    no_writes\<lparr>w_verificationRunHead := Some head, w_verificationRunId := Some (run_id + 1),
              w_verificationChildId := Some None\<rparr>"

definition killVerification :: "string option \<Rightarrow> side_effect" where
  "killVerification child = Kill_Verification child"

section \<open>Counters, flags and reasons\<close>

definition incCiFixRounds :: "int \<Rightarrow> fsm_field_writes" where
  "incCiFixRounds n = no_writes\<lparr>w_ciFixRounds := Some (n + 1)\<rparr>"

definition resetCiFixRounds :: fsm_field_writes where
  "resetCiFixRounds = no_writes\<lparr>w_ciFixRounds := Some 0\<rparr>"

definition resetVerificationRunCount :: fsm_field_writes where
  "resetVerificationRunCount = no_writes\<lparr>w_verificationRunCount := Some 0\<rparr>"

definition incMergeReadyReopenCount :: "int \<Rightarrow> fsm_field_writes" where
  "incMergeReadyReopenCount n = no_writes\<lparr>w_mergeReadyReopenCount := Some (n + 1)\<rparr>"

definition setCodeChanged :: fsm_field_writes where
  "setCodeChanged = no_writes\<lparr>w_codeChangedSinceVerification := Some True\<rparr>"

definition setBlockedReason :: "blocked_reason \<Rightarrow> fsm_field_writes" where
  "setBlockedReason r = no_writes\<lparr>w_blockedReason := Some (Some r)\<rparr>"

definition clearBlock :: fsm_field_writes where
  "clearBlock = no_writes\<lparr>w_blockedReason := Some None\<rparr>"

definition setFailureReason :: "failure_reason \<Rightarrow> fsm_field_writes" where
  "setFailureReason r = no_writes\<lparr>w_failureReason := Some (Some r)\<rparr>"

definition clearFailureReason :: fsm_field_writes where
  "clearFailureReason = no_writes\<lparr>w_failureReason := Some None\<rparr>"

definition setStop :: "stop_mode \<Rightarrow> fsm_state \<Rightarrow> fsm_field_writes" where
  "setStop m s = no_writes\<lparr>w_stopMode := Some (Some m), w_preStopState := Some (Some s)\<rparr>"

definition clearStop :: fsm_field_writes where
  "clearStop = no_writes\<lparr>w_stopMode := Some None, w_preStopState := Some None\<rparr>"

definition armDeadline :: "int \<Rightarrow> int option \<Rightarrow> fsm_field_writes" where
  "armDeadline now deadline_ms =
    no_writes\<lparr>w_stateEnteredAt := Some (Some now),
              w_deadlineAt := Some (case deadline_ms of None \<Rightarrow> None | Some ms \<Rightarrow> Some (now + ms))\<rparr>"

section \<open>Worklist, epochs, effects\<close>

definition registerReview :: "string \<Rightarrow> worklist_registration" where
  "registerReview source_id =
    \<lparr>reg_sourceId = source_id, reg_origin = Origin_Review, reg_disposition = Disposition_None\<rparr>"

definition setInFlightEpoch :: "string \<Rightarrow> fsm_field_writes" where
  "setInFlightEpoch epoch_id = no_writes\<lparr>w_inFlightEpochId := Some (Some epoch_id)\<rparr>"

definition clearInFlightEpoch :: fsm_field_writes where
  "clearInFlightEpoch = no_writes\<lparr>w_inFlightEpochId := Some None\<rparr>"

definition dispatchEpoch :: "epoch_trigger \<Rightarrow> side_effect" where
  "dispatchEpoch t = Dispatch_Epoch t"

definition dispositionEffect :: "string \<Rightarrow> disposition \<Rightarrow> side_effect" where
  "dispositionEffect epoch_id v = Set_Disposition epoch_id v"

definition resolveOwnedThreads :: side_effect where
  "resolveOwnedThreads = Resolve_Owned_Threads"

definition emitCapTrip :: "cap_trip_name \<Rightarrow> int \<Rightarrow> side_effect" where
  "emitCapTrip cap limit = Emit_Cap_Trip cap limit"

lemmas effect_defs = killVerification_def dispatchEpoch_def dispositionEffect_def
  resolveOwnedThreads_def emitCapTrip_def

lemmas action_write_defs [write_defs] =
  advanceHead_def recordVerification_def clearVerification_def restampVerification_def
  requestVerification_def redispatchVerification_def incCiFixRounds_def resetCiFixRounds_def
  resetVerificationRunCount_def incMergeReadyReopenCount_def setCodeChanged_def setBlockedReason_def
  clearBlock_def setFailureReason_def clearFailureReason_def setStop_def clearStop_def armDeadline_def
  setInFlightEpoch_def clearInFlightEpoch_def

section \<open>Applying writes to a record\<close>

text \<open>
  The SET clause of the compare-and-swap: each present key overwrites its column, an absent key leaves it.
  Neither the key nor the version is writable, and the state is the decision's own target.
\<close>

definition apply_writes :: "fsm_field_writes \<Rightarrow> fsm_record \<Rightarrow> fsm_record" where
  "apply_writes w r = r\<lparr>
    prUrl := nullish (w_prUrl w) (prUrl r),
    headSha := nullish (w_headSha w) (headSha r),
    verdict := nullish (w_verdict w) (verdict r),
    verdictHeadSha := nullish (w_verdictHeadSha w) (verdictHeadSha r),
    verificationRunHead := nullish (w_verificationRunHead w) (verificationRunHead r),
    verificationRunId := nullish (w_verificationRunId w) (verificationRunId r),
    verificationChildId := nullish (w_verificationChildId w) (verificationChildId r),
    verificationRunCount := nullish (w_verificationRunCount w) (verificationRunCount r),
    ciFixRounds := nullish (w_ciFixRounds w) (ciFixRounds r),
    inFlightEpochId := nullish (w_inFlightEpochId w) (inFlightEpochId r),
    codeChangedSinceVerification :=
      nullish (w_codeChangedSinceVerification w) (codeChangedSinceVerification r),
    promptIntendsChange := nullish (w_promptIntendsChange w) (promptIntendsChange r),
    mergeReadyReopenCount := nullish (w_mergeReadyReopenCount w) (mergeReadyReopenCount r),
    blockedReason := nullish (w_blockedReason w) (blockedReason r),
    failureReason := nullish (w_failureReason w) (failureReason r),
    stopMode := nullish (w_stopMode w) (stopMode r),
    preStopState := nullish (w_preStopState w) (preStopState r),
    updateBranchQueuedAt := nullish (w_updateBranchQueuedAt w) (updateBranchQueuedAt r),
    deadlineAt := nullish (w_deadlineAt w) (deadlineAt r),
    stateEnteredAt := nullish (w_stateEnteredAt w) (stateEnteredAt r)\<rparr>"

lemma apply_writes_sel [simp]:
  "sessionId (apply_writes w r) = sessionId r"
  "version (apply_writes w r) = version r"
  "state (apply_writes w r) = state r"
  "prUrl (apply_writes w r) = nullish (w_prUrl w) (prUrl r)"
  "headSha (apply_writes w r) = nullish (w_headSha w) (headSha r)"
  "verdict (apply_writes w r) = nullish (w_verdict w) (verdict r)"
  "verdictHeadSha (apply_writes w r) = nullish (w_verdictHeadSha w) (verdictHeadSha r)"
  "verificationRunHead (apply_writes w r) = nullish (w_verificationRunHead w) (verificationRunHead r)"
  "verificationRunId (apply_writes w r) = nullish (w_verificationRunId w) (verificationRunId r)"
  "verificationChildId (apply_writes w r) = nullish (w_verificationChildId w) (verificationChildId r)"
  "verificationRunCount (apply_writes w r) =
     nullish (w_verificationRunCount w) (verificationRunCount r)"
  "ciFixRounds (apply_writes w r) = nullish (w_ciFixRounds w) (ciFixRounds r)"
  "inFlightEpochId (apply_writes w r) = nullish (w_inFlightEpochId w) (inFlightEpochId r)"
  "codeChangedSinceVerification (apply_writes w r) =
     nullish (w_codeChangedSinceVerification w) (codeChangedSinceVerification r)"
  "promptIntendsChange (apply_writes w r) = nullish (w_promptIntendsChange w) (promptIntendsChange r)"
  "mergeReadyReopenCount (apply_writes w r) =
     nullish (w_mergeReadyReopenCount w) (mergeReadyReopenCount r)"
  "blockedReason (apply_writes w r) = nullish (w_blockedReason w) (blockedReason r)"
  "failureReason (apply_writes w r) = nullish (w_failureReason w) (failureReason r)"
  "stopMode (apply_writes w r) = nullish (w_stopMode w) (stopMode r)"
  "preStopState (apply_writes w r) = nullish (w_preStopState w) (preStopState r)"
  "updateBranchQueuedAt (apply_writes w r) =
     nullish (w_updateBranchQueuedAt w) (updateBranchQueuedAt r)"
  "deadlineAt (apply_writes w r) = nullish (w_deadlineAt w) (deadlineAt r)"
  "stateEnteredAt (apply_writes w r) = nullish (w_stateEnteredAt w) (stateEnteredAt r)"
  by (simp_all add: apply_writes_def)

lemma nullish_orelse [simp]: "nullish (orelse a b) d = nullish a (nullish b d)"
  by (cases a) simp_all

lemma apply_no_writes [simp]: "apply_writes no_writes r = r"
  by (simp add: apply_writes_def)

text \<open>Applying merged writes is applying the parts in their order.\<close>

lemma apply_merge2: "apply_writes (merge2 a b) r = apply_writes b (apply_writes a r)"
  by (simp add: apply_writes_def)

end
