(* ===== verification/Fsm_Transition.thy ===== *)
theory Fsm_Transition
  imports Fsm_Actions
begin

text \<open>
  The pure transition driver, \<open>session/fsm/transition.ts\<close>: the per-state core edges, the cross-cutting
  edges layered under them, the deadline targets and the dwell-neutrality rule.  Each state of the
  source's \<open>switch\<close> is one definition, so that a property is proved state by state; \<open>coreTransition\<close> and
  \<open>crossCuttingTransition\<close> dispatch exactly as the source does.

  \<open>Inl e\<close> is a throw, \<open>Inr None\<close> the source's \<open>null\<close> (no edge), \<open>Inr (Some d)\<close> a decision.
\<close>

type_synonym step_result = "fsm_error + decision option"

section \<open>Decision builders and helpers\<close>

definition decide :: "fsm_state \<Rightarrow> fsm_field_writes \<Rightarrow> side_effect list \<Rightarrow> decision" where
  "decide to w effects = \<lparr>d_to = to, d_writes = w, d_effects = effects, d_regs = None\<rparr>"

definition decide_reg ::
  "fsm_state \<Rightarrow> fsm_field_writes \<Rightarrow> side_effect list \<Rightarrow> worklist_registration list \<Rightarrow> decision" where
  "decide_reg to w effects regs = \<lparr>d_to = to, d_writes = w, d_effects = effects, d_regs = Some regs\<rparr>"

lemma decide_sel [simp]:
  "d_to (decide t w e) = t" "d_writes (decide t w e) = w"
  "d_effects (decide t w e) = e" "d_regs (decide t w e) = None"
  "d_to (decide_reg t w e rs) = t" "d_writes (decide_reg t w e rs) = w"
  "d_effects (decide_reg t w e rs) = e" "d_regs (decide_reg t w e rs) = Some rs"
  by (simp_all add: decide_def decide_reg_def)

definition handled :: "decision \<Rightarrow> step_result" where
  "handled d = Inr (Some d)"

definition unhandled :: step_result where
  "unhandled = Inr None"

lemma handled_simps [simp]:
  "handled d = Inr (Some d') \<longleftrightarrow> d = d'" "handled d \<noteq> Inr None" "handled d \<noteq> Inl x"
  "unhandled \<noteq> Inr (Some d)" "unhandled = Inr None" "unhandled \<noteq> Inl x"
  "step_all P (handled d) = P d" "step_all P unhandled"
  by (simp_all add: handled_def unhandled_def)

fun mapEpochBlockReason :: "epoch_block_reason \<Rightarrow> blocked_reason" where
  "mapEpochBlockReason Block_Owner_Approval = Owner_Approval"
| "mapEpochBlockReason Block_Response_Failed = Review_Response_Failed"

definition verificationRequestUnderCap :: "fsm_event \<Rightarrow> guards \<Rightarrow> bool" where
  "verificationRequestUnderCap e g =
    (case e of
       Verification_Requested _ _ bypass \<Rightarrow> bypass \<or> nullish (g_underVerificationCap g) False
     | _ \<Rightarrow> False)"

definition requireNewEpochId :: "string option \<Rightarrow> fsm_error + string" where
  "requireNewEpochId new_id =
    (case new_id of
       None \<Rightarrow> Inl Missing_New_Epoch_Id
     | Some i \<Rightarrow> if i = [] then Inl Missing_New_Epoch_Id else Inr i)"

lemma requireNewEpochId_Inr [simp]:
  "requireNewEpochId x = Inr i \<longleftrightarrow> x = Some i \<and> i \<noteq> []"
  by (auto simp: requireNewEpochId_def split: option.splits)

lemma requireNewEpochId_Inl:
  "requireNewEpochId x = Inl err \<longleftrightarrow> err = Missing_New_Epoch_Id \<and> \<not> truthy x"
  by (auto simp: requireNewEpochId_def split: option.splits)

definition killOwnedVerifierOnTerminalExit :: "guards \<Rightarrow> side_effect list" where
  "killOwnedVerifierOnTerminalExit g = [killVerification (g_verificationChildId g)]"

definition finalTerminalCloseOut :: "guards \<Rightarrow> side_effect list" where
  "finalTerminalCloseOut g = killOwnedVerifierOnTerminalExit g @ [Terminate_Runtime]"

definition initializeReviewFromPublishedPr :: "string \<Rightarrow> guards \<Rightarrow> step_result" where
  "initializeReviewFromPublishedPr pr_head g =
    (case g_prUrl g of
       None \<Rightarrow> Inl Missing_Pr_Url
     | Some url \<Rightarrow>
         handled (decide REVIEW
           (no_writes\<lparr>w_prUrl := Some (Some url),
                      w_headSha := Some (Some pr_head),
                      w_codeChangedSinceVerification := Some True,
                      w_verificationRunCount := Some 0,
                      w_ciFixRounds := Some 0,
                      w_verificationRunId := Some (nullish (g_verificationRunId g) 0 + 1),
                      w_verificationRunHead := Some (Some pr_head),
                      w_verificationChildId := Some None\<rparr>)
           [Spawn_Verification_Child]))"

section \<open>The caught-up cascade\<close>

definition caughtUpCascade :: "guards \<Rightarrow> fsm_error + decision" where
  "caughtUpCascade g =
    (case nullish (g_ciBucket g) Ci_Pending of
       Ci_Red \<Rightarrow>
         if nullish (g_underCiFixCap g) False
         then rbind (requireNewEpochId (g_newEpochId g)) (\<lambda>i.
                Inr (decide REVIEW
                       (merge_writes [incCiFixRounds (nullish (g_ciFixRounds g) 0), setInFlightEpoch i])
                       [dispatchEpoch Trigger_Ci_Fix]))
         else Inr (decide NEEDS_YOU (setBlockedReason Ci_Fix_Exhausted) [Loud])
     | Ci_Pending \<Rightarrow> Inr (decide REVIEW no_writes [Log_Noop])
     | Ci_Green \<Rightarrow>
         if nullish (g_noInflightEpoch g) False
         then Inr (decide MERGE_READY resetCiFixRounds [Emit_Settle, Notify_User])
         else Inr (decide REVIEW no_writes [Log_Noop]))"

section \<open>Record-only verification bookkeeping\<close>

definition freshRun :: "guards \<Rightarrow> int \<Rightarrow> bool" where
  "freshRun g run_id \<longleftrightarrow> g_verificationRunId g = Some run_id"

definition ghostDiscard :: "fsm_state \<Rightarrow> guards \<Rightarrow> step_result" where
  "ghostDiscard s g =
    handled (decide s no_writes [Log_Noop, killVerification (g_verdictVerificationChildId g)])"

definition recordVerdict :: "fsm_state \<Rightarrow> verdict \<Rightarrow> string \<Rightarrow> int \<Rightarrow> guards \<Rightarrow> step_result" where
  "recordVerdict s v head run_id g =
    (if \<not> freshRun g run_id then ghostDiscard s g
     else handled (decide s (recordVerification v (Some head))
                     [killVerification (g_verificationChildId g)]))"

definition noteInfraTerminal :: "fsm_state \<Rightarrow> int \<Rightarrow> guards \<Rightarrow> step_result" where
  "noteInfraTerminal s run_id g =
    (if \<not> freshRun g run_id then ghostDiscard s g
     else handled (decide s no_writes [Notify_Qa_Issue, killVerification (g_verificationChildId g)]))"

definition verificationBookkeeping :: "fsm_state \<Rightarrow> fsm_event \<Rightarrow> guards \<Rightarrow> step_result" where
  "verificationBookkeeping s e g =
    (case e of
       Verification_Pass head run_id \<Rightarrow> recordVerdict s Verdict_Pass head run_id g
     | Verification_Skipped head run_id \<Rightarrow> recordVerdict s Verdict_Skipped head run_id g
     | Verification_App_Breaks head run_id \<Rightarrow> recordVerdict s Verdict_App_Breaks head run_id g
     | Verification_Run_Limit run_id \<Rightarrow> noteInfraTerminal s run_id g
     | Verification_Stopped run_id \<Rightarrow> noteInfraTerminal s run_id g
     | Verification_Failed run_id \<Rightarrow> noteInfraTerminal s run_id g
     | _ \<Rightarrow> unhandled)"

section \<open>Genesis, codegen and publish states\<close>

definition step_created :: "fsm_event \<Rightarrow> guards \<Rightarrow> step_result" where
  "step_created e g =
    (case e of
       Sandbox_Spawn_Requested \<Rightarrow> handled (decide PROVISIONING no_writes [Spawn_Sandbox])
     | Publish_Pr_Opened pr_head \<Rightarrow> initializeReviewFromPublishedPr pr_head g
     | _ \<Rightarrow> unhandled)"

definition step_provisioning :: "fsm_event \<Rightarrow> step_result" where
  "step_provisioning e =
    (case e of
       Sandbox_Ready \<Rightarrow> handled (decide GENERATING no_writes [Dispatch_Prompt])
     | _ \<Rightarrow> unhandled)"

definition step_generating :: "fsm_event \<Rightarrow> step_result" where
  "step_generating e =
    (case e of
       Prompt_Enqueued \<Rightarrow> handled (decide GENERATING no_writes [Dispatch_Prompt])
     | Prompt_Awaiting_Input \<Rightarrow> handled (decide AWAITING_INPUT no_writes [])
     | Prompt_Terminal outcome error_code stopped_by_user \<Rightarrow>
         (case outcome of
            Outcome_Changes \<Rightarrow> handled (decide FINALIZING no_writes [])
          | Outcome_No_Changes \<Rightarrow> handled (decide ANSWERED_NO_PR no_writes [])
          | Outcome_Error \<Rightarrow>
              if error_code = Some aborted \<and> stopped_by_user = Some True then unhandled
              else handled (decide FAILED
                     (no_writes\<lparr>w_failureReason := Some (Some Codegen_Error)\<rparr>) [Loud]))
     | _ \<Rightarrow> unhandled)"

definition step_awaiting_input :: "fsm_event \<Rightarrow> step_result" where
  "step_awaiting_input e =
    (case e of
       User_Input \<Rightarrow> handled (decide GENERATING no_writes [Dispatch_Prompt])
     | _ \<Rightarrow> unhandled)"

definition step_finalizing :: "fsm_event \<Rightarrow> step_result" where
  "step_finalizing e =
    (case e of
       Postexec_Done has_changes intends_change \<Rightarrow>
         (if has_changes
          then handled (decide PUBLISHING
                 (no_writes\<lparr>w_promptIntendsChange := Some (Some intends_change)\<rparr>) [Open_Pr])
          else handled (decide ANSWERED_NO_PR
                 (no_writes\<lparr>w_promptIntendsChange := Some (Some intends_change)\<rparr>) []))
     | _ \<Rightarrow> unhandled)"

definition step_publishing :: "fsm_event \<Rightarrow> guards \<Rightarrow> step_result" where
  "step_publishing e g =
    (case e of
       Publish_Pr_Opened pr_head \<Rightarrow> initializeReviewFromPublishedPr pr_head g
     | Publish_No_Changes \<Rightarrow> handled (decide ANSWERED_NO_PR no_writes [])
     | Publish_Failed \<Rightarrow>
         handled (decide FAILED
           (no_writes\<lparr>w_failureReason := Some (Some Publish_Failed_Reason)\<rparr>) [Loud])
     | Pr_Merged \<Rightarrow> handled (decide MERGED no_writes (finalTerminalCloseOut g))
     | Pr_Closed \<Rightarrow> handled (decide CLOSED no_writes (finalTerminalCloseOut g))
     | _ \<Rightarrow> unhandled)"

definition step_answered_no_pr :: "fsm_event \<Rightarrow> guards \<Rightarrow> step_result" where
  "step_answered_no_pr e g =
    (case e of
       User_Input \<Rightarrow>
         (if g_sandboxAlive g
          then handled (decide GENERATING no_writes [Dispatch_Prompt])
          else handled (decide PROVISIONING no_writes [Spawn_Sandbox]))
     | _ \<Rightarrow> unhandled)"

section \<open>REVIEW\<close>

text \<open>The write set of a verification request admitted at \<open>head\<close>, spelt three times in the source.\<close>

definition admitVerification :: "guards \<Rightarrow> string \<Rightarrow> fsm_field_writes" where
  "admitVerification g head = merge_writes
    [advanceHead head, setCodeChanged, clearVerification,
     requestVerification (nullish (g_verificationRunCount g) 0) (nullish (g_verificationRunId g) 0)
       (Some head)]"

definition blockOnRunLimit :: decision where
  "blockOnRunLimit =
    decide NEEDS_YOU (setBlockedReason Verification_Run_Limit_Reached) [Notify_Qa_Issue]"

text \<open>A review-triggered dispatch: stamp the new epoch id under the same commit as the dispatch effect.\<close>

definition dispatchReviewEpoch :: "guards \<Rightarrow> side_effect list \<Rightarrow> step_result" where
  "dispatchReviewEpoch g before =
    rbind (requireNewEpochId (g_newEpochId g)) (\<lambda>i.
      handled (decide REVIEW (setInFlightEpoch i) (before @ [dispatchEpoch Trigger_Review])))"

definition review_caught_up :: "guards \<Rightarrow> step_result" where
  "review_caught_up g = rbind (caughtUpCascade g) handled"

lemma step_all_review_caught_up [simp]:
  "step_all P (review_caught_up g) =
    (case nullish (g_ciBucket g) Ci_Pending of
       Ci_Red \<Rightarrow>
         (if g_underCiFixCap g = Some True
          then \<forall>i. g_newEpochId g = Some i \<and> i \<noteq> [] \<longrightarrow>
                 P (decide REVIEW
                      (merge_writes [incCiFixRounds (nullish (g_ciFixRounds g) 0), setInFlightEpoch i])
                      [dispatchEpoch Trigger_Ci_Fix])
          else P (decide NEEDS_YOU (setBlockedReason Ci_Fix_Exhausted) [Loud]))
     | Ci_Pending \<Rightarrow> P (decide REVIEW no_writes [Log_Noop])
     | Ci_Green \<Rightarrow>
         (if g_noInflightEpoch g = Some True
          then P (decide MERGE_READY resetCiFixRounds [Emit_Settle, Notify_User])
          else P (decide REVIEW no_writes [Log_Noop])))"
  by (simp add: review_caught_up_def caughtUpCascade_def del: step_all_rbind merge_writes_lits
      split: ci_bucket.split) auto

lemma review_caught_up_simps [simp]:
  "review_caught_up g \<noteq> Inr None"
  "review_caught_up g = Inl err \<longleftrightarrow>
     g_ciBucket g = Some Ci_Red \<and> g_underCiFixCap g = Some True
     \<and> err = Missing_New_Epoch_Id \<and> \<not> truthy (g_newEpochId g)"
  by (auto simp: review_caught_up_def caughtUpCascade_def rbind_eq_Inl requireNewEpochId_Inl nullish_def
      split: ci_bucket.splits option.splits)

definition review_ci_signal :: "ci_signal_state \<Rightarrow> guards \<Rightarrow> step_result" where
  "review_ci_signal ci g =
    (let noInflight = nullish (g_noInflightEpoch g) False in
     if ci = Signal_Failing then
       (if \<not> noInflight then handled (decide REVIEW no_writes [Log_Noop])
        else if nullish (g_underCiFixCap g) False
        then rbind (requireNewEpochId (g_newEpochId g)) (\<lambda>i.
               handled (decide REVIEW
                 (merge_writes [incCiFixRounds (nullish (g_ciFixRounds g) 0), setInFlightEpoch i])
                 [dispatchEpoch Trigger_Ci_Fix]))
        else handled (decide NEEDS_YOU (setBlockedReason Ci_Fix_Exhausted) [Loud]))
     else if \<not> noInflight then handled (decide REVIEW no_writes [Log_Noop])
     else if nullish (g_ciSettled g) False \<and> \<not> nullish (g_epoch1Fired g) False
               \<and> nullish (g_actionableExists g) False
     then dispatchReviewEpoch g []
     else if nullish (g_ciFixRounds g) 0 > 0
     then handled (decide REVIEW resetCiFixRounds [Log_Noop])
     else handled (decide REVIEW no_writes [Log_Noop]))"

definition review_received :: "bool \<Rightarrow> guards \<Rightarrow> step_result" where
  "review_received is_actionable g =
    (if \<not> is_actionable then handled (decide REVIEW no_writes [Log_Noop])
     else
       (let reg = registerReview (nullish (g_reviewSourceId g) []) in
        if nullish (g_noInflightEpoch g) False
        then rbind (requireNewEpochId (g_newEpochId g)) (\<lambda>i.
               handled (decide_reg REVIEW (setInFlightEpoch i) [dispatchEpoch Trigger_Review] [reg]))
        else handled (decide_reg REVIEW no_writes [] [reg])))"

definition review_epoch_committed :: "string \<Rightarrow> guards \<Rightarrow> step_result" where
  "review_epoch_committed epoch_id g =
    (let writes =
           (case g_committedHead g of
              Some head \<Rightarrow> merge_writes [advanceHead head, setCodeChanged, clearInFlightEpoch]
            | None \<Rightarrow> merge_writes [setCodeChanged, clearInFlightEpoch]);
         effects = [dispositionEffect epoch_id Disposition_Fixed, resolveOwnedThreads];
         headAdvanced =
           (case g_currentHeadSha g of None \<Rightarrow> False | Some head \<Rightarrow> Some head \<noteq> g_verdictHeadSha g);
         noRunAtCurrentHead = (g_verificationRunHead g \<noteq> g_currentHeadSha g)
     in
     if nullish (g_committedEpochDispositionedQaFinding g) False
        \<and> g_recordedVerdict g = Some Verdict_App_Breaks
        \<and> headAdvanced \<and> noRunAtCurrentHead
        \<and> nullish (g_verificationRunCount g) 0 < MAX_VERIFICATION_RUNS_PER_PR
     then handled (decide REVIEW
            (merge_writes [writes,
               requestVerification (nullish (g_verificationRunCount g) 0)
                 (nullish (g_verificationRunId g) 0) (g_currentHeadSha g)])
            (effects @ [Spawn_Verification_Child]))
     else handled (decide REVIEW writes effects))"

text \<open>The same-head epoch terminals chain the next queued wave when some item is covered by no live epoch.\<close>

definition review_same_head_terminal :: "guards \<Rightarrow> side_effect list \<Rightarrow> step_result" where
  "review_same_head_terminal g effects =
    (if nullish (g_uncoveredActionableSourceIds g) [] \<noteq> []
     then dispatchReviewEpoch g effects
     else handled (decide REVIEW clearInFlightEpoch effects))"

definition step_review :: "fsm_event \<Rightarrow> guards \<Rightarrow> step_result" where
  "step_review e g =
    (case e of
       Verification_Requested head _ _ \<Rightarrow>
         (if \<not> verificationRequestUnderCap e g then handled blockOnRunLimit
          else handled (decide VERIFYING (admitVerification g head) []))
     | Caught_Up _ \<Rightarrow> review_caught_up g
     | Ci_Signal ci \<Rightarrow> review_ci_signal ci g
     | Review_Received _ is_actionable \<Rightarrow> review_received is_actionable g
     | Review_Item_Ready _ \<Rightarrow>
         (if nullish (g_noInflightEpoch g) False then dispatchReviewEpoch g []
          else handled (decide REVIEW no_writes [Log_Noop]))
     | Epoch_Committed epoch_id \<Rightarrow> review_epoch_committed epoch_id g
     | Epoch_Replied epoch_id \<Rightarrow>
         review_same_head_terminal g
           [dispositionEffect epoch_id Disposition_Replied, resolveOwnedThreads]
     | Epoch_Declined epoch_id \<Rightarrow>
         review_same_head_terminal g [dispositionEffect epoch_id Disposition_Declined]
     | Epoch_Settled _ \<Rightarrow> review_same_head_terminal g []
     | Epoch_Blocked _ reason _ \<Rightarrow>
         handled (decide NEEDS_YOU
           (merge_writes [setBlockedReason (mapEpochBlockReason reason), clearInFlightEpoch]) [Loud])
     | Head_Changed head \<Rightarrow>
         handled (decide REVIEW (merge_writes [advanceHead head, setCodeChanged, clearVerification]) [])
     | Head_Noop_Changed head \<Rightarrow>
         (if nullish (g_codeChangedSinceVerification g) False
          then handled (decide REVIEW (advanceHead head) [])
          else handled (decide REVIEW
                 (merge_writes [advanceHead head, restampVerification (Some head)]) []))
     | _ \<Rightarrow> verificationBookkeeping REVIEW e g)"

section \<open>VERIFYING\<close>

definition verifying_verdict :: "verdict \<Rightarrow> string \<Rightarrow> int \<Rightarrow> guards \<Rightarrow> step_result" where
  "verifying_verdict v head run_id g =
    (if \<not> freshRun g run_id then ghostDiscard VERIFYING g
     else handled (decide REVIEW (recordVerification v (Some head))
            [Release_Queued_Reviews, killVerification (g_verificationChildId g)]))"

definition blockFromVerifying :: "blocked_reason \<Rightarrow> guards \<Rightarrow> step_result" where
  "blockFromVerifying reason g =
    handled (decide NEEDS_YOU (setBlockedReason reason)
      [Release_Queued_Reviews, Loud, killVerification (g_verificationChildId g)])"

definition verifying_infra_terminal :: "int \<Rightarrow> guards \<Rightarrow> step_result" where
  "verifying_infra_terminal run_id g =
    (if \<not> freshRun g run_id then ghostDiscard VERIFYING g
     else blockFromVerifying Verification_No_Verdict g)"

definition step_verifying :: "fsm_event \<Rightarrow> guards \<Rightarrow> step_result" where
  "step_verifying e g =
    (case e of
       Verification_Requested head force _ \<Rightarrow>
         (if \<not> force then unhandled
          else if \<not> verificationRequestUnderCap e g then handled blockOnRunLimit
          else handled (decide VERIFYING (admitVerification g head)
                 [killVerification (g_verificationChildId g)]))
     | Head_Changed head \<Rightarrow>
         handled (decide VERIFYING
           (merge_writes [advanceHead head,
              redispatchVerification (nullish (g_verificationRunId g) 0) (Some head)])
           [killVerification (g_verificationChildId g), Spawn_Verification_Child])
     | Head_Noop_Changed head \<Rightarrow>
         handled (decide VERIFYING
           (merge_writes [advanceHead head, restampVerification (Some head)]) [])
     | Review_Received _ is_actionable \<Rightarrow>
         (if \<not> is_actionable then handled (decide VERIFYING no_writes [Log_Noop])
          else handled (decide_reg VERIFYING no_writes []
                 [registerReview (nullish (g_reviewSourceId g) [])]))
     | Ci_Signal _ \<Rightarrow> handled (decide VERIFYING no_writes [Log_Noop])
     | Verification_Pass head run_id \<Rightarrow> verifying_verdict Verdict_Pass head run_id g
     | Verification_Skipped head run_id \<Rightarrow> verifying_verdict Verdict_Skipped head run_id g
     | Verification_App_Breaks head run_id \<Rightarrow> verifying_verdict Verdict_App_Breaks head run_id g
     | Verification_Run_Limit _ \<Rightarrow> blockFromVerifying Verification_Run_Limit_Reached g
     | Verification_Stopped run_id \<Rightarrow> verifying_infra_terminal run_id g
     | Verification_Failed run_id \<Rightarrow> verifying_infra_terminal run_id g
     | _ \<Rightarrow> unhandled)"

section \<open>The re-openable resting states\<close>

definition merge_ready_red :: "guards \<Rightarrow> step_result" where
  "merge_ready_red g =
    (if \<not> nullish (g_underMergeReadyReopenCap g) False
     then handled (decide NEEDS_YOU (setBlockedReason Ci_Flapping)
            [Loud, emitCapTrip Merge_Ready_Reopen MAX_MERGE_READY_REOPENS])
     else rbind (requireNewEpochId (g_newEpochId g)) (\<lambda>i.
            handled (decide REVIEW
              (merge_writes [incMergeReadyReopenCount (nullish (g_mergeReadyReopenCount g) 0),
                             incCiFixRounds (nullish (g_ciFixRounds g) 0),
                             setInFlightEpoch i])
              [dispatchEpoch Trigger_Ci_Fix])))"

definition step_merge_ready :: "fsm_event \<Rightarrow> guards \<Rightarrow> step_result" where
  "step_merge_ready e g =
    (case e of
       Verification_Requested head _ _ \<Rightarrow>
         (if \<not> verificationRequestUnderCap e g then handled blockOnRunLimit
          else handled (decide VERIFYING (admitVerification g head) []))
     | Review_Received _ is_actionable \<Rightarrow>
         (if \<not> is_actionable then handled (decide MERGE_READY no_writes [Log_Noop])
          else rbind (requireNewEpochId (g_newEpochId g)) (\<lambda>i.
                 handled (decide_reg REVIEW
                   (merge_writes [resetVerificationRunCount, setInFlightEpoch i])
                   [dispatchEpoch Trigger_Review]
                   [registerReview (nullish (g_reviewSourceId g) [])])))
     | Head_Changed head \<Rightarrow>
         handled (decide REVIEW
           (merge_writes [advanceHead head, setCodeChanged, clearVerification,
                          resetVerificationRunCount]) [])
     | Head_Noop_Changed head \<Rightarrow>
         handled (decide MERGE_READY
           (merge_writes [advanceHead head, restampVerification (Some head)]) [])
     | Ci_Signal ci \<Rightarrow> (if ci \<noteq> Signal_Failing then unhandled else merge_ready_red g)
     | _ \<Rightarrow> verificationBookkeeping MERGE_READY e g)"

definition needs_you_verification_requested :: "fsm_event \<Rightarrow> string \<Rightarrow> guards \<Rightarrow> step_result" where
  "needs_you_verification_requested e head g =
    (let requestHeadChanged =
           (case g_headSha g of None \<Rightarrow> False | Some row_head \<Rightarrow> row_head \<noteq> Some head)
     in
     if \<not> requestHeadChanged \<and> \<not> verificationRequestUnderCap e g then handled blockOnRunLimit
     else handled (decide VERIFYING
            (merge_writes
               [clearBlock, resetCiFixRounds, advanceHead head, setCodeChanged, clearVerification,
                requestVerification
                  (if requestHeadChanged then 0 else nullish (g_verificationRunCount g) 0)
                  (nullish (g_verificationRunId g) 0) (Some head)])
            [Release_Queued_Reviews]))"

definition step_needs_you :: "fsm_event \<Rightarrow> guards \<Rightarrow> step_result" where
  "step_needs_you e g =
    (case e of
       Verification_Requested head _ _ \<Rightarrow> needs_you_verification_requested e head g
     | Review_Received _ is_actionable \<Rightarrow>
         (if \<not> is_actionable then handled (decide NEEDS_YOU no_writes [Log_Noop])
          else rbind (requireNewEpochId (g_newEpochId g)) (\<lambda>i.
                 handled (decide_reg REVIEW
                   (merge_writes [clearBlock, resetVerificationRunCount, resetCiFixRounds,
                                  setInFlightEpoch i])
                   [Release_Queued_Reviews, dispatchEpoch Trigger_Review]
                   [registerReview (nullish (g_reviewSourceId g) [])])))
     | User_Retrigger \<Rightarrow>
         handled (decide REVIEW
           (merge_writes [clearBlock, setCodeChanged, resetVerificationRunCount, resetCiFixRounds,
              (if g_blockedReason g = Some Review_Stuck then clearInFlightEpoch else no_writes)])
           [Release_Queued_Reviews])
     | Head_Changed head \<Rightarrow>
         handled (decide REVIEW
           (merge_writes [advanceHead head, setCodeChanged, clearVerification, clearBlock,
                          resetVerificationRunCount, resetCiFixRounds, clearInFlightEpoch])
           [Release_Queued_Reviews])
     | Head_Noop_Changed head \<Rightarrow>
         handled (decide NEEDS_YOU
           (merge_writes [advanceHead head, restampVerification (Some head)]) [])
     | _ \<Rightarrow> verificationBookkeeping NEEDS_YOU e g)"

definition step_failed :: "fsm_event \<Rightarrow> step_result" where
  "step_failed e =
    (case e of
       User_Retrigger \<Rightarrow> handled (decide PROVISIONING clearFailureReason [Spawn_Sandbox])
     | Prompt_Enqueued \<Rightarrow> handled (decide GENERATING clearFailureReason [Dispatch_Prompt])
     | _ \<Rightarrow> unhandled)"

section \<open>STOPPED and the group constants\<close>

definition HARD_FAILURE_STATES :: "fsm_state list" where
  "HARD_FAILURE_STATES = [CREATED, PROVISIONING, GENERATING, FINALIZING, PUBLISHING]"

definition POST_PUBLISH_PR_STATES :: "fsm_state list" where
  "POST_PUBLISH_PR_STATES = [REVIEW, VERIFYING, MERGE_READY, NEEDS_YOU, STOPPED]"

definition NON_TERMINAL_STATES :: "fsm_state list" where
  "NON_TERMINAL_STATES =
    [CREATED, PROVISIONING, GENERATING, AWAITING_INPUT, FINALIZING, PUBLISHING, REVIEW, VERIFYING]"

definition FINAL_TERMINAL_STATES :: "fsm_state list" where
  "FINAL_TERMINAL_STATES = [MERGED, CLOSED, SUPERSEDED, ARCHIVED]"

text \<open>The phase a resumable stop re-enters, before the stop fields are cleared.\<close>

definition resumeTarget :: "fsm_state option \<Rightarrow> guards \<Rightarrow> decision option" where
  "resumeTarget pre g =
    (case pre of
       Some s \<Rightarrow>
         if s = GENERATING \<or> s = AWAITING_INPUT
         then Some (if g_sandboxAlive g then decide GENERATING no_writes [Dispatch_Prompt]
                    else decide PROVISIONING no_writes [Spawn_Sandbox])
         else if s = FINALIZING \<or> s = PUBLISHING
         then Some (if \<not> g_sandboxAlive g \<and> nullish (g_unpushedDiff g) False
                    then decide PROVISIONING no_writes [Spawn_Sandbox]
                    else if s = PUBLISHING then decide PUBLISHING no_writes [Open_Pr]
                    else decide FINALIZING no_writes [])
         else if s = REVIEW then Some (decide REVIEW no_writes [])
         else if s = VERIFYING then Some (decide REVIEW no_writes [])
         else None
     | None \<Rightarrow> None)"

definition step_stopped :: "fsm_event \<Rightarrow> guards \<Rightarrow> step_result" where
  "step_stopped e g =
    (case e of
       Prompt_Enqueued \<Rightarrow>
         (if (case g_preStopState g of None \<Rightarrow> False | Some s \<Rightarrow> s \<in> set POST_PUBLISH_PR_STATES)
          then handled (decide REVIEW clearStop [])
          else handled (decide GENERATING clearStop [Dispatch_Prompt]))
     | User_Input \<Rightarrow>
         (if g_stopMode g \<noteq> Some Stop_Resumable then unhandled
          else (case resumeTarget (g_preStopState g) g of
                  None \<Rightarrow> unhandled
                | Some resumed \<Rightarrow>
                    handled (resumed\<lparr>d_writes := merge_writes [d_writes resumed, clearStop]\<rparr>)))
     | _ \<Rightarrow> unhandled)"

section \<open>The core dispatch\<close>

definition coreTransition :: "fsm_state \<Rightarrow> fsm_event \<Rightarrow> guards \<Rightarrow> step_result" where
  "coreTransition s e g =
    (case s of
       CREATED \<Rightarrow> step_created e g
     | PROVISIONING \<Rightarrow> step_provisioning e
     | GENERATING \<Rightarrow> step_generating e
     | AWAITING_INPUT \<Rightarrow> step_awaiting_input e
     | FINALIZING \<Rightarrow> step_finalizing e
     | PUBLISHING \<Rightarrow> step_publishing e g
     | ANSWERED_NO_PR \<Rightarrow> step_answered_no_pr e g
     | REVIEW \<Rightarrow> step_review e g
     | VERIFYING \<Rightarrow> step_verifying e g
     | MERGE_READY \<Rightarrow> step_merge_ready e g
     | NEEDS_YOU \<Rightarrow> step_needs_you e g
     | FAILED \<Rightarrow> step_failed e
     | STOPPED \<Rightarrow> step_stopped e g
     | _ \<Rightarrow> unhandled)"

section \<open>Cross-cutting edges\<close>

definition deadlineTransition :: "fsm_state \<Rightarrow> guards \<Rightarrow> step_result" where
  "deadlineTransition s g =
    (case s of
       CREATED \<Rightarrow> handled (decide FAILED (setFailureReason Spawn_Timeout) [Loud])
     | PROVISIONING \<Rightarrow> handled (decide FAILED (setFailureReason Spawn_Timeout) [Loud])
     | GENERATING \<Rightarrow> handled (decide FAILED (setFailureReason Execution_Timeout) [Loud])
     | FINALIZING \<Rightarrow> handled (decide FAILED (setFailureReason Execution_Timeout) [Loud])
     | PUBLISHING \<Rightarrow> handled (decide FAILED (setFailureReason Execution_Timeout) [Loud])
     | AWAITING_INPUT \<Rightarrow> handled (decide STOPPED (setStop Stop_Resumable AWAITING_INPUT) [])
     | REVIEW \<Rightarrow>
         handled (decide NEEDS_YOU (setBlockedReason Review_Stuck) [Release_Queued_Reviews, Loud])
     | VERIFYING \<Rightarrow>
         handled (decide NEEDS_YOU (setBlockedReason Verification_No_Verdict)
           [Release_Queued_Reviews, killVerification (g_verificationChildId g), Loud])
     | MERGE_READY \<Rightarrow> handled (decide MERGE_READY no_writes [Log_Noop])
     | _ \<Rightarrow> unhandled)"

definition hardFailure :: "fsm_state \<Rightarrow> failure_reason \<Rightarrow> step_result" where
  "hardFailure s reason =
    (if s \<in> set HARD_FAILURE_STATES then handled (decide FAILED (setFailureReason reason) [Loud])
     else unhandled)"

definition sandboxGone :: "fsm_state \<Rightarrow> step_result" where
  "sandboxGone s =
    (if s = AWAITING_INPUT then handled (decide STOPPED (setStop Stop_Resumable AWAITING_INPUT) [])
     else hardFailure s Sandbox_Failed)"

definition closeOut :: "fsm_state \<Rightarrow> fsm_state \<Rightarrow> guards \<Rightarrow> step_result" where
  "closeOut s target g =
    (if s \<in> set POST_PUBLISH_PR_STATES then handled (decide target no_writes (finalTerminalCloseOut g))
     else unhandled)"

definition crossCuttingTransition :: "fsm_state \<Rightarrow> fsm_event \<Rightarrow> guards \<Rightarrow> step_result" where
  "crossCuttingTransition s e g =
    (case e of
       Sandbox_Death \<Rightarrow> sandboxGone s
     | Sandbox_Liveness_Expired \<Rightarrow> sandboxGone s
     | Sandbox_Spawn_Failed \<Rightarrow> hardFailure s Sandbox_Failed
     | Prompt_Max_Duration_Exceeded \<Rightarrow> hardFailure s Execution_Timeout
     | Prompt_Terminal outcome error_code stopped_by_user \<Rightarrow>
         (if outcome \<noteq> Outcome_Error \<or> s \<notin> set HARD_FAILURE_STATES then unhandled
          else if error_code = Some aborted \<and> stopped_by_user = Some True
          then handled (decide STOPPED (setStop Stop_User s) (killOwnedVerifierOnTerminalExit g))
          else handled (decide FAILED (setFailureReason Codegen_Error) [Loud]))
     | Pr_Merged \<Rightarrow> closeOut s MERGED g
     | Pr_Closed \<Rightarrow> closeOut s CLOSED g
     | Publish_Superseded \<Rightarrow>
         (if s = REVIEW \<or> s = VERIFYING
          then handled (decide SUPERSEDED no_writes (finalTerminalCloseOut g)) else unhandled)
     | User_Stop \<Rightarrow>
         (if s \<in> set NON_TERMINAL_STATES
          then handled (decide STOPPED (setStop Stop_User s) (killOwnedVerifierOnTerminalExit g))
          else unhandled)
     | Session_Archived \<Rightarrow>
         (if s \<in> set FINAL_TERMINAL_STATES then unhandled
          else handled (decide ARCHIVED no_writes (finalTerminalCloseOut g)))
     | Epoch_Deferred _ _ \<Rightarrow>
         (if s = REVIEW then handled (decide REVIEW no_writes [Log_Noop]) else unhandled)
     | Deadline_Exceeded \<Rightarrow> deadlineTransition s g
     | _ \<Rightarrow> unhandled)"

text \<open>The core wins; an event it leaves unhandled falls through to the cross-cutting layer.\<close>

definition transition :: "fsm_state \<Rightarrow> fsm_event \<Rightarrow> guards \<Rightarrow> step_result" where
  "transition s e g =
    rbind (coreTransition s e g) (\<lambda>r. case r of
      Some d \<Rightarrow> Inr (Some d)
    | None \<Rightarrow> crossCuttingTransition s e g)"

section \<open>Dwell neutrality\<close>

definition DWELL_NEUTRAL_SELF_LOOP_STATES :: "fsm_state set" where
  "DWELL_NEUTRAL_SELF_LOOP_STATES = {REVIEW, VERIFYING}"

definition isDwellNeutralSelfLoop :: "fsm_state \<Rightarrow> decision \<Rightarrow> bool" where
  "isDwellNeutralSelfLoop from_state d \<longleftrightarrow>
    from_state \<in> DWELL_NEUTRAL_SELF_LOOP_STATES
    \<and> d_to d = from_state
    \<and> d_writes d = no_writes
    \<and> (\<forall>x \<in> set (d_effects d). x = Log_Noop)
    \<and> nullish (d_regs d) [] = []"

section \<open>Proof interface\<close>

text \<open>
  The equations of every step function, the case splits that expose its branches, and the two rules that
  reduce a claim about \<open>transition\<close> to the core and the cross-cutting layer.
\<close>

lemmas core_step_defs [step_defs] =
  step_created_def step_provisioning_def step_generating_def step_awaiting_input_def
  step_finalizing_def step_publishing_def step_answered_no_pr_def step_review_def step_verifying_def
  step_merge_ready_def step_needs_you_def step_failed_def step_stopped_def

lemmas step_helper_defs [step_defs] =
  initializeReviewFromPublishedPr_def ghostDiscard_def recordVerdict_def
  noteInfraTerminal_def verificationBookkeeping_def blockOnRunLimit_def dispatchReviewEpoch_def
  review_ci_signal_def review_received_def review_epoch_committed_def review_same_head_terminal_def
  verifying_verdict_def blockFromVerifying_def verifying_infra_terminal_def merge_ready_red_def
  needs_you_verification_requested_def admitVerification_def resumeTarget_def deadlineTransition_def
  hardFailure_def sandboxGone_def closeOut_def Let_def

lemmas group_defs = HARD_FAILURE_STATES_def POST_PUBLISH_PR_STATES_def NON_TERMINAL_STATES_def
  FINAL_TERMINAL_STATES_def

lemma state_groups [simp]:
  "CREATED \<in> set HARD_FAILURE_STATES"
  "PROVISIONING \<in> set HARD_FAILURE_STATES"
  "GENERATING \<in> set HARD_FAILURE_STATES"
  "AWAITING_INPUT \<notin> set HARD_FAILURE_STATES"
  "FINALIZING \<in> set HARD_FAILURE_STATES"
  "PUBLISHING \<in> set HARD_FAILURE_STATES"
  "ANSWERED_NO_PR \<notin> set HARD_FAILURE_STATES"
  "REVIEW \<notin> set HARD_FAILURE_STATES"
  "VERIFYING \<notin> set HARD_FAILURE_STATES"
  "MERGE_READY \<notin> set HARD_FAILURE_STATES"
  "NEEDS_YOU \<notin> set HARD_FAILURE_STATES"
  "FAILED \<notin> set HARD_FAILURE_STATES"
  "STOPPED \<notin> set HARD_FAILURE_STATES"
  "MERGED \<notin> set HARD_FAILURE_STATES"
  "CLOSED \<notin> set HARD_FAILURE_STATES"
  "SUPERSEDED \<notin> set HARD_FAILURE_STATES"
  "ARCHIVED \<notin> set HARD_FAILURE_STATES"
  "CREATED \<notin> set POST_PUBLISH_PR_STATES"
  "PROVISIONING \<notin> set POST_PUBLISH_PR_STATES"
  "GENERATING \<notin> set POST_PUBLISH_PR_STATES"
  "AWAITING_INPUT \<notin> set POST_PUBLISH_PR_STATES"
  "FINALIZING \<notin> set POST_PUBLISH_PR_STATES"
  "PUBLISHING \<notin> set POST_PUBLISH_PR_STATES"
  "ANSWERED_NO_PR \<notin> set POST_PUBLISH_PR_STATES"
  "REVIEW \<in> set POST_PUBLISH_PR_STATES"
  "VERIFYING \<in> set POST_PUBLISH_PR_STATES"
  "MERGE_READY \<in> set POST_PUBLISH_PR_STATES"
  "NEEDS_YOU \<in> set POST_PUBLISH_PR_STATES"
  "FAILED \<notin> set POST_PUBLISH_PR_STATES"
  "STOPPED \<in> set POST_PUBLISH_PR_STATES"
  "MERGED \<notin> set POST_PUBLISH_PR_STATES"
  "CLOSED \<notin> set POST_PUBLISH_PR_STATES"
  "SUPERSEDED \<notin> set POST_PUBLISH_PR_STATES"
  "ARCHIVED \<notin> set POST_PUBLISH_PR_STATES"
  "CREATED \<in> set NON_TERMINAL_STATES"
  "PROVISIONING \<in> set NON_TERMINAL_STATES"
  "GENERATING \<in> set NON_TERMINAL_STATES"
  "AWAITING_INPUT \<in> set NON_TERMINAL_STATES"
  "FINALIZING \<in> set NON_TERMINAL_STATES"
  "PUBLISHING \<in> set NON_TERMINAL_STATES"
  "ANSWERED_NO_PR \<notin> set NON_TERMINAL_STATES"
  "REVIEW \<in> set NON_TERMINAL_STATES"
  "VERIFYING \<in> set NON_TERMINAL_STATES"
  "MERGE_READY \<notin> set NON_TERMINAL_STATES"
  "NEEDS_YOU \<notin> set NON_TERMINAL_STATES"
  "FAILED \<notin> set NON_TERMINAL_STATES"
  "STOPPED \<notin> set NON_TERMINAL_STATES"
  "MERGED \<notin> set NON_TERMINAL_STATES"
  "CLOSED \<notin> set NON_TERMINAL_STATES"
  "SUPERSEDED \<notin> set NON_TERMINAL_STATES"
  "ARCHIVED \<notin> set NON_TERMINAL_STATES"
  "CREATED \<notin> set FINAL_TERMINAL_STATES"
  "PROVISIONING \<notin> set FINAL_TERMINAL_STATES"
  "GENERATING \<notin> set FINAL_TERMINAL_STATES"
  "AWAITING_INPUT \<notin> set FINAL_TERMINAL_STATES"
  "FINALIZING \<notin> set FINAL_TERMINAL_STATES"
  "PUBLISHING \<notin> set FINAL_TERMINAL_STATES"
  "ANSWERED_NO_PR \<notin> set FINAL_TERMINAL_STATES"
  "REVIEW \<notin> set FINAL_TERMINAL_STATES"
  "VERIFYING \<notin> set FINAL_TERMINAL_STATES"
  "MERGE_READY \<notin> set FINAL_TERMINAL_STATES"
  "NEEDS_YOU \<notin> set FINAL_TERMINAL_STATES"
  "FAILED \<notin> set FINAL_TERMINAL_STATES"
  "STOPPED \<notin> set FINAL_TERMINAL_STATES"
  "MERGED \<in> set FINAL_TERMINAL_STATES"
  "CLOSED \<in> set FINAL_TERMINAL_STATES"
  "SUPERSEDED \<in> set FINAL_TERMINAL_STATES"
  "ARCHIVED \<in> set FINAL_TERMINAL_STATES"
  by (simp_all add: group_defs)

lemmas close_out_defs = finalTerminalCloseOut_def killOwnedVerifierOnTerminalExit_def

lemmas step_splits = fsm_event.split option.split ci_bucket.split prompt_outcome.split

lemma step_all_coreI:
  assumes
    "s = CREATED \<Longrightarrow> step_all P (step_created e g)"
    "s = PROVISIONING \<Longrightarrow> step_all P (step_provisioning e)"
    "s = GENERATING \<Longrightarrow> step_all P (step_generating e)"
    "s = AWAITING_INPUT \<Longrightarrow> step_all P (step_awaiting_input e)"
    "s = FINALIZING \<Longrightarrow> step_all P (step_finalizing e)"
    "s = PUBLISHING \<Longrightarrow> step_all P (step_publishing e g)"
    "s = ANSWERED_NO_PR \<Longrightarrow> step_all P (step_answered_no_pr e g)"
    "s = REVIEW \<Longrightarrow> step_all P (step_review e g)"
    "s = VERIFYING \<Longrightarrow> step_all P (step_verifying e g)"
    "s = MERGE_READY \<Longrightarrow> step_all P (step_merge_ready e g)"
    "s = NEEDS_YOU \<Longrightarrow> step_all P (step_needs_you e g)"
    "s = FAILED \<Longrightarrow> step_all P (step_failed e)"
    "s = STOPPED \<Longrightarrow> step_all P (step_stopped e g)"
  shows "step_all P (coreTransition s e g)"
  using assms by (cases s; simp add: coreTransition_def)

lemma hard_failure_states_live: "s \<in> set HARD_FAILURE_STATES \<Longrightarrow> s \<in> set NON_TERMINAL_STATES"
  by (cases s) (simp_all add: group_defs)

text \<open>The decisions of the cross-cutting layer, one premise for each kind.\<close>

lemma step_all_crossI:
  assumes hard: "\<And>r. s \<in> set HARD_FAILURE_STATES \<Longrightarrow> P (decide FAILED (setFailureReason r) [Loud])"
    and gone: "s = AWAITING_INPUT \<Longrightarrow> P (decide STOPPED (setStop Stop_Resumable AWAITING_INPUT) [])"
    and stop: "s \<in> set NON_TERMINAL_STATES
      \<Longrightarrow> P (decide STOPPED (setStop Stop_User s) (killOwnedVerifierOnTerminalExit g))"
    and merged: "s \<in> set POST_PUBLISH_PR_STATES \<Longrightarrow> P (decide MERGED no_writes (finalTerminalCloseOut g))"
    and closed: "s \<in> set POST_PUBLISH_PR_STATES \<Longrightarrow> P (decide CLOSED no_writes (finalTerminalCloseOut g))"
    and superseded: "s = REVIEW \<or> s = VERIFYING \<Longrightarrow> P (decide SUPERSEDED no_writes (finalTerminalCloseOut g))"
    and archived: "s \<notin> set FINAL_TERMINAL_STATES \<Longrightarrow> P (decide ARCHIVED no_writes (finalTerminalCloseOut g))"
    and deferred: "s = REVIEW \<Longrightarrow> P (decide REVIEW no_writes [Log_Noop])"
    and deadline: "step_all P (deadlineTransition s g)"
  shows "step_all P (crossCuttingTransition s e g)"
  by (cases e) (simp_all add: crossCuttingTransition_def sandboxGone_def hardFailure_def closeOut_def assms
      hard_failure_states_live)

lemma step_all_transitionI:
  assumes "step_all P (coreTransition s e g)" "step_all P (crossCuttingTransition s e g)"
  shows "step_all P (transition s e g)"
  using assms by (cases "coreTransition s e g") (auto simp: transition_def split: option.splits)

lemma transition_Inr_None:
  "transition s e g = Inr None \<longleftrightarrow>
     coreTransition s e g = Inr None \<and> crossCuttingTransition s e g = Inr None"
  by (cases "coreTransition s e g") (auto simp: transition_def split: option.splits)

lemma crossCutting_no_throw: "crossCuttingTransition s e g \<noteq> Inl err"
  by (cases e) (auto simp: crossCuttingTransition_def step_defs handled_def unhandled_def
    split: fsm_state.split)

lemma transition_Inl: "transition s e g = Inl err \<longleftrightarrow> coreTransition s e g = Inl err"
  using crossCutting_no_throw[of s e g]
  by (cases "coreTransition s e g") (auto simp: transition_def split: option.splits)

end
