(* ===== verification/Fsm_Transition_Props.thy ===== *)
theory Fsm_Transition_Props
  imports Fsm_Transition
begin

text \<open>
  What the pure driver promises, edge by edge: the single door into MERGE_READY, absorbing final
  terminals, the close-out effects, the coupling of an epoch dispatch with the in-flight stamp, loud
  entries into the resting terminals, run-scoped verdicts, and the exact conditions under which a step
  throws.  Every lemma is proved by walking the step functions; the properties only name the result.
\<close>

section \<open>Entering MERGE_READY\<close>

lemma core_merge_ready_entry:
  "step_all (\<lambda>d. d_to d = MERGE_READY \<longrightarrow> s \<noteq> MERGE_READY \<longrightarrow>
      s = REVIEW \<and> (\<exists>h. e = Caught_Up h) \<and> g_ciBucket g = Some Ci_Green
      \<and> g_noInflightEpoch g = Some True
      \<and> d = decide MERGE_READY resetCiFixRounds [Emit_Settle, Notify_User])
    (coreTransition s e g)"
  by (rule step_all_coreI; simp add: step_defs split: step_splits)
     (auto simp: nullish_def split: option.splits)

lemma cross_merge_ready_entry:
  "step_all (\<lambda>d. d_to d = MERGE_READY \<longrightarrow> s = MERGE_READY) (crossCuttingTransition s e g)"
  by (rule step_all_crossI; cases s; simp add: deadlineTransition_def group_defs)

text \<open>
  C3.  The sole door into MERGE_READY: a decision that enters MERGE_READY from another state is the
  caught-up cascade run in REVIEW, on a green CI bucket, with no epoch in flight; and it resets the
  ci-fix budget, settles and notifies.
\<close>

theorem merge_ready_sole_door:
  assumes "transition s e g = Inr (Some d)" and "d_to d = MERGE_READY" and "s \<noteq> MERGE_READY"
  shows "s = REVIEW \<and> (\<exists>h. e = Caught_Up h) \<and> g_ciBucket g = Some Ci_Green
    \<and> g_noInflightEpoch g = Some True
    \<and> d = decide MERGE_READY resetCiFixRounds [Emit_Settle, Notify_User]"
proof -
  have "step_all (\<lambda>d. d_to d = MERGE_READY \<longrightarrow> s \<noteq> MERGE_READY \<longrightarrow>
      s = REVIEW \<and> (\<exists>h. e = Caught_Up h) \<and> g_ciBucket g = Some Ci_Green
      \<and> g_noInflightEpoch g = Some True
      \<and> d = decide MERGE_READY resetCiFixRounds [Emit_Settle, Notify_User]) (transition s e g)"
    by (rule step_all_transitionI[OF core_merge_ready_entry])
       (rule step_all_mono[OF cross_merge_ready_entry], simp)
  then show ?thesis using assms by simp
qed

theorem merge_ready_sole_door_witness:
  "\<exists>d. transition REVIEW (Caught_Up ''abc'')
         ((bare_guards True)\<lparr>g_ciBucket := Some Ci_Green, g_noInflightEpoch := Some True\<rparr>)
       = Inr (Some d) \<and> d_to d = MERGE_READY
       \<and> d = decide MERGE_READY resetCiFixRounds [Emit_Settle, Notify_User]"
proof -
  let ?g = "(bare_guards True)\<lparr>g_ciBucket := Some Ci_Green, g_noInflightEpoch := Some True\<rparr>"
  let ?d = "decide MERGE_READY resetCiFixRounds [Emit_Settle, Notify_User]"
  have t: "transition REVIEW (Caught_Up ''abc'') ?g = Inr (Some ?d)"
    by (simp add: transition_def coreTransition_def step_defs review_caught_up_def caughtUpCascade_def
        handled_def)
  show ?thesis using merge_ready_sole_door[OF t] t by simp
qed

section \<open>Absorbing final terminals and close-outs\<close>

text \<open>
   The final terminals are exactly the states no event leaves: a state handles no event under any
  guards if and only if it is MERGED, CLOSED, SUPERSEDED or ARCHIVED.
\<close>

theorem absorbing_iff_final:
  "(\<forall>e g. transition s e g = Inr None) = (s \<in> set FINAL_TERMINAL_STATES)"
proof
  assume "\<forall>e g. transition s e g = Inr None"
  then have "transition s Session_Archived (bare_guards True) = Inr None" by blast
  then have "crossCuttingTransition s Session_Archived (bare_guards True) = Inr None"
    by (simp add: transition_Inr_None)
  then show "s \<in> set FINAL_TERMINAL_STATES"
    by (simp add: crossCuttingTransition_def split: if_splits)
next
  assume "s \<in> set FINAL_TERMINAL_STATES"
  then have final: "s = MERGED \<or> s = CLOSED \<or> s = SUPERSEDED \<or> s = ARCHIVED"
    by (simp add: group_defs)
  have "crossCuttingTransition s e g = Inr None" for e g
    using final by (elim disjE; cases e; simp add: crossCuttingTransition_def step_defs)
  moreover have "coreTransition s e g = Inr None" for e g
    using final by (elim disjE; simp add: coreTransition_def)
  ultimately have "transition s e g = Inr None" for e g
    by (simp add: transition_Inr_None)
  then show "\<forall>e g. transition s e g = Inr None" by blast
qed

lemma core_close_out:
  "step_all (\<lambda>d. (Terminate_Runtime \<in> set (d_effects d)) = (d_to d \<in> set FINAL_TERMINAL_STATES)
      \<and> (d_to d \<in> set FINAL_TERMINAL_STATES \<longrightarrow>
           d_writes d = no_writes \<and> d_regs d = None
           \<and> d_effects d = [Kill_Verification (g_verificationChildId g), Terminate_Runtime]))
    (coreTransition s e g)"
  by (rule step_all_coreI; simp add: step_defs close_out_defs effect_defs split: step_splits)

lemma cross_close_out:
  "step_all (\<lambda>d. (Terminate_Runtime \<in> set (d_effects d)) = (d_to d \<in> set FINAL_TERMINAL_STATES)
      \<and> (d_to d \<in> set FINAL_TERMINAL_STATES \<longrightarrow>
           d_writes d = no_writes \<and> d_regs d = None
           \<and> d_effects d = [Kill_Verification (g_verificationChildId g), Terminate_Runtime]))
    (crossCuttingTransition s e g)"
  by (rule step_all_crossI; cases s;
      simp add: deadlineTransition_def group_defs close_out_defs effect_defs)

text \<open>
  The runtime is reclaimed on the final terminals and only there: a decision carries
  \<open>terminate_runtime\<close> exactly when it enters MERGED, CLOSED, SUPERSEDED or ARCHIVED, and such a decision
  writes no field, registers nothing, and kills the verifier child of its guard bag first.
\<close>

theorem terminate_runtime_iff_final:
  assumes "transition s e g = Inr (Some d)"
  shows "(Terminate_Runtime \<in> set (d_effects d)) = (d_to d \<in> set FINAL_TERMINAL_STATES)
    \<and> (d_to d \<in> set FINAL_TERMINAL_STATES \<longrightarrow>
         d_writes d = no_writes \<and> d_regs d = None
         \<and> d_effects d = [Kill_Verification (g_verificationChildId g), Terminate_Runtime])"
  by (rule step_allD[OF step_all_transitionI[OF core_close_out cross_close_out] assms])

theorem terminate_runtime_iff_final_witness:
  "\<exists>d. transition PUBLISHING Pr_Merged (bare_guards True) = Inr (Some d) \<and> d_to d = MERGED
       \<and> Terminate_Runtime \<in> set (d_effects d) \<and> d_writes d = no_writes"
proof -
  let ?g = "bare_guards True"
  let ?d = "decide MERGED no_writes (finalTerminalCloseOut ?g)"
  have t: "transition PUBLISHING Pr_Merged ?g = Inr (Some ?d)"
    by (simp add: transition_def coreTransition_def step_defs handled_def)
  show ?thesis using terminate_runtime_iff_final[OF t] t by simp
qed

section \<open>Epoch dispatch\<close>

definition dispatch_coupled :: "guards \<Rightarrow> decision \<Rightarrow> bool" where
  "dispatch_coupled g d \<longleftrightarrow>
     ((\<exists>t. Dispatch_Epoch t \<in> set (d_effects d)) = (\<exists>i. w_inFlightEpochId (d_writes d) = Some (Some i)))
   \<and> (\<forall>i. w_inFlightEpochId (d_writes d) = Some (Some i) \<longrightarrow>
          g_newEpochId g = Some i \<and> i \<noteq> [] \<and> d_to d = REVIEW)
   \<and> (Dispatch_Epoch Trigger_Ci_Fix \<in> set (d_effects d) \<longrightarrow>
          w_ciFixRounds (d_writes d) = Some (nullish (g_ciFixRounds g) 0 + 1))
   \<and> (\<forall>n. w_ciFixRounds (d_writes d) = Some n \<longrightarrow>
          n = 0 \<or> Dispatch_Epoch Trigger_Ci_Fix \<in> set (d_effects d))"

lemma core_dispatch: "step_all (dispatch_coupled g) (coreTransition s e g)"
  unfolding dispatch_coupled_def
  by (rule step_all_coreI; simp add: step_defs write_defs effect_defs close_out_defs split: step_splits)

lemma cross_dispatch: "step_all (dispatch_coupled g) (crossCuttingTransition s e g)"
  unfolding dispatch_coupled_def
  by (rule step_all_crossI; cases s;
      simp add: deadlineTransition_def group_defs write_defs effect_defs close_out_defs)

text \<open>
  C9.  An epoch dispatch and the in-flight stamp are one decision: a decision carries \<open>dispatch_epoch\<close>
  exactly when it writes a non-null \<open>in_flight_epoch_id\<close>; the id written is the caller's fresh id and is
  never empty, the target is REVIEW; a ci-fix dispatch bumps \<open>ci_fix_rounds\<close> by one and nothing else
  writes that counter except a reset to zero.
\<close>

theorem dispatch_stamps_in_flight:
  assumes "transition s e g = Inr (Some d)"
  shows "((\<exists>t. Dispatch_Epoch t \<in> set (d_effects d))
            = (\<exists>i. w_inFlightEpochId (d_writes d) = Some (Some i)))
   \<and> (\<forall>i. w_inFlightEpochId (d_writes d) = Some (Some i) \<longrightarrow>
          g_newEpochId g = Some i \<and> i \<noteq> [] \<and> d_to d = REVIEW)
   \<and> (Dispatch_Epoch Trigger_Ci_Fix \<in> set (d_effects d) \<longrightarrow>
          w_ciFixRounds (d_writes d) = Some (nullish (g_ciFixRounds g) 0 + 1))
   \<and> (\<forall>n. w_ciFixRounds (d_writes d) = Some n \<longrightarrow>
          n = 0 \<or> Dispatch_Epoch Trigger_Ci_Fix \<in> set (d_effects d))"
  using step_allD[OF step_all_transitionI[OF core_dispatch cross_dispatch] assms]
  by (simp add: dispatch_coupled_def)

theorem dispatch_stamps_in_flight_witness:
  "\<exists>d. transition REVIEW (Ci_Signal Signal_Failing)
        ((bare_guards True)\<lparr>g_noInflightEpoch := Some True, g_underCiFixCap := Some True,
           g_ciFixRounds := Some 1, g_newEpochId := Some ''epoch-s-4''\<rparr>) = Inr (Some d)
     \<and> w_inFlightEpochId (d_writes d) = Some (Some ''epoch-s-4'')
     \<and> w_ciFixRounds (d_writes d) = Some 2"
proof -
  let ?g = "(bare_guards True)\<lparr>g_noInflightEpoch := Some True, g_underCiFixCap := Some True,
           g_ciFixRounds := Some 1, g_newEpochId := Some ''epoch-s-4''\<rparr>"
  let ?d = "decide REVIEW (merge_writes [incCiFixRounds 1, setInFlightEpoch ''epoch-s-4''])
             [dispatchEpoch Trigger_Ci_Fix]"
  have t: "transition REVIEW (Ci_Signal Signal_Failing) ?g = Inr (Some ?d)"
    by (simp add: transition_def coreTransition_def step_defs handled_def requireNewEpochId_def)
  show ?thesis using dispatch_stamps_in_flight[OF t] t by (simp add: write_defs effect_defs)
qed

section \<open>The resting terminals\<close>

definition resting_hygiene :: "fsm_state \<Rightarrow> decision \<Rightarrow> bool" where
  "resting_hygiene s d \<longleftrightarrow>
     (d_to d = FAILED \<longrightarrow> Loud \<in> set (d_effects d)
        \<and> (\<exists>r. w_failureReason (d_writes d) = Some (Some r)))
   \<and> (d_to d = NEEDS_YOU \<and> s \<noteq> NEEDS_YOU \<longrightarrow>
        (Loud \<in> set (d_effects d) \<or> Notify_Qa_Issue \<in> set (d_effects d))
        \<and> (\<exists>r. w_blockedReason (d_writes d) = Some (Some r)))
   \<and> (d_to d = STOPPED \<longrightarrow> Loud \<notin> set (d_effects d)
        \<and> (\<exists>m. w_stopMode (d_writes d) = Some (Some m)) \<and> w_preStopState (d_writes d) = Some (Some s))
   \<and> (s = FAILED \<and> d_to d \<notin> set FINAL_TERMINAL_STATES \<longrightarrow> w_failureReason (d_writes d) = Some None)
   \<and> (s = NEEDS_YOU \<and> d_to d \<notin> set FINAL_TERMINAL_STATES \<and> d_to d \<noteq> NEEDS_YOU \<longrightarrow>
        w_blockedReason (d_writes d) = Some None)
   \<and> (s = STOPPED \<and> d_to d \<notin> set FINAL_TERMINAL_STATES \<longrightarrow>
        w_stopMode (d_writes d) = Some None \<and> w_preStopState (d_writes d) = Some None)
   \<and> ((\<exists>r. w_failureReason (d_writes d) = Some (Some r)) \<longrightarrow> d_to d = FAILED)
   \<and> ((\<exists>r. w_blockedReason (d_writes d) = Some (Some r)) \<longrightarrow> d_to d = NEEDS_YOU)
   \<and> ((\<exists>m. w_stopMode (d_writes d) = Some (Some m)) \<longrightarrow> d_to d = STOPPED)
   \<and> ((\<exists>m. w_preStopState (d_writes d) = Some (Some m)) \<longrightarrow> d_to d = STOPPED)"

lemma core_resting: "step_all (resting_hygiene s) (coreTransition s e g)"
  unfolding resting_hygiene_def
  by (rule step_all_coreI; simp add: step_defs write_defs effect_defs close_out_defs
      split: step_splits)

lemma cross_resting: "step_all (resting_hygiene s) (crossCuttingTransition s e g)"
  unfolding resting_hygiene_def
  by (rule step_all_crossI; cases s;
      simp add: deadlineTransition_def group_defs write_defs effect_defs close_out_defs)

lemma transition_resting: "step_all (resting_hygiene s) (transition s e g)"
  by (rule step_all_transitionI[OF core_resting cross_resting])

text \<open>
  C13.  No silent stop: entering FAILED is loud and records a failure reason, entering NEEDS_YOU alerts
  (the loud page or the QA notice) and records a blocked reason, entering STOPPED is quiet and records
  the stop mode and exactly the state it left; each of those fields is set on no other edge, and is
  cleared on every exit of its state except into a final terminal.
\<close>

theorem resting_entry_and_exit:
  assumes "transition s e g = Inr (Some d)"
  shows "resting_hygiene s d"
  by (rule step_allD[OF transition_resting assms])

theorem resting_entry_and_exit_witness:
  "\<exists>d. transition FINALIZING User_Stop (bare_guards True) = Inr (Some d)
       \<and> d_to d = STOPPED \<and> w_preStopState (d_writes d) = Some (Some FINALIZING)
       \<and> resting_hygiene FINALIZING d"
proof -
  let ?g = "bare_guards True"
  let ?d = "decide STOPPED (setStop Stop_User FINALIZING) (killOwnedVerifierOnTerminalExit ?g)"
  have t: "transition FINALIZING User_Stop ?g = Inr (Some ?d)"
    by (simp add: transition_def coreTransition_def crossCuttingTransition_def step_defs handled_def
        unhandled_def)
  show ?thesis using resting_entry_and_exit[OF t] t by (simp add: write_defs)
qed

end
