(* ===== verification/Fsm_State_Graph.thy ===== *)
theory Fsm_State_Graph
  imports Fsm_Transition
begin

text \<open>
  The abstract specification of the driver: the state graph of the lifecycle (\<open>docs/fsm.md\<close>), as a list
  of successors per state, and the run-scoped rules of the verification verdicts.  The graph is exact:
  soundness says every decision follows one of its edges, completeness exhibits an event and a guard bag
  for each edge.
\<close>

section \<open>The graph\<close>

fun successors :: "fsm_state \<Rightarrow> fsm_state list" where
  "successors CREATED = [PROVISIONING, REVIEW, FAILED, STOPPED, ARCHIVED]"
| "successors PROVISIONING = [GENERATING, FAILED, STOPPED, ARCHIVED]"
| "successors GENERATING =
    [GENERATING, AWAITING_INPUT, FINALIZING, ANSWERED_NO_PR, FAILED, STOPPED, ARCHIVED]"
| "successors AWAITING_INPUT = [GENERATING, STOPPED, ARCHIVED]"
| "successors FINALIZING = [PUBLISHING, ANSWERED_NO_PR, FAILED, STOPPED, ARCHIVED]"
| "successors PUBLISHING = [REVIEW, ANSWERED_NO_PR, FAILED, MERGED, CLOSED, STOPPED, ARCHIVED]"
| "successors ANSWERED_NO_PR = [GENERATING, PROVISIONING, ARCHIVED]"
| "successors REVIEW =
    [REVIEW, VERIFYING, NEEDS_YOU, MERGE_READY, MERGED, CLOSED, SUPERSEDED, STOPPED, ARCHIVED]"
| "successors VERIFYING =
    [VERIFYING, REVIEW, NEEDS_YOU, MERGED, CLOSED, SUPERSEDED, STOPPED, ARCHIVED]"
| "successors MERGE_READY = [MERGE_READY, REVIEW, VERIFYING, NEEDS_YOU, MERGED, CLOSED, ARCHIVED]"
| "successors NEEDS_YOU = [NEEDS_YOU, REVIEW, VERIFYING, MERGED, CLOSED, ARCHIVED]"
| "successors FAILED = [PROVISIONING, GENERATING, ARCHIVED]"
| "successors STOPPED =
    [PROVISIONING, GENERATING, FINALIZING, PUBLISHING, REVIEW, MERGED, CLOSED, ARCHIVED]"
| "successors MERGED = []"
| "successors CLOSED = []"
| "successors SUPERSEDED = []"
| "successors ARCHIVED = []"

lemma core_successors: "step_all (\<lambda>d. d_to d \<in> set (successors s)) (coreTransition s e g)"
  by (rule step_all_coreI; simp add: step_defs split: step_splits)

lemma cross_successors: "step_all (\<lambda>d. d_to d \<in> set (successors s)) (crossCuttingTransition s e g)"
  by (rule step_all_crossI; cases s; simp add: deadlineTransition_def group_defs)

lemma transition_successors: "step_all (\<lambda>d. d_to d \<in> set (successors s)) (transition s e g)"
  by (rule step_all_transitionI[OF core_successors cross_successors])

text \<open>One event and guard bag for every edge.\<close>

definition full_guards :: guards where
  "full_guards = (bare_guards True)\<lparr>
    g_prUrl := Some ''u'', g_noInflightEpoch := Some True, g_newEpochId := Some ''i'',
    g_ciBucket := Some Ci_Green, g_underVerificationCap := Some True, g_verificationRunId := Some 1,
    g_stopMode := Some Stop_Resumable\<rparr>"

definition edge_input :: "fsm_state \<Rightarrow> fsm_state \<Rightarrow> fsm_event \<times> guards" where
  "edge_input s t =
    (if t = ARCHIVED then (Session_Archived, full_guards)
     else if t = MERGED then (Pr_Merged, full_guards)
     else if t = CLOSED then (Pr_Closed, full_guards)
     else if t = SUPERSEDED then (Publish_Superseded, full_guards)
     else if t = STOPPED then (User_Stop, full_guards)
     else if t = FAILED then (Deadline_Exceeded, full_guards)
     else if s = STOPPED then
       (User_Input, full_guards\<lparr>g_preStopState := Some (if t = PROVISIONING then GENERATING else t),
                                g_sandboxAlive := (t \<noteq> PROVISIONING)\<rparr>)
     else if s = ANSWERED_NO_PR then (User_Input, full_guards\<lparr>g_sandboxAlive := (t = GENERATING)\<rparr>)
     else if s = FAILED then
       (if t = PROVISIONING then User_Retrigger else Prompt_Enqueued, full_guards)
     else if s = CREATED then
       (if t = REVIEW then Publish_Pr_Opened ''h'' else Sandbox_Spawn_Requested, full_guards)
     else if s = PROVISIONING then (Sandbox_Ready, full_guards)
     else if s = AWAITING_INPUT then (User_Input, full_guards)
     else if s = GENERATING then
       (if t = AWAITING_INPUT then Prompt_Awaiting_Input
        else if t = FINALIZING then Prompt_Terminal Outcome_Changes None None
        else if t = ANSWERED_NO_PR then Prompt_Terminal Outcome_No_Changes None None
        else Prompt_Enqueued, full_guards)
     else if s = FINALIZING then (Postexec_Done (t = PUBLISHING) True, full_guards)
     else if s = PUBLISHING then
       (if t = REVIEW then Publish_Pr_Opened ''h'' else Publish_No_Changes, full_guards)
     else if t = MERGE_READY \<and> s = REVIEW then (Caught_Up ''h'', full_guards)
     else if s = VERIFYING then
       (if t = VERIFYING then Head_Changed ''h'' else if t = REVIEW then Verification_Pass ''h'' 1
        else Deadline_Exceeded, full_guards)
     else if t = VERIFYING then (Verification_Requested ''h'' False False, full_guards)
     else if t = REVIEW then (Head_Changed ''h'', full_guards)
     else if s = REVIEW then (Deadline_Exceeded, full_guards)
     else if s = MERGE_READY \<and> t = NEEDS_YOU then (Ci_Signal Signal_Failing, bare_guards True)
     else (Head_Noop_Changed ''h'', full_guards))"

definition realises :: "fsm_state \<Rightarrow> fsm_state \<Rightarrow> bool" where
  "realises s t =
    (case edge_input s t of (e, g) \<Rightarrow>
       (case transition s e g of Inr (Some d) \<Rightarrow> d_to d = t | _ \<Rightarrow> False))"

lemma edges_realised: "t \<in> set (successors s) \<Longrightarrow> realises s t"
  by (cases s; simp; elim disjE; simp add: realises_def edge_input_def transition_def
      coreTransition_def crossCuttingTransition_def step_defs handled_def unhandled_def
      full_guards_def bare_guards_def review_caught_up_def caughtUpCascade_def freshRun_def
      verificationRequestUnderCap_def)

text \<open>
  C8.  The state graph is exact: the driver can move from one state to another, for some event and
  guards, if and only if the graph lists that edge.
\<close>

theorem state_graph_exact:
  "(\<exists>e g d. transition s e g = Inr (Some d) \<and> d_to d = t) = (t \<in> set (successors s))"
proof
  assume "\<exists>e g d. transition s e g = Inr (Some d) \<and> d_to d = t"
  then obtain e g d where t: "transition s e g = Inr (Some d)" "d_to d = t" by blast
  show "t \<in> set (successors s)"
    using step_allD[OF transition_successors t(1)] t(2) by simp
next
  assume "t \<in> set (successors s)"
  then show "\<exists>e g d. transition s e g = Inr (Some d) \<and> d_to d = t"
    using edges_realised[of t s] unfolding realises_def
    by (auto split: prod.splits sum.splits option.splits)
qed

section \<open>Run-scoped verdicts\<close>

text \<open>The run an event of the verification contract reports on.\<close>

definition reported_run :: "fsm_event \<Rightarrow> int option" where
  "reported_run e =
    (case e of
       Verification_Pass _ n \<Rightarrow> Some n
     | Verification_App_Breaks _ n \<Rightarrow> Some n
     | Verification_Skipped _ n \<Rightarrow> Some n
     | Verification_Stopped n \<Rightarrow> Some n
     | Verification_Failed n \<Rightarrow> Some n
     | Verification_Run_Limit n \<Rightarrow> Some n
     | _ \<Rightarrow> None)"

definition is_run_limit :: "fsm_event \<Rightarrow> bool" where
  "is_run_limit e = (case e of Verification_Run_Limit _ \<Rightarrow> True | _ \<Rightarrow> False)"

text \<open>
  C14.  A late report from a superseded run is a ghost, with one exception.  When the run a report names
  is not the active run, each of the four states that listen to the verifier discards it: no state and no
  field changes, nothing is registered, and only the run that reported is torn down.  The exception is
  \<open>verification.run_limit\<close> in VERIFYING, which the source leaves ungated on purpose: it blocks the session
  in NEEDS_YOU on the spent run budget, loudly, drains the queued reviews and tears down the live run.
  Every other state ignores such a report.
\<close>

theorem stale_report_is_discarded:
  assumes "reported_run e = Some n" and "g_verificationRunId g \<noteq> Some n"
  shows "transition s e g = Inr
    (if s = VERIFYING \<and> is_run_limit e
     then Some (decide NEEDS_YOU (setBlockedReason Verification_Run_Limit_Reached)
            [Release_Queued_Reviews, Loud, Kill_Verification (g_verificationChildId g)])
     else if s = REVIEW \<or> s = VERIFYING \<or> s = MERGE_READY \<or> s = NEEDS_YOU
     then Some (decide s no_writes [Log_Noop, Kill_Verification (g_verdictVerificationChildId g)])
     else None)"
  using assms
  by (cases e; cases s; simp add: transition_def coreTransition_def crossCuttingTransition_def step_defs
      reported_run_def freshRun_def effect_defs handled_def unhandled_def is_run_limit_def)

theorem stale_report_is_discarded_witness:
  "let g = (bare_guards True)\<lparr>g_verificationRunId := Some 4, g_verificationChildId := Some ''live''\<rparr>
   in transition MERGE_READY (Verification_App_Breaks ''old'' 3) g
        = Inr (Some (decide MERGE_READY no_writes [Log_Noop, Kill_Verification None]))
    \<and> transition VERIFYING (Verification_Failed 3) g
        = Inr (Some (decide VERIFYING no_writes [Log_Noop, Kill_Verification None]))
    \<and> transition VERIFYING (Verification_Run_Limit 3) g
        = Inr (Some (decide NEEDS_YOU (setBlockedReason Verification_Run_Limit_Reached)
            [Release_Queued_Reviews, Loud, Kill_Verification (Some ''live'')]))
    \<and> transition GENERATING (Verification_Run_Limit 3) g = Inr None"
proof -
  let ?g = "(bare_guards True)\<lparr>g_verificationRunId := Some 4, g_verificationChildId := Some ''live''\<rparr>"
  have g: "g_verificationRunId ?g \<noteq> Some 3" by simp
  show ?thesis
    using stale_report_is_discarded[OF _ g, of "Verification_App_Breaks ''old'' 3" MERGE_READY]
      stale_report_is_discarded[OF _ g, of "Verification_Failed 3" VERIFYING]
      stale_report_is_discarded[OF _ g, of "Verification_Run_Limit 3" VERIFYING]
      stale_report_is_discarded[OF _ g, of "Verification_Run_Limit 3" GENERATING]
    by (simp add: reported_run_def is_run_limit_def bare_guards_def Let_def)
qed

definition records_fresh_verdict :: "fsm_event \<Rightarrow> guards \<Rightarrow> decision \<Rightarrow> bool" where
  "records_fresh_verdict e g d \<longleftrightarrow>
     (\<forall>v. w_verdict (d_writes d) = Some (Some v) \<and> v \<noteq> Verdict_None \<longrightarrow>
        reported_run e \<noteq> None \<and> reported_run e = g_verificationRunId g
        \<and> w_verdictHeadSha (d_writes d) = Some (Some (e_headSha e))
        \<and> w_codeChangedSinceVerification (d_writes d) = Some False
        \<and> (w_verificationRunCount (d_writes d) = Some 0) = (v \<noteq> Verdict_App_Breaks)
        \<and> Kill_Verification (g_verificationChildId g) \<in> set (d_effects d))"

lemma core_records: "step_all (records_fresh_verdict e g) (coreTransition s e g)"
  unfolding records_fresh_verdict_def
  by (rule step_all_coreI; simp add: step_defs write_defs effect_defs verificationPass_def
      reported_run_def freshRun_def close_out_defs split: step_splits)

lemma cross_records: "step_all (records_fresh_verdict e g) (crossCuttingTransition s e g)"
  unfolding records_fresh_verdict_def
  by (rule step_all_crossI; cases s;
      simp add: deadlineTransition_def group_defs write_defs close_out_defs)

text \<open>
  Freshness by construction: a decision that records a verdict was reported by the active run; it
  stamps the verdict's own head, clears \<open>code_changed_since_verification\<close> in the same write, resets the
  run count exactly on the approving verdicts, and tears the reporting child down.
\<close>

theorem recorded_verdict_is_fresh:
  assumes "transition s e g = Inr (Some d)"
    and "w_verdict (d_writes d) = Some (Some v)" and "v \<noteq> Verdict_None"
  shows "reported_run e \<noteq> None \<and> reported_run e = g_verificationRunId g
    \<and> w_verdictHeadSha (d_writes d) = Some (Some (e_headSha e))
    \<and> w_codeChangedSinceVerification (d_writes d) = Some False
    \<and> (w_verificationRunCount (d_writes d) = Some 0) = (v \<noteq> Verdict_App_Breaks)
    \<and> Kill_Verification (g_verificationChildId g) \<in> set (d_effects d)"
  using step_allD[OF step_all_transitionI[OF core_records cross_records] assms(1)] assms(2,3)
  unfolding records_fresh_verdict_def by blast

theorem recorded_verdict_is_fresh_witness:
  "\<exists>d. transition VERIFYING (Verification_App_Breaks ''h9'' 2)
        ((bare_guards True)\<lparr>g_verificationRunId := Some 2, g_verificationChildId := Some ''c''\<rparr>)
        = Inr (Some d)
     \<and> w_verdictHeadSha (d_writes d) = Some (Some ''h9'')
     \<and> w_verificationRunCount (d_writes d) = None"
proof -
  let ?g = "(bare_guards True)\<lparr>g_verificationRunId := Some 2, g_verificationChildId := Some ''c''\<rparr>"
  let ?d = "decide REVIEW (recordVerification Verdict_App_Breaks (Some ''h9''))
             [Release_Queued_Reviews, killVerification (Some ''c'')]"
  have t: "transition VERIFYING (Verification_App_Breaks ''h9'' 2) ?g = Inr (Some ?d)"
    by (simp add: transition_def coreTransition_def step_defs handled_def freshRun_def)
  have v: "w_verdict (d_writes ?d) = Some (Some Verdict_App_Breaks)"
    by (simp add: write_defs verificationPass_def)
  show ?thesis
    using recorded_verdict_is_fresh[OF t v] t by (simp add: write_defs verificationPass_def)
qed

section \<open>Throwing\<close>

text \<open>The edges that dispatch an epoch, read off the guards, and the edge that opens the review of a PR.\<close>

definition dispatching_edge :: "fsm_state \<Rightarrow> fsm_event \<Rightarrow> guards \<Rightarrow> bool" where
  "dispatching_edge s e g =
    (let free = g_noInflightEpoch g = Some True; chained = nullish (g_uncoveredActionableSourceIds g) [] \<noteq> [] in
     case (s, e) of
       (REVIEW, Caught_Up _) \<Rightarrow> g_ciBucket g = Some Ci_Red \<and> g_underCiFixCap g = Some True
     | (REVIEW, Ci_Signal ci) \<Rightarrow>
         free \<and> (if ci = Signal_Failing then g_underCiFixCap g = Some True
                 else g_ciSettled g = Some True \<and> g_epoch1Fired g \<noteq> Some True
                      \<and> g_actionableExists g = Some True)
     | (REVIEW, Review_Received _ is_actionable) \<Rightarrow> is_actionable \<and> free
     | (REVIEW, Review_Item_Ready _) \<Rightarrow> free
     | (REVIEW, Epoch_Replied _) \<Rightarrow> chained
     | (REVIEW, Epoch_Declined _) \<Rightarrow> chained
     | (REVIEW, Epoch_Settled _) \<Rightarrow> chained
     | (MERGE_READY, Review_Received _ is_actionable) \<Rightarrow> is_actionable
     | (MERGE_READY, Ci_Signal ci) \<Rightarrow> ci = Signal_Failing \<and> g_underMergeReadyReopenCap g = Some True
     | (NEEDS_YOU, Review_Received _ is_actionable) \<Rightarrow> is_actionable
     | _ \<Rightarrow> False)"

definition opening_edge :: "fsm_state \<Rightarrow> fsm_event \<Rightarrow> bool" where
  "opening_edge s e =
    ((s = CREATED \<or> s = PUBLISHING) \<and> (case e of Publish_Pr_Opened _ \<Rightarrow> True | _ \<Rightarrow> False))"

lemmas edge_defs = dispatching_edge_def opening_edge_def Let_def

lemma core_throws:
  "coreTransition s e g = Inl err \<longleftrightarrow>
     dispatching_edge s e g \<and> \<not> truthy (g_newEpochId g) \<and> err = Missing_New_Epoch_Id
   \<or> opening_edge s e \<and> g_prUrl g = None \<and> err = Missing_Pr_Url"
  by (cases s; cases e; auto simp: coreTransition_def step_defs edge_defs handled_def unhandled_def
      rbind_eq_Inl requireNewEpochId_Inl split: option.splits prompt_outcome.splits)

lemma cross_never_dispatches:
  "step_all (\<lambda>d. Dispatch_Epoch t \<notin> set (d_effects d) \<and> w_prUrl (d_writes d) = None)
     (crossCuttingTransition s e g)"
  by (rule step_all_crossI; cases s;
      simp add: deadlineTransition_def group_defs close_out_defs effect_defs write_defs)

lemma red_bucket: "nullish b Ci_Pending = Ci_Red \<longleftrightarrow> b = Some Ci_Red"
  by (cases b) simp_all

lemma core_dispatches:
  "step_all (\<lambda>d. ((\<exists>t. Dispatch_Epoch t \<in> set (d_effects d)) = dispatching_edge s e g)
      \<and> ((\<exists>u. w_prUrl (d_writes d) = Some (Some u)) = opening_edge s e)) (coreTransition s e g)"
  by (rule step_all_coreI; cases e; simp add: step_defs edge_defs red_bucket close_out_defs
      effect_defs write_defs split: option.split ci_bucket.split prompt_outcome.split; auto)

lemma core_unhandled_edges:
  "coreTransition s e g = Inr None \<Longrightarrow> \<not> dispatching_edge s e g \<and> \<not> opening_edge s e"
  by (cases s; cases e; auto simp: coreTransition_def step_defs edge_defs handled_def unhandled_def
      split: if_splits option.splits prompt_outcome.splits)

lemma transition_dispatches:
  "step_all (\<lambda>d. ((\<exists>t. Dispatch_Epoch t \<in> set (d_effects d)) = dispatching_edge s e g)
      \<and> ((\<exists>u. w_prUrl (d_writes d) = Some (Some u)) = opening_edge s e)) (transition s e g)"
proof (cases "coreTransition s e g")
  case (Inr x)
  show ?thesis
  proof (cases x)
    case None
    then show ?thesis
      using Inr core_unhandled_edges[of s e g] cross_never_dispatches[of _ s e g]
      by (auto simp: transition_def step_all_def split: sum.splits option.splits)
  qed (use Inr core_dispatches[of s e g] in \<open>simp add: transition_def\<close>)
qed (simp add: transition_def)

text \<open>
  C15.  The driver throws exactly for a missing handle.  It throws for the fresh epoch id exactly when
  the id is absent or empty and the edge is one that dispatches an epoch, and for the pull request's URL
  exactly when the URL is absent and \<open>publish.pr_opened\<close> opens the review from CREATED or PUBLISHING; in
  every other case it answers with a decision or with \<open>null\<close>.  The dispatching edges are the ones whose
  decision, when there is one, carries \<open>dispatch_epoch\<close>, and the opening edges the ones whose decision
  records a URL.
\<close>

theorem transition_throws_iff:
  "(transition s e g = Inl err \<longleftrightarrow>
      dispatching_edge s e g \<and> \<not> truthy (g_newEpochId g) \<and> err = Missing_New_Epoch_Id
    \<or> opening_edge s e \<and> g_prUrl g = None \<and> err = Missing_Pr_Url)
   \<and> (case transition s e g of
        Inr (Some d) \<Rightarrow>
          ((\<exists>t. Dispatch_Epoch t \<in> set (d_effects d)) \<longleftrightarrow> dispatching_edge s e g)
          \<and> ((\<exists>u. w_prUrl (d_writes d) = Some (Some u)) \<longleftrightarrow> opening_edge s e)
      | _ \<Rightarrow> True)"
  unfolding transition_Inl core_throws using transition_dispatches[of s e g]
  by (simp add: step_all_def split: sum.split option.split)

end
