(* ===== verification/Disposition_Store.thy ===== *)
theory Disposition_Store
  imports Fsm_Types "HOL-Library.List_Lexorder" "HOL-Library.Product_Lexorder" "HOL-Library.Char_ord"
begin

text \<open>
  The per-item review disposition store (\<open>session/pr-review-item-disposition-db.ts\<close>) and the live
  worklist sink that writes it (\<open>buildLiveWorklistSink\<close> in \<open>session/fsm/live-side-effects.ts\<close>).  The table
  is the list of its rows in insertion order, keyed by session, pull request and source id; a write that
  the code refuses is \<open>Inl\<close>.

  The interface the spine relies on is the locale \<open>worklist_store\<close>: what a registration does to each
  item, and when the count of undispositioned items is zero.  Its lemmas are the FG-5 facts; it is
  interpreted on the table at the end of the theory.
\<close>

section \<open>Rows and errors\<close>

record item_row =
  i_sessionId :: string
  i_prUrl :: string
  i_sourceId :: string
  i_disposition :: disposition
  i_basis :: "string option"
  i_epochId :: "string option"
  i_createdAt :: int
  i_updatedAt :: int

type_synonym item_key = "string \<times> string \<times> string"
type_synonym item_table = "item_row list"

definition i_key :: "item_row \<Rightarrow> item_key" where
  "i_key r = (i_sessionId r, i_prUrl r, i_sourceId r)"

datatype store_error =
    Declined_Without_Basis
  | Worklist_Missing_Pr_Url
  | Worklist_Blank_Source_Id

text \<open>The table's primary key.\<close>

definition keys_unique :: "item_table \<Rightarrow> bool" where
  "keys_unique t \<longleftrightarrow> distinct (map i_key t)"

definition find_item :: "item_table \<Rightarrow> item_key \<Rightarrow> item_row option" where
  "find_item t k = map_of (map (\<lambda>r. (i_key r, r)) t) k"

definition disposition_of :: "item_table \<Rightarrow> item_key \<Rightarrow> disposition option" where
  "disposition_of t k = map_option i_disposition (find_item t k)"

section \<open>Writes\<close>

text \<open>
  The white space that \<open>String.prototype.trim\<close> removes, for the code units below 256 that a character
  can hold here.
\<close>

definition js_space :: "char \<Rightarrow> bool" where
  "js_space c \<longleftrightarrow> of_char c \<in> {9, 10, 11, 12, 13, 32, 160 :: nat}"

definition hasBasis :: "string option \<Rightarrow> bool" where
  "hasBasis b = (case b of None \<Rightarrow> False | Some s \<Rightarrow> \<exists>c \<in> set s. \<not> js_space c)"

record item_upsert =
  u_key :: item_key
  u_disposition :: disposition
  u_basis :: "string option"
  u_epochId :: "string option"

text \<open>One \<open>INSERT ... ON CONFLICT DO UPDATE\<close> statement: \<open>created_at\<close> survives an update.\<close>

definition new_row :: "item_key \<Rightarrow> disposition \<Rightarrow> string option \<Rightarrow> string option \<Rightarrow> int \<Rightarrow> item_row" where
  "new_row k d basis epoch_id now =
    \<lparr>i_sessionId = fst k, i_prUrl = fst (snd k), i_sourceId = snd (snd k), i_disposition = d,
     i_basis = basis, i_epochId = epoch_id, i_createdAt = now, i_updatedAt = now\<rparr>"

definition upsert_row :: "int \<Rightarrow> item_upsert \<Rightarrow> item_table \<Rightarrow> item_table" where
  "upsert_row now u t =
    (if find_item t (u_key u) = None
     then t @ [new_row (u_key u) (u_disposition u) (u_basis u) (u_epochId u) now]
     else map (\<lambda>r. if i_key r = u_key u
                   then r\<lparr>i_disposition := u_disposition u, i_basis := u_basis u,
                          i_epochId := u_epochId u, i_updatedAt := now\<rparr>
                   else r) t)"

definition refused :: "item_upsert \<Rightarrow> bool" where
  "refused u \<longleftrightarrow> u_disposition u = Disposition_Declined \<and> \<not> hasBasis (u_basis u)"

definition upsertDisposition :: "item_upsert \<Rightarrow> int \<Rightarrow> item_table \<Rightarrow> store_error + item_table" where
  "upsertDisposition u now t =
    (if refused u then Inl Declined_Without_Basis else Inr (upsert_row now u t))"

definition MAX_BATCH_STATEMENTS :: nat where "MAX_BATCH_STATEMENTS = 50"

text \<open>The loop over \<open>slice(index, index + MAX_BATCH_STATEMENTS)\<close>; each chunk is one atomic batch.\<close>

function chunks :: "nat \<Rightarrow> 'a list \<Rightarrow> 'a list list" where
  "chunks n xs = (if xs = [] \<or> n = 0 then [] else take n xs # chunks n (drop n xs))"
  by pat_completeness auto
termination by (relation "measure (\<lambda>(n, xs). length xs)") auto

declare chunks.simps [simp del]

definition upsertDispositionsBatch ::
  "item_upsert list \<Rightarrow> int \<Rightarrow> item_table \<Rightarrow> store_error + item_table" where
  "upsertDispositionsBatch us now t =
    (if us = [] then Inr t
     else if (\<exists>u \<in> set us. refused u) then Inl Declined_Without_Basis
     else Inr (fold (\<lambda>chunk. fold (upsert_row now) chunk) (chunks MAX_BATCH_STATEMENTS us) t))"

text \<open>\<open>INSERT ... ON CONFLICT DO NOTHING\<close>.\<close>

definition registerDispositionIfAbsent :: "int \<Rightarrow> item_key \<Rightarrow> item_table \<Rightarrow> item_table" where
  "registerDispositionIfAbsent now k t =
    (if find_item t k = None then t @ [new_row k Disposition_None None None now] else t)"

definition registerDispositionsIfAbsent :: "item_key list \<Rightarrow> int \<Rightarrow> item_table \<Rightarrow> item_table" where
  "registerDispositionsIfAbsent ks now t = fold (registerDispositionIfAbsent now) ks t"

definition stamp_informational :: "int \<Rightarrow> item_key \<times> string \<Rightarrow> item_table \<Rightarrow> item_table" where
  "stamp_informational now kb t =
    (let k = fst kb; basis = Some (snd kb) in
     if find_item t k = None then t @ [new_row k Disposition_Informational basis None now]
     else map (\<lambda>r. if i_key r = k \<and> i_disposition r = Disposition_None
                   then r\<lparr>i_disposition := Disposition_Informational, i_basis := basis,
                          i_updatedAt := now\<rparr>
                   else r) t)"

definition stampInformationalDispositions ::
  "(item_key \<times> string) list \<Rightarrow> int \<Rightarrow> item_table \<Rightarrow> item_table" where
  "stampInformationalDispositions ks now t = fold (stamp_informational now) ks t"

section \<open>Reads\<close>

definition is_pending :: "string \<Rightarrow> string \<Rightarrow> item_row \<Rightarrow> bool" where
  "is_pending sid pr r \<longleftrightarrow>
     i_sessionId r = sid \<and> i_prUrl r = pr \<and> i_disposition r = Disposition_None"

definition countUndispositionedActionable :: "item_table \<Rightarrow> string \<Rightarrow> string \<Rightarrow> int" where
  "countUndispositionedActionable t sid pr = int (length (filter (is_pending sid pr) t))"

definition by_age :: "item_row \<Rightarrow> int \<times> string" where
  "by_age r = (i_createdAt r, i_sourceId r)"

definition listUndispositionedActionable :: "item_table \<Rightarrow> string \<Rightarrow> string \<Rightarrow> string list" where
  "listUndispositionedActionable t sid pr =
    map i_sourceId (sort_key by_age (filter (is_pending sid pr) t))"

definition listForPr :: "item_table \<Rightarrow> string \<Rightarrow> string \<Rightarrow> item_row list" where
  "listForPr t sid pr = sort_key by_age (filter (\<lambda>r. i_sessionId r = sid \<and> i_prUrl r = pr) t)"

section \<open>The live worklist sink\<close>

definition liveWorklistCommit ::
  "int \<Rightarrow> string \<Rightarrow> worklist_registration list \<Rightarrow> fsm_record \<Rightarrow> item_table \<Rightarrow> store_error + item_table" where
  "liveWorklistCommit now sid regs rec t =
    (if regs = [] then Inr t
     else if \<not> truthy (prUrl rec) then Inl Worklist_Missing_Pr_Url
     else if (\<exists>reg \<in> set regs. reg_sourceId reg = []) then Inl Worklist_Blank_Source_Id
     else Inr (registerDispositionsIfAbsent
                 (map (\<lambda>reg. (sid, nullish (prUrl rec) [], reg_sourceId reg)) regs) now t))"

section \<open>Lookup laws of the table\<close>

lemma new_row_sel [simp]:
  "i_key (new_row k d b e now) = k" "i_disposition (new_row k d b e now) = d"
  "i_createdAt (new_row k d b e now) = now" "i_basis (new_row k d b e now) = b"
  by (cases k; simp add: new_row_def i_key_def)+

lemma i_key_update [simp]:
  "i_key (r\<lparr>i_disposition := d, i_basis := b, i_epochId := e, i_updatedAt := n\<rparr>) = i_key r"
  "i_key (r\<lparr>i_disposition := d, i_basis := b, i_updatedAt := n\<rparr>) = i_key r"
  by (simp_all add: i_key_def)

lemma find_item_simps [simp]:
  "find_item [] k = None"
  "find_item (r # t) k = (if i_key r = k then Some r else find_item t k)"
  by (simp_all add: find_item_def)

lemma find_item_append:
  "find_item (t @ [r]) k = (case find_item t k of Some x \<Rightarrow> Some x | None \<Rightarrow> if i_key r = k then Some r else None)"
  by (induction t) simp_all

lemma find_item_map:
  assumes "\<And>r. i_key (f r) = i_key r"
  shows "find_item (map f t) k = map_option f (find_item t k)"
  using assms by (induction t) simp_all

lemma find_item_None: "find_item t k = None \<longleftrightarrow> k \<notin> i_key ` set t"
  by (induction t) auto

lemma find_item_Some: "find_item t k = Some r \<Longrightarrow> r \<in> set t \<and> i_key r = k"
  by (induction t) (auto split: if_splits)

lemma find_item_unique: "keys_unique t \<Longrightarrow> r \<in> set t \<Longrightarrow> find_item t (i_key r) = Some r"
  by (induction t) (auto simp: keys_unique_def)

lemma find_register:
  "find_item (registerDispositionIfAbsent now k t) k' =
    (if k' = k \<and> find_item t k = None then Some (new_row k Disposition_None None None now)
     else find_item t k')"
  by (auto simp: registerDispositionIfAbsent_def find_item_append split: option.splits)

lemma find_upsert:
  "find_item (upsert_row now u t) k =
    (if k \<noteq> u_key u then find_item t k
     else Some (case find_item t k of
        None \<Rightarrow> new_row k (u_disposition u) (u_basis u) (u_epochId u) now
      | Some r \<Rightarrow> r\<lparr>i_disposition := u_disposition u, i_basis := u_basis u,
                     i_epochId := u_epochId u, i_updatedAt := now\<rparr>))"
  by (auto simp: upsert_row_def find_item_append find_item_map find_item_Some
      dest: find_item_Some split: option.splits)

lemma find_stamp:
  "find_item (stamp_informational now (k, b) t) k' =
    (if k' \<noteq> k then find_item t k'
     else Some (case find_item t k of
        None \<Rightarrow> new_row k Disposition_Informational (Some b) None now
      | Some r \<Rightarrow> if i_disposition r = Disposition_None
                  then r\<lparr>i_disposition := Disposition_Informational, i_basis := Some b,
                         i_updatedAt := now\<rparr>
                  else r))"
  by (auto simp: stamp_informational_def find_item_append find_item_map Let_def
      dest: find_item_Some split: option.splits)

lemma keys_unique_writes:
  assumes "keys_unique t"
  shows "keys_unique (registerDispositionIfAbsent now k t)" "keys_unique (upsert_row now u t)"
    "keys_unique (stamp_informational now kb t)"
proof -
  have upd: "keys_unique (map f t)" if "\<And>r. i_key (f r) = i_key r" for f
    using assms that by (simp add: keys_unique_def comp_def)
  have app: "keys_unique (t @ [r])" if "find_item t (i_key r) = None" for r
    using assms that by (simp add: keys_unique_def find_item_None)
  show "keys_unique (registerDispositionIfAbsent now k t)"
    by (simp add: registerDispositionIfAbsent_def assms app)
  show "keys_unique (upsert_row now u t)" by (simp add: upsert_row_def upd app)
  show "keys_unique (stamp_informational now kb t)"
    by (simp add: stamp_informational_def Let_def upd app)
qed

lemma count_zero_iff:
  "countUndispositionedActionable t sid pr = 0 \<longleftrightarrow> (\<forall>r \<in> set t. \<not> is_pending sid pr r)"
  by (simp add: countUndispositionedActionable_def filter_empty_conv)

section \<open>The interface of the spine\<close>

locale worklist_store =
  fixes wf :: "'s \<Rightarrow> bool"
    and item_state :: "'s \<Rightarrow> item_key \<Rightarrow> disposition option"
    and register :: "item_key list \<Rightarrow> int \<Rightarrow> 's \<Rightarrow> 's"
    and pending :: "'s \<Rightarrow> string \<Rightarrow> string \<Rightarrow> int"
  assumes wf_register: "wf st \<Longrightarrow> wf (register ks now st)"
    and register_state: "item_state (register ks now st) k =
          (if item_state st k = None \<and> k \<in> set ks then Some Disposition_None else item_state st k)"
    and pending_zero: "wf st \<Longrightarrow>
          pending st sid pr = 0 \<longleftrightarrow> (\<forall>i. item_state st (sid, pr, i) \<noteq> Some Disposition_None)"
begin

text \<open>A registration never rewinds a terminal stamp, and repeating it changes nothing.\<close>

lemma register_keeps: "item_state st k = Some d \<Longrightarrow> item_state (register ks now st) k = Some d"
  by (simp add: register_state)

lemma register_idempotent:
  "item_state (register ks now' (register ks now st)) = item_state (register ks now st)"
  by (rule ext) (simp add: register_state)

text \<open>FG-5: once an item with no terminal stamp is registered, the pull request is not caught up.\<close>

lemma registered_blocks:
  assumes "wf st" and "(sid, pr, i) \<in> set ks"
    and "item_state st (sid, pr, i) = None \<or> item_state st (sid, pr, i) = Some Disposition_None"
  shows "pending (register ks now st) sid pr \<noteq> 0"
proof
  assume "pending (register ks now st) sid pr = 0"
  then have "item_state (register ks now st) (sid, pr, i) \<noteq> Some Disposition_None"
    using pending_zero[OF wf_register[OF assms(1)]] by blast
  then show False using assms(2,3) by (auto simp: register_state)
qed

lemma settled_stays_settled:
  assumes "wf st" and "pending st sid pr = 0"
    and "\<And>k. k \<in> set ks \<Longrightarrow> item_state st k \<noteq> None"
  shows "pending (register ks now st) sid pr = 0"
  using assms by (auto simp: pending_zero[OF wf_register[OF assms(1)]] pending_zero[OF assms(1)]
      register_state)

end

lemma disposition_register1:
  "disposition_of (registerDispositionIfAbsent now x t) k =
    (if k = x \<and> disposition_of t k = None then Some Disposition_None else disposition_of t k)"
  by (cases "find_item t k") (auto simp: disposition_of_def find_register)

lemma disposition_register:
  "disposition_of (registerDispositionsIfAbsent ks now t) k =
    (if disposition_of t k = None \<and> k \<in> set ks then Some Disposition_None else disposition_of t k)"
proof (induction ks arbitrary: t)
  case Nil
  then show ?case by (simp add: registerDispositionsIfAbsent_def)
next
  case (Cons x ks)
  have "disposition_of (registerDispositionsIfAbsent (x # ks) now t) k
      = disposition_of (registerDispositionsIfAbsent ks now (registerDispositionIfAbsent now x t)) k"
    by (simp add: registerDispositionsIfAbsent_def)
  also have "\<dots> = (if disposition_of t k = None \<and> k \<in> set (x # ks) then Some Disposition_None
      else disposition_of t k)"
    by (auto simp: Cons.IH disposition_register1)
  finally show ?case .
qed

lemma keys_unique_register_all:
  "keys_unique t \<Longrightarrow> keys_unique (registerDispositionsIfAbsent ks now t)"
  unfolding registerDispositionsIfAbsent_def
  by (induction ks arbitrary: t) (simp_all add: keys_unique_writes)

lemma count_zero_lookup:
  assumes "keys_unique t"
  shows "countUndispositionedActionable t sid pr = 0
    \<longleftrightarrow> (\<forall>i. disposition_of t (sid, pr, i) \<noteq> Some Disposition_None)"
  unfolding count_zero_iff
proof (intro iffI allI ballI notI)
  fix i
  assume none: "\<forall>r \<in> set t. \<not> is_pending sid pr r"
    and "disposition_of t (sid, pr, i) = Some Disposition_None"
  then obtain r where r: "find_item t (sid, pr, i) = Some r" "i_disposition r = Disposition_None"
    by (auto simp: disposition_of_def)
  with find_item_Some[OF r(1)] none show False by (auto simp: is_pending_def i_key_def)
next
  fix r
  assume all: "\<forall>i. disposition_of t (sid, pr, i) \<noteq> Some Disposition_None"
    and r: "r \<in> set t" "is_pending sid pr r"
  have "disposition_of t (i_key r) = Some (i_disposition r)"
    using find_item_unique[OF assms r(1)] by (simp add: disposition_of_def)
  then show False using all r(2) by (auto simp: is_pending_def i_key_def)
qed

interpretation items: worklist_store keys_unique disposition_of registerDispositionsIfAbsent
  countUndispositionedActionable
  by unfold_locales (simp_all add: keys_unique_register_all disposition_register count_zero_lookup)

section \<open>Reachable stores\<close>

text \<open>The tables the five writers of the module can produce.\<close>

inductive store_reach :: "item_table \<Rightarrow> bool" where
  store_empty: "store_reach []"
| store_upsert: "store_reach t \<Longrightarrow> upsertDisposition u now t = Inr t' \<Longrightarrow> store_reach t'"
| store_batch: "store_reach t \<Longrightarrow> upsertDispositionsBatch us now t = Inr t' \<Longrightarrow> store_reach t'"
| store_register: "store_reach t \<Longrightarrow> store_reach (registerDispositionsIfAbsent ks now t)"
| store_stamp: "store_reach t \<Longrightarrow> store_reach (stampInformationalDispositions kbs now t)"

definition row_ok :: "item_row \<Rightarrow> bool" where
  "row_ok r \<longleftrightarrow> (i_disposition r = Disposition_Declined \<longrightarrow> hasBasis (i_basis r))"

definition table_ok :: "item_table \<Rightarrow> bool" where
  "table_ok t \<longleftrightarrow> keys_unique t \<and> (\<forall>r \<in> set t. row_ok r)"

lemma new_row_ok: "row_ok (new_row k d b e now) \<longleftrightarrow> (d = Disposition_Declined \<longrightarrow> hasBasis b)"
  by (simp add: row_ok_def new_row_def)

lemma table_ok_register1: "table_ok t \<Longrightarrow> table_ok (registerDispositionIfAbsent now k t)"
  using keys_unique_writes(1)[of t now k]
  by (auto simp: table_ok_def registerDispositionIfAbsent_def new_row_ok)

lemma table_ok_upsert1: "table_ok t \<Longrightarrow> \<not> refused u \<Longrightarrow> table_ok (upsert_row now u t)"
  using keys_unique_writes(2)[of t now u]
  by (auto simp: table_ok_def upsert_row_def new_row_ok refused_def row_ok_def)

lemma table_ok_stamp1: "table_ok t \<Longrightarrow> table_ok (stamp_informational now kb t)"
  using keys_unique_writes(3)[of t now kb]
  by (auto simp: table_ok_def stamp_informational_def new_row_ok row_ok_def Let_def)

lemma table_ok_fold:
  "table_ok t \<Longrightarrow> (\<And>x t. x \<in> set xs \<Longrightarrow> table_ok t \<Longrightarrow> table_ok (f x t)) \<Longrightarrow> table_ok (fold f xs t)"
  by (induction xs arbitrary: t) auto

lemma concat_chunks: "0 < n \<Longrightarrow> concat (chunks n xs) = xs"
proof (induction n xs rule: chunks.induct)
  case (1 n xs)
  then show ?case by (cases "xs = []"; subst chunks.simps; simp)
qed

lemma fold_chunks: "0 < n \<Longrightarrow> fold (\<lambda>c. fold f c) (chunks n xs) t = fold f xs t"
proof -
  have "fold (\<lambda>c. fold f c) css t = fold f (concat css) t" for css
    by (induction css arbitrary: t) simp_all
  then show "0 < n \<Longrightarrow> fold (\<lambda>c. fold f c) (chunks n xs) t = fold f xs t"
    by (simp add: concat_chunks)
qed

lemma upsertDispositionsBatch_Inr:
  "upsertDispositionsBatch us now t = Inr t' \<longleftrightarrow>
     (\<forall>u \<in> set us. \<not> refused u) \<and> t' = fold (upsert_row now) us t"
  by (auto simp: upsertDispositionsBatch_def fold_chunks MAX_BATCH_STATEMENTS_def)

lemma store_reach_ok: "store_reach t \<Longrightarrow> table_ok t"
proof (induction rule: store_reach.induct)
  case store_empty
  then show ?case by (simp add: table_ok_def keys_unique_def)
next
  case (store_upsert t u now t')
  then show ?case by (auto simp: upsertDisposition_def table_ok_upsert1 split: if_splits)
next
  case (store_batch t us now t')
  then show ?case by (auto simp: upsertDispositionsBatch_Inr intro: table_ok_fold table_ok_upsert1)
next
  case (store_register t ks now)
  then show ?case
    by (auto simp: registerDispositionsIfAbsent_def intro: table_ok_fold table_ok_register1)
next
  case (store_stamp t kbs now)
  then show ?case
    by (auto simp: stampInformationalDispositions_def intro: table_ok_fold table_ok_stamp1)
qed

text \<open>
  C17.  No item is ever declined without a reason: in every store the module's writers can produce, each
  item has one row, and a row whose disposition is \<open>declined\<close> carries a non-blank basis.
\<close>

theorem declined_rows_have_basis:
  assumes "store_reach t" and "disposition_of t k = Some Disposition_Declined"
  shows "keys_unique t \<and> (\<exists>r. find_item t k = Some r \<and> hasBasis (i_basis r))"
proof -
  have ok: "table_ok t" by (rule store_reach_ok[OF assms(1)])
  obtain r where r: "find_item t k = Some r" "i_disposition r = Disposition_Declined"
    using assms(2) by (auto simp: disposition_of_def)
  with ok find_item_Some[OF r(1)] show ?thesis by (auto simp: table_ok_def row_ok_def)
qed

definition declined_upsert :: item_upsert where
  "declined_upsert = \<lparr>u_key = (''s'', ''pr'', ''r1''), u_disposition = Disposition_Declined,
                      u_basis = Some ''out of scope'', u_epochId = Some ''e1''\<rparr>"

definition declined_example :: item_table where
  "declined_example =
    upsert_row 7 declined_upsert (registerDispositionsIfAbsent [(''s'', ''pr'', ''r1'')] 5 [])"

lemma has_basis_example: "hasBasis (Some ''out of scope'')"
  by (simp add: hasBasis_def js_space_def)

lemma declined_example_reach: "store_reach declined_example"
  unfolding declined_example_def
  by (rule store_upsert[OF store_register[OF store_empty, of "[(''s'', ''pr'', ''r1'')]" 5],
        of declined_upsert 7])
     (simp add: upsertDisposition_def refused_def has_basis_example declined_upsert_def)

theorem declined_rows_have_basis_witness:
  "keys_unique declined_example
    \<and> (\<exists>r. find_item declined_example (''s'', ''pr'', ''r1'') = Some r \<and> hasBasis (i_basis r))"
proof (rule declined_rows_have_basis[OF declined_example_reach])
  show "disposition_of declined_example (''s'', ''pr'', ''r1'') = Some Disposition_Declined"
    by (simp add: declined_example_def disposition_of_def find_upsert declined_upsert_def
        split: option.split)
qed

text \<open>
  Registration is durable and never rewinds: in a reachable store, registering an item that carries
  no terminal stamp leaves the pull request with a non-zero count of undispositioned items, while an item
  that was already fixed, replied, declined or waved through keeps its stamp.
\<close>

theorem registration_blocks_caught_up:
  assumes "store_reach t" and "(sid, pr, i) \<in> set ks"
  shows "if disposition_of t (sid, pr, i) = None \<or> disposition_of t (sid, pr, i) = Some Disposition_None
    then countUndispositionedActionable (registerDispositionsIfAbsent ks now t) sid pr \<noteq> 0
    else disposition_of (registerDispositionsIfAbsent ks now t) (sid, pr, i)
           = disposition_of t (sid, pr, i)"
proof -
  have wf: "keys_unique t" using store_reach_ok[OF assms(1)] by (simp add: table_ok_def)
  show ?thesis
    using items.registered_blocks[OF wf assms(2)] items.register_keeps[of t "(sid, pr, i)"]
    by (cases "disposition_of t (sid, pr, i)") auto
qed

theorem registration_blocks_caught_up_witness:
  "countUndispositionedActionable
     (registerDispositionsIfAbsent [(''s'', ''pr'', ''r2'')] 9 declined_example) ''s'' ''pr'' \<noteq> 0"
proof -
  have "disposition_of declined_example (''s'', ''pr'', ''r2'') = None"
    by (simp add: declined_example_def disposition_of_def find_upsert declined_upsert_def
        registerDispositionsIfAbsent_def find_register)
  then show ?thesis
    using registration_blocks_caught_up[OF declined_example_reach,
        of "''s''" "''pr''" "''r2''" "[(''s'', ''pr'', ''r2'')]" 9]
    by simp
qed

end
