(* ===== verification/Pr_Store.thy ===== *)
theory Pr_Store
  imports Fsm_Actions Disposition_Store
begin

text \<open>
  The coordination table and its append-only journal (\<open>session/pr-coordination-db.ts\<close>,
  \<open>session/pr-coordination-events-db.ts\<close>, genesis of \<open>session/fsm/genesis.ts\<close>).  The table is the list of
  its rows, one per session (the primary key); an UPDATE answers the number of rows it changed, an
  INSERT that hits the primary key is an error.

  The contract every caller relies on, a versioned compare-and-swap, is the locale
  \<open>versioned_store\<close>; its client lemmas say that of any number of writers racing on one version at most
  one wins.  It is interpreted on the table.
\<close>

section \<open>The table\<close>

type_synonym pr_table = "fsm_record list"

datatype pr_error = Duplicate_Primary_Key

definition pk_unique :: "pr_table \<Rightarrow> bool" where
  "pk_unique t \<longleftrightarrow> distinct (map sessionId t)"

definition getPrCoordination :: "pr_table \<Rightarrow> string \<Rightarrow> fsm_record option" where
  "getPrCoordination t sid = find (\<lambda>r. sessionId r = sid) t"

definition insertPrCoordination :: "fsm_record \<Rightarrow> pr_table \<Rightarrow> pr_error + pr_table" where
  "insertPrCoordination rec t =
    (if getPrCoordination t (sessionId rec) = None then Inr (t @ [rec]) else Inl Duplicate_Primary_Key)"

text \<open>An UPDATE: every row the WHERE clause selects is rewritten; the answer counts them.\<close>

definition update_where ::
  "(fsm_record \<Rightarrow> bool) \<Rightarrow> (fsm_record \<Rightarrow> fsm_record) \<Rightarrow> pr_table \<Rightarrow> pr_table \<times> int" where
  "update_where p f t = (map (\<lambda>r. if p r then f r else r) t, int (length (filter p t)))"

text \<open>
  The committed row of a compare-and-swap: the present fields, the state where the update carries one,
  and \<open>version + 1\<close>.
\<close>

definition committed_row :: "fsm_state option \<Rightarrow> fsm_field_writes \<Rightarrow> fsm_record \<Rightarrow> fsm_record" where
  "committed_row s w r =
    (apply_writes w r)\<lparr>state := nullish s (state r), version := version r + 1\<rparr>"

definition casUpdatePrCoordination ::
  "string \<Rightarrow> int \<Rightarrow> fsm_state option \<Rightarrow> fsm_field_writes \<Rightarrow> pr_table \<Rightarrow> pr_table \<times> int" where
  "casUpdatePrCoordination sid expected s w t =
    update_where (\<lambda>r. sessionId r = sid \<and> version r = expected) (committed_row s w) t"

text \<open>The seed columns of a version-0 row are all rewritten; the key and the version stay.\<close>

definition rebaselinePrCoordinationVersion0 :: "fsm_record \<Rightarrow> pr_table \<Rightarrow> pr_table \<times> int" where
  "rebaselinePrCoordinationVersion0 rec t =
    update_where (\<lambda>r. sessionId r = sessionId rec \<and> version r = 0) (\<lambda>r. rec\<lparr>version := version r\<rparr>) t"

definition deletePrCoordinationVersion0 :: "string \<Rightarrow> pr_table \<Rightarrow> pr_table \<times> int" where
  "deletePrCoordinationVersion0 sid t =
    (filter (\<lambda>r. \<not> (sessionId r = sid \<and> version r = 0)) t,
     int (length (filter (\<lambda>r. sessionId r = sid \<and> version r = 0) t)))"

definition stampVerificationChildId :: "string \<Rightarrow> int \<Rightarrow> string \<Rightarrow> pr_table \<Rightarrow> pr_table \<times> int" where
  "stampVerificationChildId sid run_id child t =
    update_where
      (\<lambda>r. sessionId r = sid \<and> verificationRunId r = run_id \<and> verificationChildId r = None)
      (\<lambda>r. r\<lparr>verificationChildId := Some child\<rparr>) t"

definition markPrCoordinationUpdateBranchQueued ::
  "string \<Rightarrow> string \<Rightarrow> string \<Rightarrow> int \<Rightarrow> pr_table \<Rightarrow> pr_table \<times> int" where
  "markPrCoordinationUpdateBranchQueued sid pr head now t =
    update_where (\<lambda>r. sessionId r = sid \<and> prUrl r = Some pr \<and> headSha r = Some head)
      (\<lambda>r. r\<lparr>updateBranchQueuedAt := Some now\<rparr>) t"

section \<open>Genesis\<close>

definition buildGenesisRecord :: "string \<Rightarrow> int \<Rightarrow> fsm_record" where
  "buildGenesisRecord sid now = \<lparr>
    sessionId = sid, version = 0, state = CREATED, prUrl = None, headSha = None, verdict = None,
    verdictHeadSha = None, verificationRunHead = None, verificationRunId = 0,
    verificationChildId = None, verificationRunCount = 0, ciFixRounds = 0, inFlightEpochId = None,
    codeChangedSinceVerification = False, promptIntendsChange = None, mergeReadyReopenCount = 0,
    blockedReason = None, failureReason = None, stopMode = None, preStopState = None,
    updateBranchQueuedAt = None, deadlineAt = None, stateEnteredAt = Some now\<rparr>"

datatype genesis_outcome = Genesis_Inserted | Genesis_Exists

definition insertGenesisRecord :: "string \<Rightarrow> int \<Rightarrow> pr_table \<Rightarrow> pr_error + genesis_outcome \<times> pr_table" where
  "insertGenesisRecord sid now t =
    (case getPrCoordination t sid of
       Some _ \<Rightarrow> Inr (Genesis_Exists, t)
     | None \<Rightarrow> rbind (insertPrCoordination (buildGenesisRecord sid now) t)
                 (\<lambda>t'. Inr (Genesis_Inserted, t')))"

section \<open>Listers\<close>

definition SYNTHETIC_PR_COORDINATOR_SESSION_ID_PREFIX :: string where
  "SYNTHETIC_PR_COORDINATOR_SESSION_ID_PREFIX = ''pr-coord:''"

definition isSyntheticPrCoordinatorSessionId :: "string \<Rightarrow> bool" where
  "isSyntheticPrCoordinatorSessionId sid \<longleftrightarrow>
    take (length SYNTHETIC_PR_COORDINATOR_SESSION_ID_PREFIX) sid
      = SYNTHETIC_PR_COORDINATOR_SESSION_ID_PREFIX"

text \<open>
  \<open>session_id NOT LIKE 'pr-coord:%'\<close>: SQLite's LIKE folds the case of ASCII letters, so the SQL predicate
  is coarser than the case-sensitive prefix test above.
\<close>

definition ascii_lower :: "char \<Rightarrow> char" where
  "ascii_lower c =
    (let n = of_char c :: nat in if 65 \<le> n \<and> n \<le> 90 then char_of (n + 32) else c)"

definition like_synthetic :: "string \<Rightarrow> bool" where
  "like_synthetic sid \<longleftrightarrow>
    take (length SYNTHETIC_PR_COORDINATOR_SESSION_ID_PREFIX) (map ascii_lower sid)
      = SYNTHETIC_PR_COORDINATOR_SESSION_ID_PREFIX"

text \<open>\<open>Math.max(1, Math.min(cap, limit))\<close> on an integer limit.\<close>

definition clamp_limit :: "int \<Rightarrow> int \<Rightarrow> nat" where
  "clamp_limit cap limit = nat (max 1 (min cap limit))"

text \<open>\<open>ORDER BY COALESCE(state_entered_at, 0) ASC, session_id ASC\<close>.\<close>

definition dwell_order :: "fsm_record \<Rightarrow> int \<times> string" where
  "dwell_order r = (nullish (stateEnteredAt r) 0, sessionId r)"

definition page :: "(fsm_record \<Rightarrow> bool) \<Rightarrow> nat \<Rightarrow> pr_table \<Rightarrow> fsm_record list" where
  "page p limit t = take limit (sort_key dwell_order (filter p t))"

definition transient_candidate :: "fsm_record \<Rightarrow> bool" where
  "transient_candidate r \<longleftrightarrow> \<not> like_synthetic (sessionId r)
     \<and> (state r = VERIFYING
        \<or> inFlightEpochId r \<noteq> None \<and> (state r = REVIEW \<or> state r = VERIFYING))"

definition listPrCoordinationTransientRepairCandidates :: "int \<Rightarrow> pr_table \<Rightarrow> fsm_record list" where
  "listPrCoordinationTransientRepairCandidates limit t =
    page transient_candidate (clamp_limit 500 limit) t"

definition listReviewRowsWithUndispositionedNoInflight ::
  "int \<Rightarrow> item_table \<Rightarrow> pr_table \<Rightarrow> fsm_record list" where
  "listReviewRowsWithUndispositionedNoInflight limit items t =
    page (\<lambda>r. \<not> like_synthetic (sessionId r) \<and> state r = REVIEW \<and> inFlightEpochId r = None
              \<and> (\<exists>i \<in> set items. i_sessionId i = sessionId r \<and> Some (i_prUrl i) = prUrl r
                    \<and> i_disposition i = Disposition_None))
      (clamp_limit 500 limit) t"

definition listPrCoordinationTerminalRedeliveryCandidates ::
  "int \<Rightarrow> int \<Rightarrow> pr_table \<Rightarrow> fsm_record list" where
  "listPrCoordinationTerminalRedeliveryCandidates limit since t =
    page (\<lambda>r. (state r = NEEDS_YOU \<or> state r = FAILED \<or> state r = MERGE_READY)
              \<and> \<not> like_synthetic (sessionId r) \<and> nullish (stateEnteredAt r) 0 \<ge> since)
      (clamp_limit 500 limit) t"

definition listReviewStuckPrCoordinationCandidates ::
  "int \<Rightarrow> int \<Rightarrow> pr_table \<Rightarrow> fsm_record list" where
  "listReviewStuckPrCoordinationCandidates limit entered_before t =
    page (\<lambda>r. state r = REVIEW \<and> \<not> like_synthetic (sessionId r)
              \<and> nullish (stateEnteredAt r) 0 \<le> entered_before)
      (clamp_limit 500 limit) t"

definition listPrCoordinationByStateForRepair ::
  "fsm_state \<Rightarrow> blocked_reason option \<Rightarrow> int \<Rightarrow> pr_table \<Rightarrow> fsm_record list" where
  "listPrCoordinationByStateForRepair s reason limit t =
    page (\<lambda>r. state r = s \<and> \<not> like_synthetic (sessionId r)
              \<and> (case reason of None \<Rightarrow> True | Some b \<Rightarrow> blockedReason r = Some b))
      (clamp_limit 2000 limit) t"

text \<open>The keyset page of the merge/close reconcile: ordered by the key alone, strictly after the cursor.\<close>

definition open_pr_cohort :: "fsm_record \<Rightarrow> bool" where
  "open_pr_cohort r \<longleftrightarrow>
     state r \<in> {REVIEW, VERIFYING, MERGE_READY, NEEDS_YOU, STOPPED}
     \<and> \<not> like_synthetic (sessionId r) \<and> prUrl r \<noteq> None"

definition listPrCoordinationOpenPrReconcilePage ::
  "string option \<Rightarrow> int \<Rightarrow> pr_table \<Rightarrow> fsm_record list" where
  "listPrCoordinationOpenPrReconcilePage cursor limit t =
    take (clamp_limit 500 limit)
      (sort_key sessionId (filter (\<lambda>r. open_pr_cohort r \<and> nullish cursor [] < sessionId r) t))"

section \<open>The journal\<close>

record journal_row =
  j_sessionId :: string
  j_version :: int
  j_fromState :: fsm_state
  j_toState :: fsm_state
  j_event :: string
  j_at :: int
  j_actor :: event_actor
  j_metadata :: "event_metadata option"
  j_dwellMs :: "int option"
  j_settleDedupKey :: "string option"

definition appendPrCoordinationEvent ::
  "journal_row \<Rightarrow> journal_row list \<Rightarrow> pr_error + journal_row list" where
  "appendPrCoordinationEvent row js =
    (if (\<exists>j \<in> set js. j_sessionId j = j_sessionId row \<and> j_version j = j_version row)
     then Inl Duplicate_Primary_Key else Inr (js @ [row]))"

definition listPrCoordinationEvents :: "journal_row list \<Rightarrow> string \<Rightarrow> journal_row list" where
  "listPrCoordinationEvents js sid = sort_key j_version (filter (\<lambda>j. j_sessionId j = sid) js)"

section \<open>Table laws\<close>

lemma get_Nil [simp]: "getPrCoordination [] sid = None"
  by (simp add: getPrCoordination_def)

lemma get_Cons [simp]:
  "getPrCoordination (r # t) sid = (if sessionId r = sid then Some r else getPrCoordination t sid)"
  by (simp add: getPrCoordination_def)

lemma get_append:
  "getPrCoordination (t @ [r]) sid =
    (case getPrCoordination t sid of
       Some x \<Rightarrow> Some x | None \<Rightarrow> if sessionId r = sid then Some r else None)"
  by (induction t) simp_all

lemma get_Some: "getPrCoordination t sid = Some r \<Longrightarrow> r \<in> set t \<and> sessionId r = sid"
  by (induction t) (auto split: if_splits)

lemma get_None: "getPrCoordination t sid = None \<longleftrightarrow> sid \<notin> sessionId ` set t"
  by (induction t) auto

lemma committed_row_sel [simp]:
  "sessionId (committed_row s w r) = sessionId r"
  "version (committed_row s w r) = version r + 1"
  "state (committed_row s w r) = nullish s (state r)"
  by (simp_all add: committed_row_def)

lemma pk_unique_update:
  "pk_unique t \<Longrightarrow> (\<And>r. p r \<Longrightarrow> sessionId (f r) = sessionId r) \<Longrightarrow> pk_unique (fst (update_where p f t))"
proof -
  assume "pk_unique t" and f: "\<And>r. p r \<Longrightarrow> sessionId (f r) = sessionId r"
  moreover have "map sessionId (map (\<lambda>r. if p r then f r else r) t) = map sessionId t"
    using f by simp
  ultimately show ?thesis by (simp only: pk_unique_def update_where_def fst_conv)
qed

lemma filter_absent: "sid \<notin> sessionId ` set t \<Longrightarrow> filter (\<lambda>r. sessionId r = sid \<and> q r) t = []"
  by (induction t) auto

lemma map_absent:
  "sid \<notin> sessionId ` set t \<Longrightarrow> map (\<lambda>r. if sessionId r = sid \<and> q r then f r else r) t = t"
  by (induction t) auto

text \<open>A keyed UPDATE touches the one row of its key, and only when the rest of the WHERE clause holds.\<close>

lemma keyed_update_hit:
  assumes "pk_unique t" "getPrCoordination t sid = Some r" "q r"
    and "\<And>x. q x \<Longrightarrow> sessionId (f x) = sessionId x"
  shows "snd (update_where (\<lambda>x. sessionId x = sid \<and> q x) f t) = 1"
    and "getPrCoordination (fst (update_where (\<lambda>x. sessionId x = sid \<and> q x) f t)) sid = Some (f r)"
  using assms by (induction t) (auto simp: pk_unique_def update_where_def filter_absent split: if_splits)

lemma keyed_update_miss:
  assumes "\<And>r. getPrCoordination t sid = Some r \<Longrightarrow> \<not> q r" "pk_unique t"
  shows "update_where (\<lambda>x. sessionId x = sid \<and> q x) f t = (t, 0)"
  using assms
proof (induction t)
  case Nil
  then show ?case by (simp add: update_where_def)
next
  case (Cons a t)
  show ?case
  proof (cases "sessionId a = sid")
    case True
    then have "sid \<notin> sessionId ` set t" "\<not> q a"
      using Cons.prems by (auto simp: pk_unique_def)
    then show ?thesis using True by (simp add: update_where_def filter_absent map_absent)
  next
    case False
    then show ?thesis using Cons by (simp add: update_where_def pk_unique_def)
  qed
qed

lemma keyed_update_frame:
  assumes "\<And>x. q x \<Longrightarrow> sessionId (f x) = sessionId x" and "other \<noteq> sid"
  shows "getPrCoordination (fst (update_where (\<lambda>x. sessionId x = sid \<and> q x) f t)) other
    = getPrCoordination t other"
  using assms by (induction t) (auto simp: update_where_def)

section \<open>Versioned compare-and-swap\<close>

locale versioned_store =
  fixes wf :: "'t \<Rightarrow> bool"
    and fetch :: "'t \<Rightarrow> string \<Rightarrow> 'r option"
    and version_of :: "'r \<Rightarrow> int"
    and commit :: "'w \<Rightarrow> 'r \<Rightarrow> 'r"
    and cas :: "string \<Rightarrow> int \<Rightarrow> 'w \<Rightarrow> 't \<Rightarrow> 't \<times> int"
  assumes wf_cas: "wf t \<Longrightarrow> wf (fst (cas sid v w t))"
    and commit_bumps: "version_of (commit w r) = version_of r + 1"
    and cas_hit: "wf t \<Longrightarrow> fetch t sid = Some r \<Longrightarrow> version_of r = v \<Longrightarrow>
          snd (cas sid v w t) = 1 \<and> fetch (fst (cas sid v w t)) sid = Some (commit w r)"
    and cas_miss: "wf t \<Longrightarrow> (\<And>r. fetch t sid = Some r \<Longrightarrow> version_of r \<noteq> v) \<Longrightarrow> cas sid v w t = (t, 0)"
    and cas_frame: "other \<noteq> sid \<Longrightarrow> fetch (fst (cas sid v w t)) other = fetch t other"
begin

lemma cas_changes: "wf t \<Longrightarrow> snd (cas sid v w t) = 0 \<or> snd (cas sid v w t) = 1"
  using cas_hit[of t sid _ v w] cas_miss[of t sid v w] by (cases "fetch t sid") fastforce+

text \<open>The writers of one race: each saw version \<open>v\<close>; they run in the order of the list.\<close>

fun race :: "string \<Rightarrow> int \<Rightarrow> 'w list \<Rightarrow> 't \<Rightarrow> 't \<times> int" where
  "race sid v [] t = (t, 0)"
| "race sid v (w # ws) t =
    (let (t', n) = cas sid v w t; (t'', m) = race sid v ws t' in (t'', n + m))"

lemma race_miss:
  "wf t \<Longrightarrow> (\<And>r. fetch t sid = Some r \<Longrightarrow> version_of r \<noteq> v) \<Longrightarrow> race sid v ws t = (t, 0)"
  by (induction ws) (simp_all add: cas_miss)

lemma race_single_winner:
  assumes "wf t" and "fetch t sid = Some r" and "version_of r = v" and "ws \<noteq> []"
  shows "snd (race sid v ws t) = 1 \<and> fetch (fst (race sid v ws t)) sid = Some (commit (hd ws) r)"
proof -
  obtain w ws' where ws: "ws = w # ws'" using assms(4) by (cases ws) auto
  let ?t' = "fst (cas sid v w t)"
  have hit: "snd (cas sid v w t) = 1" "fetch ?t' sid = Some (commit w r)"
    using cas_hit[OF assms(1,2,3)] by auto
  have "race sid v ws' ?t' = (?t', 0)"
    by (rule race_miss[OF wf_cas[OF assms(1)]]) (use hit assms(3) in \<open>auto simp: commit_bumps\<close>)
  then show ?thesis using hit by (simp add: ws Let_def case_prod_beta)
qed

end

definition cas_row ::
  "string \<Rightarrow> int \<Rightarrow> fsm_state option \<times> fsm_field_writes \<Rightarrow> pr_table \<Rightarrow> pr_table \<times> int" where
  "cas_row sid v sw t = casUpdatePrCoordination sid v (fst sw) (snd sw) t"

interpretation prs: versioned_store pk_unique getPrCoordination version
  "\<lambda>sw. committed_row (fst sw) (snd sw)" cas_row
proof
  fix t :: pr_table and sid :: string and v :: int and w :: "fsm_state option \<times> fsm_field_writes"
  assume "pk_unique t"
  then show "pk_unique (fst (cas_row sid v w t))"
    by (simp add: cas_row_def casUpdatePrCoordination_def pk_unique_update)
next
  fix w :: "fsm_state option \<times> fsm_field_writes" and r :: fsm_record
  show "version (committed_row (fst w) (snd w) r) = version r + 1" by simp
next
  fix t :: pr_table and sid :: string and r and v :: int and w :: "fsm_state option \<times> fsm_field_writes"
  assume "pk_unique t" "getPrCoordination t sid = Some r" "version r = v"
  then show "snd (cas_row sid v w t) = 1
      \<and> getPrCoordination (fst (cas_row sid v w t)) sid = Some (committed_row (fst w) (snd w) r)"
    unfolding cas_row_def casUpdatePrCoordination_def by (auto intro: keyed_update_hit)
next
  fix t :: pr_table and sid :: string and v :: int and w :: "fsm_state option \<times> fsm_field_writes"
  assume "pk_unique t" "\<And>r. getPrCoordination t sid = Some r \<Longrightarrow> version r \<noteq> v"
  then show "cas_row sid v w t = (t, 0)"
    unfolding cas_row_def casUpdatePrCoordination_def by (auto intro!: keyed_update_miss)
next
  fix other sid :: string and v :: int and t :: pr_table and w :: "fsm_state option \<times> fsm_field_writes"
  assume "other \<noteq> sid"
  then show "getPrCoordination (fst (cas_row sid v w t)) other = getPrCoordination t other"
    unfolding cas_row_def casUpdatePrCoordination_def by (auto intro!: keyed_update_frame)
qed

text \<open>
  Single writer: when any number of writers that read the same version race on one row, exactly one
  UPDATE changes a row, and the row it leaves is the first writer's commit, one version higher.
\<close>

theorem cas_race_has_one_winner:
  assumes "pk_unique t" and "getPrCoordination t sid = Some r" and "ws \<noteq> []"
  shows "snd (prs.race sid (version r) ws t) = 1
    \<and> getPrCoordination (fst (prs.race sid (version r) ws t)) sid
        = Some (committed_row (fst (hd ws)) (snd (hd ws)) r)"
  using prs.race_single_winner[OF assms(1,2) refl assms(3)] by simp

theorem cas_race_has_one_winner_witness:
  "snd (prs.race ''s'' 0 [(Some PROVISIONING, no_writes), (Some FAILED, no_writes)]
          [buildGenesisRecord ''s'' 10]) = 1"
  using cas_race_has_one_winner[of "[buildGenesisRecord ''s'' 10]" "''s''" "buildGenesisRecord ''s'' 10"
      "[(Some PROVISIONING, no_writes), (Some FAILED, no_writes)]"]
  by (simp add: pk_unique_def buildGenesisRecord_def)

section \<open>The repair windows\<close>

lemma page_sound: "x \<in> set (page p n t) \<Longrightarrow> x \<in> set t \<and> p x"
  using set_take_subset[of n "sort_key dwell_order (filter p t)"] by (auto simp: page_def)

lemma page_complete:
  assumes "r \<in> set t" "p r" "r \<notin> set (page p n t)"
  shows "length (page p n t) = n \<and> (\<forall>x \<in> set (page p n t). dwell_order x \<le> dwell_order r)"
proof -
  let ?xs = "sort_key dwell_order (filter p t)"
  have "r \<in> set ?xs" using assms(1,2) by simp
  then have r: "r \<in> set (drop n ?xs)"
    using assms(3) unfolding page_def by (metis Un_iff append_take_drop_id set_append)
  then have len: "n < length ?xs" by (metis drop_all equals0D linorder_not_less set_empty)
  have "sorted (map dwell_order (take n ?xs) @ map dwell_order (drop n ?xs))"
    by (simp only: map_append [symmetric] append_take_drop_id sorted_sort_key)
  then have "\<forall>y \<in> set (map dwell_order (take n ?xs)).
      \<forall>z \<in> set (map dwell_order (drop n ?xs)). y \<le> z"
    unfolding sorted_append by blast
  then have "\<forall>x \<in> set (take n ?xs). dwell_order x \<le> dwell_order r"
    using r by simp
  then show ?thesis using len by (simp add: page_def)
qed

text \<open>
  No starvation in the transient repair window: it holds no terminal and no synthetic row, and a
  stranded VERIFYING or in-flight row can be missing from it only when the window is full of rows of the
  same kind that entered their state no later.
\<close>

theorem transient_window_starves_nobody:
  assumes "r \<in> set t" and "transient_candidate r"
  shows "r \<in> set (listPrCoordinationTransientRepairCandidates limit t)
    \<or> (length (listPrCoordinationTransientRepairCandidates limit t) = clamp_limit 500 limit
       \<and> (\<forall>x \<in> set (listPrCoordinationTransientRepairCandidates limit t).
            (state x = VERIFYING \<or> state x = REVIEW) \<and> \<not> like_synthetic (sessionId x)
            \<and> dwell_order x \<le> dwell_order r))"
proof (cases "r \<in> set (listPrCoordinationTransientRepairCandidates limit t)")
  case False
  have kinds: "(state x = VERIFYING \<or> state x = REVIEW) \<and> \<not> like_synthetic (sessionId x)"
    if "x \<in> set (listPrCoordinationTransientRepairCandidates limit t)" for x
    using page_sound[OF that[unfolded listPrCoordinationTransientRepairCandidates_def]]
    by (auto simp: transient_candidate_def)
  show ?thesis
    using page_complete[OF assms False[unfolded listPrCoordinationTransientRepairCandidates_def]] kinds
    by (simp add: listPrCoordinationTransientRepairCandidates_def)
qed simp

theorem transient_window_starves_nobody_witness:
  "(buildGenesisRecord ''a'' 4)\<lparr>state := VERIFYING\<rparr>
     \<in> set (listPrCoordinationTransientRepairCandidates 0
          [buildGenesisRecord ''b'' 1, (buildGenesisRecord ''a'' 4)\<lparr>state := VERIFYING\<rparr>])"
proof -
  let ?r = "(buildGenesisRecord ''a'' 4)\<lparr>state := VERIFYING\<rparr>"
  let ?t = "[buildGenesisRecord ''b'' 1, ?r]"
  let ?l = "listPrCoordinationTransientRepairCandidates 0 ?t"
  have c: "transient_candidate ?r"
    by (simp add: transient_candidate_def like_synthetic_def buildGenesisRecord_def
        SYNTHETIC_PR_COORDINATOR_SESSION_ID_PREFIX_def ascii_lower_def)
  have "?l = [?r]"
    using c by (simp add: listPrCoordinationTransientRepairCandidates_def page_def clamp_limit_def
        transient_candidate_def buildGenesisRecord_def)
  then show ?thesis using transient_window_starves_nobody[of ?r ?t, OF _ c] by auto
qed

section \<open>Post-commit stamps and maintenance\<close>

text \<open>
   The verifier child slot is claimed once per run: of two stamps for the same run only the first
  lands, a stamp for any other run id changes nothing, and no stamp moves the version.
\<close>

theorem child_slot_claimed_once:
  assumes "pk_unique t" and "getPrCoordination t sid = Some r" and "verificationChildId r = None"
  shows "let (t1, n1) = stampVerificationChildId sid (verificationRunId r) c1 t;
             (t2, n2) = stampVerificationChildId sid run_id c2 t1
         in n1 = 1 \<and> n2 = 0 \<and> t2 = t1
            \<and> getPrCoordination t2 sid = Some (r\<lparr>verificationChildId := Some c1\<rparr>)"
proof -
  let ?q = "\<lambda>n (x :: fsm_record). verificationRunId x = n \<and> verificationChildId x = None"
  let ?f = "\<lambda>c (x :: fsm_record). x\<lparr>verificationChildId := Some c\<rparr>"
  let ?t1 = "fst (update_where (\<lambda>x. sessionId x = sid \<and> ?q (verificationRunId r) x) (?f c1) t)"
  have hit: "snd (update_where (\<lambda>x. sessionId x = sid \<and> ?q (verificationRunId r) x) (?f c1) t) = 1"
      "getPrCoordination ?t1 sid = Some (?f c1 r)"
    using keyed_update_hit[OF assms(1,2), of "?q (verificationRunId r)" "?f c1"] assms(3) by auto
  have pk: "pk_unique ?t1" by (rule pk_unique_update[OF assms(1)]) simp
  have "update_where (\<lambda>x. sessionId x = sid \<and> ?q run_id x) (?f c2) ?t1 = (?t1, 0)"
    by (rule keyed_update_miss[OF _ pk]) (use hit(2) in auto)
  then show ?thesis using hit by (simp add: stampVerificationChildId_def Let_def case_prod_beta)
qed

theorem child_slot_claimed_once_witness:
  "let (t1, n1) = stampVerificationChildId ''s'' 0 ''a'' [buildGenesisRecord ''s'' 10];
       (t2, n2) = stampVerificationChildId ''s'' 0 ''b'' t1
   in n1 = 1 \<and> n2 = 0 \<and> t2 = t1
      \<and> getPrCoordination t2 ''s'' = Some ((buildGenesisRecord ''s'' 10)\<lparr>verificationChildId := Some ''a''\<rparr>)"
  using child_slot_claimed_once[of "[buildGenesisRecord ''s'' 10]" "''s''" "buildGenesisRecord ''s'' 10"
      "''a''" 0 "''b''"]
  by (simp add: pk_unique_def buildGenesisRecord_def)

text \<open>
   Version-0 maintenance never touches spine history: on a row that a producer has advanced, both the
  re-baseline and the seed delete change nothing; on an untouched seed the re-baseline replaces the row and
  keeps version 0, and the delete removes it.
\<close>

theorem maintenance_spares_history:
  assumes "pk_unique t" and "getPrCoordination t sid = Some r" and "sessionId rec = sid"
  shows "if version r \<noteq> 0
    then rebaselinePrCoordinationVersion0 rec t = (t, 0) \<and> deletePrCoordinationVersion0 sid t = (t, 0)
    else getPrCoordination (fst (rebaselinePrCoordinationVersion0 rec t)) sid = Some (rec\<lparr>version := 0\<rparr>)
      \<and> getPrCoordination (fst (deletePrCoordinationVersion0 sid t)) sid = None"
proof (cases "version r = 0")
  case False
  have "\<not> (sessionId x = sid \<and> version x = 0)" if "x \<in> set t" for x
  proof
    assume x: "sessionId x = sid \<and> version x = 0"
    then have "getPrCoordination t sid = Some x"
      using that assms(1) by (induction t) (auto simp: pk_unique_def)
    then show False using False assms(2) x by simp
  qed
  then have "deletePrCoordinationVersion0 sid t = (t, 0)"
    by (simp add: deletePrCoordinationVersion0_def filter_id_conv filter_empty_conv)
  moreover have "rebaselinePrCoordinationVersion0 rec t = (t, 0)"
    unfolding rebaselinePrCoordinationVersion0_def assms(3)
    by (rule keyed_update_miss[OF _ assms(1)]) (use assms(2) False in auto)
  ultimately show ?thesis using False by simp
next
  case True
  have "getPrCoordination (filter (\<lambda>x. \<not> (sessionId x = sid \<and> version x = 0)) t) sid = None"
    using assms(1,2) True by (induction t) (auto simp: pk_unique_def get_None split: if_splits)
  moreover have "getPrCoordination (fst (rebaselinePrCoordinationVersion0 rec t)) sid
      = Some (rec\<lparr>version := version r\<rparr>)"
    unfolding rebaselinePrCoordinationVersion0_def assms(3)
    using assms(1,2) True
    by (induction t) (auto simp: pk_unique_def update_where_def assms(3) split: if_splits)
  ultimately show ?thesis using True by (simp add: deletePrCoordinationVersion0_def)
qed

theorem maintenance_spares_history_witness:
  "rebaselinePrCoordinationVersion0 (buildGenesisRecord ''s'' 99)
     [(buildGenesisRecord ''s'' 10)\<lparr>version := 3\<rparr>] = ([(buildGenesisRecord ''s'' 10)\<lparr>version := 3\<rparr>], 0)"
  using maintenance_spares_history[of "[(buildGenesisRecord ''s'' 10)\<lparr>version := 3\<rparr>]" "''s''"
      "(buildGenesisRecord ''s'' 10)\<lparr>version := 3\<rparr>" "buildGenesisRecord ''s'' 99"]
  by (simp add: pk_unique_def buildGenesisRecord_def)

end
