(* ===== verification/Pr_Row_Codec.thy ===== *)
theory Pr_Row_Codec
  imports Pr_Store
begin

text \<open>
  The row image of the coordination record (\<open>session/pr-coordination-db.ts\<close>): column values, the encoding
  of a JavaScript object into them, the decoding \<open>rowToRecord\<close>, and the three statements that write
  whole rows, with the column list each spells out and the field list it is bound from.  A JavaScript
  object is the association list of its own properties in order; the record of the other theories is the
  object \<open>fields_of\<close> gives.

  The refinement says that the statements on row images implement the operations of the table theory on
  records.
\<close>

section \<open>Enum names\<close>

fun fsm_state_name :: "fsm_state \<Rightarrow> string" where
  "fsm_state_name CREATED = ''CREATED''"
| "fsm_state_name PROVISIONING = ''PROVISIONING''"
| "fsm_state_name GENERATING = ''GENERATING''"
| "fsm_state_name AWAITING_INPUT = ''AWAITING_INPUT''"
| "fsm_state_name FINALIZING = ''FINALIZING''"
| "fsm_state_name PUBLISHING = ''PUBLISHING''"
| "fsm_state_name ANSWERED_NO_PR = ''ANSWERED_NO_PR''"
| "fsm_state_name REVIEW = ''REVIEW''"
| "fsm_state_name VERIFYING = ''VERIFYING''"
| "fsm_state_name MERGE_READY = ''MERGE_READY''"
| "fsm_state_name NEEDS_YOU = ''NEEDS_YOU''"
| "fsm_state_name FAILED = ''FAILED''"
| "fsm_state_name STOPPED = ''STOPPED''"
| "fsm_state_name MERGED = ''MERGED''"
| "fsm_state_name CLOSED = ''CLOSED''"
| "fsm_state_name SUPERSEDED = ''SUPERSEDED''"
| "fsm_state_name ARCHIVED = ''ARCHIVED''"

fun verdict_name :: "verdict \<Rightarrow> string" where
  "verdict_name Verdict_Pass = ''pass''"
| "verdict_name Verdict_App_Breaks = ''app_breaks''"
| "verdict_name Verdict_Skipped = ''skipped''"
| "verdict_name Verdict_None = ''none''"

fun stop_mode_name :: "stop_mode \<Rightarrow> string" where
  "stop_mode_name Stop_User = ''user''"
| "stop_mode_name Stop_Resumable = ''resumable''"

fun blocked_reason_name :: "blocked_reason \<Rightarrow> string" where
  "blocked_reason_name Owner_Approval = ''owner_approval''"
| "blocked_reason_name Verification_Noconverge = ''verification_noconverge''"
| "blocked_reason_name Verification_Unresolved = ''verification_unresolved''"
| "blocked_reason_name Verification_Run_Limit_Reached = ''verification_run_limit''"
| "blocked_reason_name Verification_No_Verdict = ''verification_stopped''"
| "blocked_reason_name Ci_Fix_Exhausted = ''ci_fix_exhausted''"
| "blocked_reason_name Ci_Flapping = ''ci_flapping''"
| "blocked_reason_name Review_Stuck = ''review_stuck''"
| "blocked_reason_name Review_Response_Failed = ''review_response_failed''"
| "blocked_reason_name Internal_Inconsistency = ''internal_inconsistency''"

fun failure_reason_name :: "failure_reason \<Rightarrow> string" where
  "failure_reason_name Codegen_Error = ''codegen_error''"
| "failure_reason_name Publish_Failed_Reason = ''publish_failed''"
| "failure_reason_name Post_Prep_Failed = ''post_prep_failed''"
| "failure_reason_name Spawn_Timeout = ''spawn_timeout''"
| "failure_reason_name Execution_Timeout = ''execution_timeout''"
| "failure_reason_name Sandbox_Failed = ''sandbox_failed''"

definition isFsmState :: "string option \<Rightarrow> bool" where
  "isFsmState v = (case v of None \<Rightarrow> False | Some s \<Rightarrow> s \<in> set (map fsm_state_name FSM_STATES))"

section \<open>Values\<close>

datatype js_value = Js_Null | Js_Bool bool | Js_Num int | Js_Str string

datatype sql_value = Sql_Null | Sql_Int int | Sql_Text string

type_synonym js_object = "(string \<times> js_value) list"
type_synonym sql_row = "string \<Rightarrow> sql_value"

definition js_opt :: "('a \<Rightarrow> js_value) \<Rightarrow> 'a option \<Rightarrow> js_value" where
  "js_opt f v = (case v of None \<Rightarrow> Js_Null | Some x \<Rightarrow> f x)"

fun js_truthy :: "js_value \<Rightarrow> bool" where
  "js_truthy Js_Null = False"
| "js_truthy (Js_Bool b) = b"
| "js_truthy (Js_Num n) = (n \<noteq> 0)"
| "js_truthy (Js_Str s) = (s \<noteq> [])"

text \<open>What the driver binds for a value, and what it reads back.\<close>

fun bind_value :: "js_value \<Rightarrow> sql_value" where
  "bind_value Js_Null = Sql_Null"
| "bind_value (Js_Bool b) = Sql_Int (if b then 1 else 0)"
| "bind_value (Js_Num n) = Sql_Int n"
| "bind_value (Js_Str s) = Sql_Text s"

fun read_value :: "sql_value \<Rightarrow> js_value" where
  "read_value Sql_Null = Js_Null"
| "read_value (Sql_Int n) = Js_Num n"
| "read_value (Sql_Text s) = Js_Str s"

definition decodeBool :: "sql_value \<Rightarrow> js_value" where
  "decodeBool v = Js_Bool (v = Sql_Int 1)"

definition decodeNullableBool :: "sql_value \<Rightarrow> js_value" where
  "decodeNullableBool v = (if v = Sql_Null then Js_Null else Js_Bool (v = Sql_Int 1))"

section \<open>Fields and columns\<close>

text \<open>The object a typed record is.\<close>

definition fields_of :: "fsm_record \<Rightarrow> js_object" where
  "fields_of r =
    [(''sessionId'', Js_Str (sessionId r)), (''version'', Js_Num (version r)),
     (''state'', Js_Str (fsm_state_name (state r))), (''prUrl'', js_opt Js_Str (prUrl r)),
     (''headSha'', js_opt Js_Str (headSha r)),
     (''verdict'', js_opt (\<lambda>v. Js_Str (verdict_name v)) (verdict r)),
     (''verdictHeadSha'', js_opt Js_Str (verdictHeadSha r)),
     (''verificationRunHead'', js_opt Js_Str (verificationRunHead r)),
     (''verificationRunId'', Js_Num (verificationRunId r)),
     (''verificationChildId'', js_opt Js_Str (verificationChildId r)),
     (''verificationRunCount'', Js_Num (verificationRunCount r)),
     (''ciFixRounds'', Js_Num (ciFixRounds r)),
     (''inFlightEpochId'', js_opt Js_Str (inFlightEpochId r)),
     (''codeChangedSinceVerification'', Js_Bool (codeChangedSinceVerification r)),
     (''promptIntendsChange'', js_opt Js_Bool (promptIntendsChange r)),
     (''mergeReadyReopenCount'', Js_Num (mergeReadyReopenCount r)),
     (''blockedReason'', js_opt (\<lambda>v. Js_Str (blocked_reason_name v)) (blockedReason r)),
     (''failureReason'', js_opt (\<lambda>v. Js_Str (failure_reason_name v)) (failureReason r)),
     (''stopMode'', js_opt (\<lambda>v. Js_Str (stop_mode_name v)) (stopMode r)),
     (''preStopState'', js_opt (\<lambda>v. Js_Str (fsm_state_name v)) (preStopState r)),
     (''updateBranchQueuedAt'', js_opt Js_Num (updateBranchQueuedAt r)),
     (''deadlineAt'', js_opt Js_Num (deadlineAt r)),
     (''stateEnteredAt'', js_opt Js_Num (stateEnteredAt r))]"

definition COLUMN_BY_FIELD :: "(string \<times> string) list" where
  "COLUMN_BY_FIELD =
    [(''state'', ''state''), (''prUrl'', ''pr_url''), (''headSha'', ''head_sha''),
     (''verdict'', ''verdict''), (''verdictHeadSha'', ''verdict_head_sha''),
     (''verificationRunHead'', ''verification_run_head''),
     (''verificationRunId'', ''verification_run_id''),
     (''verificationChildId'', ''verification_child_id''),
     (''verificationRunCount'', ''verification_run_count''), (''ciFixRounds'', ''ci_fix_rounds''),
     (''inFlightEpochId'', ''in_flight_epoch_id''),
     (''codeChangedSinceVerification'', ''code_changed_since_verification''),
     (''promptIntendsChange'', ''prompt_intends_change''),
     (''mergeReadyReopenCount'', ''merge_ready_reopen_count''), (''blockedReason'', ''blocked_reason''),
     (''failureReason'', ''failure_reason''), (''stopMode'', ''stop_mode''),
     (''preStopState'', ''pre_stop_state''), (''updateBranchQueuedAt'', ''update_branch_queued_at''),
     (''deadlineAt'', ''deadline_at''), (''stateEnteredAt'', ''state_entered_at'')]"

definition INSERT_FIELDS :: "string list" where
  "INSERT_FIELDS =
    [''sessionId'', ''version'', ''state'', ''prUrl'', ''headSha'', ''verdict'', ''verdictHeadSha'',
     ''verificationRunHead'', ''verificationRunId'', ''verificationChildId'', ''verificationRunCount'',
     ''ciFixRounds'', ''inFlightEpochId'', ''codeChangedSinceVerification'', ''promptIntendsChange'',
     ''mergeReadyReopenCount'', ''blockedReason'', ''failureReason'', ''stopMode'', ''preStopState'',
     ''updateBranchQueuedAt'', ''deadlineAt'', ''stateEnteredAt'']"

text \<open>The column list the INSERT statement spells out.\<close>

definition INSERT_COLUMNS :: "string list" where
  "INSERT_COLUMNS =
    [''session_id'', ''version'', ''state'', ''pr_url'', ''head_sha'', ''verdict'',
     ''verdict_head_sha'', ''verification_run_head'', ''verification_run_id'',
     ''verification_child_id'', ''verification_run_count'', ''ci_fix_rounds'', ''in_flight_epoch_id'',
     ''code_changed_since_verification'', ''prompt_intends_change'', ''merge_ready_reopen_count'',
     ''blocked_reason'', ''failure_reason'', ''stop_mode'', ''pre_stop_state'',
     ''update_branch_queued_at'', ''deadline_at'', ''state_entered_at'']"

definition REBASELINE_FIELDS :: "string list" where
  "REBASELINE_FIELDS = map fst COLUMN_BY_FIELD"

text \<open>The SET list the re-baseline statement spells out.\<close>

definition REBASELINE_COLUMNS :: "string list" where
  "REBASELINE_COLUMNS =
    [''state'', ''pr_url'', ''head_sha'', ''verdict'', ''verdict_head_sha'', ''verification_run_head'',
     ''verification_run_id'', ''verification_child_id'', ''verification_run_count'', ''ci_fix_rounds'',
     ''in_flight_epoch_id'', ''code_changed_since_verification'', ''prompt_intends_change'',
     ''merge_ready_reopen_count'', ''blocked_reason'', ''failure_reason'', ''stop_mode'',
     ''pre_stop_state'', ''update_branch_queued_at'', ''deadline_at'', ''state_entered_at'']"

definition BOOL_FIELDS :: "string list" where
  "BOOL_FIELDS = [''codeChangedSinceVerification'', ''promptIntendsChange'']"

definition encodeFieldValue :: "string \<Rightarrow> js_value \<Rightarrow> sql_value" where
  "encodeFieldValue f v =
    (if v = Js_Null then Sql_Null
     else if f \<in> set BOOL_FIELDS then Sql_Int (if js_truthy v then 1 else 0)
     else bind_value v)"

text \<open>A property that is absent reads \<open>undefined\<close>, which the encoder treats as null.\<close>

definition get_prop :: "js_object \<Rightarrow> string \<Rightarrow> js_value" where
  "get_prop obj f = nullish (map_of obj f) Js_Null"

definition encodeRecordFieldValue :: "js_object \<Rightarrow> string \<Rightarrow> sql_value" where
  "encodeRecordFieldValue obj f =
    (if f = ''sessionId'' then bind_value (get_prop obj f)
     else if f = ''version'' then bind_value (get_prop obj f)
     else encodeFieldValue f (get_prop obj f))"

definition rowToRecord :: "sql_row \<Rightarrow> js_object" where
  "rowToRecord row =
    [(''sessionId'', read_value (row ''session_id'')), (''version'', read_value (row ''version'')),
     (''state'', read_value (row ''state'')), (''prUrl'', read_value (row ''pr_url'')),
     (''headSha'', read_value (row ''head_sha'')), (''verdict'', read_value (row ''verdict'')),
     (''verdictHeadSha'', read_value (row ''verdict_head_sha'')),
     (''verificationRunHead'', read_value (row ''verification_run_head'')),
     (''verificationRunId'', read_value (row ''verification_run_id'')),
     (''verificationChildId'', read_value (row ''verification_child_id'')),
     (''verificationRunCount'', read_value (row ''verification_run_count'')),
     (''ciFixRounds'', read_value (row ''ci_fix_rounds'')),
     (''inFlightEpochId'', read_value (row ''in_flight_epoch_id'')),
     (''codeChangedSinceVerification'', decodeBool (row ''code_changed_since_verification'')),
     (''promptIntendsChange'', decodeNullableBool (row ''prompt_intends_change'')),
     (''mergeReadyReopenCount'', read_value (row ''merge_ready_reopen_count'')),
     (''blockedReason'', read_value (row ''blocked_reason'')),
     (''failureReason'', read_value (row ''failure_reason'')),
     (''stopMode'', read_value (row ''stop_mode'')),
     (''preStopState'', read_value (row ''pre_stop_state'')),
     (''updateBranchQueuedAt'', read_value (row ''update_branch_queued_at'')),
     (''deadlineAt'', read_value (row ''deadline_at'')),
     (''stateEnteredAt'', read_value (row ''state_entered_at''))]"

section \<open>The statements\<close>

text \<open>\<open>INSERT INTO pr_coordination (...) VALUES (...)\<close>: the columns and the bound values pair up in order.\<close>

definition insert_row :: "js_object \<Rightarrow> sql_row" where
  "insert_row obj =
    (\<lambda>c. nullish (map_of (zip INSERT_COLUMNS (map (encodeRecordFieldValue obj) INSERT_FIELDS)) c) Sql_Null)"

text \<open>The effect of a SET list on one row, every right-hand side a bound value.\<close>

definition set_columns :: "(string \<times> sql_value) list \<Rightarrow> sql_row \<Rightarrow> sql_row" where
  "set_columns sets row = (\<lambda>c. nullish (map_of sets c) (row c))"

fun sql_plus_one :: "sql_value \<Rightarrow> sql_value" where
  "sql_plus_one (Sql_Int n) = Sql_Int (n + 1)"
| "sql_plus_one v = v"

definition present :: "string \<Rightarrow> js_value option \<Rightarrow> js_object" where
  "present f v = (case v of None \<Rightarrow> [] | Some x \<Rightarrow> [(f, x)])"

text \<open>The entries of the object a commit passes: the state when it carries one, and every present write.\<close>

definition write_items :: "fsm_state option \<Rightarrow> fsm_field_writes \<Rightarrow> (string \<times> js_value option) list" where
  "write_items s w =
    [(''state'', map_option (\<lambda>v. Js_Str (fsm_state_name v)) s),
     (''prUrl'', map_option (js_opt Js_Str) (w_prUrl w)),
     (''headSha'', map_option (js_opt Js_Str) (w_headSha w)),
     (''verdict'', map_option (js_opt (\<lambda>v. Js_Str (verdict_name v))) (w_verdict w)),
     (''verdictHeadSha'', map_option (js_opt Js_Str) (w_verdictHeadSha w)),
     (''verificationRunHead'', map_option (js_opt Js_Str) (w_verificationRunHead w)),
     (''verificationRunId'', map_option Js_Num (w_verificationRunId w)),
     (''verificationChildId'', map_option (js_opt Js_Str) (w_verificationChildId w)),
     (''verificationRunCount'', map_option Js_Num (w_verificationRunCount w)),
     (''ciFixRounds'', map_option Js_Num (w_ciFixRounds w)),
     (''inFlightEpochId'', map_option (js_opt Js_Str) (w_inFlightEpochId w)),
     (''codeChangedSinceVerification'', map_option Js_Bool (w_codeChangedSinceVerification w)),
     (''promptIntendsChange'', map_option (js_opt Js_Bool) (w_promptIntendsChange w)),
     (''mergeReadyReopenCount'', map_option Js_Num (w_mergeReadyReopenCount w)),
     (''blockedReason'', map_option (js_opt (\<lambda>v. Js_Str (blocked_reason_name v))) (w_blockedReason w)),
     (''failureReason'', map_option (js_opt (\<lambda>v. Js_Str (failure_reason_name v))) (w_failureReason w)),
     (''stopMode'', map_option (js_opt (\<lambda>v. Js_Str (stop_mode_name v))) (w_stopMode w)),
     (''preStopState'', map_option (js_opt (\<lambda>v. Js_Str (fsm_state_name v))) (w_preStopState w)),
     (''updateBranchQueuedAt'', map_option (js_opt Js_Num) (w_updateBranchQueuedAt w)),
     (''deadlineAt'', map_option (js_opt Js_Num) (w_deadlineAt w)),
     (''stateEnteredAt'', map_option (js_opt Js_Num) (w_stateEnteredAt w))]"

definition entries_of :: "fsm_state option \<Rightarrow> fsm_field_writes \<Rightarrow> js_object" where
  "entries_of s w = concat (map (\<lambda>(f, v). present f v) (write_items s w))"

definition cas_set_clause :: "js_object \<Rightarrow> (string \<times> sql_value) list" where
  "cas_set_clause sets =
    concat (map (\<lambda>(k, v). case map_of COLUMN_BY_FIELD k of
                            None \<Rightarrow> []
                          | Some col \<Rightarrow> [(col, encodeFieldValue k v)]) sets)"

definition cas_update_row :: "js_object \<Rightarrow> sql_row \<Rightarrow> sql_row" where
  "cas_update_row sets row =
    (set_columns (cas_set_clause sets) row)(''version'' := sql_plus_one (row ''version''))"

definition rebaseline_update_row :: "js_object \<Rightarrow> sql_row \<Rightarrow> sql_row" where
  "rebaseline_update_row obj row =
    set_columns (zip REBASELINE_COLUMNS (map (\<lambda>f. encodeFieldValue f (get_prop obj f)) REBASELINE_FIELDS)) row"

datatype coerce_error = Unknown_Fsm_State js_value

definition coerceFsmRecord :: "js_object \<Rightarrow> coerce_error + js_object" where
  "coerceFsmRecord rec =
    (case get_prop rec ''state'' of
       Js_Str s \<Rightarrow> if isFsmState (Some s) then Inr rec else Inl (Unknown_Fsm_State (Js_Str s))
     | v \<Rightarrow> Inl (Unknown_Fsm_State v))"

section \<open>Columns read back\<close>

lemma get_prop_fields [simp]:
  "get_prop ((f, v) # obj) f' = (if f = f' then v else get_prop obj f')"
  by (simp add: get_prop_def)

definition plain_value :: "js_value \<Rightarrow> bool" where
  "plain_value v = (case v of Js_Bool _ \<Rightarrow> False | _ \<Rightarrow> True)"

lemma read_encode: "f \<notin> set BOOL_FIELDS \<Longrightarrow> plain_value v \<Longrightarrow> read_value (encodeFieldValue f v) = v"
  by (cases v) (simp_all add: encodeFieldValue_def plain_value_def)

lemma decode_encode:
  assumes "f \<in> set BOOL_FIELDS"
  shows "decodeBool (encodeFieldValue f (Js_Bool b)) = Js_Bool b"
    and "decodeNullableBool (encodeFieldValue f (js_opt Js_Bool x)) = js_opt Js_Bool x"
  using assms by (auto simp: encodeFieldValue_def decodeBool_def decodeNullableBool_def js_opt_def
      split: option.split)

lemma plain_value_intros [simp]:
  "plain_value (Js_Str x)" "plain_value (Js_Num n)"
  "plain_value (js_opt Js_Str a)" "plain_value (js_opt Js_Num b)"
  "plain_value (js_opt (\<lambda>v. Js_Str (g v)) c)"
  by (simp_all add: plain_value_def js_opt_def split: option.split)

lemma fields_of_inject: "fields_of r = fields_of r' \<longleftrightarrow> r = r'"
proof
  have st: "fsm_state_name a = fsm_state_name b \<Longrightarrow> a = b" for a b
    by (cases a; cases b; simp)
  have vd: "verdict_name a = verdict_name b \<Longrightarrow> a = b" for a b by (cases a; cases b; simp)
  have sm: "stop_mode_name a = stop_mode_name b \<Longrightarrow> a = b" for a b by (cases a; cases b; simp)
  have br: "blocked_reason_name a = blocked_reason_name b \<Longrightarrow> a = b" for a b
    by (cases a; cases b; simp)
  have fr: "failure_reason_name a = failure_reason_name b \<Longrightarrow> a = b" for a b
    by (cases a; cases b; simp)
  have opt: "js_opt g a = js_opt g b \<Longrightarrow> (\<And>x y. g x = g y \<Longrightarrow> x = y) \<Longrightarrow> (\<And>x. g x \<noteq> Js_Null) \<Longrightarrow> a = b"
    for g :: "'a \<Rightarrow> js_value" and a b
    by (cases a; cases b; simp add: js_opt_def; metis)
  assume "fields_of r = fields_of r'"
  then show "r = r'"
    unfolding fields_of_def
    by (cases r; cases r'; simp; elim conjE; intro conjI)
       (auto dest!: opt st simp: st vd sm br fr)
qed simp

section \<open>The statements implement the operations on records\<close>

lemma BOOL_FIELDS_iff:
  "f \<in> set BOOL_FIELDS \<longleftrightarrow> f = ''codeChangedSinceVerification'' \<or> f = ''promptIntendsChange''"
  by (simp add: BOOL_FIELDS_def)

lemma fields_of_get [simp]:
  "get_prop (fields_of r) ''sessionId'' = Js_Str (sessionId r)"
  "get_prop (fields_of r) ''version'' = Js_Num (version r)"
  "get_prop (fields_of r) ''state'' = Js_Str (fsm_state_name (state r))"
  "get_prop (fields_of r) ''prUrl'' = js_opt Js_Str (prUrl r)"
  "get_prop (fields_of r) ''headSha'' = js_opt Js_Str (headSha r)"
  "get_prop (fields_of r) ''verdict'' = js_opt (\<lambda>v. Js_Str (verdict_name v)) (verdict r)"
  "get_prop (fields_of r) ''verdictHeadSha'' = js_opt Js_Str (verdictHeadSha r)"
  "get_prop (fields_of r) ''verificationRunHead'' = js_opt Js_Str (verificationRunHead r)"
  "get_prop (fields_of r) ''verificationRunId'' = Js_Num (verificationRunId r)"
  "get_prop (fields_of r) ''verificationChildId'' = js_opt Js_Str (verificationChildId r)"
  "get_prop (fields_of r) ''verificationRunCount'' = Js_Num (verificationRunCount r)"
  "get_prop (fields_of r) ''ciFixRounds'' = Js_Num (ciFixRounds r)"
  "get_prop (fields_of r) ''inFlightEpochId'' = js_opt Js_Str (inFlightEpochId r)"
  "get_prop (fields_of r) ''codeChangedSinceVerification'' = Js_Bool (codeChangedSinceVerification r)"
  "get_prop (fields_of r) ''promptIntendsChange'' = js_opt Js_Bool (promptIntendsChange r)"
  "get_prop (fields_of r) ''mergeReadyReopenCount'' = Js_Num (mergeReadyReopenCount r)"
  "get_prop (fields_of r) ''blockedReason'' = js_opt (\<lambda>v. Js_Str (blocked_reason_name v)) (blockedReason r)"
  "get_prop (fields_of r) ''failureReason'' = js_opt (\<lambda>v. Js_Str (failure_reason_name v)) (failureReason r)"
  "get_prop (fields_of r) ''stopMode'' = js_opt (\<lambda>v. Js_Str (stop_mode_name v)) (stopMode r)"
  "get_prop (fields_of r) ''preStopState'' = js_opt (\<lambda>v. Js_Str (fsm_state_name v)) (preStopState r)"
  "get_prop (fields_of r) ''updateBranchQueuedAt'' = js_opt Js_Num (updateBranchQueuedAt r)"
  "get_prop (fields_of r) ''deadlineAt'' = js_opt Js_Num (deadlineAt r)"
  "get_prop (fields_of r) ''stateEnteredAt'' = js_opt Js_Num (stateEnteredAt r)"
  by (simp_all add: fields_of_def)

lemma insert_cols [simp]:
  "insert_row obj ''session_id'' = encodeRecordFieldValue obj ''sessionId''"
  "insert_row obj ''version'' = encodeRecordFieldValue obj ''version''"
  "insert_row obj ''state'' = encodeRecordFieldValue obj ''state''"
  "insert_row obj ''pr_url'' = encodeRecordFieldValue obj ''prUrl''"
  "insert_row obj ''head_sha'' = encodeRecordFieldValue obj ''headSha''"
  "insert_row obj ''verdict'' = encodeRecordFieldValue obj ''verdict''"
  "insert_row obj ''verdict_head_sha'' = encodeRecordFieldValue obj ''verdictHeadSha''"
  "insert_row obj ''verification_run_head'' = encodeRecordFieldValue obj ''verificationRunHead''"
  "insert_row obj ''verification_run_id'' = encodeRecordFieldValue obj ''verificationRunId''"
  "insert_row obj ''verification_child_id'' = encodeRecordFieldValue obj ''verificationChildId''"
  "insert_row obj ''verification_run_count'' = encodeRecordFieldValue obj ''verificationRunCount''"
  "insert_row obj ''ci_fix_rounds'' = encodeRecordFieldValue obj ''ciFixRounds''"
  "insert_row obj ''in_flight_epoch_id'' = encodeRecordFieldValue obj ''inFlightEpochId''"
  "insert_row obj ''code_changed_since_verification'' = encodeRecordFieldValue obj ''codeChangedSinceVerification''"
  "insert_row obj ''prompt_intends_change'' = encodeRecordFieldValue obj ''promptIntendsChange''"
  "insert_row obj ''merge_ready_reopen_count'' = encodeRecordFieldValue obj ''mergeReadyReopenCount''"
  "insert_row obj ''blocked_reason'' = encodeRecordFieldValue obj ''blockedReason''"
  "insert_row obj ''failure_reason'' = encodeRecordFieldValue obj ''failureReason''"
  "insert_row obj ''stop_mode'' = encodeRecordFieldValue obj ''stopMode''"
  "insert_row obj ''pre_stop_state'' = encodeRecordFieldValue obj ''preStopState''"
  "insert_row obj ''update_branch_queued_at'' = encodeRecordFieldValue obj ''updateBranchQueuedAt''"
  "insert_row obj ''deadline_at'' = encodeRecordFieldValue obj ''deadlineAt''"
  "insert_row obj ''state_entered_at'' = encodeRecordFieldValue obj ''stateEnteredAt''"
  by (simp_all add: insert_row_def INSERT_COLUMNS_def INSERT_FIELDS_def)

lemma encode_record [simp]:
  "encodeRecordFieldValue obj ''sessionId'' = bind_value (get_prop obj ''sessionId'')"
  "encodeRecordFieldValue obj ''version'' = bind_value (get_prop obj ''version'')"
  "f \<noteq> ''sessionId'' \<Longrightarrow> f \<noteq> ''version'' \<Longrightarrow>
     encodeRecordFieldValue obj f = encodeFieldValue f (get_prop obj f)"
  by (simp_all add: encodeRecordFieldValue_def)

lemma rowToRecord_insert: "rowToRecord (insert_row (fields_of r)) = fields_of r"
  unfolding rowToRecord_def fields_of_def[of r]
  by (simp add: read_encode decode_encode BOOL_FIELDS_iff)

text \<open>The SET list read at a column: the write of the one field that owns the column.\<close>

lemma columns_unique:
  assumes "(fld, c) \<in> set COLUMN_BY_FIELD"
  shows "map_of COLUMN_BY_FIELD f = Some c \<longleftrightarrow> f = fld"
proof -
  have "distinct (map fst COLUMN_BY_FIELD)" "distinct (map snd COLUMN_BY_FIELD)"
    by (simp_all add: COLUMN_BY_FIELD_def)
  then have inj: "inj_on snd (set COLUMN_BY_FIELD)" and d: "distinct (map fst COLUMN_BY_FIELD)"
    by (simp_all only: distinct_map)
  show ?thesis
  proof
    assume "map_of COLUMN_BY_FIELD f = Some c"
    from inj_onD[OF inj _ map_of_SomeD[OF this] assms] show "f = fld" by simp
  qed (use d assms in simp)
qed

lemma set_clause_at:
  assumes "\<And>f. map_of COLUMN_BY_FIELD f = Some c \<longleftrightarrow> f = fld" and "distinct (map fst ws)"
  shows "map_of (cas_set_clause (concat (map (\<lambda>(f, v). present f v) ws))) c =
    map_option (encodeFieldValue fld) (Option.bind (map_of ws fld) id)"
  using assms(2)
proof (induction ws)
  case (Cons x ws)
  obtain f v where x: "x = (f, v)" by (cases x)
  have rest: "f = fld \<Longrightarrow> map_of ws fld = None"
    using Cons.prems x by (auto simp: map_of_eq_None_iff)
  show ?case
    using Cons.IH Cons.prems assms(1)[of f] rest x
    by (cases v) (auto simp: present_def cas_set_clause_def split: option.split)
qed (simp add: cas_set_clause_def)

lemma set_clause_off:
  assumes "c \<notin> set (map snd COLUMN_BY_FIELD)"
  shows "map_of (cas_set_clause kvs) c = None"
proof (induction kvs)
  case (Cons x kvs)
  have "map_of COLUMN_BY_FIELD f \<noteq> Some c" for f
    using assms by (auto dest!: map_of_SomeD simp: image_iff)
  with Cons show ?case by (cases x) (auto simp: cas_set_clause_def split: option.split)
qed (simp add: cas_set_clause_def)

lemma write_items_distinct: "distinct (map fst (write_items s w))"
  by (simp add: write_items_def)

lemma cas_cols:
  assumes "(fld, c) \<in> set COLUMN_BY_FIELD" and "c \<noteq> ''version''"
  shows "cas_update_row (entries_of s w) row c =
    nullish (map_option (encodeFieldValue fld) (Option.bind (map_of (write_items s w) fld) id)) (row c)"
  using set_clause_at[OF columns_unique[OF assms(1)] write_items_distinct] assms(2)
  by (simp add: cas_update_row_def set_columns_def entries_of_def)

lemma cas_at [simp]:
  "cas_update_row (entries_of s w) row ''state'' =
     nullish (map_option (\<lambda>x. encodeFieldValue ''state'' ((\<lambda>v. Js_Str (fsm_state_name v)) x)) s) (row ''state'')"
  "cas_update_row (entries_of s w) row ''pr_url'' =
     nullish (map_option (\<lambda>x. encodeFieldValue ''prUrl'' ((js_opt Js_Str) x)) (w_prUrl w)) (row ''pr_url'')"
  "cas_update_row (entries_of s w) row ''head_sha'' =
     nullish (map_option (\<lambda>x. encodeFieldValue ''headSha'' ((js_opt Js_Str) x)) (w_headSha w)) (row ''head_sha'')"
  "cas_update_row (entries_of s w) row ''verdict'' =
     nullish (map_option (\<lambda>x. encodeFieldValue ''verdict'' ((js_opt (\<lambda>v. Js_Str (verdict_name v))) x)) (w_verdict w)) (row ''verdict'')"
  "cas_update_row (entries_of s w) row ''verdict_head_sha'' =
     nullish (map_option (\<lambda>x. encodeFieldValue ''verdictHeadSha'' ((js_opt Js_Str) x)) (w_verdictHeadSha w)) (row ''verdict_head_sha'')"
  "cas_update_row (entries_of s w) row ''verification_run_head'' =
     nullish (map_option (\<lambda>x. encodeFieldValue ''verificationRunHead'' ((js_opt Js_Str) x)) (w_verificationRunHead w)) (row ''verification_run_head'')"
  "cas_update_row (entries_of s w) row ''verification_run_id'' =
     nullish (map_option (\<lambda>x. encodeFieldValue ''verificationRunId'' (Js_Num x)) (w_verificationRunId w)) (row ''verification_run_id'')"
  "cas_update_row (entries_of s w) row ''verification_child_id'' =
     nullish (map_option (\<lambda>x. encodeFieldValue ''verificationChildId'' ((js_opt Js_Str) x)) (w_verificationChildId w)) (row ''verification_child_id'')"
  "cas_update_row (entries_of s w) row ''verification_run_count'' =
     nullish (map_option (\<lambda>x. encodeFieldValue ''verificationRunCount'' (Js_Num x)) (w_verificationRunCount w)) (row ''verification_run_count'')"
  "cas_update_row (entries_of s w) row ''ci_fix_rounds'' =
     nullish (map_option (\<lambda>x. encodeFieldValue ''ciFixRounds'' (Js_Num x)) (w_ciFixRounds w)) (row ''ci_fix_rounds'')"
  "cas_update_row (entries_of s w) row ''in_flight_epoch_id'' =
     nullish (map_option (\<lambda>x. encodeFieldValue ''inFlightEpochId'' ((js_opt Js_Str) x)) (w_inFlightEpochId w)) (row ''in_flight_epoch_id'')"
  "cas_update_row (entries_of s w) row ''code_changed_since_verification'' =
     nullish (map_option (\<lambda>x. encodeFieldValue ''codeChangedSinceVerification'' (Js_Bool x)) (w_codeChangedSinceVerification w)) (row ''code_changed_since_verification'')"
  "cas_update_row (entries_of s w) row ''prompt_intends_change'' =
     nullish (map_option (\<lambda>x. encodeFieldValue ''promptIntendsChange'' ((js_opt Js_Bool) x)) (w_promptIntendsChange w)) (row ''prompt_intends_change'')"
  "cas_update_row (entries_of s w) row ''merge_ready_reopen_count'' =
     nullish (map_option (\<lambda>x. encodeFieldValue ''mergeReadyReopenCount'' (Js_Num x)) (w_mergeReadyReopenCount w)) (row ''merge_ready_reopen_count'')"
  "cas_update_row (entries_of s w) row ''blocked_reason'' =
     nullish (map_option (\<lambda>x. encodeFieldValue ''blockedReason'' ((js_opt (\<lambda>v. Js_Str (blocked_reason_name v))) x)) (w_blockedReason w)) (row ''blocked_reason'')"
  "cas_update_row (entries_of s w) row ''failure_reason'' =
     nullish (map_option (\<lambda>x. encodeFieldValue ''failureReason'' ((js_opt (\<lambda>v. Js_Str (failure_reason_name v))) x)) (w_failureReason w)) (row ''failure_reason'')"
  "cas_update_row (entries_of s w) row ''stop_mode'' =
     nullish (map_option (\<lambda>x. encodeFieldValue ''stopMode'' ((js_opt (\<lambda>v. Js_Str (stop_mode_name v))) x)) (w_stopMode w)) (row ''stop_mode'')"
  "cas_update_row (entries_of s w) row ''pre_stop_state'' =
     nullish (map_option (\<lambda>x. encodeFieldValue ''preStopState'' ((js_opt (\<lambda>v. Js_Str (fsm_state_name v))) x)) (w_preStopState w)) (row ''pre_stop_state'')"
  "cas_update_row (entries_of s w) row ''update_branch_queued_at'' =
     nullish (map_option (\<lambda>x. encodeFieldValue ''updateBranchQueuedAt'' ((js_opt Js_Num) x)) (w_updateBranchQueuedAt w)) (row ''update_branch_queued_at'')"
  "cas_update_row (entries_of s w) row ''deadline_at'' =
     nullish (map_option (\<lambda>x. encodeFieldValue ''deadlineAt'' ((js_opt Js_Num) x)) (w_deadlineAt w)) (row ''deadline_at'')"
  "cas_update_row (entries_of s w) row ''state_entered_at'' =
     nullish (map_option (\<lambda>x. encodeFieldValue ''stateEnteredAt'' ((js_opt Js_Num) x)) (w_stateEnteredAt w)) (row ''state_entered_at'')"
  by (simp_all add: cas_update_row_def set_columns_def entries_of_def o_def
      set_clause_at[OF columns_unique write_items_distinct, of "''state''" "''state''"]
      set_clause_at[OF columns_unique write_items_distinct, of "''prUrl''" "''pr_url''"]
      set_clause_at[OF columns_unique write_items_distinct, of "''headSha''" "''head_sha''"]
      set_clause_at[OF columns_unique write_items_distinct, of "''verdict''" "''verdict''"]
      set_clause_at[OF columns_unique write_items_distinct, of "''verdictHeadSha''" "''verdict_head_sha''"]
      set_clause_at[OF columns_unique write_items_distinct, of "''verificationRunHead''" "''verification_run_head''"]
      set_clause_at[OF columns_unique write_items_distinct, of "''verificationRunId''" "''verification_run_id''"]
      set_clause_at[OF columns_unique write_items_distinct, of "''verificationChildId''" "''verification_child_id''"]
      set_clause_at[OF columns_unique write_items_distinct, of "''verificationRunCount''" "''verification_run_count''"]
      set_clause_at[OF columns_unique write_items_distinct, of "''ciFixRounds''" "''ci_fix_rounds''"]
      set_clause_at[OF columns_unique write_items_distinct, of "''inFlightEpochId''" "''in_flight_epoch_id''"]
      set_clause_at[OF columns_unique write_items_distinct, of "''codeChangedSinceVerification''" "''code_changed_since_verification''"]
      set_clause_at[OF columns_unique write_items_distinct, of "''promptIntendsChange''" "''prompt_intends_change''"]
      set_clause_at[OF columns_unique write_items_distinct, of "''mergeReadyReopenCount''" "''merge_ready_reopen_count''"]
      set_clause_at[OF columns_unique write_items_distinct, of "''blockedReason''" "''blocked_reason''"]
      set_clause_at[OF columns_unique write_items_distinct, of "''failureReason''" "''failure_reason''"]
      set_clause_at[OF columns_unique write_items_distinct, of "''stopMode''" "''stop_mode''"]
      set_clause_at[OF columns_unique write_items_distinct, of "''preStopState''" "''pre_stop_state''"]
      set_clause_at[OF columns_unique write_items_distinct, of "''updateBranchQueuedAt''" "''update_branch_queued_at''"]
      set_clause_at[OF columns_unique write_items_distinct, of "''deadlineAt''" "''deadline_at''"]
      set_clause_at[OF columns_unique write_items_distinct, of "''stateEnteredAt''" "''state_entered_at''"]
      COLUMN_BY_FIELD_def option.map_comp) (simp_all add: write_items_def option.map_comp o_def)

lemma cas_at_key [simp]:
  "cas_update_row (entries_of s w) row ''session_id'' = row ''session_id''"
  "cas_update_row (entries_of s w) row ''version'' = sql_plus_one (row ''version'')"
  by (simp_all add: cas_update_row_def set_columns_def set_clause_off COLUMN_BY_FIELD_def)

text \<open>A column after the write decodes to the field after the write.\<close>

lemma read_written:
  assumes "f \<notin> set BOOL_FIELDS" and "\<And>x. plain_value (g x)" and "read_value v = g y"
  shows "read_value (nullish (map_option (\<lambda>x. encodeFieldValue f (g x)) w) v) = g (nullish w y)"
  using assms by (cases w) (simp_all add: read_encode)

lemma decode_written:
  "f \<in> set BOOL_FIELDS \<Longrightarrow> decodeBool v = Js_Bool y \<Longrightarrow>
     decodeBool (nullish (map_option (\<lambda>x. encodeFieldValue f (Js_Bool x)) w) v) = Js_Bool (nullish w y)"
  "f \<in> set BOOL_FIELDS \<Longrightarrow> decodeNullableBool v = js_opt Js_Bool z \<Longrightarrow>
     decodeNullableBool (nullish (map_option (\<lambda>x. encodeFieldValue f (js_opt Js_Bool x)) u) v)
       = js_opt Js_Bool (nullish u z)"
  by (cases w; simp add: decode_encode) (cases u; simp add: decode_encode)

lemma read_plus_one: "read_value v = Js_Num n \<Longrightarrow> read_value (sql_plus_one v) = Js_Num (n + 1)"
  by (cases v) simp_all

lemma rowToRecord_cas:
  assumes "rowToRecord row = fields_of r"
  shows "rowToRecord (cas_update_row (entries_of s w) row) = fields_of (committed_row s w r)"
  using assms unfolding rowToRecord_def fields_of_def
  by (simp add: read_written decode_written read_plus_one BOOL_FIELDS_iff committed_row_def
      apply_writes_def)

lemma rebaseline_at [simp]:
  "rebaseline_update_row obj row ''session_id'' = row ''session_id''"
  "rebaseline_update_row obj row ''version'' = row ''version''"
  "rebaseline_update_row obj row ''state'' = encodeFieldValue ''state'' (get_prop obj ''state'')"
  "rebaseline_update_row obj row ''pr_url'' = encodeFieldValue ''prUrl'' (get_prop obj ''prUrl'')"
  "rebaseline_update_row obj row ''head_sha'' = encodeFieldValue ''headSha'' (get_prop obj ''headSha'')"
  "rebaseline_update_row obj row ''verdict'' = encodeFieldValue ''verdict'' (get_prop obj ''verdict'')"
  "rebaseline_update_row obj row ''verdict_head_sha'' = encodeFieldValue ''verdictHeadSha'' (get_prop obj ''verdictHeadSha'')"
  "rebaseline_update_row obj row ''verification_run_head'' = encodeFieldValue ''verificationRunHead'' (get_prop obj ''verificationRunHead'')"
  "rebaseline_update_row obj row ''verification_run_id'' = encodeFieldValue ''verificationRunId'' (get_prop obj ''verificationRunId'')"
  "rebaseline_update_row obj row ''verification_child_id'' = encodeFieldValue ''verificationChildId'' (get_prop obj ''verificationChildId'')"
  "rebaseline_update_row obj row ''verification_run_count'' = encodeFieldValue ''verificationRunCount'' (get_prop obj ''verificationRunCount'')"
  "rebaseline_update_row obj row ''ci_fix_rounds'' = encodeFieldValue ''ciFixRounds'' (get_prop obj ''ciFixRounds'')"
  "rebaseline_update_row obj row ''in_flight_epoch_id'' = encodeFieldValue ''inFlightEpochId'' (get_prop obj ''inFlightEpochId'')"
  "rebaseline_update_row obj row ''code_changed_since_verification'' = encodeFieldValue ''codeChangedSinceVerification'' (get_prop obj ''codeChangedSinceVerification'')"
  "rebaseline_update_row obj row ''prompt_intends_change'' = encodeFieldValue ''promptIntendsChange'' (get_prop obj ''promptIntendsChange'')"
  "rebaseline_update_row obj row ''merge_ready_reopen_count'' = encodeFieldValue ''mergeReadyReopenCount'' (get_prop obj ''mergeReadyReopenCount'')"
  "rebaseline_update_row obj row ''blocked_reason'' = encodeFieldValue ''blockedReason'' (get_prop obj ''blockedReason'')"
  "rebaseline_update_row obj row ''failure_reason'' = encodeFieldValue ''failureReason'' (get_prop obj ''failureReason'')"
  "rebaseline_update_row obj row ''stop_mode'' = encodeFieldValue ''stopMode'' (get_prop obj ''stopMode'')"
  "rebaseline_update_row obj row ''pre_stop_state'' = encodeFieldValue ''preStopState'' (get_prop obj ''preStopState'')"
  "rebaseline_update_row obj row ''update_branch_queued_at'' = encodeFieldValue ''updateBranchQueuedAt'' (get_prop obj ''updateBranchQueuedAt'')"
  "rebaseline_update_row obj row ''deadline_at'' = encodeFieldValue ''deadlineAt'' (get_prop obj ''deadlineAt'')"
  "rebaseline_update_row obj row ''state_entered_at'' = encodeFieldValue ''stateEnteredAt'' (get_prop obj ''stateEnteredAt'')"
  by (simp_all add: rebaseline_update_row_def set_columns_def REBASELINE_COLUMNS_def
      REBASELINE_FIELDS_def COLUMN_BY_FIELD_def)

lemma rowToRecord_rebaseline:
  assumes "rowToRecord row = fields_of r" and "sessionId rec = sessionId r"
  shows "rowToRecord (rebaseline_update_row (fields_of rec) row) = fields_of (rec\<lparr>version := version r\<rparr>)"
  using assms unfolding rowToRecord_def
  by (simp add: read_encode decode_encode BOOL_FIELDS_iff) (simp add: fields_of_def)

lemma coerce_fields_of: "coerceFsmRecord (fields_of r) = Inr (fields_of r)"
  using FSM_STATES_complete[of "state r"] by (simp add: coerceFsmRecord_def isFsmState_def)

text \<open>
  C24.  The row image implements the record store: what an INSERT stores decodes to the inserted record,
  whatever record that is; a row that decodes to \<open>r\<close> decodes, after the compare-and-swap UPDATE built from
  any state and field writes, to exactly the committed row of the record store, nulls, booleans and the
  bumped version included, and after the re-baseline UPDATE to the rewritten record at the old version;
  decoding determines the record, and no decoded record fails the state guard.
\<close>

theorem row_image_implements_store:
  assumes "rowToRecord row = fields_of r"
  shows "rowToRecord (cas_update_row (entries_of s w) row) = fields_of (committed_row s w r)
    \<and> (sessionId rec = sessionId r \<longrightarrow>
        rowToRecord (rebaseline_update_row (fields_of rec) row) = fields_of (rec\<lparr>version := version r\<rparr>))
    \<and> rowToRecord (insert_row (fields_of rec)) = fields_of rec
    \<and> coerceFsmRecord (rowToRecord row) = Inr (fields_of r)
    \<and> (rowToRecord row = fields_of rec \<longleftrightarrow> rec = r)"
  using rowToRecord_cas[OF assms] rowToRecord_rebaseline[OF assms] rowToRecord_insert[of rec] assms
  by (simp add: coerce_fields_of fields_of_inject) blast

theorem row_image_implements_store_witness:
  "rowToRecord (cas_update_row (entries_of (Some PROVISIONING) no_writes)
      (insert_row (fields_of (buildGenesisRecord ''s'' 0))))
    = fields_of ((buildGenesisRecord ''s'' 0)\<lparr>state := PROVISIONING, version := 1\<rparr>)"
proof -
  have "committed_row (Some PROVISIONING) no_writes (buildGenesisRecord ''s'' 0)
      = (buildGenesisRecord ''s'' 0)\<lparr>state := PROVISIONING, version := 1\<rparr>"
    by (simp add: committed_row_def apply_writes_def no_writes_def buildGenesisRecord_def)
  with row_image_implements_store[OF rowToRecord_insert[of "buildGenesisRecord ''s'' 0"]]
  show ?thesis by metis
qed

end
