(* ===== verification/Fsm_Post_Actions.thy ===== *)
theory Fsm_Post_Actions
  imports Fsm_Transition
begin

text \<open>
  The universal post-actions of a handled transition (\<open>session/fsm/post-actions.ts\<close>), the caught-up
  recompute (\<open>session/fsm/caught-up.ts\<close>) and the deadline classes of the alarm producer
  (\<open>session/fsm/deadline-producer.ts\<close>).
\<close>

section \<open>Post-actions\<close>

definition CI_FIX_RESET_STATES :: "fsm_state list" where
  "CI_FIX_RESET_STATES = [REVIEW, VERIFYING, MERGE_READY, NEEDS_YOU]"

record ci_fix_reset_context =
  rc_ciGreen :: bool
  rc_noInflightEpoch :: bool

definition applyCiFixResetPostAction :: "decision \<Rightarrow> ci_fix_reset_context \<Rightarrow> decision" where
  "applyCiFixResetPostAction d ctx =
    (if d_to d \<notin> set CI_FIX_RESET_STATES \<or> \<not> rc_ciGreen ctx \<or> \<not> rc_noInflightEpoch ctx then d
     else d\<lparr>d_writes := merge_writes [d_writes d, resetCiFixRounds]\<rparr>)"

definition applyArmDeadlinePostAction :: "decision \<Rightarrow> int \<Rightarrow> int option \<Rightarrow> decision" where
  "applyArmDeadlinePostAction d now deadline_ms =
    d\<lparr>d_writes := merge_writes [d_writes d, armDeadline now deadline_ms]\<rparr>"

definition computeDwellMs :: "int \<Rightarrow> int option \<Rightarrow> int" where
  "computeDwellMs now entered = (case entered of None \<Rightarrow> 0 | Some t \<Rightarrow> max 0 (now - t))"

record post_action_context = ci_fix_reset_context +
  rc_now :: int
  rc_stateEnteredAt :: "int option"
  rc_deadlineMs :: "int option"
  rc_dwellNeutral :: bool

text \<open>The decision and the dwell time; the metadata rides through untouched and is not read.\<close>

definition universalPostActions :: "decision \<Rightarrow> post_action_context \<Rightarrow> decision \<times> int" where
  "universalPostActions d ctx =
    (let armed = (if rc_dwellNeutral ctx then d
                  else applyArmDeadlinePostAction d (rc_now ctx) (rc_deadlineMs ctx));
         reset = applyCiFixResetPostAction armed (ci_fix_reset_context.truncate ctx);
         with_project = reset\<lparr>d_effects := d_effects reset @ [Project_Card]\<rparr>
     in (with_project, computeDwellMs (rc_now ctx) (rc_stateEnteredAt ctx)))"

lemma ci_fix_reset_states [simp]:
  "s \<in> set CI_FIX_RESET_STATES \<longleftrightarrow> s = REVIEW \<or> s = VERIFYING \<or> s = MERGE_READY \<or> s = NEEDS_YOU"
  by (auto simp: CI_FIX_RESET_STATES_def)

lemma post_actions_sel [simp]:
  "d_to (fst (universalPostActions d ctx)) = d_to d"
  "d_regs (fst (universalPostActions d ctx)) = d_regs d"
  "d_effects (fst (universalPostActions d ctx)) = d_effects d @ [Project_Card]"
  "snd (universalPostActions d ctx) = computeDwellMs (rc_now ctx) (rc_stateEnteredAt ctx)"
  by (simp_all add: universalPostActions_def applyCiFixResetPostAction_def
      applyArmDeadlinePostAction_def Let_def)

section \<open>Caught-up recompute\<close>

datatype recompute_trigger =
    Epoch_Terminal | Review_Received_Trigger | Ci_Green_Flip | Verification_Verdict_Return
  | Review_Reopen | Publish_Pr_Opened_Trigger

definition classifyCaughtUpTrigger ::
  "fsm_state \<Rightarrow> fsm_event \<Rightarrow> fsm_state \<Rightarrow> recompute_trigger option" where
  "classifyCaughtUpTrigger from_state e to =
    (if from_state = VERIFYING \<and> to = REVIEW then Some Verification_Verdict_Return
     else if (from_state = MERGE_READY \<or> from_state = NEEDS_YOU) \<and> to = REVIEW then Some Review_Reopen
     else if (case e of Publish_Pr_Opened _ \<Rightarrow> True | _ \<Rightarrow> False) \<and> to = REVIEW
       then Some Publish_Pr_Opened_Trigger
     else if to \<noteq> REVIEW then None
     else (case e of
         Epoch_Committed _ \<Rightarrow> Some Epoch_Terminal
       | Epoch_Replied _ \<Rightarrow> Some Epoch_Terminal
       | Epoch_Declined _ \<Rightarrow> Some Epoch_Terminal
       | Epoch_Settled _ \<Rightarrow> Some Epoch_Terminal
       | Review_Received _ _ \<Rightarrow> Some Review_Received_Trigger
       | Ci_Signal ci \<Rightarrow> if ci = Signal_Failing then None else Some Ci_Green_Flip
       | _ \<Rightarrow> None))"

definition recomputeCaughtUp ::
  "fsm_state \<Rightarrow> string option \<Rightarrow> bool \<Rightarrow> int \<Rightarrow> fsm_event option" where
  "recomputeCaughtUp resulting head no_inflight undispositioned =
    (if resulting \<noteq> REVIEW then None
     else if \<not> caughtUp no_inflight undispositioned then None
     else (case head of None \<Rightarrow> None | Some h \<Rightarrow> Some (Caught_Up h)))"

lemma trigger_lands_in_review: "classifyCaughtUpTrigger s e t = Some x \<Longrightarrow> t = REVIEW"
  by (auto simp: classifyCaughtUpTrigger_def split: if_splits)

lemma caught_up_is_no_trigger: "s = REVIEW \<Longrightarrow> classifyCaughtUpTrigger s (Caught_Up h) t = None"
  by (simp add: classifyCaughtUpTrigger_def)

lemma recompute_Some: "recomputeCaughtUp s head n u = Some e \<longleftrightarrow>
    s = REVIEW \<and> n \<and> u = 0 \<and> (\<exists>h. head = Some h \<and> e = Caught_Up h)"
  by (auto simp: recomputeCaughtUp_def caughtUp_def split: option.splits)

section \<open>Deadline classes\<close>

definition SPAWN_CONNECT_TIMEOUT_MS :: int where "SPAWN_CONNECT_TIMEOUT_MS = 3 * 60 * 1000"
definition STALE_PROMPT_TIMEOUT_MS :: int where "STALE_PROMPT_TIMEOUT_MS = 15 * 60 * 1000"
definition POST_EXECUTION_DEADLINE_MS :: int where "POST_EXECUTION_DEADLINE_MS = 20 * 60 * 1000"
definition PUBLISHING_DEADLINE_MS :: int where "PUBLISHING_DEADLINE_MS = 20 * 60 * 1000"
definition AWAITING_INPUT_DEADLINE_MS :: int where "AWAITING_INPUT_DEADLINE_MS = 24 * 60 * 60 * 1000"
definition REVIEW_STUCK_DEADLINE_MS :: int where "REVIEW_STUCK_DEADLINE_MS = 4 * 60 * 60 * 1000"
definition VERIFYING_BACKSTOP_DEADLINE_MS :: int where "VERIFYING_BACKSTOP_DEADLINE_MS = 60 * 60 * 1000"
definition MERGE_READY_RECONCILE_DEADLINE_MS :: int where
  "MERGE_READY_RECONCILE_DEADLINE_MS = 6 * 60 * 60 * 1000"

fun deadlineClassMs :: "fsm_state \<Rightarrow> int option" where
  "deadlineClassMs CREATED = Some SPAWN_CONNECT_TIMEOUT_MS"
| "deadlineClassMs PROVISIONING = Some SPAWN_CONNECT_TIMEOUT_MS"
| "deadlineClassMs GENERATING = Some STALE_PROMPT_TIMEOUT_MS"
| "deadlineClassMs FINALIZING = Some POST_EXECUTION_DEADLINE_MS"
| "deadlineClassMs PUBLISHING = Some PUBLISHING_DEADLINE_MS"
| "deadlineClassMs AWAITING_INPUT = Some AWAITING_INPUT_DEADLINE_MS"
| "deadlineClassMs REVIEW = Some REVIEW_STUCK_DEADLINE_MS"
| "deadlineClassMs VERIFYING = Some VERIFYING_BACKSTOP_DEADLINE_MS"
| "deadlineClassMs MERGE_READY = Some MERGE_READY_RECONCILE_DEADLINE_MS"
| "deadlineClassMs ANSWERED_NO_PR = None"
| "deadlineClassMs NEEDS_YOU = None"
| "deadlineClassMs FAILED = None"
| "deadlineClassMs STOPPED = None"
| "deadlineClassMs MERGED = None"
| "deadlineClassMs CLOSED = None"
| "deadlineClassMs SUPERSEDED = None"
| "deadlineClassMs ARCHIVED = None"

definition deadlineWouldFire :: "fsm_state \<Rightarrow> int option \<Rightarrow> int \<Rightarrow> bool" where
  "deadlineWouldFire s entered now =
    (case deadlineClassMs s of
       None \<Rightarrow> False
     | Some window \<Rightarrow> (case entered of None \<Rightarrow> False | Some t \<Rightarrow> now - t \<ge> window))"

text \<open>
  The backstop is armed exactly where it can act: a state has a deadline class if and only if the
  driver handles \<open>deadline_exceeded\<close> in it, whatever the guards.
\<close>

theorem deadline_armed_iff_handled:
  "(deadlineClassMs s \<noteq> None) = (\<exists>d. transition s Deadline_Exceeded g = Inr (Some d))"
  by (cases s; simp add: transition_def coreTransition_def crossCuttingTransition_def step_defs
      handled_def unhandled_def)

text \<open>What a fired backstop must do in each state, and whether it must be loud.\<close>

datatype backstop =
    Fails failure_reason | Blocks blocked_reason | Parks | Reconciles | Ignores

fun backstop_of :: "fsm_state \<Rightarrow> backstop" where
  "backstop_of CREATED = Fails Spawn_Timeout"
| "backstop_of PROVISIONING = Fails Spawn_Timeout"
| "backstop_of GENERATING = Fails Execution_Timeout"
| "backstop_of FINALIZING = Fails Execution_Timeout"
| "backstop_of PUBLISHING = Fails Execution_Timeout"
| "backstop_of AWAITING_INPUT = Parks"
| "backstop_of REVIEW = Blocks Review_Stuck"
| "backstop_of VERIFYING = Blocks Verification_No_Verdict"
| "backstop_of MERGE_READY = Reconciles"
| "backstop_of _ = Ignores"

definition meets_backstop :: "fsm_state \<Rightarrow> guards \<Rightarrow> backstop \<Rightarrow> decision option \<Rightarrow> bool" where
  "meets_backstop s g b answer =
    (case (b, answer) of
       (Fails reason, Some d) \<Rightarrow>
         d_to d = FAILED \<and> w_failureReason (d_writes d) = Some (Some reason)
         \<and> Loud \<in> set (d_effects d)
     | (Blocks reason, Some d) \<Rightarrow>
         d_to d = NEEDS_YOU \<and> w_blockedReason (d_writes d) = Some (Some reason)
         \<and> Loud \<in> set (d_effects d) \<and> Release_Queued_Reviews \<in> set (d_effects d)
         \<and> (Kill_Verification (g_verificationChildId g) \<in> set (d_effects d)) = (s = VERIFYING)
     | (Parks, Some d) \<Rightarrow>
         d_to d = STOPPED \<and> w_stopMode (d_writes d) = Some (Some Stop_Resumable)
         \<and> w_preStopState (d_writes d) = Some (Some s) \<and> d_effects d = []
     | (Reconciles, Some d) \<Rightarrow> d = decide s no_writes [Log_Noop]
     | (Ignores, None) \<Rightarrow> True
     | _ \<Rightarrow> False)"

text \<open>
  C18.  A fired backstop is answered in every state that has one, and never leaves the session silently
  stuck.  CREATED and PROVISIONING fail on a spawn timeout, GENERATING, FINALIZING and PUBLISHING on an
  execution timeout, REVIEW blocks as stuck and VERIFYING for want of a verdict, killing its verifier: all
  of these loudly, the blocks releasing the queued reviews.  AWAITING_INPUT parks in a resumable stop and
  MERGE_READY stays as it is.  The states with a deadline class are exactly those; the others ignore it.
\<close>

theorem deadline_lands_loudly:
  "\<exists>answer. transition s Deadline_Exceeded g = Inr answer
     \<and> meets_backstop s g (backstop_of s) answer
     \<and> (deadlineClassMs s = None) = (backstop_of s = Ignores)"
  by (cases s) (simp_all add: transition_def coreTransition_def crossCuttingTransition_def step_defs
      handled_def unhandled_def write_defs meets_backstop_def effect_defs)

end
