(* ===== verification/Fsm_Resolvers.thy ===== *)
theory Fsm_Resolvers
  imports Fsm_Post_Actions Pr_Store
begin

text \<open>
  The guard resolvers: the seam through which the spine reads the world (\<open>FsmGuardResolver\<close> in
  \<open>session/fsm/apply-event.ts\<close>) and its three production instances, the shared live resolver
  (\<open>session/fsm/live-resolver.ts\<close>, with the honest CI read of \<open>session/fsm/honest-ci-read.ts\<close>), the
  transport resolver and the publish resolver.

  A resolver threads its own mutable state (the live one remembers the CI bucket its last snapshot
  read).  What the spine may assume of a guard bag is \<open>honest_bag\<close>: every guard a bag supplies is the
  truth of the record it was read from.  The locale \<open>guard_source\<close> states that law for a producer's
  bags, proves what it gives the driver, and is interpreted on all three resolvers.
\<close>

section \<open>The seam\<close>

record world_snapshot =
  ws_items :: item_table
  ws_journal :: "journal_row list"

record 'rs resolver =
  rv_guards :: "'rs \<Rightarrow> fsm_record \<Rightarrow> fsm_event \<Rightarrow> guards"
  rv_resetContext :: "'rs \<Rightarrow> fsm_record \<Rightarrow> ci_fix_reset_context"
  rv_caughtUpInputs :: "'rs \<Rightarrow> world_snapshot \<Rightarrow> fsm_record \<Rightarrow> fsm_event \<Rightarrow> 'rs \<times> bool \<times> int"
  rv_deadlineMs :: "fsm_state \<Rightarrow> int option"

section \<open>The honest CI read\<close>

text \<open>
  The poll of GitHub is a parameter: for a pull request and a head it answers a check state, or nothing
  when credentials, installation or the request fail.
\<close>

type_synonym ci_poll = "string \<Rightarrow> string \<Rightarrow> review_loop_ci_state option"

definition readHeadCiForRecord :: "ci_poll \<Rightarrow> fsm_record \<Rightarrow> review_loop_ci_state option" where
  "readHeadCiForRecord poll r =
    (if \<not> truthy (prUrl r) \<or> \<not> truthy (headSha r) then None
     else poll (nullish (prUrl r) []) (nullish (headSha r) []))"

definition isAbsentCiCorroborated :: "journal_row list \<Rightarrow> string \<Rightarrow> bool" where
  "isAbsentCiCorroborated js sid \<longleftrightarrow>
    (\<exists>j \<in> set js. j_sessionId j = sid \<and> j_event j = ''ci.signal''
        \<and> j_metadata j = Some (Meta_Ci_Signal Ci_State_Absent))"

definition readSettleableHeadCiForRecord ::
  "ci_poll \<Rightarrow> journal_row list \<Rightarrow> string \<Rightarrow> fsm_record \<Rightarrow> review_loop_ci_state option" where
  "readSettleableHeadCiForRecord poll js sid r =
    (case readHeadCiForRecord poll r of
       Some Ci_State_Absent \<Rightarrow>
         if isAbsentCiCorroborated js sid then Some Ci_State_Absent else Some Ci_State_Pending
     | ci \<Rightarrow> ci)"

section \<open>The live resolver\<close>

record live_context =
  lc_ciBucket :: "ci_bucket option"
  lc_reviewSourceId :: "string option"
  lc_legacyEpochId :: "string option"
  lc_uncoveredActionableSourceIds :: "string list option"
  lc_committedEpochDispositionedQaFinding :: "bool option"

definition no_context :: live_context where
  "no_context = \<lparr>lc_ciBucket = None, lc_reviewSourceId = None, lc_legacyEpochId = None,
    lc_uncoveredActionableSourceIds = None, lc_committedEpochDispositionedQaFinding = None\<rparr>"

record live_state =
  ls_ciBucket :: ci_bucket
  ls_autoVerifyDisabled :: bool

definition live_init :: "live_context \<Rightarrow> live_state" where
  "live_init ctx =
    \<lparr>ls_ciBucket = nullish (lc_ciBucket ctx) Ci_Pending, ls_autoVerifyDisabled = False\<rparr>"

definition syntheticEpochId :: "string \<Rightarrow> int \<Rightarrow> string" where
  "syntheticEpochId sid v = ''epoch-'' @ sid @ ''-'' @ show_int v"

definition live_guards ::
  "string \<Rightarrow> live_context \<Rightarrow> live_state \<Rightarrow> fsm_record \<Rightarrow> fsm_event \<Rightarrow> guards" where
  "live_guards sid ctx st r e = \<lparr>
    g_sandboxAlive = True,
    g_blockedReason = blockedReason r,
    g_prUrl = None,
    g_noInflightEpoch = Some (inFlightEpochId r = None),
    g_newEpochId = Some (nullish (lc_legacyEpochId ctx) (syntheticEpochId sid (version r))),
    g_underCiFixCap = Some (underCiFixCap (ciFixRounds r)),
    g_ciFixRounds = Some (ciFixRounds r),
    g_epoch1Fired = Some False,
    g_actionableExists = Some False,
    g_ciSettled = Some True,
    g_codeChangedSinceVerification = Some (codeChangedSinceVerification r),
    g_reviewSourceId = lc_reviewSourceId ctx,
    g_committedHead = None,
    g_uncoveredActionableSourceIds = Some (nullish (lc_uncoveredActionableSourceIds ctx) []),
    g_underVerificationCap = Some (underVerificationCap (verificationRunCount r)),
    g_autoVerifyDisabled = Some (ls_autoVerifyDisabled st),
    g_ciBucket = Some (ls_ciBucket st),
    g_verificationPass = Some (verificationPass (verdict r)),
    g_verificationFresh = Some (verificationFresh (verdictHeadSha r) (headSha r)),
    g_verificationRunCount = Some (verificationRunCount r),
    g_verificationRunId = Some (verificationRunId r),
    g_headSha = Some (headSha r),
    g_verificationChildId = verificationChildId r,
    g_verdictVerificationChildId = None,
    g_underMergeReadyReopenCap = Some (underMergeReadyReopenCap (mergeReadyReopenCount r)),
    g_mergeReadyReopenCount = Some (mergeReadyReopenCount r),
    g_recordedVerdict = verdict r,
    g_verdictHeadSha = verdictHeadSha r,
    g_currentHeadSha = headSha r,
    g_verificationRunHead = verificationRunHead r,
    g_committedEpochDispositionedQaFinding =
      Some (nullish (lc_committedEpochDispositionedQaFinding ctx) False),
    g_stopMode = stopMode r,
    g_preStopState = preStopState r,
    g_unpushedDiff = None\<rparr>"

definition live_resetContext :: "live_state \<Rightarrow> fsm_record \<Rightarrow> ci_fix_reset_context" where
  "live_resetContext st r =
    \<lparr>rc_ciGreen = (ls_ciBucket st = Ci_Green), rc_noInflightEpoch = (inFlightEpochId r = None)\<rparr>"

text \<open>
  The snapshot the recompute reads: the authoritative count of undispositioned items and, at the one
  moment the merge-ready conjunction holds, the session's auto-verify setting (a parameter, nothing when
  the read fails) and, when the caller brought no CI read of its own, one honest poll of the head.
\<close>

definition live_caughtUpInputs ::
  "string \<Rightarrow> live_context \<Rightarrow> ci_poll \<Rightarrow> bool option \<Rightarrow> live_state \<Rightarrow> world_snapshot \<Rightarrow> fsm_record
     \<Rightarrow> fsm_event \<Rightarrow> live_state \<times> bool \<times> int" where
  "live_caughtUpInputs sid ctx poll auto_verify_disabled st ws r e =
    (if \<not> truthy (prUrl r) then (st, inFlightEpochId r = None, 1)
     else
       (let undispositioned =
              countUndispositionedActionable (ws_items ws) sid (nullish (prUrl r) []);
            st' =
              (if state r = REVIEW \<and> inFlightEpochId r = None \<and> undispositioned = 0
               then
                 (let waived = st\<lparr>ls_autoVerifyDisabled := nullish auto_verify_disabled False\<rparr> in
                  if lc_ciBucket ctx \<noteq> None then waived
                  else (case readSettleableHeadCiForRecord poll (ws_journal ws) sid r of
                          None \<Rightarrow> waived
                        | Some ci \<Rightarrow> waived\<lparr>ls_ciBucket := classifyCi ci\<rparr>))
               else st)
        in (st', inFlightEpochId r = None, undispositioned)))"

definition liveResolver ::
  "string \<Rightarrow> live_context \<Rightarrow> ci_poll \<Rightarrow> bool option \<Rightarrow> live_state resolver" where
  "liveResolver sid ctx poll auto_verify_disabled = \<lparr>
    rv_guards = live_guards sid ctx,
    rv_resetContext = live_resetContext,
    rv_caughtUpInputs = live_caughtUpInputs sid ctx poll auto_verify_disabled,
    rv_deadlineMs = deadlineClassMs\<rparr>"

section \<open>The transport and publish resolvers\<close>

definition transport_guards :: "fsm_record \<Rightarrow> fsm_event \<Rightarrow> guards" where
  "transport_guards r e =
    (bare_guards True)\<lparr>g_stopMode := stopMode r, g_preStopState := preStopState r\<rparr>"

definition shadow_resetContext :: ci_fix_reset_context where
  "shadow_resetContext = \<lparr>rc_ciGreen = False, rc_noInflightEpoch = True\<rparr>"

definition transportResolver :: "unit resolver" where
  "transportResolver = \<lparr>
    rv_guards = (\<lambda>_. transport_guards),
    rv_resetContext = (\<lambda>_ _. shadow_resetContext),
    rv_caughtUpInputs = (\<lambda>st _ _ _. (st, True, 1)),
    rv_deadlineMs = (\<lambda>_. None)\<rparr>"

definition publish_guards :: "string option \<Rightarrow> fsm_record \<Rightarrow> fsm_event \<Rightarrow> guards" where
  "publish_guards pr_url r e =
    (let g = (bare_guards True)\<lparr>g_verificationChildId := verificationChildId r\<rparr>
     in if truthy pr_url then g\<lparr>g_prUrl := pr_url\<rparr> else g)"

definition publishShadowResolver :: "string option \<Rightarrow> unit resolver" where
  "publishShadowResolver pr_url = \<lparr>
    rv_guards = (\<lambda>_. publish_guards pr_url),
    rv_resetContext = (\<lambda>_ _. shadow_resetContext),
    rv_caughtUpInputs = (\<lambda>st _ _ _. (st, True, 1)),
    rv_deadlineMs = (\<lambda>_. None)\<rparr>"

section \<open>Which producer drives which events\<close>

text \<open>
  The transport producer emits the sandbox, prompt, post-execution and plan-input events and the archive
  (\<open>mapLifecycleEventToFsmEvents\<close> and the builders after it); the publish producer its own family; every
  other producer runs on the live resolver.  The recompute may add a caught-up event to any of them.
\<close>

fun transport_event :: "fsm_event \<Rightarrow> bool" where
  "transport_event Sandbox_Spawn_Requested = True"
| "transport_event Sandbox_Ready = True"
| "transport_event Sandbox_Spawn_Failed = True"
| "transport_event Sandbox_Liveness_Expired = True"
| "transport_event Sandbox_Death = True"
| "transport_event Prompt_Enqueued = True"
| "transport_event (Prompt_Terminal _ _ _) = True"
| "transport_event Prompt_Max_Duration_Exceeded = True"
| "transport_event Session_Archived = True"
| "transport_event (Postexec_Done _ _) = True"
| "transport_event Prompt_Awaiting_Input = True"
| "transport_event User_Input = True"
| "transport_event (Caught_Up _) = True"
| "transport_event _ = False"

fun publish_event :: "fsm_event \<Rightarrow> bool" where
  "publish_event (Publish_Pr_Opened _) = True"
| "publish_event Publish_No_Changes = True"
| "publish_event Publish_Failed = True"
| "publish_event Publish_Superseded = True"
| "publish_event (Caught_Up _) = True"
| "publish_event _ = False"

section \<open>Honest bags\<close>

definition honest_bag :: "fsm_record \<Rightarrow> fsm_event \<Rightarrow> guards \<Rightarrow> bool" where
  "honest_bag r e g \<longleftrightarrow>
     (g_noInflightEpoch g = None \<or> g_noInflightEpoch g = Some (inFlightEpochId r = None))
   \<and> (g_ciFixRounds g = None \<or> g_ciFixRounds g = Some (ciFixRounds r))
   \<and> (g_underCiFixCap g = Some True \<longrightarrow> underCiFixCap (ciFixRounds r) \<and> g_ciFixRounds g \<noteq> None)
   \<and> (g_mergeReadyReopenCount g = None \<or> g_mergeReadyReopenCount g = Some (mergeReadyReopenCount r))
   \<and> (g_underMergeReadyReopenCap g = Some True \<longrightarrow>
        underMergeReadyReopenCap (mergeReadyReopenCount r)
        \<and> g_mergeReadyReopenCount g \<noteq> None \<and> g_ciFixRounds g \<noteq> None)
   \<and> (g_verificationRunId g = None \<or> g_verificationRunId g = Some (verificationRunId r))
   \<and> (g_verificationRunCount g = None \<or> g_verificationRunCount g = Some (verificationRunCount r))
   \<and> (publish_event e \<or> transport_event e \<or>
        g_verificationRunId g = Some (verificationRunId r)
        \<and> g_verificationRunCount g = Some (verificationRunCount r))
   \<and> (g_prUrl g \<noteq> Some [])
   \<and> ((e = Prompt_Enqueued \<or> e = User_Input) \<longrightarrow>
        g_preStopState g = preStopState r \<and> g_stopMode g = stopMode r)"

lemma honest_inflight:
  "honest_bag r e g \<Longrightarrow> g_noInflightEpoch g = Some True \<Longrightarrow> inFlightEpochId r = None"
  unfolding honest_bag_def by fastforce

lemma honest_ci_fix_cap:
  assumes "honest_bag r e g" and "g_underCiFixCap g = Some True"
  shows "nullish (g_ciFixRounds g) 0 + 1 \<le> MAX_CI_FIX_ROUNDS"
proof -
  have "underCiFixCap (ciFixRounds r)" "g_ciFixRounds g \<noteq> None"
    "g_ciFixRounds g = None \<or> g_ciFixRounds g = Some (ciFixRounds r)"
    using assms unfolding honest_bag_def by blast+
  then show ?thesis by (auto simp: underCiFixCap_def)
qed

locale guard_source =
  fixes emits :: "fsm_event \<Rightarrow> bool"
    and bag :: "'rs \<Rightarrow> fsm_record \<Rightarrow> fsm_event \<Rightarrow> guards"
  assumes honest: "emits e \<Longrightarrow> honest_bag r e (bag st r e)"
begin

text \<open>What honesty gives the driver: a cascade that mints MERGE_READY read a record with no epoch in flight.\<close>

lemma inflight_read:
  "emits e \<Longrightarrow> g_noInflightEpoch (bag st r e) = Some True \<Longrightarrow> inFlightEpochId r = None"
  by (rule honest_inflight[OF honest])

text \<open>A ci-fix dispatch stays within its cap.\<close>

lemma under_cap_bound:
  "emits e \<Longrightarrow> g_underCiFixCap (bag st r e) = Some True \<Longrightarrow>
     nullish (g_ciFixRounds (bag st r e)) 0 + 1 \<le> MAX_CI_FIX_ROUNDS"
  by (rule honest_ci_fix_cap[OF honest])

end

lemma live_epoch_id: "lc_legacyEpochId ctx \<noteq> Some [] \<Longrightarrow>
    truthy (g_newEpochId (live_guards sid ctx st r e))"
  by (cases "lc_legacyEpochId ctx") (simp_all add: live_guards_def syntheticEpochId_def)

interpretation live: guard_source "\<lambda>_. True" "\<lambda>st. live_guards sid ctx st" for sid ctx
  by unfold_locales (simp add: honest_bag_def live_guards_def)

interpretation transport: guard_source transport_event "\<lambda>(_ :: unit). transport_guards"
  by unfold_locales (simp add: honest_bag_def transport_guards_def bare_guards_def)

interpretation publish: guard_source publish_event "\<lambda>(_ :: unit). publish_guards pr_url" for pr_url
proof
  fix e r and st :: unit
  assume "publish_event e"
  then show "honest_bag r e (publish_guards pr_url r e)"
    by (cases pr_url) (auto simp: honest_bag_def publish_guards_def bare_guards_def Let_def)
qed

end
