(* ===== verification/Fsm_Invariant.thy ===== *)
theory Fsm_Invariant
  imports Fsm_Resolvers
begin

text \<open>
  The life of one coordination record as a step relation, independent of how the spine schedules its
  writes: a step commits one decision the driver took on an honest guard bag, with the universal
  post-actions, or is one of the two post-commit stamps.  The record invariant is proved by rule
  induction from the rows the program inserts (genesis and the synthetic coordinator of
  \<open>session/verification-coordinator-service.ts\<close>).
\<close>

section \<open>Steps\<close>

definition committed :: "decision \<Rightarrow> fsm_record \<Rightarrow> fsm_record" where
  "committed d r = committed_row (Some (d_to d)) (d_writes d) r"

definition buildSyntheticCoordinatorRecord :: "string \<Rightarrow> string \<Rightarrow> string \<Rightarrow> int \<Rightarrow> fsm_record" where
  "buildSyntheticCoordinatorRecord sid pr head now =
    (buildGenesisRecord sid now)\<lparr>state := REVIEW, prUrl := Some pr, headSha := Some head,
      verdict := Some Verdict_None, codeChangedSinceVerification := True,
      promptIntendsChange := Some True\<rparr>"

inductive lifecycle_step :: "fsm_record \<Rightarrow> fsm_record \<Rightarrow> bool" where
  step_commit:
    "honest_bag r e g \<Longrightarrow> transition (state r) e g = Inr (Some d) \<Longrightarrow>
       lifecycle_step r (committed (fst (universalPostActions d ctx)) r)"
| step_stamp_child:
    "verificationChildId r = None \<Longrightarrow> lifecycle_step r (r\<lparr>verificationChildId := Some c\<rparr>)"
| step_mark_branch: "lifecycle_step r (r\<lparr>updateBranchQueuedAt := Some n\<rparr>)"

inductive_cases lifecycle_stepE: "lifecycle_step r r'"

definition seed_record :: "fsm_record \<Rightarrow> bool" where
  "seed_record r \<longleftrightarrow>
     (\<exists>sid now. r = buildGenesisRecord sid now)
   \<or> (\<exists>sid pr head now. pr \<noteq> [] \<and> r = buildSyntheticCoordinatorRecord sid pr head now)"

inductive lifecycle_reach :: "fsm_record \<Rightarrow> bool" where
  reach_seed: "seed_record r \<Longrightarrow> lifecycle_reach r"
| reach_step: "lifecycle_reach r \<Longrightarrow> lifecycle_step r r' \<Longrightarrow> lifecycle_reach r'"

section \<open>The invariant\<close>

definition published_state :: "fsm_state \<Rightarrow> bool" where
  "published_state s \<longleftrightarrow> s = REVIEW \<or> s = VERIFYING \<or> s = MERGE_READY \<or> s = NEEDS_YOU"

text \<open>The phase a record is in, looking through a stop at the state it left.\<close>

definition phase_state :: "fsm_record \<Rightarrow> fsm_state" where
  "phase_state r = (if state r = STOPPED then nullish (preStopState r) STOPPED else state r)"

definition inv_counters :: "fsm_record \<Rightarrow> bool" where
  "inv_counters r \<longleftrightarrow> 0 \<le> version r
     \<and> 0 \<le> ciFixRounds r \<and> ciFixRounds r \<le> MAX_CI_FIX_ROUNDS
     \<and> 0 \<le> mergeReadyReopenCount r \<and> mergeReadyReopenCount r \<le> MAX_MERGE_READY_REOPENS
     \<and> 0 \<le> verificationRunId r \<and> 0 \<le> verificationRunCount r"

definition inv_in_flight :: "fsm_record \<Rightarrow> bool" where
  "inv_in_flight r \<longleftrightarrow> inFlightEpochId r \<noteq> Some []
     \<and> (state r = MERGE_READY \<longrightarrow> inFlightEpochId r = None \<and> ciFixRounds r = 0)"

definition inv_reasons :: "fsm_record \<Rightarrow> bool" where
  "inv_reasons r \<longleftrightarrow>
     (state r = NEEDS_YOU \<longrightarrow> blockedReason r \<noteq> None)
   \<and> (blockedReason r \<noteq> None \<longrightarrow> state r = NEEDS_YOU \<or> state r \<in> set FINAL_TERMINAL_STATES)
   \<and> (state r = FAILED \<longrightarrow> failureReason r \<noteq> None)
   \<and> (failureReason r \<noteq> None \<longrightarrow> state r = FAILED \<or> state r \<in> set FINAL_TERMINAL_STATES)"

definition inv_stop :: "fsm_record \<Rightarrow> bool" where
  "inv_stop r \<longleftrightarrow>
     (state r = STOPPED \<longrightarrow> stopMode r \<noteq> None \<and> preStopState r \<noteq> None)
   \<and> (stopMode r \<noteq> None \<or> preStopState r \<noteq> None \<longrightarrow>
        state r = STOPPED \<or> state r \<in> set FINAL_TERMINAL_STATES)
   \<and> (\<forall>s. preStopState r = Some s \<longrightarrow> s \<in> set NON_TERMINAL_STATES)"

definition inv_publish :: "fsm_record \<Rightarrow> bool" where
  "inv_publish r \<longleftrightarrow>
     (published_state (phase_state r) \<or> state r = SUPERSEDED \<longrightarrow>
        truthy (prUrl r) \<and> headSha r \<noteq> None)
   \<and> (\<not> published_state (phase_state r) \<and> state r \<notin> set FINAL_TERMINAL_STATES \<longrightarrow>
        prUrl r = None \<and> headSha r = None \<and> verificationRunId r = 0 \<and> verificationRunCount r = 0
        \<and> inFlightEpochId r = None \<and> ciFixRounds r = 0)"

definition record_ok :: "fsm_record \<Rightarrow> bool" where
  "record_ok r \<longleftrightarrow> inv_counters r \<and> inv_in_flight r \<and> inv_reasons r \<and> inv_stop r \<and> inv_publish r"

lemmas inv_defs = inv_counters_def inv_in_flight_def inv_reasons_def inv_stop_def inv_publish_def

lemma seed_ok: "seed_record r \<Longrightarrow> record_ok r"
  by (auto simp: seed_record_def record_ok_def inv_defs buildGenesisRecord_def phase_state_def
      buildSyntheticCoordinatorRecord_def published_state_def MAX_CI_FIX_ROUNDS_def
      MAX_MERGE_READY_REOPENS_def)

section \<open>Post-actions and stamps keep it\<close>

lemma committed_sel [simp]:
  "sessionId (committed d r) = sessionId r"
  "version (committed d r) = version r + 1"
  "state (committed d r) = d_to d"
  "prUrl (committed d r) = nullish (w_prUrl (d_writes d)) (prUrl r)"
  "headSha (committed d r) = nullish (w_headSha (d_writes d)) (headSha r)"
  "verdict (committed d r) = nullish (w_verdict (d_writes d)) (verdict r)"
  "verdictHeadSha (committed d r) = nullish (w_verdictHeadSha (d_writes d)) (verdictHeadSha r)"
  "verificationRunHead (committed d r) =
     nullish (w_verificationRunHead (d_writes d)) (verificationRunHead r)"
  "verificationRunId (committed d r) = nullish (w_verificationRunId (d_writes d)) (verificationRunId r)"
  "verificationRunCount (committed d r) =
     nullish (w_verificationRunCount (d_writes d)) (verificationRunCount r)"
  "ciFixRounds (committed d r) = nullish (w_ciFixRounds (d_writes d)) (ciFixRounds r)"
  "inFlightEpochId (committed d r) = nullish (w_inFlightEpochId (d_writes d)) (inFlightEpochId r)"
  "codeChangedSinceVerification (committed d r) =
     nullish (w_codeChangedSinceVerification (d_writes d)) (codeChangedSinceVerification r)"
  "mergeReadyReopenCount (committed d r) =
     nullish (w_mergeReadyReopenCount (d_writes d)) (mergeReadyReopenCount r)"
  "blockedReason (committed d r) = nullish (w_blockedReason (d_writes d)) (blockedReason r)"
  "failureReason (committed d r) = nullish (w_failureReason (d_writes d)) (failureReason r)"
  "stopMode (committed d r) = nullish (w_stopMode (d_writes d)) (stopMode r)"
  "preStopState (committed d r) = nullish (w_preStopState (d_writes d)) (preStopState r)"
  "deadlineAt (committed d r) = nullish (w_deadlineAt (d_writes d)) (deadlineAt r)"
  "stateEnteredAt (committed d r) = nullish (w_stateEnteredAt (d_writes d)) (stateEnteredAt r)"
  by (simp_all add: committed_def committed_row_def)

text \<open>The fields the post-actions leave alone, and the two values they give the ci-fix counter.\<close>

lemma post_writes [simp]:
  "w_prUrl (d_writes (fst (universalPostActions d ctx))) = w_prUrl (d_writes d)"
  "w_headSha (d_writes (fst (universalPostActions d ctx))) = w_headSha (d_writes d)"
  "w_verdict (d_writes (fst (universalPostActions d ctx))) = w_verdict (d_writes d)"
  "w_verdictHeadSha (d_writes (fst (universalPostActions d ctx))) = w_verdictHeadSha (d_writes d)"
  "w_verificationRunHead (d_writes (fst (universalPostActions d ctx))) = w_verificationRunHead (d_writes d)"
  "w_verificationRunId (d_writes (fst (universalPostActions d ctx))) = w_verificationRunId (d_writes d)"
  "w_verificationChildId (d_writes (fst (universalPostActions d ctx))) = w_verificationChildId (d_writes d)"
  "w_verificationRunCount (d_writes (fst (universalPostActions d ctx))) = w_verificationRunCount (d_writes d)"
  "w_inFlightEpochId (d_writes (fst (universalPostActions d ctx))) = w_inFlightEpochId (d_writes d)"
  "w_codeChangedSinceVerification (d_writes (fst (universalPostActions d ctx))) = w_codeChangedSinceVerification (d_writes d)"
  "w_promptIntendsChange (d_writes (fst (universalPostActions d ctx))) = w_promptIntendsChange (d_writes d)"
  "w_mergeReadyReopenCount (d_writes (fst (universalPostActions d ctx))) = w_mergeReadyReopenCount (d_writes d)"
  "w_blockedReason (d_writes (fst (universalPostActions d ctx))) = w_blockedReason (d_writes d)"
  "w_failureReason (d_writes (fst (universalPostActions d ctx))) = w_failureReason (d_writes d)"
  "w_stopMode (d_writes (fst (universalPostActions d ctx))) = w_stopMode (d_writes d)"
  "w_preStopState (d_writes (fst (universalPostActions d ctx))) = w_preStopState (d_writes d)"
  "w_updateBranchQueuedAt (d_writes (fst (universalPostActions d ctx))) = w_updateBranchQueuedAt (d_writes d)"
  by (simp_all add: universalPostActions_def applyArmDeadlinePostAction_def
      applyCiFixResetPostAction_def Let_def armDeadline_def resetCiFixRounds_def)

lemma post_ci_fix_rounds:
  "w_ciFixRounds (d_writes (fst (universalPostActions d ctx))) = w_ciFixRounds (d_writes d)
   \<or> w_ciFixRounds (d_writes (fst (universalPostActions d ctx))) = Some 0"
  by (simp add: universalPostActions_def applyArmDeadlinePostAction_def
      applyCiFixResetPostAction_def Let_def armDeadline_def resetCiFixRounds_def)

lemma record_ok_transfer:
  assumes "record_ok a"
    and "version b = version a" "state b = state a" "prUrl b = prUrl a" "headSha b = headSha a"
    and "verificationRunId b = verificationRunId a" "verificationRunCount b = verificationRunCount a"
    and "inFlightEpochId b = inFlightEpochId a" "mergeReadyReopenCount b = mergeReadyReopenCount a"
    and "blockedReason b = blockedReason a" "failureReason b = failureReason a"
    and "stopMode b = stopMode a" "preStopState b = preStopState a"
    and "ciFixRounds b = ciFixRounds a \<or> ciFixRounds b = 0"
  shows "record_ok b"
  using assms unfolding record_ok_def inv_defs phase_state_def
  by (elim disjE) (simp_all add: MAX_CI_FIX_ROUNDS_def)

lemma record_ok_post:
  assumes "record_ok (committed d r)"
  shows "record_ok (committed (fst (universalPostActions d ctx)) r)"
  using post_ci_fix_rounds[of d ctx] by (intro record_ok_transfer[OF assms]) auto

lemma record_ok_stamps:
  assumes "record_ok r"
  shows "record_ok (r\<lparr>verificationChildId := c\<rparr>)" "record_ok (r\<lparr>updateBranchQueuedAt := n\<rparr>)"
  using assms by (simp_all add: record_ok_def inv_defs phase_state_def)

section \<open>Every decision keeps it\<close>

lemma honest_facts:
  assumes "honest_bag r e g"
  shows "g_prUrl g = Some u \<Longrightarrow> u \<noteq> []"
    and "e = Prompt_Enqueued \<or> e = User_Input \<Longrightarrow> g_preStopState g = preStopState r"
  using assms unfolding honest_bag_def by blast+

lemma honest_read:
  assumes "honest_bag r e g"
  shows "nullish (g_verificationRunId g) 0 = 0
       \<or> nullish (g_verificationRunId g) 0 = verificationRunId r"
    and "nullish (g_verificationRunCount g) 0 = 0
       \<or> nullish (g_verificationRunCount g) 0 = verificationRunCount r"
    and "nullish (g_ciFixRounds g) 0 = 0 \<or> nullish (g_ciFixRounds g) 0 = ciFixRounds r"
    and "nullish (g_mergeReadyReopenCount g) 0 = 0
       \<or> nullish (g_mergeReadyReopenCount g) 0 = mergeReadyReopenCount r"
  using assms unfolding honest_bag_def by (metis nullish_simps)+

lemma honest_caps:
  assumes "honest_bag r e g"
  shows "g_underCiFixCap g = Some True \<Longrightarrow> ciFixRounds r \<le> 2"
    and "g_underMergeReadyReopenCap g = Some True \<Longrightarrow> mergeReadyReopenCount r \<le> 4"
  using assms
  by (simp_all add: honest_bag_def underCiFixCap_def underMergeReadyReopenCap_def
      MAX_CI_FIX_ROUNDS_def MAX_MERGE_READY_REOPENS_def)

lemma honest_bounds:
  assumes "inv_counters r" and "honest_bag r e g"
  shows "0 \<le> nullish (g_verificationRunId g) 0" "0 \<le> nullish (g_verificationRunCount g) 0"
    and "0 \<le> nullish (g_ciFixRounds g) 0" "0 \<le> nullish (g_mergeReadyReopenCount g) 0"
    and "g_underCiFixCap g = Some True \<Longrightarrow> nullish (g_ciFixRounds g) 0 \<le> 2"
    and "g_underMergeReadyReopenCap g = Some True \<Longrightarrow> nullish (g_mergeReadyReopenCount g) 0 \<le> 4"
    and "ciFixRounds r = 0 \<Longrightarrow> nullish (g_ciFixRounds g) 0 = 0"
  using honest_read[OF assms(2)] honest_caps[OF assms(2)] assms(1)
  unfolding inv_counters_def by linarith+

lemma keep_counters:
  assumes ok: "record_ok r" and honest: "honest_bag r e g"
  shows "step_all (\<lambda>d. inv_counters (committed d r)) (transition (state r) e g)"
proof -
  have c: "inv_counters r" and m: "state r = MERGE_READY \<Longrightarrow> ciFixRounds r = 0"
    using ok by (simp_all add: record_ok_def inv_in_flight_def)
  note b = honest_bounds[OF c honest]
  have "step_all (\<lambda>d. inv_counters (committed d r)) (coreTransition (state r) e g)"
    using c b m
    by (intro step_all_coreI; simp add: step_defs write_defs inv_counters_def
        MAX_CI_FIX_ROUNDS_def MAX_MERGE_READY_REOPENS_def split: step_splits)
  moreover have "step_all (\<lambda>d. inv_counters (committed d r)) (crossCuttingTransition (state r) e g)"
    using c by (intro step_all_crossI; cases "state r";
        simp add: deadlineTransition_def group_defs write_defs inv_counters_def)
  ultimately show ?thesis by (rule step_all_transitionI)
qed

lemma keep_in_flight:
  assumes ok: "record_ok r" and honest: "honest_bag r e g"
  shows "step_all (\<lambda>d. inv_in_flight (committed d r)) (transition (state r) e g)"
proof -
  have c: "inv_in_flight r" using ok by (simp add: record_ok_def)
  note b = honest_inflight[OF honest]
  have "step_all (\<lambda>d. inv_in_flight (committed d r)) (coreTransition (state r) e g)"
    using c b
    by (intro step_all_coreI; simp add: step_defs write_defs inv_in_flight_def split: step_splits)
  moreover have "step_all (\<lambda>d. inv_in_flight (committed d r)) (crossCuttingTransition (state r) e g)"
    using c by (intro step_all_crossI; cases "state r";
        simp add: deadlineTransition_def group_defs write_defs inv_in_flight_def)
  ultimately show ?thesis by (rule step_all_transitionI)
qed

lemma keep_reasons:
  assumes ok: "record_ok r"
  shows "step_all (\<lambda>d. inv_reasons (committed d r)) (transition (state r) e g)"
proof -
  have c: "inv_reasons r" using ok by (simp add: record_ok_def)
  have "step_all (\<lambda>d. inv_reasons (committed d r)) (coreTransition (state r) e g)"
    using c
    by (intro step_all_coreI; simp add: step_defs write_defs inv_reasons_def split: step_splits)
  moreover have "step_all (\<lambda>d. inv_reasons (committed d r)) (crossCuttingTransition (state r) e g)"
    using c by (intro step_all_crossI; cases "state r";
        simp add: deadlineTransition_def group_defs write_defs inv_reasons_def)
  ultimately show ?thesis by (rule step_all_transitionI)
qed

lemma keep_stop:
  assumes ok: "record_ok r"
  shows "step_all (\<lambda>d. inv_stop (committed d r)) (transition (state r) e g)"
proof -
  have c: "inv_stop r" using ok by (simp add: record_ok_def)
  have "step_all (\<lambda>d. inv_stop (committed d r)) (coreTransition (state r) e g)"
    using c
    by (intro step_all_coreI; simp add: step_defs write_defs inv_stop_def split: step_splits)
  moreover have "step_all (\<lambda>d. inv_stop (committed d r)) (crossCuttingTransition (state r) e g)"
    using c by (intro step_all_crossI; cases "state r";
        simp add: deadlineTransition_def group_defs write_defs inv_stop_def)
  ultimately show ?thesis by (rule step_all_transitionI)
qed

lemma keep_publish_stopped:
  assumes ok: "record_ok r" and honest: "honest_bag r e g" and st: "state r = STOPPED"
  shows "step_all (\<lambda>d. inv_publish (committed d r)) (step_stopped e g)"
proof -
  obtain s0 where pre: "preStopState r = Some s0" and s0: "s0 \<in> set NON_TERMINAL_STATES"
    using ok st by (auto simp: record_ok_def inv_stop_def)
  have c: "inv_publish r" using ok by (simp add: record_ok_def)
  show ?thesis
  proof (cases "e = Prompt_Enqueued \<or> e = User_Input")
    case True
    then show ?thesis using c st pre s0 honest_facts(2)[OF honest True]
      by (cases s0; auto simp: step_stopped_def resumeTarget_def write_defs inv_publish_def
          phase_state_def published_state_def)
  next
    case False
    then show ?thesis by (cases e) (simp_all add: step_stopped_def)
  qed
qed

lemma keep_publish_core:
  assumes c: "inv_publish r" and u: "\<And>u. g_prUrl g = Some u \<Longrightarrow> u \<noteq> []" and "state r \<noteq> STOPPED"
  shows "step_all (\<lambda>d. inv_publish (committed d r)) (coreTransition (state r) e g)"
  using assms
  by (intro step_all_coreI; simp add: step_defs write_defs inv_publish_def phase_state_def
      published_state_def split: step_splits)

lemma keep_publish_cross:
  assumes "inv_publish r"
  shows "step_all (\<lambda>d. inv_publish (committed d r)) (crossCuttingTransition (state r) e g)"
  using assms by (intro step_all_crossI; cases "state r";
      simp add: deadlineTransition_def group_defs write_defs inv_publish_def phase_state_def
        published_state_def)

lemma keep_publish:
  assumes ok: "record_ok r" and honest: "honest_bag r e g"
  shows "step_all (\<lambda>d. inv_publish (committed d r)) (transition (state r) e g)"
proof -
  have c: "inv_publish r" using ok by (simp add: record_ok_def)
  have "step_all (\<lambda>d. inv_publish (committed d r)) (coreTransition (state r) e g)"
  proof (cases "state r = STOPPED")
    case True
    then show ?thesis using keep_publish_stopped[OF ok honest True] by (simp add: coreTransition_def)
  qed (rule keep_publish_core[OF c honest_facts(1)[OF honest]])
  then show ?thesis by (rule step_all_transitionI[OF _ keep_publish_cross[OF c]])
qed

lemma keep_record_ok:
  assumes "record_ok r" and "honest_bag r e g" and "transition (state r) e g = Inr (Some d)"
  shows "record_ok (committed d r)"
  using step_allD[OF keep_counters[OF assms(1,2)] assms(3)]
    step_allD[OF keep_in_flight[OF assms(1,2)] assms(3)]
    step_allD[OF keep_reasons[OF assms(1)] assms(3)]
    step_allD[OF keep_stop[OF assms(1)] assms(3)]
    step_allD[OF keep_publish[OF assms(1,2)] assms(3)]
  by (simp add: record_ok_def)

lemma step_keeps_record_ok: "lifecycle_step r r' \<Longrightarrow> record_ok r \<Longrightarrow> record_ok r'"
  by (induction rule: lifecycle_step.induct)
     (simp_all add: record_ok_post keep_record_ok record_ok_stamps)

lemma lifecycle_reach_ok: "lifecycle_reach r \<Longrightarrow> record_ok r"
  by (induction rule: lifecycle_reach.induct) (auto intro: seed_ok step_keeps_record_ok)

section \<open>The verification cap\<close>

text \<open>
  Only the request's own flag \<open>bypassRunLimitForMergeConflict\<close> may pass the cap on verification runs.  A
  session whose requests never set it, driven on bags whose cap guard is the truth of the record, stays
  within the cap; the live resolver's bags are such.
\<close>

definition capped_bag :: "fsm_record \<Rightarrow> guards \<Rightarrow> bool" where
  "capped_bag r g \<longleftrightarrow>
     (g_underVerificationCap g = Some True \<longrightarrow> underVerificationCap (verificationRunCount r))"

definition bypasses_cap :: "fsm_event \<Rightarrow> bool" where
  "bypasses_cap e = (case e of Verification_Requested _ _ bypass \<Rightarrow> bypass | _ \<Rightarrow> False)"

inductive capped_reach :: "fsm_record \<Rightarrow> bool" where
  capped_seed: "seed_record r \<Longrightarrow> capped_reach r"
| capped_commit:
    "capped_reach r \<Longrightarrow> honest_bag r e g \<Longrightarrow> capped_bag r g \<Longrightarrow> \<not> bypasses_cap e \<Longrightarrow>
       transition (state r) e g = Inr (Some d) \<Longrightarrow>
       capped_reach (committed (fst (universalPostActions d ctx)) r)"
| capped_stamp_child:
    "capped_reach r \<Longrightarrow> verificationChildId r = None \<Longrightarrow>
       capped_reach (r\<lparr>verificationChildId := Some c\<rparr>)"
| capped_mark_branch: "capped_reach r \<Longrightarrow> capped_reach (r\<lparr>updateBranchQueuedAt := Some n\<rparr>)"

lemma capped_is_reachable: "capped_reach r \<Longrightarrow> lifecycle_reach r"
  by (induction rule: capped_reach.induct) (auto intro: lifecycle_reach.intros lifecycle_step.intros)

lemma live_bag_capped: "capped_bag r (live_guards sid ctx st r e)"
  by (simp add: capped_bag_def live_guards_def)

lemma commit_keeps_cap:
  assumes ok: "record_ok r" and cap: "verificationRunCount r \<le> MAX_VERIFICATION_RUNS_PER_PR"
    and honest: "honest_bag r e g" and capped: "capped_bag r g" and e: "\<not> bypasses_cap e"
  shows "step_all (\<lambda>d. verificationRunCount (committed d r) \<le> MAX_VERIFICATION_RUNS_PER_PR)
    (transition (state r) e g)"
proof -
  let ?n = "nullish (g_verificationRunCount g) 0"
  have n: "?n = 0 \<or> ?n = verificationRunCount r" by (rule honest_read(2)[OF honest])
  have under: "g_underVerificationCap g = Some True \<Longrightarrow> ?n \<le> 2"
    using n capped by (auto simp: capped_bag_def underVerificationCap_def MAX_VERIFICATION_RUNS_PER_PR_def)
  have "step_all (\<lambda>d. verificationRunCount (committed d r) \<le> MAX_VERIFICATION_RUNS_PER_PR)
      (coreTransition (state r) e g)"
    using cap under e
    by (intro step_all_coreI; cases e; simp add: step_defs write_defs bypasses_cap_def
        verificationRequestUnderCap_def MAX_VERIFICATION_RUNS_PER_PR_def
        split: option.split ci_bucket.split prompt_outcome.split)
  moreover have "step_all (\<lambda>d. verificationRunCount (committed d r) \<le> MAX_VERIFICATION_RUNS_PER_PR)
      (crossCuttingTransition (state r) e g)"
    using cap by (intro step_all_crossI; cases "state r";
        simp add: deadlineTransition_def group_defs write_defs)
  ultimately show ?thesis by (rule step_all_transitionI)
qed

lemma capped_reach_cap: "capped_reach r \<Longrightarrow> verificationRunCount r \<le> MAX_VERIFICATION_RUNS_PER_PR"
proof (induction rule: capped_reach.induct)
  case (capped_seed r)
  then show ?case
    by (auto simp: seed_record_def buildGenesisRecord_def buildSyntheticCoordinatorRecord_def
        MAX_VERIFICATION_RUNS_PER_PR_def)
next
  case (capped_commit r e g d ctx)
  from step_allD[OF commit_keeps_cap[OF lifecycle_reach_ok[OF capped_is_reachable[OF capped_commit(1)]]
        capped_commit(6,2,3,4)] capped_commit(5)]
  show ?case by simp
qed simp_all

section \<open>The properties\<close>

text \<open>
  C2.  The record invariant: every coordination record a session can reach, from the rows the program
  inserts and by commits on honest guard bags and post-commit stamps, keeps its version, run id and run
  count non-negative and its ci-fix rounds and merge-ready reopens within their caps; has no epoch in
  flight and no ci-fix round in MERGE_READY; carries a blocked reason always in NEEDS_YOU, a failure
  reason always in FAILED and the two stop fields always in STOPPED, and none of them in any other state
  except the four final terminals, which keep what the record held; has a pull request and a head in
  REVIEW, VERIFYING, MERGE_READY and NEEDS_YOU, in SUPERSEDED, and in a stop out of them, and neither of
  them, no run, no epoch and no ci-fix round in the other states short of a final terminal.  The count of
  verification runs stays within its cap too on every path on which no request bypasses the cap.
\<close>

theorem reachable_record_ok:
  assumes "lifecycle_reach r"
  shows "record_ok r \<and> (capped_reach r \<longrightarrow> verificationRunCount r \<le> MAX_VERIFICATION_RUNS_PER_PR)"
  using lifecycle_reach_ok[OF assms] capped_reach_cap by blast

text \<open>The concrete session: the coordinator's seed, one verification request, and a user stop.\<close>

definition walk :: "fsm_event \<Rightarrow> fsm_record \<Rightarrow> fsm_record" where
  "walk e r =
    (let g = live_guards ''s'' no_context (live_init no_context) r e in
     case transition (state r) e g of
       Inr (Some d) \<Rightarrow> committed (fst (universalPostActions d
         \<lparr>rc_ciGreen = False, rc_noInflightEpoch = True, rc_now = 5, rc_stateEnteredAt = Some 0,
          rc_deadlineMs = None, rc_dwellNeutral = False\<rparr>)) r
     | _ \<Rightarrow> r)"

lemma walk_capped:
  assumes "capped_reach r" and "\<not> bypasses_cap e"
    and "transition (state r) e (live_guards ''s'' no_context (live_init no_context) r e) = Inr (Some d)"
  shows "capped_reach (walk e r)"
  using capped_commit[OF assms(1) live.honest[OF TrueI] live_bag_capped assms(2,3)]
  by (simp add: walk_def assms(3))

theorem reachable_record_ok_witness:
  "let r = walk (Verification_Requested ''h2'' False False)
             (buildSyntheticCoordinatorRecord ''s'' ''u'' ''h'' 0);
       r' = walk User_Stop r
   in state r = VERIFYING \<and> verificationRunCount r = 1 \<and> headSha r = Some ''h2''
    \<and> state r' = STOPPED \<and> preStopState r' = Some VERIFYING
    \<and> record_ok r' \<and> verificationRunCount r' \<le> MAX_VERIFICATION_RUNS_PER_PR"
proof -
  let ?r0 = "buildSyntheticCoordinatorRecord ''s'' ''u'' ''h'' 0"
  let ?e = "Verification_Requested ''h2'' False False"
  define r where "r = walk ?e ?r0"
  have "seed_record ?r0"
    unfolding seed_record_def
    by (rule disjI2, intro exI conjI, rule list.distinct(2), rule refl)
  then have "capped_reach ?r0" by (rule capped_seed)
  moreover have t0: "\<exists>d. transition (state ?r0) ?e
      (live_guards ''s'' no_context (live_init no_context) ?r0 ?e) = Inr (Some d)
      \<and> d_to d = VERIFYING \<and> w_verificationRunCount (d_writes d) = Some 1
      \<and> w_headSha (d_writes d) = Some (Some ''h2'')"
    by (simp add: buildSyntheticCoordinatorRecord_def buildGenesisRecord_def transition_def
        coreTransition_def step_defs write_defs handled_def live_guards_def bypasses_cap_def
        verificationRequestUnderCap_def underVerificationCap_def MAX_VERIFICATION_RUNS_PER_PR_def)
  ultimately have r: "capped_reach r" "state r = VERIFYING" "verificationRunCount r = 1"
      "headSha r = Some ''h2''"
    using walk_capped[of ?r0 ?e] by (auto simp: r_def bypasses_cap_def walk_def)
  have t1: "\<exists>d. transition (state r) User_Stop
      (live_guards ''s'' no_context (live_init no_context) r User_Stop) = Inr (Some d)
      \<and> d_to d = STOPPED \<and> w_preStopState (d_writes d) = Some (Some VERIFYING)"
    by (simp add: r(2) transition_def coreTransition_def crossCuttingTransition_def step_defs
        write_defs handled_def unhandled_def)
  then have r': "capped_reach (walk User_Stop r)" "state (walk User_Stop r) = STOPPED"
      "preStopState (walk User_Stop r) = Some VERIFYING"
    using walk_capped[OF r(1), of User_Stop] by (auto simp: bypasses_cap_def walk_def)
  then have "record_ok (walk User_Stop r)"
      "verificationRunCount (walk User_Stop r) \<le> MAX_VERIFICATION_RUNS_PER_PR"
    using reachable_record_ok[OF capped_is_reachable] by blast+
  then show ?thesis using r r' unfolding r_def Let_def by blast
qed

text \<open>The verification run id of a commit, against the one of the record it was decided on.\<close>

definition run_id_advances :: "fsm_record \<Rightarrow> decision \<Rightarrow> bool" where
  "run_id_advances r d \<longleftrightarrow>
     (w_verificationRunId (d_writes d) = None
        \<or> w_verificationRunId (d_writes d) = Some (verificationRunId r + 1)
          \<and> w_verificationChildId (d_writes d) = Some None)
   \<and> (Spawn_Verification_Child \<in> set (d_effects d) \<longrightarrow>
        w_verificationRunId (d_writes d) = Some (verificationRunId r + 1)
        \<and> w_verificationRunHead (d_writes d) \<noteq> None)"

lemma honest_run_id:
  assumes "honest_bag r e g"
  shows "\<not> publish_event e \<Longrightarrow> \<not> transport_event e \<Longrightarrow>
      nullish (g_verificationRunId g) 0 = verificationRunId r"
    and "verificationRunId r = 0 \<Longrightarrow> nullish (g_verificationRunId g) 0 = 0"
proof -
  assume "\<not> publish_event e" "\<not> transport_event e"
  then have "g_verificationRunId g = Some (verificationRunId r)"
    using assms unfolding honest_bag_def by blast
  then show "nullish (g_verificationRunId g) 0 = verificationRunId r" by simp
next
  assume "verificationRunId r = 0"
  then show "nullish (g_verificationRunId g) 0 = 0" using honest_read(1)[OF assms] by simp
qed

lemma transition_run_id:
  assumes ok: "record_ok r" and honest: "honest_bag r e g"
  shows "step_all (run_id_advances r) (transition (state r) e g)"
proof -
  have z: "state r = CREATED \<or> state r = PUBLISHING \<Longrightarrow> verificationRunId r = 0"
    using ok by (auto simp: record_ok_def inv_publish_def published_state_def phase_state_def)
  note h = honest_run_id[OF honest]
  have "step_all (run_id_advances r) (coreTransition (state r) e g)"
    using z h unfolding run_id_advances_def
    by (intro step_all_coreI; cases e; simp add: step_defs write_defs effect_defs close_out_defs
        split: option.split ci_bucket.split prompt_outcome.split)
  moreover have "step_all (run_id_advances r) (crossCuttingTransition (state r) e g)"
    unfolding run_id_advances_def
    by (intro step_all_crossI; cases "state r";
        simp add: deadlineTransition_def group_defs write_defs effect_defs close_out_defs)
  ultimately show ?thesis by (rule step_all_transitionI)
qed

text \<open>
  C10.  A verification run id is never used twice: on an honest guard bag a commit keeps the record's run
  id or advances it by exactly one, and then it clears the child slot of the previous run; a decision
  that spawns a verifier child always advances it and names the head the run is about.
\<close>

theorem run_id_never_reused:
  assumes "lifecycle_reach r" and "honest_bag r e g"
    and "transition (state r) e g = Inr (Some d)"
  shows "(w_verificationRunId (d_writes d) = None
      \<or> w_verificationRunId (d_writes d) = Some (verificationRunId r + 1)
        \<and> w_verificationChildId (d_writes d) = Some None)
    \<and> (Spawn_Verification_Child \<in> set (d_effects d) \<longrightarrow>
        verificationRunId (committed d r) = verificationRunId r + 1
        \<and> w_verificationRunHead (d_writes d) \<noteq> None)"
  using step_allD[OF transition_run_id[OF lifecycle_reach_ok[OF assms(1)] assms(2)] assms(3)]
  by (auto simp: run_id_advances_def)

theorem run_id_never_reused_witness:
  "\<exists>d. transition CREATED (Publish_Pr_Opened ''h'') (publish_guards (Some ''u'')
          (buildGenesisRecord ''s'' 0) (Publish_Pr_Opened ''h'')) = Inr (Some d)
     \<and> Spawn_Verification_Child \<in> set (d_effects d)
     \<and> verificationRunId (committed d (buildGenesisRecord ''s'' 0)) = 1"
proof -
  let ?r = "buildGenesisRecord ''s'' 0"
  let ?e = "Publish_Pr_Opened ''h''"
  let ?g = "publish_guards (Some ''u'') ?r ?e"
  obtain d where t: "transition (state ?r) ?e ?g = Inr (Some d)"
    and s: "Spawn_Verification_Child \<in> set (d_effects d)"
    by (simp add: buildGenesisRecord_def transition_def coreTransition_def step_defs handled_def
        publish_guards_def bare_guards_def)
  have "lifecycle_reach ?r" by (rule reach_seed) (auto simp: seed_record_def)
  moreover have "honest_bag ?r ?e ?g" by (rule publish.honest) simp
  ultimately have "verificationRunId (committed d ?r) = verificationRunId ?r + 1"
    using run_id_never_reused[OF _ _ t] s by blast
  moreover have "state ?r = CREATED" "verificationRunId ?r = 0"
    by (simp_all add: buildGenesisRecord_def)
  ultimately show ?thesis using t s by auto
qed

section \<open>A stale verdict that looks fresh\<close>

text \<open>One commit on the live resolver's guard bag.\<close>

definition live_commit :: "string \<Rightarrow> fsm_event \<Rightarrow> fsm_record \<Rightarrow> fsm_record option" where
  "live_commit sid e r =
    (case transition (state r) e (live_guards sid no_context (live_init no_context) r e) of
       Inr (Some d) \<Rightarrow> Some (committed d r)
     | _ \<Rightarrow> None)"

lemmas live_commit_walk = live_commit_def transition_def coreTransition_def handled_def
  live_guards_def freshRun_def write_defs

lemma live_head_changed:
  assumes "state r = REVIEW"
  shows "\<exists>r1. live_commit sid (Head_Changed h) r = Some r1 \<and> state r1 = REVIEW
    \<and> headSha r1 = Some h \<and> verificationRunId r1 = verificationRunId r"
  using assms by (simp add: live_commit_walk step_defs)

lemma live_pass_on_run:
  assumes "state r = REVIEW" and "n = verificationRunId r"
  shows "\<exists>r1. live_commit sid (Verification_Pass h n) r = Some r1 \<and> state r1 = REVIEW
    \<and> headSha r1 = headSha r \<and> verdict r1 = Some Verdict_Pass \<and> verdictHeadSha r1 = Some h
    \<and> \<not> codeChangedSinceVerification r1"
  using assms by (simp add: live_commit_walk step_defs verificationPass_def)

lemma live_noop_restamp:
  assumes "state r = REVIEW" and "\<not> codeChangedSinceVerification r"
  shows "\<exists>r1. live_commit sid (Head_Noop_Changed h) r = Some r1 \<and> headSha r1 = Some h
    \<and> verdict r1 = verdict r \<and> verdictHeadSha r1 = Some h"
  using assms by (simp add: live_commit_walk step_defs)

text \<open>
  C19.  A verdict of a superseded head is recorded and restamped: from any record in REVIEW, a real head
  change does not advance the run id, so the pass the old run then reports for its old head \<open>h0\<close> is
  accepted and clears \<open>code_changed_since_verification\<close>; the record claims a pass without code change
  whose verdict head is not its head, and a following content-free push restamps the pass onto the head
  it carries, a head no verifier has seen.
\<close>

theorem stale_pass_restamped:
  assumes "state r = REVIEW" and "h0 \<noteq> h1"
  shows "\<exists>r1 r2 r3. live_commit sid (Head_Changed h1) r = Some r1
    \<and> live_commit sid (Verification_Pass h0 (verificationRunId r)) r1 = Some r2
    \<and> live_commit sid (Head_Noop_Changed h2) r2 = Some r3
    \<and> verificationPass (verdict r2) \<and> \<not> codeChangedSinceVerification r2
    \<and> \<not> verificationFresh (verdictHeadSha r2) (headSha r2)
    \<and> verificationPass (verdict r3) \<and> verificationFresh (verdictHeadSha r3) (headSha r3)
    \<and> headSha r3 = Some h2"
proof -
  obtain r1 where r1: "live_commit sid (Head_Changed h1) r = Some r1" "state r1 = REVIEW"
      "headSha r1 = Some h1" "verificationRunId r = verificationRunId r1"
    using live_head_changed[OF assms(1)] by metis
  obtain r2 where r2: "live_commit sid (Verification_Pass h0 (verificationRunId r)) r1 = Some r2"
      "state r2 = REVIEW" "headSha r2 = Some h1" "verdict r2 = Some Verdict_Pass"
      "verdictHeadSha r2 = Some h0" "\<not> codeChangedSinceVerification r2"
    using live_pass_on_run[OF r1(2,4)] r1(3) by metis
  obtain r3 where r3: "live_commit sid (Head_Noop_Changed h2) r2 = Some r3" "headSha r3 = Some h2"
      "verdict r3 = Some Verdict_Pass" "verdictHeadSha r3 = Some h2"
    using live_noop_restamp[OF r2(2,6)] r2(4) by metis
  have "verificationPass (Some Verdict_Pass)" "\<not> verificationFresh (Some h0) (Some h1)"
      "verificationFresh (Some h2) (Some h2)"
    using assms(2) by (simp_all add: verificationPass_def verificationFresh_def)
  then show ?thesis using r1(1) r2 r3 by (metis (no_types))
qed

theorem stale_pass_restamped_witness:
  "\<exists>r1 r2 r3. live_commit ''s'' (Head_Changed ''h1'')
        (buildSyntheticCoordinatorRecord ''s'' ''u'' ''h0'' 0) = Some r1
    \<and> live_commit ''s'' (Verification_Pass ''h0'' 0) r1 = Some r2
    \<and> live_commit ''s'' (Head_Noop_Changed ''h2'') r2 = Some r3
    \<and> verificationPass (verdict r3) \<and> verificationFresh (verdictHeadSha r3) (headSha r3)"
  using stale_pass_restamped[of "buildSyntheticCoordinatorRecord ''s'' ''u'' ''h0'' 0" "''h0''" "''h1''"
      "''s''" "''h2''"]
  by (simp add: buildSyntheticCoordinatorRecord_def buildGenesisRecord_def) blast

end
