(* ===== verification/Session_Phase.thy ===== *)
theory Session_Phase
  imports Prelude
begin

text \<open>
  The session phase contract shared by worker, CLI and UI (\<open>shared/session/phase.ts\<close>): the phase and its
  decorations computed from the live signals, the done aggregate derived from the review and verification
  columns, and the normalizers of persisted values.  Status columns the code compares as raw strings stay
  strings, so an unknown value takes the branch the code gives it.
\<close>

section \<open>Vocabulary\<close>

datatype phase =
    Phase_Idle | Phase_Running | Phase_Waiting_For_Input | Phase_Finalizing | Phase_Review_Listening
  | Phase_Completed | Phase_Superseded | Phase_Blocked | Phase_Failed | Phase_Stopped | Phase_Archived

fun phase_name :: "phase \<Rightarrow> string" where
  "phase_name Phase_Idle = ''idle''"
| "phase_name Phase_Running = ''running''"
| "phase_name Phase_Waiting_For_Input = ''waiting_for_input''"
| "phase_name Phase_Finalizing = ''finalizing''"
| "phase_name Phase_Review_Listening = ''review_listening''"
| "phase_name Phase_Completed = ''completed''"
| "phase_name Phase_Superseded = ''superseded''"
| "phase_name Phase_Blocked = ''blocked''"
| "phase_name Phase_Failed = ''failed''"
| "phase_name Phase_Stopped = ''stopped''"
| "phase_name Phase_Archived = ''archived''"

definition PHASES :: "phase list" where
  "PHASES =
    [Phase_Idle, Phase_Running, Phase_Waiting_For_Input, Phase_Finalizing, Phase_Review_Listening,
     Phase_Completed, Phase_Superseded, Phase_Blocked, Phase_Failed, Phase_Stopped, Phase_Archived]"

datatype review_loop_done_state = Loop_Working | Loop_Done

datatype verification_state =
    Vs_Pending | Vs_In_Progress | Vs_Done | Vs_Skipped | Vs_Stopped | Vs_Exhausted

datatype verification_result = Vr_Needs_Work | Vr_Merge_Ready

datatype verification_agent_verdict = Agent_Conclusive | Agent_Other string

datatype cycloid_done_state = Done_Working | Done_Done

datatype cycloid_done_outcome = Outcome_Success | Outcome_Needs_Attention

datatype cycloid_done_reason =
    Reason_Ci_Red | Reason_Verification_Exhausted | Reason_Verification_Stopped
  | Reason_Verification_Inconclusive

record cycloid_done_status =
  cd_state :: cycloid_done_state
  cd_outcome :: "cycloid_done_outcome option"
  cd_reasons :: "cycloid_done_reason list"

definition ARCANIST_DONE_REASON_ORDER :: "cycloid_done_reason list" where
  "ARCANIST_DONE_REASON_ORDER =
    [Reason_Ci_Red, Reason_Verification_Exhausted, Reason_Verification_Stopped,
     Reason_Verification_Inconclusive]"

fun verificationResultFromAgentVerdict :: "verification_agent_verdict \<Rightarrow> verification_result" where
  "verificationResultFromAgentVerdict Agent_Conclusive = Vr_Merge_Ready"
| "verificationResultFromAgentVerdict (Agent_Other _) = Vr_Needs_Work"

section \<open>Normalizers of persisted values\<close>

text \<open>A value that is not a string is \<open>None\<close>; no branch tells it from an unknown string.\<close>

definition normalizeReviewLoopDoneState :: "string option \<Rightarrow> review_loop_done_state option" where
  "normalizeReviewLoopDoneState v =
    (if v = Some ''working'' then Some Loop_Working
     else if v = Some ''done'' \<or> v = Some ''done_green'' \<or> v = Some ''done_exhausted''
     then Some Loop_Done
     else None)"

definition normalizeCycloidDoneState :: "string option \<Rightarrow> cycloid_done_state" where
  "normalizeCycloidDoneState v = (if v = Some ''done'' then Done_Done else Done_Working)"

definition normalizeCycloidDoneOutcome :: "string option \<Rightarrow> cycloid_done_outcome option" where
  "normalizeCycloidDoneOutcome v =
    (if v = Some ''success'' then Some Outcome_Success
     else if v = Some ''needs_attention'' then Some Outcome_Needs_Attention
     else None)"

fun cycloid_done_reason_name :: "cycloid_done_reason \<Rightarrow> string" where
  "cycloid_done_reason_name Reason_Ci_Red = ''ci_red''"
| "cycloid_done_reason_name Reason_Verification_Exhausted = ''verification_exhausted''"
| "cycloid_done_reason_name Reason_Verification_Stopped = ''verification_stopped''"
| "cycloid_done_reason_name Reason_Verification_Inconclusive = ''verification_inconclusive''"

text \<open>The array form of the argument; a JSON text is parsed to one first, and to \<open>[]\<close> when it is not an array.\<close>

definition normalizeCycloidDoneReasons :: "string list \<Rightarrow> cycloid_done_reason list" where
  "normalizeCycloidDoneReasons raw =
    filter (\<lambda>r. cycloid_done_reason_name r \<in> set raw) ARCANIST_DONE_REASON_ORDER"

section \<open>The derived done aggregate\<close>

definition isAwaitingVerificationVerdict ::
  "verification_state option \<Rightarrow> verification_result option \<Rightarrow> bool" where
  "isAwaitingVerificationVerdict s result =
    (if s = Some Vs_Exhausted \<or> s = Some Vs_Stopped \<or> s = Some Vs_Skipped then False
     else if s = Some Vs_Done then result = Some Vr_Needs_Work
     else True)"

record done_inputs =
  di_reviewLoopDoneState :: "review_loop_done_state option"
  di_verificationState :: "verification_state option"
  di_verificationResult :: "verification_result option"
  di_verificationApplies :: bool
  di_ciRed :: "bool option"
  di_currentReasons :: "cycloid_done_reason list"

definition orderCycloidDoneReasons :: "cycloid_done_reason set \<Rightarrow> cycloid_done_reason list" where
  "orderCycloidDoneReasons rs = filter (\<lambda>r. r \<in> rs) ARCANIST_DONE_REASON_ORDER"

definition deriveCycloidDoneStatus :: "done_inputs \<Rightarrow> cycloid_done_status" where
  "deriveCycloidDoneStatus i =
    (let currentReasons =
           normalizeCycloidDoneReasons (map cycloid_done_reason_name (di_currentReasons i));
         hasCiRed = nullish (di_ciRed i) (Reason_Ci_Red \<in> set currentReasons);
         red = (if hasCiRed then {Reason_Ci_Red} else {});
         vs = di_verificationState i;
         result = di_verificationResult i;
         awaiting = (if di_verificationApplies i then isAwaitingVerificationVerdict vs result else False)
     in if di_reviewLoopDoneState i \<noteq> Some Loop_Done \<or> awaiting
        then \<lparr>cd_state = Done_Working, cd_outcome = None, cd_reasons = orderCycloidDoneReasons red\<rparr>
        else
          (let more =
                 (if di_verificationApplies i
                  then (if vs = Some Vs_Exhausted then {Reason_Verification_Exhausted}
                        else if vs = Some Vs_Stopped then {Reason_Verification_Stopped}
                        else if vs = Some Vs_Done \<and> result = None then {Reason_Verification_Inconclusive}
                        else {})
                  else {});
               ordered = orderCycloidDoneReasons (red \<union> more)
           in \<lparr>cd_state = Done_Done,
               cd_outcome = Some (if ordered \<noteq> [] then Outcome_Needs_Attention else Outcome_Success),
               cd_reasons = ordered\<rparr>))"

section \<open>The phase\<close>

datatype sandbox_substate = Substate_Creating | Substate_Reconnecting | Substate_Stopping | Substate_None

datatype phase_stop_mode = Stop_By_User | Stop_Resumable | Stop_Not

datatype finalizing_step = Step_Post_Execution | Step_Publishing | Step_None

record phase_info =
  pi_phase :: phase
  pi_sandboxSubstate :: sandbox_substate
  pi_stopMode :: phase_stop_mode
  pi_finalizingStep :: finalizing_step

text \<open>An optional flag the code reads only for its truth is a boolean.\<close>

record phase_inputs =
  pin_sessionStatus :: "string option"
  pin_sandboxStatus :: "string option"
  pin_activePromptId :: "string option"
  pin_stopReason :: "string option"
  pin_activePromptHasPendingQuestion :: bool
  pin_planApprovalPending :: bool
  pin_userStopped :: bool
  pin_publishStatus :: "string option"
  pin_postExecutionPending :: bool
  pin_mostRecentPromptResultNoChanges :: bool
  pin_reviewListeningActive :: bool

definition settled_phase :: "phase \<Rightarrow> phase_info" where
  "settled_phase p =
    \<lparr>pi_phase = p, pi_sandboxSubstate = Substate_None, pi_stopMode = Stop_Not,
     pi_finalizingStep = Step_None\<rparr>"

definition running_as :: "sandbox_substate \<Rightarrow> phase_info" where
  "running_as sub = (settled_phase Phase_Running)\<lparr>pi_sandboxSubstate := sub\<rparr>"

definition substate_of :: "string option \<Rightarrow> sandbox_substate" where
  "substate_of s =
    (if s = Some ''spawning'' then Substate_Creating
     else if s = Some ''reconnecting'' then Substate_Reconnecting
     else if s = Some ''stopping'' then Substate_Stopping
     else Substate_None)"

definition reachedCompletedTerminal :: "phase_inputs \<Rightarrow> bool" where
  "reachedCompletedTerminal i \<longleftrightarrow>
    \<not> truthy (pin_activePromptId i) \<and>
    (pin_publishStatus i = Some ''published'' \<or> pin_publishStatus i = Some ''skipped''
     \<or> (pin_publishStatus i = Some ''not_started'' \<and> pin_mostRecentPromptResultNoChanges i))"

text \<open>The mapping of the publish column once no prompt is active and no review watch is on.\<close>

definition publish_phase :: "phase_inputs \<Rightarrow> phase_info option" where
  "publish_phase i =
    (let p = pin_publishStatus i in
     if p = Some ''failed'' then Some (settled_phase Phase_Failed)
     else if p = Some ''superseded'' then Some (settled_phase Phase_Superseded)
     else if p = Some ''blocked_by_verification'' then Some (settled_phase Phase_Blocked)
     else if p = Some ''published'' \<or> p = Some ''skipped'' then Some (settled_phase Phase_Completed)
     else if p = Some ''publishing''
     then Some ((settled_phase Phase_Finalizing)\<lparr>pi_finalizingStep := Step_Publishing\<rparr>)
     else if p = Some ''not_started'' \<and> pin_postExecutionPending i
     then Some ((settled_phase Phase_Finalizing)\<lparr>pi_finalizingStep := Step_Post_Execution\<rparr>)
     else if p = Some ''not_started'' \<and> pin_mostRecentPromptResultNoChanges i
     then Some (settled_phase Phase_Completed)
     else None)"

definition computePhase :: "phase_inputs option \<Rightarrow> phase_info" where
  "computePhase inputs =
    (case inputs of
       None \<Rightarrow> settled_phase Phase_Archived
     | Some i \<Rightarrow>
         (let sb = pin_sandboxStatus i; sub = substate_of sb in
          if pin_sessionStatus i = Some ''archived'' then settled_phase Phase_Archived
          else if sb = Some ''stopped'' \<and> pin_stopReason i = Some ''user''
          then (settled_phase Phase_Stopped)\<lparr>pi_stopMode := Stop_By_User\<rparr>
          else if pin_planApprovalPending i \<and> \<not> pin_userStopped i
          then settled_phase Phase_Waiting_For_Input
          else if sb = Some ''failed'' then settled_phase Phase_Failed
          else if sb = Some ''stopped'' \<and> \<not> pin_reviewListeningActive i \<and> \<not> reachedCompletedTerminal i
          then (settled_phase Phase_Stopped)\<lparr>pi_stopMode := Stop_Resumable\<rparr>
          else if truthy (pin_activePromptId i)
          then (if pin_activePromptHasPendingQuestion i \<and> \<not> pin_userStopped i
                then (settled_phase Phase_Waiting_For_Input)\<lparr>pi_sandboxSubstate := sub\<rparr>
                else running_as sub)
          else if pin_reviewListeningActive i
          then (if sub \<noteq> Substate_None then running_as sub else settled_phase Phase_Review_Listening)
          else (case publish_phase i of
                  Some info \<Rightarrow> info
                | None \<Rightarrow> if sub \<noteq> Substate_None then running_as sub else settled_phase Phase_Idle)))"

definition richStatusFromPhase :: "phase_info \<Rightarrow> string" where
  "richStatusFromPhase info = phase_name (pi_phase info)"

definition TERMINAL_PHASES :: "phase list" where
  "TERMINAL_PHASES =
    [Phase_Completed, Phase_Superseded, Phase_Blocked, Phase_Failed, Phase_Stopped, Phase_Archived]"

definition CHILD_SLOT_RELEASE_PHASES :: "phase list" where
  "CHILD_SLOT_RELEASE_PHASES = filter (\<lambda>p. p \<noteq> Phase_Stopped) TERMINAL_PHASES"

definition ARCHIVABLE_STALE_TERMINAL_PHASES :: "phase list" where
  "ARCHIVABLE_STALE_TERMINAL_PHASES =
    filter (\<lambda>p. p \<noteq> Phase_Archived \<and> p \<noteq> Phase_Blocked \<and> p \<noteq> Phase_Stopped) TERMINAL_PHASES"

definition isTerminalPhase :: "phase \<Rightarrow> bool" where
  "isTerminalPhase p \<longleftrightarrow> p \<in> set TERMINAL_PHASES"

section \<open>What the phase promises\<close>

lemma settled_sel [simp]:
  "pi_phase (settled_phase p) = p" "pi_sandboxSubstate (settled_phase p) = Substate_None"
  "pi_stopMode (settled_phase p) = Stop_Not" "pi_finalizingStep (settled_phase p) = Step_None"
  by (simp_all add: settled_phase_def)

lemma running_sel [simp]:
  "pi_phase (running_as s) = Phase_Running" "pi_sandboxSubstate (running_as s) = s"
  "pi_stopMode (running_as s) = Stop_Not" "pi_finalizingStep (running_as s) = Step_None"
  by (simp_all add: running_as_def)

definition info_coherent :: "phase_info \<Rightarrow> bool" where
  "info_coherent x \<longleftrightarrow>
     (pi_stopMode x \<noteq> Stop_Not \<longleftrightarrow> pi_phase x = Phase_Stopped)
     \<and> (pi_finalizingStep x \<noteq> Step_None \<longleftrightarrow> pi_phase x = Phase_Finalizing)
     \<and> (pi_sandboxSubstate x \<noteq> Substate_None \<longrightarrow>
          pi_phase x = Phase_Running \<or> pi_phase x = Phase_Waiting_For_Input)"

lemma info_coherent_settled [simp]:
  "info_coherent (settled_phase p) \<longleftrightarrow> p \<noteq> Phase_Stopped \<and> p \<noteq> Phase_Finalizing"
  by (auto simp: info_coherent_def)

lemma info_coherent_parts [simp]:
  "info_coherent (running_as s)"
  "info_coherent ((settled_phase Phase_Waiting_For_Input)\<lparr>pi_sandboxSubstate := s\<rparr>)"
  "info_coherent ((settled_phase Phase_Stopped)\<lparr>pi_stopMode := Stop_By_User\<rparr>)"
  "info_coherent ((settled_phase Phase_Stopped)\<lparr>pi_stopMode := Stop_Resumable\<rparr>)"
  "info_coherent ((settled_phase Phase_Finalizing)\<lparr>pi_finalizingStep := Step_Publishing\<rparr>)"
  "info_coherent ((settled_phase Phase_Finalizing)\<lparr>pi_finalizingStep := Step_Post_Execution\<rparr>)"
  by (simp_all add: info_coherent_def)

lemma publish_phase_coherent: "publish_phase i = Some x \<Longrightarrow> info_coherent x"
  by (auto simp: publish_phase_def Let_def split: if_splits)

lemma computePhase_coherent: "info_coherent (computePhase inputs)"
  by (simp add: computePhase_def Let_def publish_phase_coherent split: option.splits)

text \<open>
  C21.  The phase carries its decorations exactly where they mean something: a stop mode exactly in
  \<open>stopped\<close>, a finalizing step exactly in \<open>finalizing\<close>, a sandbox substate only while running or waiting;
  and a session shows as stopped by the user exactly when it is not archived and its sandbox was stopped
  for the reason \<open>user\<close>.
\<close>

theorem phase_decorations_exact:
  "(pi_stopMode (computePhase (Some i)) \<noteq> Stop_Not \<longleftrightarrow> pi_phase (computePhase (Some i)) = Phase_Stopped)
   \<and> (pi_finalizingStep (computePhase (Some i)) \<noteq> Step_None
        \<longleftrightarrow> pi_phase (computePhase (Some i)) = Phase_Finalizing)
   \<and> (pi_sandboxSubstate (computePhase (Some i)) = Substate_None
        \<or> pi_phase (computePhase (Some i)) = Phase_Running
        \<or> pi_phase (computePhase (Some i)) = Phase_Waiting_For_Input)
   \<and> (pi_stopMode (computePhase (Some i)) = Stop_By_User
        \<longleftrightarrow> pin_sessionStatus i \<noteq> Some ''archived'' \<and> pin_sandboxStatus i = Some ''stopped''
            \<and> pin_stopReason i = Some ''user'')"
proof -
  have "pi_stopMode (computePhase (Some i)) = Stop_By_User
        \<longleftrightarrow> pin_sessionStatus i \<noteq> Some ''archived'' \<and> pin_sandboxStatus i = Some ''stopped''
            \<and> pin_stopReason i = Some ''user''"
    by (simp add: computePhase_def Let_def publish_phase_def split: option.splits)
  then show ?thesis
    using computePhase_coherent [of "Some i"] unfolding info_coherent_def by blast
qed

lemma user_stop_frame [simp]:
  "publish_phase (i\<lparr>pin_userStopped := b\<rparr>) = publish_phase i"
  "reachedCompletedTerminal (i\<lparr>pin_userStopped := b\<rparr>) = reachedCompletedTerminal i"
  by (simp_all add: publish_phase_def reachedCompletedTerminal_def Let_def)

lemma publish_phase_not_waiting: "publish_phase i = Some x \<Longrightarrow> pi_phase x \<noteq> Phase_Waiting_For_Input"
  by (auto simp: publish_phase_def Let_def split: if_splits)

text \<open>
  A live-idle user stop supersedes waiting and nothing else: raising the flag never leaves a
  session waiting for input, and a session that was not waiting keeps its phase and every decoration, so
  a settled outcome is never unsettled by it.
\<close>

theorem user_stop_supersedes_only_waiting:
  "pi_phase (computePhase (Some (i\<lparr>pin_userStopped := True\<rparr>))) \<noteq> Phase_Waiting_For_Input
   \<and> (pi_phase (computePhase (Some (i\<lparr>pin_userStopped := False\<rparr>))) = Phase_Waiting_For_Input
      \<or> computePhase (Some (i\<lparr>pin_userStopped := True\<rparr>))
          = computePhase (Some (i\<lparr>pin_userStopped := False\<rparr>)))"
proof -
  define a where "a = reachedCompletedTerminal i"
  define p where "p = publish_phase i"
  define sub where "sub = substate_of (pin_sandboxStatus i)"
  define arch usr fail stop where "arch = (pin_sessionStatus i = Some ''archived'')"
    and "usr = (pin_sandboxStatus i = Some ''stopped'' \<and> pin_stopReason i = Some ''user'')"
    and "fail = (pin_sandboxStatus i = Some ''failed'')"
    and "stop = (pin_sandboxStatus i = Some ''stopped'' \<and> \<not> pin_reviewListeningActive i \<and> \<not> a)"
  note folds = arch_def [symmetric] usr_def [symmetric] fail_def [symmetric] stop_def [symmetric]
    sub_def [symmetric] a_def [symmetric] p_def [symmetric]
  have nw: "\<And>x. p = Some x \<Longrightarrow> pi_phase x \<noteq> Phase_Waiting_For_Input"
    by (simp add: p_def publish_phase_not_waiting)
  show ?thesis
    by (cases arch; cases usr; cases "pin_planApprovalPending i"; cases fail; cases stop;
        cases "truthy (pin_activePromptId i)"; simp add: computePhase_def Let_def folds; cases p;
        simp add: nw)
qed

end
