(* ===== verification/Fsm_Project.thy ===== *)
theory Fsm_Project
  imports Fsm_Invariant Session_Phase
begin

text \<open>
  The read surface of the coordination record (\<open>session/fsm/project.ts\<close>, \<open>answered-projection.ts\<close>,
  \<open>label-projection.ts\<close>, \<open>spine-done-mirror.ts\<close>, with the chip vocabulary of
  \<open>shared/session/lifecycle-chip.ts\<close> and the labels of \<open>constants/pr-labels.ts\<close>): phase, chip, labels,
  stage copy, done aggregate and mirror columns, all from one record, and the reconcile of the pull
  request's labels toward the projected set.

  A string is its UTF-8 bytes; \<open>em_dash\<close> is the one character outside ASCII the copy uses.
\<close>

section \<open>Chip vocabulary\<close>

definition em_dash :: string where
  "em_dash = [CHR 0xE2, CHR 0x80, CHR 0x94]"

datatype chip_tone = Tone_Live | Tone_Success | Tone_Warning | Tone_Error | Tone_Neutral

record lifecycle_chip =
  chip_label :: string
  chip_tone :: chip_tone
  chip_pulse :: bool

definition chip :: "string \<Rightarrow> chip_tone \<Rightarrow> lifecycle_chip option" where
  "chip l t = Some \<lparr>chip_label = l, chip_tone = t, chip_pulse = (t = Tone_Live)\<rparr>"

fun LIFECYCLE_CHIP :: "fsm_state \<Rightarrow> lifecycle_chip option" where
  "LIFECYCLE_CHIP CREATED = chip ''Working'' Tone_Live"
| "LIFECYCLE_CHIP PROVISIONING = chip ''Working'' Tone_Live"
| "LIFECYCLE_CHIP GENERATING = chip ''Working'' Tone_Live"
| "LIFECYCLE_CHIP AWAITING_INPUT = chip ''Needs input'' Tone_Warning"
| "LIFECYCLE_CHIP FINALIZING = chip ''Publishing'' Tone_Live"
| "LIFECYCLE_CHIP PUBLISHING = chip ''Publishing'' Tone_Live"
| "LIFECYCLE_CHIP ANSWERED_NO_PR = chip ''Answered'' Tone_Neutral"
| "LIFECYCLE_CHIP REVIEW = chip ''In review'' Tone_Live"
| "LIFECYCLE_CHIP VERIFYING = chip ''Verifying'' Tone_Live"
| "LIFECYCLE_CHIP MERGE_READY = chip ''Merge ready'' Tone_Success"
| "LIFECYCLE_CHIP NEEDS_YOU = chip ''Needs you'' Tone_Warning"
| "LIFECYCLE_CHIP FAILED = chip ''Failed'' Tone_Error"
| "LIFECYCLE_CHIP STOPPED = chip ''Stopped'' Tone_Neutral"
| "LIFECYCLE_CHIP MERGED = chip ''Merged'' Tone_Success"
| "LIFECYCLE_CHIP CLOSED = chip ''Closed'' Tone_Neutral"
| "LIFECYCLE_CHIP SUPERSEDED = chip ''Superseded'' Tone_Neutral"
| "LIFECYCLE_CHIP ARCHIVED = None"

fun BLOCKED_REASON_COPY :: "blocked_reason \<Rightarrow> string" where
  "BLOCKED_REASON_COPY Owner_Approval = ''Needs owner approval''"
| "BLOCKED_REASON_COPY Verification_Noconverge = ''Verification not converging''"
| "BLOCKED_REASON_COPY Verification_Unresolved = ''Verification findings unresolved''"
| "BLOCKED_REASON_COPY Verification_Run_Limit_Reached = ''Verification run limit reached''"
| "BLOCKED_REASON_COPY Verification_No_Verdict = ''Verification stopped / no verdict''"
| "BLOCKED_REASON_COPY Ci_Fix_Exhausted = ''CI fixes exhausted''"
| "BLOCKED_REASON_COPY Ci_Flapping = ''CI flapping '' @ em_dash @ '' needs you''"
| "BLOCKED_REASON_COPY Review_Stuck = ''Review stalled '' @ em_dash @ '' needs you''"
| "BLOCKED_REASON_COPY Review_Response_Failed =
     ''Couldn'' @ [CHR 0x27] @ ''t post review response '' @ em_dash @ '' needs you''"
| "BLOCKED_REASON_COPY Internal_Inconsistency =
     ''Internal inconsistency '' @ em_dash @ '' needs you''"

fun FAILURE_REASON_COPY :: "failure_reason \<Rightarrow> string" where
  "FAILURE_REASON_COPY Codegen_Error = ''Agent run failed''"
| "FAILURE_REASON_COPY Publish_Failed_Reason = ''Publishing the PR failed''"
| "FAILURE_REASON_COPY Post_Prep_Failed = ''Preparing the branch failed''"
| "FAILURE_REASON_COPY Spawn_Timeout = ''Sandbox never started''"
| "FAILURE_REASON_COPY Execution_Timeout = ''Run timed out''"
| "FAILURE_REASON_COPY Sandbox_Failed = ''Sandbox failed''"

definition lifecycleChipDetail ::
  "fsm_state \<Rightarrow> blocked_reason option \<Rightarrow> failure_reason option \<Rightarrow> string option" where
  "lifecycleChipDetail s blocked failure =
    (if s = NEEDS_YOU \<and> blocked \<noteq> None then map_option BLOCKED_REASON_COPY blocked
     else if s = FAILED \<and> failure \<noteq> None then map_option FAILURE_REASON_COPY failure
     else None)"

section \<open>Phase, pill and stage of a state\<close>

fun phaseOf :: "fsm_state \<Rightarrow> phase" where
  "phaseOf CREATED = Phase_Running"
| "phaseOf PROVISIONING = Phase_Running"
| "phaseOf GENERATING = Phase_Running"
| "phaseOf AWAITING_INPUT = Phase_Waiting_For_Input"
| "phaseOf FINALIZING = Phase_Finalizing"
| "phaseOf PUBLISHING = Phase_Finalizing"
| "phaseOf ANSWERED_NO_PR = Phase_Completed"
| "phaseOf REVIEW = Phase_Review_Listening"
| "phaseOf VERIFYING = Phase_Review_Listening"
| "phaseOf MERGE_READY = Phase_Completed"
| "phaseOf NEEDS_YOU = Phase_Blocked"
| "phaseOf FAILED = Phase_Failed"
| "phaseOf STOPPED = Phase_Stopped"
| "phaseOf MERGED = Phase_Completed"
| "phaseOf CLOSED = Phase_Completed"
| "phaseOf SUPERSEDED = Phase_Superseded"
| "phaseOf ARCHIVED = Phase_Archived"

datatype fe_chip =
    Fe_Working | Fe_Waiting_For_Input | Fe_Review_Listening | Fe_Completed | Fe_Superseded | Fe_Failed
  | Fe_Idle | Fe_Stopped | Fe_Archived

fun feChipOf :: "fsm_state \<Rightarrow> fe_chip" where
  "feChipOf CREATED = Fe_Working"
| "feChipOf PROVISIONING = Fe_Working"
| "feChipOf GENERATING = Fe_Working"
| "feChipOf AWAITING_INPUT = Fe_Waiting_For_Input"
| "feChipOf FINALIZING = Fe_Working"
| "feChipOf PUBLISHING = Fe_Working"
| "feChipOf ANSWERED_NO_PR = Fe_Completed"
| "feChipOf REVIEW = Fe_Review_Listening"
| "feChipOf VERIFYING = Fe_Review_Listening"
| "feChipOf MERGE_READY = Fe_Completed"
| "feChipOf NEEDS_YOU = Fe_Failed"
| "feChipOf FAILED = Fe_Failed"
| "feChipOf STOPPED = Fe_Stopped"
| "feChipOf MERGED = Fe_Completed"
| "feChipOf CLOSED = Fe_Completed"
| "feChipOf SUPERSEDED = Fe_Superseded"
| "feChipOf ARCHIVED = Fe_Archived"

datatype ui_stage = Ui_Verifying | Ui_Merge_Ready | Ui_Merged | Ui_Closed | Ui_Superseded

fun uiLifecycleStageOf :: "fsm_state \<Rightarrow> ui_stage option" where
  "uiLifecycleStageOf VERIFYING = Some Ui_Verifying"
| "uiLifecycleStageOf MERGE_READY = Some Ui_Merge_Ready"
| "uiLifecycleStageOf MERGED = Some Ui_Merged"
| "uiLifecycleStageOf CLOSED = Some Ui_Closed"
| "uiLifecycleStageOf SUPERSEDED = Some Ui_Superseded"
| "uiLifecycleStageOf _ = None"

definition feChipFromPhase :: "string option \<Rightarrow> fe_chip" where
  "feChipFromPhase p =
    (if p = Some ''archived'' then Fe_Archived
     else if p = Some ''stopped'' then Fe_Stopped
     else if p = Some ''running'' \<or> p = Some ''finalizing'' then Fe_Working
     else if p = Some ''waiting_for_input'' then Fe_Waiting_For_Input
     else if p = Some ''completed'' then Fe_Completed
     else if p = Some ''review_listening'' then Fe_Review_Listening
     else if p = Some ''superseded'' then Fe_Superseded
     else if p = Some ''blocked'' \<or> p = Some ''failed'' then Fe_Failed
     else Fe_Idle)"

section \<open>Blocked reasons, labels and stage copy\<close>

definition CI_FIX_EXHAUSTED_LABEL :: string where "CI_FIX_EXHAUSTED_LABEL = ''ci-fix-exhausted''"
definition OWNER_APPROVAL_LABEL :: string where "OWNER_APPROVAL_LABEL = ''owner-approval''"
definition REVIEW_STUCK_LABEL :: string where "REVIEW_STUCK_LABEL = ''review-stuck''"
definition INTERNAL_ERROR_LABEL :: string where "INTERNAL_ERROR_LABEL = ''internal-error''"

lemmas label_defs = CI_FIX_EXHAUSTED_LABEL_def OWNER_APPROVAL_LABEL_def REVIEW_STUCK_LABEL_def
  INTERNAL_ERROR_LABEL_def

fun blocked_label :: "blocked_reason \<Rightarrow> string" where
  "blocked_label Owner_Approval = OWNER_APPROVAL_LABEL"
| "blocked_label Verification_Noconverge = INTERNAL_ERROR_LABEL"
| "blocked_label Verification_Unresolved = INTERNAL_ERROR_LABEL"
| "blocked_label Verification_Run_Limit_Reached = INTERNAL_ERROR_LABEL"
| "blocked_label Verification_No_Verdict = INTERNAL_ERROR_LABEL"
| "blocked_label Ci_Fix_Exhausted = CI_FIX_EXHAUSTED_LABEL"
| "blocked_label Ci_Flapping = CI_FIX_EXHAUSTED_LABEL"
| "blocked_label Review_Stuck = REVIEW_STUCK_LABEL"
| "blocked_label Review_Response_Failed = REVIEW_STUCK_LABEL"
| "blocked_label Internal_Inconsistency = INTERNAL_ERROR_LABEL"

record blocked_display =
  bd_label :: string
  bd_copy :: string

definition blockedReasonDisplay :: "blocked_reason \<Rightarrow> blocked_display" where
  "blockedReasonDisplay b = \<lparr>bd_label = blocked_label b, bd_copy = BLOCKED_REASON_COPY b\<rparr>"

definition labelsOf :: "fsm_record \<Rightarrow> string list" where
  "labelsOf r =
    (if state r = NEEDS_YOU
     then (case blockedReason r of Some b \<Rightarrow> [bd_label (blockedReasonDisplay b)] | None \<Rightarrow> [])
     else [])"

definition projectAnsweredNoPr :: "bool option \<Rightarrow> string" where
  "projectAnsweredNoPr intends = (if intends = Some True then ''No change produced'' else ''Answered'')"

definition reviewStage :: "fsm_record \<Rightarrow> string" where
  "reviewStage r =
    (if ciFixRounds r > 0 then ''Fixing CI''
     else if verdict r = Some Verdict_App_Breaks then ''Fixing verification findings''
     else ''Cycloid is working on the review'')"

definition stageOf :: "fsm_record \<Rightarrow> string" where
  "stageOf r =
    (case state r of
       CREATED \<Rightarrow> ''Starting''
     | PROVISIONING \<Rightarrow> ''Starting''
     | GENERATING \<Rightarrow> ''Working''
     | AWAITING_INPUT \<Rightarrow> ''Needs your input''
     | FINALIZING \<Rightarrow> ''Finalizing / Opening PR''
     | PUBLISHING \<Rightarrow> ''Finalizing / Opening PR''
     | ANSWERED_NO_PR \<Rightarrow> projectAnsweredNoPr (promptIntendsChange r)
     | REVIEW \<Rightarrow> reviewStage r
     | VERIFYING \<Rightarrow> ''Testing the app''
     | MERGE_READY \<Rightarrow> ''Ready to merge '' @ em_dash @ '' watching for reviews''
     | NEEDS_YOU \<Rightarrow>
         (case blockedReason r of
            Some b \<Rightarrow> ''Blocked '' @ em_dash @ '' needs you: '' @ bd_copy (blockedReasonDisplay b)
          | None \<Rightarrow> ''Blocked '' @ em_dash @ '' needs you'')
     | FAILED \<Rightarrow> ''Session failed''
     | STOPPED \<Rightarrow> ''Stopped''
     | MERGED \<Rightarrow> []
     | CLOSED \<Rightarrow> []
     | SUPERSEDED \<Rightarrow> []
     | ARCHIVED \<Rightarrow> ''Archived'')"

section \<open>The done aggregate and the mirror columns\<close>

fun BLOCKED_REASON_TO_CYCLOID_DONE_REASON :: "blocked_reason \<Rightarrow> cycloid_done_reason option" where
  "BLOCKED_REASON_TO_CYCLOID_DONE_REASON Owner_Approval = None"
| "BLOCKED_REASON_TO_CYCLOID_DONE_REASON Verification_Noconverge = Some Reason_Verification_Exhausted"
| "BLOCKED_REASON_TO_CYCLOID_DONE_REASON Verification_Unresolved = Some Reason_Verification_Inconclusive"
| "BLOCKED_REASON_TO_CYCLOID_DONE_REASON Verification_Run_Limit_Reached =
     Some Reason_Verification_Exhausted"
| "BLOCKED_REASON_TO_CYCLOID_DONE_REASON Verification_No_Verdict = Some Reason_Verification_Stopped"
| "BLOCKED_REASON_TO_CYCLOID_DONE_REASON Ci_Fix_Exhausted = Some Reason_Ci_Red"
| "BLOCKED_REASON_TO_CYCLOID_DONE_REASON Ci_Flapping = Some Reason_Ci_Red"
| "BLOCKED_REASON_TO_CYCLOID_DONE_REASON Review_Stuck = None"
| "BLOCKED_REASON_TO_CYCLOID_DONE_REASON Review_Response_Failed = None"
| "BLOCKED_REASON_TO_CYCLOID_DONE_REASON Internal_Inconsistency = None"

definition WORKING_CYCLOID_DONE :: cycloid_done_status where
  "WORKING_CYCLOID_DONE = \<lparr>cd_state = Done_Working, cd_outcome = None, cd_reasons = []\<rparr>"

definition cycloidDoneOf :: "fsm_record \<Rightarrow> cycloid_done_status" where
  "cycloidDoneOf r =
    (if state r = MERGE_READY
     then \<lparr>cd_state = Done_Done, cd_outcome = Some Outcome_Success, cd_reasons = []\<rparr>
     else if state r = NEEDS_YOU
     then (case Option.bind (blockedReason r) BLOCKED_REASON_TO_CYCLOID_DONE_REASON of
             Some reason \<Rightarrow>
               \<lparr>cd_state = Done_Done, cd_outcome = Some Outcome_Needs_Attention,
                cd_reasons = filter (\<lambda>x. x = reason) ARCANIST_DONE_REASON_ORDER\<rparr>
           | None \<Rightarrow> WORKING_CYCLOID_DONE)
     else WORKING_CYCLOID_DONE)"

definition verificationStateFromVerdict :: "verdict option \<Rightarrow> verification_state option" where
  "verificationStateFromVerdict v =
    (if v = Some Verdict_Pass \<or> v = Some Verdict_App_Breaks then Some Vs_Done
     else if v = Some Verdict_Skipped then Some Vs_Skipped
     else None)"

definition reviewLoopDoneStateOf :: "fsm_record \<Rightarrow> review_loop_done_state option" where
  "reviewLoopDoneStateOf r =
    (case state r of
       REVIEW \<Rightarrow> Some Loop_Working
     | VERIFYING \<Rightarrow> Some Loop_Done
     | MERGE_READY \<Rightarrow> Some Loop_Done
     | NEEDS_YOU \<Rightarrow>
         (if Option.bind (blockedReason r) BLOCKED_REASON_TO_CYCLOID_DONE_REASON \<noteq> None
          then Some Loop_Done else Some Loop_Working)
     | _ \<Rightarrow> None)"

definition verificationStateOf :: "fsm_record \<Rightarrow> verification_state option" where
  "verificationStateOf r =
    (case state r of
       REVIEW \<Rightarrow> verificationStateFromVerdict (verdict r)
     | VERIFYING \<Rightarrow> Some Vs_In_Progress
     | MERGE_READY \<Rightarrow> verificationStateFromVerdict (verdict r)
     | NEEDS_YOU \<Rightarrow>
         (if blockedReason r = Some Verification_Run_Limit_Reached
              \<or> blockedReason r = Some Verification_Noconverge then Some Vs_Exhausted
          else if blockedReason r = Some Verification_No_Verdict then Some Vs_Stopped
          else if blockedReason r = Some Verification_Unresolved then Some Vs_Done
          else verificationStateFromVerdict (verdict r))
     | _ \<Rightarrow> None)"

record mirror_columns =
  mc_reviewLoopDoneState :: "review_loop_done_state option"
  mc_verificationState :: "verification_state option"
  mc_verificationAttemptCount :: int
  mc_verificationMaxAttempts :: int
  mc_cycloidDone :: cycloid_done_status

definition projectMirrorColumns :: "fsm_record \<Rightarrow> mirror_columns" where
  "projectMirrorColumns r =
    \<lparr>mc_reviewLoopDoneState = reviewLoopDoneStateOf r, mc_verificationState = verificationStateOf r,
     mc_verificationAttemptCount = verificationRunCount r,
     mc_verificationMaxAttempts = MAX_VERIFICATION_RUNS_PER_PR, mc_cycloidDone = cycloidDoneOf r\<rparr>"

record display_columns =
  dc_richStatus :: phase
  dc_feChip :: fe_chip
  dc_uiLifecycleStage :: "ui_stage option"

definition projectDisplayColumns :: "fsm_record \<Rightarrow> display_columns" where
  "projectDisplayColumns r =
    \<lparr>dc_richStatus = phaseOf (state r), dc_feChip = feChipOf (state r),
     dc_uiLifecycleStage = uiLifecycleStageOf (state r)\<rparr>"

record projection =
  pj_phase :: phase
  pj_labels :: "string list"
  pj_stageSection :: string
  pj_feChip :: fe_chip
  pj_cycloidDone :: cycloid_done_status
  pj_uiLifecycleStage :: "ui_stage option"

definition project :: "fsm_record \<Rightarrow> projection" where
  "project r =
    \<lparr>pj_phase = phaseOf (state r), pj_labels = labelsOf r, pj_stageSection = stageOf r,
     pj_feChip = feChipOf (state r), pj_cycloidDone = cycloidDoneOf r,
     pj_uiLifecycleStage = uiLifecycleStageOf (state r)\<rparr>"

text \<open>The mirror the session view reads; a missing row, a failed read or no database is \<open>None\<close>.\<close>

record spine_done_mirror =
  sm_cycloidDone :: cycloid_done_status
  sm_reviewLoopDoneState :: "review_loop_done_state option"
  sm_uiLifecycleStage :: "ui_stage option"

definition resolveSpineDoneMirror :: "fsm_record option \<Rightarrow> spine_done_mirror" where
  "resolveSpineDoneMirror rec =
    (case rec of
       None \<Rightarrow> \<lparr>sm_cycloidDone = WORKING_CYCLOID_DONE, sm_reviewLoopDoneState = None,
                sm_uiLifecycleStage = None\<rparr>
     | Some r \<Rightarrow> \<lparr>sm_cycloidDone = cycloidDoneOf r, sm_reviewLoopDoneState = reviewLoopDoneStateOf r,
                  sm_uiLifecycleStage = uiLifecycleStageOf (state r)\<rparr>)"

section \<open>The label reconcile\<close>

definition FSM_MANAGED_LABELS :: "string list" where
  "FSM_MANAGED_LABELS =
    [''verification-pending'', ''verification-in-progress'', ''verification-done'',
     ''verification-skipped'', ''verification-stopped'', ''verification-exhausted'',
     ''verification-needs-work'', ''review-loop:done'', ''review-loop:ci-red'',
     CI_FIX_EXHAUSTED_LABEL, OWNER_APPROVAL_LABEL, REVIEW_STUCK_LABEL, INTERNAL_ERROR_LABEL]"

record label_plan =
  lp_next :: "string list"
  lp_added :: "string list"
  lp_removed :: "string list"
  lp_changed :: bool

definition reconcileFsmLabelSet :: "string list \<Rightarrow> string list \<Rightarrow> label_plan" where
  "reconcileFsmLabelSet current desired =
    (let preserved = filter (\<lambda>l. l \<notin> set FSM_MANAGED_LABELS) current;
         added = filter (\<lambda>l. l \<notin> set current) desired;
         removed = filter (\<lambda>l. l \<in> set FSM_MANAGED_LABELS \<and> l \<notin> set desired) current
     in \<lparr>lp_next = preserved @ desired, lp_added = added, lp_removed = removed,
         lp_changed = (added \<noteq> [] \<or> removed \<noteq> [])\<rparr>)"

section \<open>What the projection promises\<close>

lemma bind_reason_Some:
  "Option.bind b BLOCKED_REASON_TO_CYCLOID_DONE_REASON = Some x \<Longrightarrow> \<exists>c. b = Some c"
  by (cases b) simp_all

lemma done_reason_order [simp]: "filter (\<lambda>x. x = reason) ARCANIST_DONE_REASON_ORDER = [reason]"
  by (cases reason) (simp_all add: ARCANIST_DONE_REASON_ORDER_def)

lemma blocked_label_managed: "blocked_label b \<in> set FSM_MANAGED_LABELS"
  by (cases b) (simp_all add: FSM_MANAGED_LABELS_def)

lemma labelsOf_cases: "labelsOf r = [] \<or> (\<exists>b. labelsOf r = [blocked_label b])"
  by (cases "blockedReason r") (auto simp: labelsOf_def blockedReasonDisplay_def)

lemma labelsOf_managed: "set (labelsOf r) \<subseteq> set FSM_MANAGED_LABELS"
proof
  fix l
  assume "l \<in> set (labelsOf r)"
  then show "l \<in> set FSM_MANAGED_LABELS"
    using labelsOf_cases[of r] blocked_label_managed by fastforce
qed

lemma labelsOf_single: "length (labelsOf r) \<le> 1"
  by (simp add: labelsOf_def split: option.split)

lemma labelsOf_blocked: "record_ok r \<Longrightarrow> labelsOf r \<noteq> [] \<longleftrightarrow> state r = NEEDS_YOU"
  by (auto simp: labelsOf_def record_ok_def inv_reasons_def)

lemma pill_of_phase: "feChipFromPhase (Some (phase_name (phaseOf s))) = feChipOf s"
  by (cases s) (simp_all add: feChipFromPhase_def)

lemma pill_never_idle: "feChipOf s \<noteq> Fe_Idle"
  by (cases s) simp_all

lemma done_needs_loop_done:
  "cd_state (cycloidDoneOf r) = Done_Done \<Longrightarrow> reviewLoopDoneStateOf r = Some Loop_Done"
  by (cases "state r"; cases "blockedReason r";
      simp add: cycloidDoneOf_def reviewLoopDoneStateOf_def WORKING_CYCLOID_DONE_def
        split: option.splits)

lemma done_reasons:
  "cd_outcome (cycloidDoneOf r) = Some Outcome_Needs_Attention \<longleftrightarrow> (\<exists>x. cd_reasons (cycloidDoneOf r) = [x])"
  "length (cd_reasons (cycloidDoneOf r)) \<le> 1"
  by (auto simp: cycloidDoneOf_def WORKING_CYCLOID_DONE_def split: option.split)

lemma labelsOf_needs_you:
  "record_ok r \<Longrightarrow> state r = NEEDS_YOU \<Longrightarrow>
     \<exists>b. blockedReason r = Some b \<and> labelsOf r = [blocked_label b]"
  by (auto simp: labelsOf_def blockedReasonDisplay_def record_ok_def inv_reasons_def)

text \<open>
  C22.  The surfaces of one reachable record agree: the pill is the collapse of the phase the index
  stores and is never idle; the record projects a label exactly in NEEDS_YOU, then exactly one, the one of
  its blocked reason, and a managed one; a settled done claim always comes with a finished review loop,
  and it needs attention exactly when it carries a reason, of which there is at most one.

  The label clause is the code's: \<open>STATE_TO_LABELS\<close> projects nothing in REVIEW, VERIFYING and MERGE_READY.
  The comment above it (\<open>project.ts\<close> 319 to 333) and the header of \<open>project-labels.test.ts\<close> still list the
  scrapped verification and \<open>review-loop:done\<close> labels for those three states.
\<close>

theorem projection_consistent:
  assumes "lifecycle_reach r"
  shows "feChipFromPhase (Some (phase_name (pj_phase (project r)))) = pj_feChip (project r)
    \<and> pj_feChip (project r) \<noteq> Fe_Idle
    \<and> (pj_labels (project r) \<noteq> [] \<longleftrightarrow> state r = NEEDS_YOU)
    \<and> (state r = NEEDS_YOU \<longrightarrow>
         (\<exists>b. blockedReason r = Some b \<and> pj_labels (project r) = [blocked_label b]))
    \<and> set (pj_labels (project r)) \<subseteq> set FSM_MANAGED_LABELS
    \<and> (cd_state (mc_cycloidDone (projectMirrorColumns r)) = Done_Done \<longrightarrow>
         mc_reviewLoopDoneState (projectMirrorColumns r) = Some Loop_Done)
    \<and> (cd_outcome (pj_cycloidDone (project r)) = Some Outcome_Needs_Attention \<longleftrightarrow>
         (\<exists>x. cd_reasons (pj_cycloidDone (project r)) = [x]))
    \<and> length (cd_reasons (pj_cycloidDone (project r))) \<le> 1"
  using lifecycle_reach_ok[OF assms] labelsOf_managed[of r] labelsOf_needs_you[of r]
  by (simp add: project_def projectMirrorColumns_def pill_of_phase pill_never_idle labelsOf_blocked
      done_needs_loop_done done_reasons(1) done_reasons(2)[simplified])

text \<open>The concrete record: a coordinator whose review backstop has fired.\<close>

lemma walk_stuck:
  defines "r \<equiv> walk Deadline_Exceeded (buildSyntheticCoordinatorRecord ''s'' ''u'' ''h'' 0)"
  shows "lifecycle_reach r" and "state r = NEEDS_YOU" and "blockedReason r = Some Review_Stuck"
proof -
  let ?r0 = "buildSyntheticCoordinatorRecord ''s'' ''u'' ''h'' 0"
  have "seed_record ?r0"
    unfolding seed_record_def by (rule disjI2, intro exI conjI, rule list.distinct(2), rule refl)
  then have r0: "capped_reach ?r0" by (rule capped_seed)
  have t: "transition (state ?r0) Deadline_Exceeded
      (live_guards ''s'' no_context (live_init no_context) ?r0 Deadline_Exceeded)
      = Inr (Some (decide NEEDS_YOU (setBlockedReason Review_Stuck) [Release_Queued_Reviews, Loud]))"
    by (simp add: buildSyntheticCoordinatorRecord_def transition_def coreTransition_def
        crossCuttingTransition_def step_defs handled_def unhandled_def)
  show "lifecycle_reach r"
    unfolding r_def by (rule capped_is_reachable[OF walk_capped[OF r0 _ t]]) (simp add: bypasses_cap_def)
  show "state r = NEEDS_YOU" "blockedReason r = Some Review_Stuck"
    by (simp_all add: r_def walk_def t setBlockedReason_def)
qed

theorem projection_consistent_witness:
  "let r = walk Deadline_Exceeded (buildSyntheticCoordinatorRecord ''s'' ''u'' ''h'' 0)
   in state r = NEEDS_YOU \<and> pj_labels (project r) = [''review-stuck'']
    \<and> pj_feChip (project r) = Fe_Failed \<and> pj_feChip (project r) = feChipFromPhase (Some ''blocked'')
    \<and> ''review-stuck'' \<in> set FSM_MANAGED_LABELS"
proof -
  let ?r = "walk Deadline_Exceeded (buildSyntheticCoordinatorRecord ''s'' ''u'' ''h'' 0)"
  note given = projection_consistent[OF walk_stuck(1)] and stuck = walk_stuck(2,3)
  have "\<exists>b. blockedReason ?r = Some b \<and> pj_labels (project ?r) = [blocked_label b]"
    and managed: "set (pj_labels (project ?r)) \<subseteq> set FSM_MANAGED_LABELS"
    and pill: "feChipFromPhase (Some (phase_name (pj_phase (project ?r)))) = pj_feChip (project ?r)"
    using given stuck(1) by blast+
  then have labels: "pj_labels (project ?r) = [''review-stuck'']"
    using stuck(2) by (simp add: REVIEW_STUCK_LABEL_def)
  have "phase_name (pj_phase (project ?r)) = ''blocked''" "pj_feChip (project ?r) = Fe_Failed"
    using stuck(1) by (simp_all add: project_def)
  then show ?thesis using labels managed pill stuck(1) by (simp add: Let_def)
qed

section \<open>What the label reconcile promises\<close>

lemma reconcile_sel [simp]:
  "lp_next (reconcileFsmLabelSet c d) = filter (\<lambda>l. l \<notin> set FSM_MANAGED_LABELS) c @ d"
  "lp_added (reconcileFsmLabelSet c d) = filter (\<lambda>l. l \<notin> set c) d"
  "lp_removed (reconcileFsmLabelSet c d) =
     filter (\<lambda>l. l \<in> set FSM_MANAGED_LABELS \<and> l \<notin> set d) c"
  "lp_changed (reconcileFsmLabelSet c d) \<longleftrightarrow>
     filter (\<lambda>l. l \<notin> set c) d \<noteq> [] \<or>
     filter (\<lambda>l. l \<in> set FSM_MANAGED_LABELS \<and> l \<notin> set d) c \<noteq> []"
  by (simp_all add: reconcileFsmLabelSet_def Let_def)

lemma reconcile_changed_iff:
  assumes "set d \<subseteq> set FSM_MANAGED_LABELS"
  shows "lp_changed (reconcileFsmLabelSet c d) \<longleftrightarrow> set (lp_next (reconcileFsmLabelSet c d)) \<noteq> set c"
  using assms by (auto simp: filter_empty_conv)

lemma reconcile_again:
  assumes "set d \<subseteq> set FSM_MANAGED_LABELS"
  shows "lp_next (reconcileFsmLabelSet (lp_next (reconcileFsmLabelSet c d)) d)
      = lp_next (reconcileFsmLabelSet c d)
    \<and> \<not> lp_changed (reconcileFsmLabelSet (lp_next (reconcileFsmLabelSet c d)) d)"
proof -
  have "filter (\<lambda>l. l \<notin> set FSM_MANAGED_LABELS) d = []"
    using assms by (auto simp: filter_empty_conv)
  then show ?thesis by (auto simp: filter_empty_conv)
qed

text \<open>
  C23.  The reconcile toward a record's labels is exact and idempotent: the labels outside the managed
  namespace stay, in their order; inside it the pull request ends with exactly the record's labels; it
  reports a change exactly when the label set changes, with the labels added and removed being the two
  differences; and a second run changes nothing.
\<close>

theorem label_reconcile_exact:
  "filter (\<lambda>l. l \<notin> set FSM_MANAGED_LABELS) (lp_next (reconcileFsmLabelSet c (labelsOf r)))
     = filter (\<lambda>l. l \<notin> set FSM_MANAGED_LABELS) c
   \<and> filter (\<lambda>l. l \<in> set FSM_MANAGED_LABELS) (lp_next (reconcileFsmLabelSet c (labelsOf r))) = labelsOf r
   \<and> (lp_changed (reconcileFsmLabelSet c (labelsOf r))
        \<longleftrightarrow> set (lp_next (reconcileFsmLabelSet c (labelsOf r))) \<noteq> set c)
   \<and> set (lp_added (reconcileFsmLabelSet c (labelsOf r)))
        = set (lp_next (reconcileFsmLabelSet c (labelsOf r))) - set c
   \<and> set (lp_removed (reconcileFsmLabelSet c (labelsOf r)))
        = set c - set (lp_next (reconcileFsmLabelSet c (labelsOf r)))
   \<and> lp_next (reconcileFsmLabelSet (lp_next (reconcileFsmLabelSet c (labelsOf r))) (labelsOf r))
        = lp_next (reconcileFsmLabelSet c (labelsOf r))
   \<and> \<not> lp_changed (reconcileFsmLabelSet (lp_next (reconcileFsmLabelSet c (labelsOf r))) (labelsOf r))"
proof -
  note sub = labelsOf_managed[of r]
  have none: "filter (\<lambda>l. l \<notin> set FSM_MANAGED_LABELS) (labelsOf r) = []"
    and all: "filter (\<lambda>l. l \<in> set FSM_MANAGED_LABELS) (labelsOf r) = labelsOf r"
    using sub by (auto simp: filter_empty_conv intro: filter_True)
  have "set (lp_added (reconcileFsmLabelSet c (labelsOf r)))
        = set (lp_next (reconcileFsmLabelSet c (labelsOf r))) - set c"
    and "set (lp_removed (reconcileFsmLabelSet c (labelsOf r)))
        = set c - set (lp_next (reconcileFsmLabelSet c (labelsOf r)))"
    using sub by auto
  then show ?thesis
    using reconcile_changed_iff[OF sub] reconcile_again[OF sub] none all
    by (simp only: reconcile_sel filter_append filter_filter) simp
qed

section \<open>A settled claim over an open finding\<close>

lemma step_by_live:
  assumes "transition (state r) e (live_guards sid no_context st r e) = Inr (Some d)"
  shows "lifecycle_step r (committed (fst (universalPostActions d ctx)) r)"
  by (rule step_commit[OF live.honest assms]) simp

lemma live_app_breaks:
  assumes "state r = REVIEW" and "n = verificationRunId r"
  shows "\<exists>r'. lifecycle_step r r' \<and> state r' = REVIEW \<and> verdict r' = Some Verdict_App_Breaks
    \<and> inFlightEpochId r' = inFlightEpochId r"
proof -
  let ?g = "live_guards [] no_context (live_init no_context) r (Verification_App_Breaks h n)"
  obtain d where t: "transition (state r) (Verification_App_Breaks h n) ?g = Inr (Some d)"
    and d: "d_to d = REVIEW" "w_verdict (d_writes d) = Some (Some Verdict_App_Breaks)"
      "w_inFlightEpochId (d_writes d) = None"
    using assms by (simp add: live_commit_walk step_defs verificationPass_def)
  show ?thesis using step_by_live[OF t] d by (intro exI conjI) (assumption, simp_all)
qed

lemma live_green_cascade:
  fixes st :: live_state
  assumes "state r = REVIEW" and "inFlightEpochId r = None" and "ls_ciBucket st = Ci_Green"
  shows "\<exists>r'. lifecycle_step r r' \<and> state r' = MERGE_READY \<and> verdict r' = verdict r"
proof -
  let ?g = "live_guards [] no_context st r (Caught_Up h)"
  obtain d where t: "transition (state r) (Caught_Up h) ?g = Inr (Some d)"
    and d: "d_to d = MERGE_READY" "w_verdict (d_writes d) = None"
    using assms by (simp add: live_commit_walk step_defs review_caught_up_def caughtUpCascade_def)
  show ?thesis using step_by_live[OF t] d by (intro exI conjI) (assumption, simp_all)
qed

text \<open>
  A MERGE_READY record can carry the verdict \<open>app_breaks\<close>: from a synthetic coordinator, a finding
  of the active run followed by a caught-up cascade on green CI reaches a record that projects success
  with no reason, no label and the mirror \<open>verification-done\<close>, the same columns a pass projects, although
  the comments of the projection rest on the cascade requiring a settled \<open>pass\<close> or \<open>skipped\<close>.
\<close>

theorem merge_ready_projects_open_finding_as_success:
  "\<exists>r. lifecycle_reach r \<and> state r = MERGE_READY \<and> verdict r = Some Verdict_App_Breaks
     \<and> pj_cycloidDone (project r)
         = \<lparr>cd_state = Done_Done, cd_outcome = Some Outcome_Success, cd_reasons = []\<rparr>
     \<and> pj_labels (project r) = [] \<and> mc_verificationState (projectMirrorColumns r) = Some Vs_Done
     \<and> pj_uiLifecycleStage (project r) = Some Ui_Merge_Ready"
proof -
  let ?r0 = "buildSyntheticCoordinatorRecord ''s'' ''u'' ''h'' 0"
  have "seed_record ?r0" unfolding seed_record_def by (intro disjI2 exI conjI) auto
  then have r0: "lifecycle_reach ?r0" by (rule reach_seed)
  have s0: "state ?r0 = REVIEW" "inFlightEpochId ?r0 = None"
    by (simp_all add: buildSyntheticCoordinatorRecord_def buildGenesisRecord_def)
  obtain r1 where r1: "lifecycle_step ?r0 r1" "state r1 = REVIEW" "verdict r1 = Some Verdict_App_Breaks"
      "inFlightEpochId r1 = None"
    using live_app_breaks[OF s0(1) refl] s0(2) by auto
  have "ls_ciBucket ((live_init no_context)\<lparr>ls_ciBucket := Ci_Green\<rparr>) = Ci_Green" by simp
  then obtain r2 where r2: "lifecycle_step r1 r2" "state r2 = MERGE_READY"
      "verdict r2 = Some Verdict_App_Breaks"
    using live_green_cascade[OF r1(2,4)] r1(3) by metis
  have "lifecycle_reach r2" using reach_step[OF reach_step[OF r0 r1(1)] r2(1)] .
  then show ?thesis
    using r2 by (intro exI[of _ r2])
      (simp add: project_def projectMirrorColumns_def cycloidDoneOf_def labelsOf_def
        verificationStateOf_def verificationStateFromVerdict_def)
qed

end
