(* ===== verification/Apply_Event.thy ===== *)
theory Apply_Event
  imports Fsm_Invariant
begin

text \<open>
  The single-writer spine, \<open>session/fsm/apply-event.ts\<close>: read the row, decide, run the post-actions,
  compare-and-swap, then append the journal row, commit the worklist registrations, dispatch the side
  effects, and re-enter once with the caught-up event when the recompute asks for it.

  Everything the spine awaits may interleave with other writers.  The world carries a tick and the
  dependencies an environment step per tick, run before each awaited store call; nothing is assumed of it
  here.  The two sinks and the environment are arguments; the observability emits, which the source
  isolates in \<open>try\<close>/\<open>catch\<close> and which write no table, are left out.  \<open>wd_dispatched\<close> is a ghost log of
  what the side-effect sink was handed.
\<close>

section \<open>World and dependencies\<close>

record dispatch =
  dsp_sessionId :: string
  dsp_version :: int
  dsp_from :: fsm_state
  dsp_to :: fsm_state
  dsp_event :: fsm_event
  dsp_effects :: "side_effect list"
  dsp_worklistFailed :: bool
  dsp_prior :: fsm_record
  dsp_result :: fsm_record

record world =
  wd_prs :: pr_table
  wd_journal :: "journal_row list"
  wd_items :: item_table
  wd_dispatched :: "dispatch list"
  wd_clock :: int
  wd_tick :: nat

datatype sink_error = Sink_Error string

record 'rs deps =
  dp_resolver :: "'rs resolver"
  dp_worklist :: "string \<Rightarrow> int \<Rightarrow> worklist_registration list \<Rightarrow> fsm_record \<Rightarrow> world \<Rightarrow> store_error option \<times> world"
  dp_sideEffects :: "dispatch \<Rightarrow> world \<Rightarrow> sink_error option \<times> world"
  dp_env :: "nat \<Rightarrow> world \<Rightarrow> world"

record apply_input =
  in_sessionId :: string
  in_event :: fsm_event
  in_metadata :: "event_metadata option"
  in_actor :: event_actor

datatype apply_outcome = No_Record | Unhandled | Handled | Lost_Race

record apply_result =
  ar_outcome :: apply_outcome
  ar_from :: "fsm_state option"
  ar_to :: "fsm_state option"
  ar_version :: "int option"

datatype apply_error =
    Transition_Threw fsm_error
  | Journal_Threw pr_error
  | Worklist_Threw store_error
  | Sink_Threw sink_error

definition MAX_CAS_ATTEMPTS :: nat where "MAX_CAS_ATTEMPTS = 4"

definition MAX_REENTRY_DEPTH :: nat where "MAX_REENTRY_DEPTH = 4"

text \<open>The other writers' turn before an awaited call.\<close>

definition interfere :: "('rs, 'm) deps_scheme \<Rightarrow> world \<Rightarrow> world" where
  "interfere deps w = (dp_env deps (wd_tick w) w)\<lparr>wd_tick := wd_tick w + 1\<rparr>"

section \<open>One attempt\<close>

text \<open>What a won compare-and-swap hands to the commit tail.\<close>

record commit_ticket =
  ct_prev :: fsm_record
  ct_decision :: decision
  ct_now :: int
  ct_dwellMs :: int
  ct_result :: fsm_record

datatype attempt =
    Settled apply_result
  | Threw fsm_error
  | Retry
  | Won commit_ticket

definition applyResult :: "fsm_record \<Rightarrow> fsm_state \<Rightarrow> fsm_field_writes \<Rightarrow> fsm_record" where
  "applyResult prev to w = committed_row (Some to) w prev"

text \<open>The decision the spine will write for a record, with the dwell time (lines 379 to 411).\<close>

definition finalDecision ::
  "'rs resolver \<Rightarrow> 'rs \<Rightarrow> int \<Rightarrow> fsm_record \<Rightarrow> decision \<Rightarrow> decision \<times> int" where
  "finalDecision rv rs now rec d =
    (let deadline_ms = rv_deadlineMs rv (d_to d);
         dwellNeutral = isDwellNeutralSelfLoop (state rec) d;
         preResetResult = applyResult rec (d_to d)
           (merge_writes [d_writes d, if dwellNeutral then no_writes else armDeadline now deadline_ms]);
         resetContext = rv_resetContext rv rs preResetResult
     in universalPostActions d
          \<lparr>rc_ciGreen = rc_ciGreen resetContext, rc_noInflightEpoch = rc_noInflightEpoch resetContext,
           rc_now = now, rc_stateEnteredAt = stateEnteredAt rec, rc_deadlineMs = deadline_ms,
           rc_dwellNeutral = dwellNeutral\<rparr>)"

definition casAttempt ::
  "('rs, 'm) deps_scheme \<Rightarrow> apply_input \<Rightarrow> 'rs \<Rightarrow> world \<Rightarrow> attempt \<times> world" where
  "casAttempt deps inp rs w0 =
    (let w = interfere deps w0; rv = dp_resolver deps; sid = in_sessionId inp in
     case getPrCoordination (wd_prs w) sid of
       None \<Rightarrow>
         (Settled \<lparr>ar_outcome = No_Record, ar_from = None, ar_to = None, ar_version = None\<rparr>, w)
     | Some rec \<Rightarrow>
         (case transition (state rec) (in_event inp) (rv_guards rv rs rec (in_event inp)) of
            Inl err \<Rightarrow> (Threw err, w)
          | Inr None \<Rightarrow>
              (Settled \<lparr>ar_outcome = Unhandled, ar_from = Some (state rec), ar_to = Some (state rec),
                        ar_version = Some (version rec)\<rparr>, w)
          | Inr (Some d) \<Rightarrow>
              (let (post, dwell) = finalDecision rv rs (wd_clock w) rec d;
                   w' = interfere deps w;
                   (t, changed) = casUpdatePrCoordination sid (version rec) (Some (d_to post))
                                    (d_writes post) (wd_prs w')
               in if changed = 0 then (Retry, w')
                  else (Won \<lparr>ct_prev = rec, ct_decision = post, ct_now = wd_clock w, ct_dwellMs = dwell,
                             ct_result = applyResult rec (d_to post) (d_writes post)\<rparr>,
                        w'\<lparr>wd_prs := t\<rparr>))))"

primrec casLoop ::
  "nat \<Rightarrow> ('rs, 'm) deps_scheme \<Rightarrow> apply_input \<Rightarrow> 'rs \<Rightarrow> world \<Rightarrow> attempt \<times> world" where
  "casLoop 0 deps inp rs w =
    (Settled \<lparr>ar_outcome = Lost_Race, ar_from = None, ar_to = None, ar_version = None\<rparr>, w)"
| "casLoop (Suc n) deps inp rs w =
    (case casAttempt deps inp rs w of
       (Retry, w') \<Rightarrow> casLoop n deps inp rs w'
     | done \<Rightarrow> done)"

section \<open>The commit tail\<close>

type_synonym 'rs spine_result = "(apply_error + apply_result) \<times> 'rs \<times> world"

definition journalRow :: "apply_input \<Rightarrow> commit_ticket \<Rightarrow> journal_row" where
  "journalRow inp ct =
    \<lparr>j_sessionId = in_sessionId inp, j_version = version (ct_prev ct) + 1,
     j_fromState = state (ct_prev ct), j_toState = d_to (ct_decision ct),
     j_event = event_type (in_event inp), j_at = ct_now ct, j_actor = in_actor inp,
     j_metadata = in_metadata inp, j_dwellMs = Some (ct_dwellMs ct), j_settleDedupKey = None\<rparr>"

definition commitWorklist ::
  "('rs, 'm) deps_scheme \<Rightarrow> apply_input \<Rightarrow> commit_ticket \<Rightarrow> world \<Rightarrow> store_error option \<times> world" where
  "commitWorklist deps inp ct w =
    (let regs = nullish (d_regs (ct_decision ct)) [] in
     if regs = [] then (None, w)
     else dp_worklist deps (in_sessionId inp) (version (ct_prev ct) + 1) regs (ct_result ct)
            (interfere deps w))"

definition dispatchOf :: "apply_input \<Rightarrow> commit_ticket \<Rightarrow> bool \<Rightarrow> dispatch" where
  "dispatchOf inp ct failed =
    \<lparr>dsp_sessionId = in_sessionId inp, dsp_version = version (ct_prev ct) + 1,
     dsp_from = state (ct_prev ct), dsp_to = d_to (ct_decision ct), dsp_event = in_event inp,
     dsp_effects = d_effects (ct_decision ct), dsp_worklistFailed = failed,
     dsp_prior = ct_prev ct, dsp_result = ct_result ct\<rparr>"

definition dispatchEffects ::
  "('rs, 'm) deps_scheme \<Rightarrow> dispatch \<Rightarrow> world \<Rightarrow> sink_error option \<times> world" where
  "dispatchEffects deps dsp w =
    (let w' = interfere deps w
     in dp_sideEffects deps dsp (w'\<lparr>wd_dispatched := wd_dispatched w' @ [dsp]\<rparr>))"

definition handledResult :: "commit_ticket \<Rightarrow> apply_result" where
  "handledResult ct =
    \<lparr>ar_outcome = Handled, ar_from = Some (state (ct_prev ct)),
     ar_to = Some (d_to (ct_decision ct)), ar_version = Some (version (ct_prev ct) + 1)\<rparr>"

definition caughtUpInput :: "apply_input \<Rightarrow> fsm_event \<Rightarrow> apply_input" where
  "caughtUpInput inp e =
    \<lparr>in_sessionId = in_sessionId inp, in_event = e, in_metadata = Some (Meta_Plain ''caught_up''),
     in_actor = Actor_Internal\<rparr>"

text \<open>
  The recompute tail: nothing when the re-entry budget is spent or the transition is no trigger;
  otherwise the snapshot is read and a caught-up event, if it holds, re-enters the spine.
\<close>

definition recomputeTail ::
  "(apply_input \<Rightarrow> 'rs \<Rightarrow> world \<Rightarrow> 'rs spine_result) option \<Rightarrow> ('rs, 'm) deps_scheme \<Rightarrow> apply_input
     \<Rightarrow> commit_ticket \<Rightarrow> 'rs \<Rightarrow> world \<Rightarrow> 'rs spine_result" where
  "recomputeTail reenter deps inp ct rs w =
    (case reenter of
       None \<Rightarrow> (Inr (handledResult ct), rs, w)
     | Some again \<Rightarrow>
         (if classifyCaughtUpTrigger (state (ct_prev ct)) (in_event inp) (d_to (ct_decision ct)) = None
          then (Inr (handledResult ct), rs, w)
          else
            (let w' = interfere deps w;
                 (rs', noInflight, undispositioned) =
                   rv_caughtUpInputs (dp_resolver deps) rs
                     \<lparr>ws_items = wd_items w', ws_journal = wd_journal w'\<rparr> (ct_result ct) (in_event inp)
             in case recomputeCaughtUp (d_to (ct_decision ct)) (headSha (ct_result ct)) noInflight
                       undispositioned of
                  None \<Rightarrow> (Inr (handledResult ct), rs', w')
                | Some e \<Rightarrow>
                    (case again (caughtUpInput inp e) rs' w' of
                       (Inl err, rs'', w'') \<Rightarrow> (Inl err, rs'', w'')
                     | (Inr _, rs'', w'') \<Rightarrow> (Inr (handledResult ct), rs'', w'')))))"

definition finishCommit ::
  "(apply_input \<Rightarrow> 'rs \<Rightarrow> world \<Rightarrow> 'rs spine_result) option \<Rightarrow> ('rs, 'm) deps_scheme \<Rightarrow> apply_input
     \<Rightarrow> commit_ticket \<Rightarrow> 'rs \<Rightarrow> world \<Rightarrow> 'rs spine_result" where
  "finishCommit reenter deps inp ct rs w0 =
    (let w = interfere deps w0 in
     case appendPrCoordinationEvent (journalRow inp ct) (wd_journal w) of
       Inl err \<Rightarrow> (Inl (Journal_Threw err), rs, w)
     | Inr js \<Rightarrow>
         (let (failure, w1) = commitWorklist deps inp ct (w\<lparr>wd_journal := js\<rparr>);
              (sinkErr, w2) = dispatchEffects deps (dispatchOf inp ct (failure \<noteq> None)) w1
          in case sinkErr of
               Some err \<Rightarrow> (Inl (Sink_Threw err), rs, w2)
             | None \<Rightarrow>
                 (case failure of
                    Some err \<Rightarrow> (Inl (Worklist_Threw err), rs, w2)
                  | None \<Rightarrow> recomputeTail reenter deps inp ct rs w2)))"

section \<open>The spine\<close>

definition spine ::
  "(apply_input \<Rightarrow> 'rs \<Rightarrow> world \<Rightarrow> 'rs spine_result) option \<Rightarrow> ('rs, 'm) deps_scheme \<Rightarrow> apply_input
     \<Rightarrow> 'rs \<Rightarrow> world \<Rightarrow> 'rs spine_result" where
  "spine reenter deps inp rs w =
    (case casLoop MAX_CAS_ATTEMPTS deps inp rs w of
       (Settled res, w') \<Rightarrow> (Inr res, rs, w')
     | (Threw err, w') \<Rightarrow> (Inl (Transition_Threw err), rs, w')
     | (Retry, w') \<Rightarrow> (Inr \<lparr>ar_outcome = Lost_Race, ar_from = None, ar_to = None, ar_version = None\<rparr>, rs, w')
     | (Won ct, w') \<Rightarrow> finishCommit reenter deps inp ct rs w')"

text \<open>\<open>applyFrom k\<close> is \<open>applyEvent\<close> at depth \<open>MAX_REENTRY_DEPTH - k\<close>.\<close>

primrec applyFrom ::
  "nat \<Rightarrow> ('rs, 'm) deps_scheme \<Rightarrow> apply_input \<Rightarrow> 'rs \<Rightarrow> world \<Rightarrow> 'rs spine_result" where
  "applyFrom 0 deps inp rs w = spine None deps inp rs w"
| "applyFrom (Suc k) deps inp rs w = spine (Some (applyFrom k deps)) deps inp rs w"

definition applyEvent ::
  "('rs, 'm) deps_scheme \<Rightarrow> apply_input \<Rightarrow> 'rs \<Rightarrow> world \<Rightarrow> 'rs spine_result" where
  "applyEvent deps inp rs w = applyFrom MAX_REENTRY_DEPTH deps inp rs w"

section \<open>The live sinks\<close>

text \<open>
  The durable worklist sink of \<open>buildLiveWorklistSink\<close> on the world, and the exported no-op side-effect
  sink.
\<close>

definition liveWorklistSink ::
  "string \<Rightarrow> int \<Rightarrow> worklist_registration list \<Rightarrow> fsm_record \<Rightarrow> world \<Rightarrow> store_error option \<times> world" where
  "liveWorklistSink sid v regs rec w =
    (case liveWorklistCommit (wd_clock w) sid regs rec (wd_items w) of
       Inl err \<Rightarrow> (Some err, w)
     | Inr items \<Rightarrow> (None, w\<lparr>wd_items := items\<rparr>))"

definition noopSideEffectSink :: "dispatch \<Rightarrow> world \<Rightarrow> sink_error option \<times> world" where
  "noopSideEffectSink dsp w = (None, w)"

end
