(* ===== verification/Spine_Guarantee.thy ===== *)
theory Spine_Guarantee
  imports Apply_Event
begin

text \<open>
  What the spine guarantees to every other writer, given that every other writer guarantees the same: a
  rely/guarantee argument over the tables.  The rely \<open>steps_well\<close> says that a step keeps the world well
  formed, whatever commits are still waiting for their journal row, and moves no row except forward in
  its version or by the two post-commit stamps.  The locale \<open>spine_context\<close> assumes it of the environment
  and of the two sinks and concludes it of \<open>applyFrom\<close>, so that any number of producers may be stacked; it
  is interpreted on the live resolver, first alone and then against a schedule of other live producers.
\<close>

section \<open>Well-formed worlds\<close>

definition j_key :: "journal_row \<Rightarrow> string \<times> int" where
  "j_key j = (j_sessionId j, j_version j)"

text \<open>The journal keys the table calls for: one per version after the seed.\<close>

definition version_keys :: "pr_table \<Rightarrow> (string \<times> int) set" where
  "version_keys t = {(sid, v). \<exists>r. getPrCoordination t sid = Some r \<and> 1 \<le> v \<and> v \<le> version r}"

text \<open>\<open>P\<close> holds the commits whose journal row is not written yet.\<close>

definition journal_covers :: "(string \<times> int) set \<Rightarrow> world \<Rightarrow> bool" where
  "journal_covers P w \<longleftrightarrow>
     distinct (map j_key (wd_journal w)) \<and> set (map j_key (wd_journal w)) \<inter> P = {}
     \<and> set (map j_key (wd_journal w)) \<union> P = version_keys (wd_prs w)"

definition world_ok :: "(string \<times> int) set \<Rightarrow> world \<Rightarrow> bool" where
  "world_ok P w \<longleftrightarrow> pk_unique (wd_prs w) \<and> keys_unique (wd_items w)
     \<and> (\<forall>sid r. getPrCoordination (wd_prs w) sid = Some r \<longrightarrow> record_ok r) \<and> journal_covers P w"

definition stamped :: "fsm_record \<Rightarrow> fsm_record \<Rightarrow> bool" where
  "stamped r r' \<longleftrightarrow> (\<exists>c n. r' = r\<lparr>verificationChildId := c, updateBranchQueuedAt := n\<rparr>)"

definition rows_stable :: "world \<Rightarrow> world \<Rightarrow> bool" where
  "rows_stable w w' \<longleftrightarrow>
    (\<forall>sid r. getPrCoordination (wd_prs w) sid = Some r \<longrightarrow>
       (\<exists>r'. getPrCoordination (wd_prs w') sid = Some r' \<and> version r \<le> version r'
             \<and> (version r' = version r \<longrightarrow> stamped r r')))"

definition steps_well :: "world \<Rightarrow> world \<Rightarrow> bool" where
  "steps_well w w' \<longleftrightarrow> (\<forall>P. world_ok P w \<longrightarrow> world_ok P w' \<and> rows_stable w w')"

lemma stamped_refl [simp]: "stamped r r"
  unfolding stamped_def
  by (rule exI[of _ "verificationChildId r"], rule exI[of _ "updateBranchQueuedAt r"]) simp

lemma stamped_trans: "stamped a b \<Longrightarrow> stamped b c \<Longrightarrow> stamped a c"
  unfolding stamped_def by (elim exE) (simp, metis)

lemma rows_stable_refl: "rows_stable w w"
  by (auto simp: rows_stable_def)

lemma rows_stable_trans:
  assumes "rows_stable a b" and "rows_stable b c"
  shows "rows_stable a c"
  unfolding rows_stable_def
proof (intro allI impI)
  fix sid r assume "getPrCoordination (wd_prs a) sid = Some r"
  then obtain r1 where 1: "getPrCoordination (wd_prs b) sid = Some r1" "version r \<le> version r1"
      "version r1 = version r \<longrightarrow> stamped r r1"
    using assms(1) unfolding rows_stable_def by blast
  then obtain r2 where 2: "getPrCoordination (wd_prs c) sid = Some r2" "version r1 \<le> version r2"
      "version r2 = version r1 \<longrightarrow> stamped r1 r2"
    using assms(2) unfolding rows_stable_def by blast
  have "version r2 = version r \<longrightarrow> stamped r r2"
    using 1 2 by (auto intro: stamped_trans)
  then show "\<exists>r'. getPrCoordination (wd_prs c) sid = Some r' \<and> version r \<le> version r'
      \<and> (version r' = version r \<longrightarrow> stamped r r')"
    using 1 2 by (intro exI[of _ r2]) simp
qed

lemma steps_well_refl: "steps_well w w"
  by (simp add: steps_well_def rows_stable_refl)

lemma steps_well_trans: "steps_well a b \<Longrightarrow> steps_well b c \<Longrightarrow> steps_well a c"
  unfolding steps_well_def using rows_stable_trans by blast

text \<open>The tables are all that counts: clock, tick and ghost log are free.\<close>

lemma world_ok_cong [simp]:
  "world_ok P (w\<lparr>wd_tick := n\<rparr>) = world_ok P w"
  "world_ok P (w\<lparr>wd_dispatched := ds\<rparr>) = world_ok P w"
  by (simp_all add: world_ok_def journal_covers_def)

lemma rows_stable_cong [simp]:
  "rows_stable w (w'\<lparr>wd_tick := n\<rparr>) = rows_stable w w'"
  "rows_stable w (w'\<lparr>wd_dispatched := ds\<rparr>) = rows_stable w w'"
  "rows_stable w (w'\<lparr>wd_journal := js\<rparr>) = rows_stable w w'"
  by (simp_all add: rows_stable_def)

lemma steps_well_cong [simp]:
  "steps_well w (w'\<lparr>wd_tick := n\<rparr>) = steps_well w w'"
  "steps_well w (w'\<lparr>wd_dispatched := ds\<rparr>) = steps_well w w'"
  by (simp_all add: steps_well_def)

section \<open>The compare-and-swap and the journal append\<close>

lemma cas_won:
  assumes "pk_unique t" and "casUpdatePrCoordination sid v s w t = (t', n)" and "n \<noteq> 0"
  obtains r where "getPrCoordination t sid = Some r" "version r = v"
    "getPrCoordination t' sid = Some (committed_row s w r)" "pk_unique t'"
    "\<And>other. other \<noteq> sid \<Longrightarrow> getPrCoordination t' other = getPrCoordination t other"
proof -
  have cas: "cas_row sid v (s, w) t = (t', n)" using assms(2) by (simp add: cas_row_def)
  have "\<exists>r. getPrCoordination t sid = Some r \<and> version r = v"
    using prs.cas_miss[OF assms(1), of sid v "(s, w)"] cas assms(3) by auto
  then obtain r where r: "getPrCoordination t sid = Some r" "version r = v" by blast
  show thesis
    using that[OF r] prs.cas_hit[OF assms(1) r, of "(s, w)"] prs.wf_cas[OF assms(1), of sid v "(s, w)"]
      prs.cas_frame[of _ sid v "(s, w)" t] cas by simp
qed

lemma cas_lost: "casUpdatePrCoordination sid v s w t = (t', 0) \<Longrightarrow> pk_unique t \<Longrightarrow> t' = t"
  using prs.cas_miss[of t sid v "(s, w)"] prs.cas_hit[of t sid _ v "(s, w)"]
  by (cases "getPrCoordination t sid") (fastforce simp: cas_row_def)+

lemma version_keys_bump:
  assumes "getPrCoordination t sid = Some r" and "getPrCoordination t' sid = Some r'"
    and "version r' = version r + 1" and "0 \<le> version r"
    and "\<And>other. other \<noteq> sid \<Longrightarrow> getPrCoordination t' other = getPrCoordination t other"
  shows "version_keys t' = insert (sid, version r + 1) (version_keys t)"
    and "(sid, version r + 1) \<notin> version_keys t"
proof -
  have "(s, v) \<in> version_keys t' \<longleftrightarrow> (s, v) \<in> insert (sid, version r + 1) (version_keys t)" for s v
    using assms by (cases "s = sid") (auto simp: version_keys_def)
  then show "version_keys t' = insert (sid, version r + 1) (version_keys t)" by auto
  show "(sid, version r + 1) \<notin> version_keys t" using assms(1) by (simp add: version_keys_def)
qed

lemma append_ok:
  assumes "world_ok (insert k P) w" and "k \<notin> P" and "j_key j = k"
  shows "appendPrCoordinationEvent j (wd_journal w) = Inr (wd_journal w @ [j])
    \<and> world_ok P (w\<lparr>wd_journal := wd_journal w @ [j]\<rparr>)"
proof -
  have c: "journal_covers (insert k P) w" using assms(1) by (simp add: world_ok_def)
  then have fresh: "k \<notin> set (map j_key (wd_journal w))"
    unfolding journal_covers_def by blast
  then have "\<not> (\<exists>x \<in> set (wd_journal w). j_sessionId x = j_sessionId j \<and> j_version x = j_version j)"
    unfolding assms(3)[symmetric] by (fastforce simp: j_key_def image_iff)
  moreover have "journal_covers P (w\<lparr>wd_journal := wd_journal w @ [j]\<rparr>)"
    using c fresh assms(2,3) by (auto simp: journal_covers_def)
  ultimately show ?thesis
    using assms(1) by (simp add: appendPrCoordinationEvent_def world_ok_def)
qed

lemma record_ok_stamped_commit:
  assumes "record_ok (committed_row (Some s) w r)" and "stamped r r'"
  shows "record_ok (committed_row (Some s) w r')"
  using assms(2) by (auto simp: stamped_def committed_row_def intro!: record_ok_transfer[OF assms(1)])

section \<open>The rely/guarantee contract\<close>

locale spine_context =
  fixes deps :: "('rs, 'm) deps_scheme"
    and emits :: "fsm_event \<Rightarrow> bool"
  assumes env_well: "steps_well w (dp_env deps n w)"
    and worklist_well: "steps_well w (snd (dp_worklist deps sid v regs rec w))"
    and effects_well: "steps_well w (snd (dp_sideEffects deps dsp w))"
    and honest_guards: "emits e \<Longrightarrow> honest_bag r e (rv_guards (dp_resolver deps) rs r e)"
    and emits_caught_up: "emits (Caught_Up h)"
begin

lemma interfere_well: "steps_well w (interfere deps w)"
  by (simp add: interfere_def env_well)

text \<open>The shape of a won attempt: the row moved one version, on the decision taken on an honest bag.\<close>

lemma won_attempt:
  assumes run: "casAttempt deps inp rs w = (Won ct, w')" and emit: "emits (in_event inp)"
    and ok: "world_ok P w"
  shows "world_ok (insert (in_sessionId inp, version (ct_prev ct) + 1) P) w'
    \<and> (in_sessionId inp, version (ct_prev ct) + 1) \<notin> P \<and> rows_stable w w'"
proof -
  let ?w1 = "interfere deps w"
  let ?w2 = "interfere deps ?w1"
  let ?rv = "dp_resolver deps"
  let ?sid = "in_sessionId inp"
  obtain rec d where get: "getPrCoordination (wd_prs ?w1) ?sid = Some rec"
    and t: "transition (state rec) (in_event inp) (rv_guards ?rv rs rec (in_event inp)) = Inr (Some d)"
    using run by (auto simp: casAttempt_def Let_def split: option.splits sum.splits)
  define post where "post = fst (finalDecision ?rv rs (wd_clock ?w1) rec d)"
  obtain prs' n where cas: "casUpdatePrCoordination ?sid (version rec) (Some (d_to post))
      (d_writes post) (wd_prs ?w2) = (prs', n)" by fastforce
  have n: "n \<noteq> 0" and ct: "ct_prev ct = rec" and w': "w' = ?w2\<lparr>wd_prs := prs'\<rparr>"
    using run get t cas
    by (auto simp: casAttempt_def Let_def post_def[symmetric] case_prod_beta split: if_splits)
  have ok1: "world_ok P ?w1" and ok2: "world_ok P ?w2"
    using ok interfere_well unfolding steps_well_def by blast+
  obtain r where r: "getPrCoordination (wd_prs ?w2) ?sid = Some r" "version r = version rec"
      "getPrCoordination prs' ?sid = Some (committed_row (Some (d_to post)) (d_writes post) r)"
      "pk_unique prs'"
    and frame: "\<And>other. other \<noteq> ?sid \<Longrightarrow>
      getPrCoordination prs' other = getPrCoordination (wd_prs ?w2) other"
    using cas_won[OF _ cas n] ok2 by (auto simp: world_ok_def)
  have st: "stamped rec r"
    using interfere_well[of ?w1] ok1 get r(1,2) unfolding steps_well_def rows_stable_def by fastforce
  have post_d: "\<exists>ctx. post = fst (universalPostActions d ctx)"
    by (auto simp: post_def finalDecision_def Let_def)
  have rec_ok: "record_ok rec" using ok1 get by (auto simp: world_ok_def)
  have "record_ok (committed post rec)"
    using post_d record_ok_post[OF keep_record_ok[OF rec_ok honest_guards[OF emit] t]] by auto
  then have row_ok: "record_ok (committed_row (Some (d_to post)) (d_writes post) r)"
    using record_ok_stamped_commit[OF _ st] by (simp add: committed_def)
  have v0: "0 \<le> version r" using ok2 r(1) by (auto simp: world_ok_def record_ok_def inv_counters_def)
  note keys = version_keys_bump[OF r(1,3) _ v0 frame, simplified]
  have "journal_covers (insert (?sid, version rec + 1) P) w'"
    and fresh: "(?sid, version rec + 1) \<notin> P"
    using ok2 keys r(2) w' by (auto simp: world_ok_def journal_covers_def)
  then have "world_ok (insert (?sid, version rec + 1) P) w'"
    using ok2 r row_ok frame w' unfolding world_ok_def
    by (simp, metis option.inject)
  moreover have "rows_stable ?w2 w'"
    unfolding rows_stable_def
  proof (intro allI impI)
    fix sid x assume x: "getPrCoordination (wd_prs ?w2) sid = Some x"
    show "\<exists>r'. getPrCoordination (wd_prs w') sid = Some r' \<and> version x \<le> version r'
        \<and> (version r' = version x \<longrightarrow> stamped x r')"
      using x r frame[of sid] w' by (cases "sid = ?sid") auto
  qed
  then have "rows_stable w w'"
    using interfere_well rows_stable_trans ok ok1 unfolding steps_well_def by blast
  ultimately show ?thesis using fresh ct by simp
qed

lemma other_attempt:
  assumes run: "casAttempt deps inp rs w = (a, w')" and "\<And>ct. a \<noteq> Won ct"
  shows "steps_well w w'"
proof -
  have "w' = interfere deps w \<or> w' = interfere deps (interfere deps w)"
    using assms by (auto simp: casAttempt_def Let_def case_prod_beta
        split: option.splits sum.splits if_splits)
  then show ?thesis using interfere_well steps_well_trans by blast
qed

definition won :: "apply_input \<Rightarrow> commit_ticket \<Rightarrow> world \<Rightarrow> world \<Rightarrow> bool" where
  "won inp ct w w' \<longleftrightarrow>
    (\<forall>P. world_ok P w \<longrightarrow>
       world_ok (insert (in_sessionId inp, version (ct_prev ct) + 1) P) w'
       \<and> (in_sessionId inp, version (ct_prev ct) + 1) \<notin> P \<and> rows_stable w w')"

lemma won_after: "steps_well a b \<Longrightarrow> won inp ct b c \<Longrightarrow> won inp ct a c"
  unfolding won_def steps_well_def using rows_stable_trans by blast

lemma loop_won:
  assumes "emits (in_event inp)" and "casLoop n deps inp rs w = (Won ct, w')"
  shows "won inp ct w w'"
  using assms(2)
proof (induction n arbitrary: w)
  case (Suc n)
  obtain a w1 where a: "casAttempt deps inp rs w = (a, w1)" by fastforce
  show ?case
  proof (cases a)
    case Retry
    then have "steps_well w w1" by (intro other_attempt[OF a]) simp
    then show ?thesis using Suc a Retry by (auto intro: won_after)
  next
    case (Won ct')
    then have "ct' = ct" "w1 = w'" using Suc.prems a by simp_all
    then show ?thesis
      using won_attempt[OF a[unfolded Won] assms(1)] by (simp add: won_def)
  qed (use Suc.prems a in simp_all)
qed simp

lemma loop_other:
  assumes "casLoop n deps inp rs w = (a, w')" and "\<And>ct. a \<noteq> Won ct"
  shows "steps_well w w'"
  using assms(1)
proof (induction n arbitrary: w)
  case (Suc n)
  obtain a1 w1 where a1: "casAttempt deps inp rs w = (a1, w1)" by fastforce
  show ?case
  proof (cases a1)
    case Retry
    then have "steps_well w w1" by (intro other_attempt[OF a1]) simp
    then show ?thesis using Suc a1 Retry by (auto intro: steps_well_trans)
  qed (use Suc.prems a1 assms(2) in \<open>auto intro: other_attempt\<close>)
qed (simp add: steps_well_refl)

lemma worklist_step: "steps_well w (snd (commitWorklist deps inp ct w))"
  unfolding commitWorklist_def Let_def
  using steps_well_trans[OF interfere_well worklist_well] by (auto intro: steps_well_refl)

lemma effects_step: "steps_well w (snd (dispatchEffects deps dsp w))"
proof -
  let ?w1 = "interfere deps w"
  have "steps_well w (?w1\<lparr>wd_dispatched := wd_dispatched ?w1 @ [dsp]\<rparr>)"
    by (simp add: interfere_well)
  then show ?thesis
    unfolding dispatchEffects_def Let_def using effects_well steps_well_trans by blast
qed

text \<open>A re-entry may be assumed to behave: it is the same spine at a smaller depth.\<close>

definition reentry_well :: "(apply_input \<Rightarrow> 'rs \<Rightarrow> world \<Rightarrow> 'rs spine_result) option \<Rightarrow> bool" where
  "reentry_well again \<longleftrightarrow>
    (\<forall>f inp rs w. again = Some f \<longrightarrow> emits (in_event inp) \<longrightarrow>
       steps_well w (snd (snd (f inp rs w)))
       \<and> (\<forall>P e. world_ok P w \<longrightarrow> fst (f inp rs w) \<noteq> Inl (Journal_Threw e)))"

lemma recompute_step:
  assumes "reentry_well again" and "recomputeTail again deps inp ct rs w = (res, rs', w')"
  shows "steps_well w w' \<and> (world_ok P w \<longrightarrow> res \<noteq> Inl (Journal_Threw err))"
proof -
  let ?w1 = "interfere deps w"
  obtain rs1 n u where inputs: "rv_caughtUpInputs (dp_resolver deps) rs
      \<lparr>ws_items = wd_items ?w1, ws_journal = wd_journal ?w1\<rparr> (ct_result ct) (in_event inp) = (rs1, n, u)"
    by (metis prod_cases3)
  consider (rest) "res = Inr (handledResult ct)" "w' = w \<or> w' = ?w1"
    | (again) f e out where "again = Some f"
        "recomputeCaughtUp (d_to (ct_decision ct)) (headSha (ct_result ct)) n u = Some e"
        "f (caughtUpInput inp e) rs1 ?w1 = (out, rs', w')"
        "\<And>x. res = Inl x \<Longrightarrow> out = Inl x"
    using assms(2) inputs
    by (auto simp: recomputeTail_def Let_def split: option.splits if_splits sum.splits prod.splits)
  then show ?thesis
  proof cases
    case rest
    then show ?thesis using interfere_well steps_well_refl by blast
  next
    case again
    have emit: "emits (in_event (caughtUpInput inp e))"
      using again(2) emits_caught_up by (auto simp: recompute_Some caughtUpInput_def)
    have f: "steps_well ?w1 w'" "\<And>P e. world_ok P ?w1 \<Longrightarrow> out \<noteq> Inl (Journal_Threw e)"
      using assms(1) again(1,3) emit unfolding reentry_well_def by (metis fst_conv snd_conv)+
    have "world_ok P ?w1" if "world_ok P w"
      using that interfere_well unfolding steps_well_def by blast
    then show ?thesis
      using f again(4) steps_well_trans[OF interfere_well f(1)] by blast
  qed
qed

lemma finish_step:
  assumes "reentry_well again" and "finishCommit again deps inp ct rs w = (res, rs', w')"
    and ok: "world_ok (insert (in_sessionId inp, version (ct_prev ct) + 1) P) w"
    and fresh: "(in_sessionId inp, version (ct_prev ct) + 1) \<notin> P"
  shows "world_ok P w' \<and> rows_stable w w' \<and> res \<noteq> Inl (Journal_Threw err)"
proof -
  let ?k = "(in_sessionId inp, version (ct_prev ct) + 1)"
  let ?w1 = "interfere deps w"
  let ?w2 = "?w1\<lparr>wd_journal := wd_journal ?w1 @ [journalRow inp ct]\<rparr>"
  have ok1: "world_ok (insert ?k P) ?w1" and rs1: "rows_stable w ?w1"
    using ok interfere_well unfolding steps_well_def by blast+
  have key: "j_key (journalRow inp ct) = ?k" by (simp add: j_key_def journalRow_def)
  have app: "appendPrCoordinationEvent (journalRow inp ct) (wd_journal ?w1)
        = Inr (wd_journal ?w1 @ [journalRow inp ct])" and ok2: "world_ok P ?w2"
    using append_ok[OF ok1 fresh key] by blast+
  obtain failure w3 where wl: "commitWorklist deps inp ct ?w2 = (failure, w3)" by fastforce
  obtain sinkErr w4 where se: "dispatchEffects deps (dispatchOf inp ct (failure \<noteq> None)) w3 = (sinkErr, w4)"
    by fastforce
  have s24: "steps_well ?w2 w4"
    using worklist_step[of ?w2 inp ct] effects_step[of w3] wl se steps_well_trans by (metis snd_conv)
  have "steps_well w4 w' \<and> (world_ok P w4 \<longrightarrow> res \<noteq> Inl (Journal_Threw err))"
  proof (cases "sinkErr = None \<and> failure = None")
    case True
    then have "recomputeTail again deps inp ct rs w4 = (res, rs', w')"
      using assms(2) app wl se by (simp add: finishCommit_def Let_def)
    then show ?thesis by (rule recompute_step[OF assms(1)])
  next
    case False
    then have "w' = w4 \<and> (\<forall>e. res \<noteq> Inl (Journal_Threw e))"
      using assms(2) app wl se by (auto simp: finishCommit_def Let_def split: option.splits)
    then show ?thesis using steps_well_refl by blast
  qed
  moreover have "rows_stable w ?w2" using rs1 by simp
  ultimately show ?thesis
    using ok2 s24 rows_stable_trans unfolding steps_well_def by blast
qed

lemma spine_step:
  assumes "reentry_well again" and "emits (in_event inp)"
  shows "steps_well w (snd (snd (spine again deps inp rs w)))
    \<and> (\<forall>P e. world_ok P w \<longrightarrow> fst (spine again deps inp rs w) \<noteq> Inl (Journal_Threw e))"
proof -
  obtain a w1 where loop: "casLoop MAX_CAS_ATTEMPTS deps inp rs w = (a, w1)" by fastforce
  show ?thesis
  proof (cases a)
    case (Won ct)
    have won: "won inp ct w w1" by (rule loop_won[OF assms(2) loop[unfolded Won]])
    obtain res rs' w' where fin: "finishCommit again deps inp ct rs w1 = (res, rs', w')"
      by (metis prod_cases3)
    have "world_ok P w' \<and> rows_stable w w' \<and> res \<noteq> Inl (Journal_Threw e)" if "world_ok P w" for P e
      using finish_step[OF assms(1) fin, of P e] won that rows_stable_trans
      unfolding won_def by blast
    then show ?thesis using loop Won fin by (simp add: spine_def steps_well_def)
  qed (use loop_other[OF loop] loop in \<open>auto simp: spine_def\<close>)
qed

text \<open>The guarantee: the spine, at any remaining re-entry depth, is itself an environment step.\<close>

lemma spine_well:
  assumes "emits (in_event inp)"
  shows "steps_well w (snd (snd (applyFrom k deps inp rs w)))
    \<and> (\<forall>P e. world_ok P w \<longrightarrow> fst (applyFrom k deps inp rs w) \<noteq> Inl (Journal_Threw e))"
  using assms
proof (induction k arbitrary: inp rs w)
  case 0
  have "reentry_well None" by (simp add: reentry_well_def)
  then show ?case using spine_step[OF _ 0] by simp
next
  case (Suc k)
  have "reentry_well (Some (applyFrom k deps))"
    using Suc.IH by (simp add: reentry_well_def)
  then show ?case using spine_step[OF _ Suc.prems] by simp
qed

end

section \<open>The live producers\<close>

definition liveDeps ::
  "string \<Rightarrow> live_context \<Rightarrow> ci_poll \<Rightarrow> bool option \<Rightarrow> (dispatch \<Rightarrow> world \<Rightarrow> sink_error option \<times> world)
     \<Rightarrow> (nat \<Rightarrow> world \<Rightarrow> world) \<Rightarrow> live_state deps" where
  "liveDeps sid ctx poll auto_verify_disabled sink env =
    \<lparr>dp_resolver = liveResolver sid ctx poll auto_verify_disabled, dp_worklist = liveWorklistSink,
     dp_sideEffects = sink, dp_env = env\<rparr>"

lemma live_worklist_well: "steps_well w (snd (liveWorklistSink sid v regs rec w))"
  by (auto simp: liveWorklistSink_def liveWorklistCommit_def steps_well_def world_ok_def
      journal_covers_def rows_stable_def keys_unique_register_all split: sum.splits)

lemma live_context_ok:
  assumes "\<And>n w. steps_well w (env n w)" and "\<And>dsp w. steps_well w (snd (sink dsp w))"
  shows "spine_context (liveDeps sid ctx poll auto sink env) (\<lambda>_. True)"
  by unfold_locales
     (simp_all add: liveDeps_def liveResolver_def assms live_worklist_well live.honest)

definition quiet :: "nat \<Rightarrow> world \<Rightarrow> world" where
  "quiet n w = w"

text \<open>A rival producer: everything one call of \<open>applyEvent\<close> on the live resolver needs.\<close>

record producer =
  pd_context :: live_context
  pd_poll :: ci_poll
  pd_autoVerifyDisabled :: "bool option"
  pd_input :: apply_input

definition runAlone :: "producer \<Rightarrow> world \<Rightarrow> world" where
  "runAlone p w = snd (snd (applyEvent
     (liveDeps (in_sessionId (pd_input p)) (pd_context p) (pd_poll p) (pd_autoVerifyDisabled p)
        noopSideEffectSink quiet)
     (pd_input p) (live_init (pd_context p)) w))"

definition rivals :: "(nat \<Rightarrow> producer list) \<Rightarrow> nat \<Rightarrow> world \<Rightarrow> world" where
  "rivals schedule n w = fold runAlone (schedule n) w"

lemma noop_well: "steps_well w (snd (noopSideEffectSink dsp w))"
  by (simp add: noopSideEffectSink_def steps_well_refl)

interpretation solo: spine_context "liveDeps sid ctx poll auto noopSideEffectSink quiet" "\<lambda>_. True"
  for sid ctx poll auto
  by (rule live_context_ok) (simp_all add: noop_well quiet_def steps_well_refl)

lemma rivals_well: "steps_well w (rivals schedule n w)"
proof -
  have "steps_well w (fold runAlone ps w)" for ps
  proof (induction ps arbitrary: w)
    case (Cons p ps)
    have "steps_well w (runAlone p w)"
      using solo.spine_well by (simp add: runAlone_def applyEvent_def)
    then show ?case using Cons.IH steps_well_trans by simp
  qed (simp add: steps_well_refl)
  then show ?thesis by (simp add: rivals_def)
qed

interpretation raced: spine_context "liveDeps sid ctx poll auto noopSideEffectSink (rivals schedule)"
    "\<lambda>_. True" for sid ctx poll auto schedule
  by (rule live_context_ok) (simp_all add: noop_well rivals_well)

section \<open>The journal as a reader sees it\<close>

lemma sorted_interval:
  fixes xs :: "int list"
  assumes "sorted xs" and "distinct xs" and "set xs = {1..n}"
  shows "xs = [1..n]"
  using assms by (intro sorted_distinct_set_unique) simp_all

lemma covered_versions:
  assumes "journal_covers {} w" and "getPrCoordination (wd_prs w) sid = Some r"
  shows "map j_version (listPrCoordinationEvents (wd_journal w) sid) = [1..version r]"
proof (rule sorted_interval)
  let ?js = "listPrCoordinationEvents (wd_journal w) sid"
  show "sorted (map j_version ?js)"
    by (simp add: listPrCoordinationEvents_def)
  have "inj_on j_version (set (filter (\<lambda>j. j_sessionId j = sid) (wd_journal w)))"
    using assms(1) by (auto simp: journal_covers_def distinct_map inj_on_def j_key_def)
  moreover have "distinct (wd_journal w)"
    using assms(1) by (simp add: journal_covers_def distinct_map)
  ultimately show "distinct (map j_version ?js)"
    by (simp add: listPrCoordinationEvents_def distinct_map)
  have keys: "j_key ` set (wd_journal w) = version_keys (wd_prs w)"
    using assms(1) by (simp add: journal_covers_def)
  show "set (map j_version ?js) = {1..version r}"
  proof (rule set_eqI)
    fix v
    have "v \<in> set (map j_version ?js) \<longleftrightarrow> (sid, v) \<in> j_key ` set (wd_journal w)"
      by (auto simp: listPrCoordinationEvents_def j_key_def image_iff)
    also have "\<dots> \<longleftrightarrow> v \<in> {1..version r}"
      using assms(2) by (auto simp: keys version_keys_def)
    finally show "v \<in> set (map j_version ?js) \<longleftrightarrow> v \<in> {1..version r}" .
  qed
qed

lemma world_ok_seed:
  assumes "seed_record r"
  shows "world_ok {} \<lparr>wd_prs = [r], wd_journal = [], wd_items = [], wd_dispatched = [],
    wd_clock = c, wd_tick = n\<rparr>"
proof -
  have "version r = 0"
    using assms by (auto simp: seed_record_def buildGenesisRecord_def buildSyntheticCoordinatorRecord_def)
  then show ?thesis using seed_ok[OF assms]
    by (auto simp: world_ok_def pk_unique_def keys_unique_def journal_covers_def version_keys_def)
qed

text \<open>
  C1.  The journal is gap-free under any interleaving: whatever the other writers do between any two
  store calls of the spine, as long as they too keep the world well formed and move rows only forward or
  by a stamp, one \<open>applyEvent\<close> on the live resolver, cascade re-entry included, never trips over the
  journal's primary key, leaves every record within the record invariant, and leaves for each session
  exactly one journal row per version from 1 to the row's version.
\<close>

theorem journal_gap_free_under_races:
  assumes "\<And>n w. steps_well w (env n w)" and "\<And>dsp w. steps_well w (snd (sink dsp w))"
    and "world_ok {} w"
    and "applyEvent (liveDeps sid ctx poll auto sink env) inp rs w = (res, rs', w')"
  shows "res \<noteq> Inl (Journal_Threw err)
    \<and> (\<forall>s r. getPrCoordination (wd_prs w') s = Some r \<longrightarrow>
         record_ok r \<and> map j_version (listPrCoordinationEvents (wd_journal w') s) = [1..version r])"
proof -
  let ?run = "applyFrom MAX_REENTRY_DEPTH (liveDeps sid ctx poll auto sink env) inp rs w"
  have "steps_well w (snd (snd ?run))
      \<and> (\<forall>P e. world_ok P w \<longrightarrow> fst ?run \<noteq> Inl (Journal_Threw e))"
    by (rule spine_context.spine_well[OF live_context_ok[OF assms(1,2)] TrueI])
  then have step: "steps_well w w'" and res: "res \<noteq> Inl (Journal_Threw err)"
    using assms(3) unfolding assms(4)[unfolded applyEvent_def] fst_conv snd_conv by blast+
  have ok: "world_ok {} w'" using step assms(3) unfolding steps_well_def by blast
  have "record_ok r \<and> map j_version (listPrCoordinationEvents (wd_journal w') s) = [1..version r]"
    if "getPrCoordination (wd_prs w') s = Some r" for s r
    using ok that covered_versions[OF _ that] by (simp add: world_ok_def)
  then show ?thesis using res by blast
qed

definition seed_world :: "fsm_record \<Rightarrow> world" where
  "seed_world r = \<lparr>wd_prs = [r], wd_journal = [], wd_items = [], wd_dispatched = [], wd_clock = 5,
    wd_tick = 0\<rparr>"

definition genesis_world :: "string \<Rightarrow> world" where
  "genesis_world sid = seed_world (buildGenesisRecord sid 0)"

lemma seed_world_ok: "seed_record r \<Longrightarrow> world_ok {} (seed_world r)"
  unfolding seed_world_def by (rule world_ok_seed)

lemma genesis_world_ok: "world_ok {} (genesis_world sid)"
  unfolding genesis_world_def by (rule seed_world_ok) (auto simp: seed_record_def)

definition plain_input :: "string \<Rightarrow> fsm_event \<Rightarrow> apply_input" where
  "plain_input sid e =
    \<lparr>in_sessionId = sid, in_event = e, in_metadata = None, in_actor = Actor_User\<rparr>"

definition offline :: ci_poll where
  "offline pr head = None"

text \<open>The rival stops the session between the spine's read and its compare-and-swap.\<close>

definition stop_between :: "nat \<Rightarrow> producer list" where
  "stop_between n =
    (if n = 1 then [\<lparr>pd_context = no_context, pd_poll = offline, pd_autoVerifyDisabled = None,
                     pd_input = plain_input ''s'' User_Stop\<rparr>] else [])"

theorem journal_gap_free_under_races_witness:
  "case applyEvent
      (liveDeps ''s'' no_context offline None noopSideEffectSink (rivals stop_between))
      (plain_input ''s'' Sandbox_Spawn_Requested) (live_init no_context) (genesis_world ''s'')
    of (res, rs', w') \<Rightarrow>
      res \<noteq> Inl (Journal_Threw Duplicate_Primary_Key)
      \<and> (\<forall>r. getPrCoordination (wd_prs w') ''s'' = Some r \<longrightarrow> record_ok r
             \<and> map j_version (listPrCoordinationEvents (wd_journal w') ''s'') = [1..version r])"
  using journal_gap_free_under_races[OF rivals_well noop_well genesis_world_ok]
  by (auto split: prod.split)

end
