(* ===== verification/Apply_Event_Props.thy ===== *)
theory Apply_Event_Props
  imports Spine_Guarantee
begin

text \<open>
  What one call of \<open>applyEvent\<close> does: the bound on the re-entry, the outcomes that write nothing, the
  exact effect of a handled event in an undisturbed world, the two failure paths of the worklist, FG-5,
  the dwell anchors, and the one interleaving the version check does not catch.
\<close>

section \<open>Re-entry\<close>

lemma caught_up_only_in_review:
  assumes "transition s (Caught_Up h) g = Inr (Some d)"
  shows "s = REVIEW"
  using assms by (cases s) (simp_all add: transition_def coreTransition_def crossCuttingTransition_def
      step_defs)

lemma attempt_prev_handles:
  assumes "casAttempt deps inp rs w = (Won ct, w')"
  shows "\<exists>g d. transition (state (ct_prev ct)) (in_event inp) g = Inr (Some d)"
proof -
  obtain rec d where get: "getPrCoordination (wd_prs (interfere deps w)) (in_sessionId inp) = Some rec"
    and t: "transition (state rec) (in_event inp)
      (rv_guards (dp_resolver deps) rs rec (in_event inp)) = Inr (Some d)"
    using assms by (auto simp: casAttempt_def Let_def split: option.splits sum.splits)
  have "ct_prev ct = rec"
    using assms get t by (auto simp: casAttempt_def Let_def case_prod_beta split: if_splits)
  then show ?thesis using t by blast
qed

lemma loop_prev_handles:
  assumes "casLoop n deps inp rs w = (Won ct, w')"
  shows "\<exists>g d. transition (state (ct_prev ct)) (in_event inp) g = Inr (Some d)"
  using assms
proof (induction n arbitrary: w)
  case (Suc n)
  obtain a w1 where a: "casAttempt deps inp rs w = (a, w1)" by fastforce
  show ?case using Suc a by (cases a) (auto dest: attempt_prev_handles)
qed simp

lemma finish_cong:
  assumes "\<And>rs w. recomputeTail a deps inp ct rs w = recomputeTail b deps inp ct rs w"
  shows "finishCommit a deps inp ct rs w = finishCommit b deps inp ct rs w"
  unfolding finishCommit_def Let_def case_prod_beta
  by (auto simp: assms split: sum.split option.split)

lemma caught_up_never_recomputes:
  assumes "in_event inp = Caught_Up h"
  shows "spine again deps inp rs w = spine None deps inp rs w"
proof -
  obtain a w1 where loop: "casLoop MAX_CAS_ATTEMPTS deps inp rs w = (a, w1)" by fastforce
  show ?thesis
  proof (cases a)
    case (Won ct)
    have "state (ct_prev ct) = REVIEW"
      using loop_prev_handles[OF loop[unfolded Won]] caught_up_only_in_review assms by auto
    then have "recomputeTail again deps inp ct rs' w' = recomputeTail None deps inp ct rs' w'" for rs' w'
      by (simp add: recomputeTail_def assms caught_up_is_no_trigger split: option.split)
    then show ?thesis using loop Won finish_cong[of again deps inp ct None] by (simp add: spine_def)
  qed (use loop in \<open>simp_all add: spine_def\<close>)
qed

lemma spine_cong_again:
  assumes "\<And>inp rs w h. in_event inp = Caught_Up h \<Longrightarrow> f inp rs w = f' inp rs w"
  shows "spine (Some f) deps inp rs w = spine (Some f') deps inp rs w"
proof -
  have "recomputeTail (Some f) deps inp ct rs w = recomputeTail (Some f') deps inp ct rs w" for ct rs w
  proof -
    have "f (caughtUpInput inp e) rs' w' = f' (caughtUpInput inp e) rs' w'"
      if "recomputeCaughtUp x y n u = Some e" for x y n u e rs' w'
      using that assms by (auto simp: recompute_Some caughtUpInput_def)
    then show ?thesis by (auto simp: recomputeTail_def Let_def split: prod.split option.split)
  qed
  then have "finishCommit (Some f) deps inp ct rs w = finishCommit (Some f') deps inp ct rs w" for ct rs w
    by (rule finish_cong)
  then show ?thesis unfolding spine_def by (auto split: prod.split attempt.split)
qed

text \<open>
  C12.  The cascade re-enters at most once, whatever the other writers do: with any positive re-entry
  budget the spine behaves as with a budget of one, so the defensive cap of four is never the reason a
  cascade stops.
\<close>

theorem reentry_depth_is_one:
  "applyFrom (Suc k) deps inp rs w = applyFrom 1 deps inp rs w"
proof (cases k)
  case (Suc j)
  have "spine (Some (applyFrom (Suc j) deps)) deps inp rs w
      = spine (Some (applyFrom 0 deps)) deps inp rs w"
  proof (rule spine_cong_again)
    fix inp' :: apply_input and rs' w' h
    assume "in_event inp' = Caught_Up h"
    then show "applyFrom (Suc j) deps inp' rs' w' = applyFrom 0 deps inp' rs' w'"
      using caught_up_never_recomputes by (simp add: fun_eq_iff)
  qed
  then show ?thesis by (simp add: Suc)
qed simp

section \<open>Outcomes that write nothing\<close>

lemma attempt_not_won:
  assumes "casAttempt deps inp rs w = (a, w')" and "\<And>ct. a \<noteq> Won ct"
  shows "\<exists>n \<le> 2. w' = (interfere deps ^^ n) w"
proof -
  have "w' = interfere deps w \<or> w' = interfere deps (interfere deps w)"
    using assms by (auto simp: casAttempt_def Let_def case_prod_beta
        split: option.splits sum.splits if_splits)
  then show ?thesis
    by (elim disjE) (rule exI[of _ 1], simp, rule exI[of _ 2], simp add: numeral_2_eq_2)
qed

lemma loop_not_won:
  assumes "casLoop m deps inp rs w = (a, w')" and "\<And>ct. a \<noteq> Won ct"
  shows "\<exists>n \<le> 2 * m. w' = (interfere deps ^^ n) w"
  using assms(1)
proof (induction m arbitrary: w)
  case (Suc m)
  obtain a1 w1 where a1: "casAttempt deps inp rs w = (a1, w1)" by fastforce
  show ?case
  proof (cases "a1 = Retry")
    case True
    obtain n where n: "n \<le> 2" "w1 = (interfere deps ^^ n) w"
      using attempt_not_won[OF a1] True by blast
    have "casLoop m deps inp rs w1 = (a, w')" using Suc.prems a1 True by simp
    then obtain k where k: "k \<le> 2 * m" "w' = (interfere deps ^^ k) w1" using Suc.IH by blast
    have "w' = (interfere deps ^^ (k + n)) w" using n(2) k(2) by (simp add: funpow_add)
    moreover have "k + n \<le> 2 * Suc m" using n(1) k(1) by simp
    ultimately show ?thesis by blast
  next
    case False
    then have "a1 = a" "w1 = w'" using Suc.prems a1 by (auto split: attempt.splits)
    then obtain n where "n \<le> 2" "w' = (interfere deps ^^ n) w"
      using attempt_not_won[OF a1] assms(2) by blast
    then show ?thesis by (intro exI[of _ n]) simp
  qed
qed auto

lemma settled_not_handled:
  "casLoop m deps inp rs w = (Settled res, w') \<Longrightarrow> ar_outcome res \<noteq> Handled"
  by (induction m arbitrary: w)
     (auto simp: casAttempt_def Let_def case_prod_beta split: prod.splits attempt.splits option.splits sum.splits
       if_splits)

lemma finish_outcome:
  "fst (finishCommit again deps inp ct rs w) = Inr res \<Longrightarrow> res = handledResult ct"
  by (auto simp: finishCommit_def recomputeTail_def Let_def case_prod_beta
      split: sum.splits option.splits if_splits)

lemma loop_never_retries: "casLoop m deps inp rs w \<noteq> (Retry, w')"
  by (induction m arbitrary: w) (auto split: prod.split attempt.split)

text \<open>
  C7.  Every outcome but \<open>handled\<close> writes nothing: when a call returns \<open>no_record\<close>, \<open>unhandled\<close> or
  \<open>lost_race\<close>, the world it leaves is the one the other writers alone have made in at most eight turns,
  two per attempt of the compare-and-swap, and the resolver's state is untouched.
\<close>

theorem unhandled_writes_nothing:
  assumes "applyEvent deps inp rs w = (Inr res, rs', w')" and "ar_outcome res \<noteq> Handled"
  shows "rs' = rs \<and> (\<exists>n \<le> 8. w' = (interfere deps ^^ n) w)"
proof -
  obtain again where run: "spine again deps inp rs w = (Inr res, rs', w')"
    using assms(1) by (auto simp: applyEvent_def MAX_REENTRY_DEPTH_def numeral_eq_Suc)
  obtain a w1 where loop: "casLoop MAX_CAS_ATTEMPTS deps inp rs w = (a, w1)" by fastforce
  have not_won: "a \<noteq> Won ct" for ct
  proof
    assume "a = Won ct"
    then have "fst (finishCommit again deps inp ct rs w1) = Inr res"
      using run loop by (simp add: spine_def)
    then show False using finish_outcome assms(2) by (fastforce simp: handledResult_def)
  qed
  have "rs' = rs \<and> w' = w1"
    using run loop not_won by (cases a) (auto simp: spine_def)
  then show ?thesis using loop_not_won[OF loop not_won] by (simp add: MAX_CAS_ATTEMPTS_def)
qed

section \<open>An undisturbed world\<close>

lemma quiet_interfere [simp]:
  "dp_env deps = quiet \<Longrightarrow> interfere deps w = w\<lparr>wd_tick := wd_tick w + 1\<rparr>"
  by (simp add: interfere_def quiet_def)

text \<open>With no other writer the first attempt settles the event.\<close>

lemma quiet_no_record:
  assumes "dp_env deps = quiet" and "getPrCoordination (wd_prs w) (in_sessionId inp) = None"
  shows "applyEvent deps inp rs w =
    (Inr \<lparr>ar_outcome = No_Record, ar_from = None, ar_to = None, ar_version = None\<rparr>, rs,
     w\<lparr>wd_tick := wd_tick w + 1\<rparr>)"
  using assms
  by (simp add: applyEvent_def MAX_REENTRY_DEPTH_def MAX_CAS_ATTEMPTS_def numeral_eq_Suc spine_def
      casAttempt_def)

lemma quiet_unhandled:
  assumes "dp_env deps = quiet" and "getPrCoordination (wd_prs w) (in_sessionId inp) = Some r"
    and "transition (state r) (in_event inp) (rv_guards (dp_resolver deps) rs r (in_event inp)) = Inr None"
  shows "applyEvent deps inp rs w =
    (Inr \<lparr>ar_outcome = Unhandled, ar_from = Some (state r), ar_to = Some (state r),
          ar_version = Some (version r)\<rparr>, rs, w\<lparr>wd_tick := wd_tick w + 1\<rparr>)"
  using assms
  by (simp add: applyEvent_def MAX_REENTRY_DEPTH_def MAX_CAS_ATTEMPTS_def numeral_eq_Suc spine_def
      casAttempt_def)

theorem unhandled_writes_nothing_witness:
  "\<exists>n \<le> 8. (genesis_world ''s'')\<lparr>wd_tick := 1\<rparr> =
     (interfere (liveDeps ''s'' no_context offline None noopSideEffectSink quiet) ^^ n) (genesis_world ''s'')"
proof -
  let ?deps = "liveDeps ''s'' no_context offline None noopSideEffectSink quiet"
  let ?w = "genesis_world ''s''"
  have "applyEvent ?deps (plain_input ''s'' Pr_Merged) (live_init no_context) ?w =
      (Inr \<lparr>ar_outcome = Unhandled, ar_from = Some CREATED, ar_to = Some CREATED, ar_version = Some 0\<rparr>,
       live_init no_context, ?w\<lparr>wd_tick := 1\<rparr>)"
    by (subst quiet_unhandled[where r = "buildGenesisRecord ''s'' 0"])
       (simp_all add: liveDeps_def genesis_world_def seed_world_def plain_input_def buildGenesisRecord_def transition_def
         coreTransition_def crossCuttingTransition_def step_defs)
  then show ?thesis by (rule conjunct2[OF unhandled_writes_nothing]) simp
qed

text \<open>The ticket a won attempt hands on, and the row it leaves.\<close>

definition ticketFor ::
  "'rs resolver \<Rightarrow> 'rs \<Rightarrow> int \<Rightarrow> fsm_record \<Rightarrow> decision \<Rightarrow> commit_ticket" where
  "ticketFor rv rs now r d =
    (let (post, dwell) = finalDecision rv rs now r d
     in \<lparr>ct_prev = r, ct_decision = post, ct_now = now, ct_dwellMs = dwell,
         ct_result = applyResult r (d_to post) (d_writes post)\<rparr>)"

lemma finalDecision_sel [simp]:
  "d_to (fst (finalDecision rv rs now r d)) = d_to d"
  "d_regs (fst (finalDecision rv rs now r d)) = d_regs d"
  "d_effects (fst (finalDecision rv rs now r d)) = d_effects d @ [Project_Card]"
  "snd (finalDecision rv rs now r d) = computeDwellMs now (stateEnteredAt r)"
  by (simp_all add: finalDecision_def Let_def)

lemma finalDecision_prUrl [simp]:
  "w_prUrl (d_writes (fst (finalDecision rv rs now r d))) = w_prUrl (d_writes d)"
  by (simp add: finalDecision_def Let_def)

lemma ticket_sel [simp]:
  "ct_prev (ticketFor rv rs now r d) = r"
  "ct_decision (ticketFor rv rs now r d) = fst (finalDecision rv rs now r d)"
  "ct_now (ticketFor rv rs now r d) = now"
  "ct_dwellMs (ticketFor rv rs now r d) = computeDwellMs now (stateEnteredAt r)"
  "ct_result (ticketFor rv rs now r d) =
     applyResult r (d_to d) (d_writes (fst (finalDecision rv rs now r d)))"
  by (simp_all add: ticketFor_def case_prod_beta)

definition committedTable :: "pr_table \<Rightarrow> string \<Rightarrow> commit_ticket \<Rightarrow> pr_table" where
  "committedTable t sid ct =
    fst (casUpdatePrCoordination sid (version (ct_prev ct)) (Some (d_to (ct_decision ct)))
           (d_writes (ct_decision ct)) t)"

lemma quiet_won:
  assumes "dp_env deps = quiet" and "pk_unique (wd_prs w)"
    and "getPrCoordination (wd_prs w) (in_sessionId inp) = Some r"
    and "transition (state r) (in_event inp) (rv_guards (dp_resolver deps) rs r (in_event inp))
          = Inr (Some d)"
  shows "casLoop (Suc n) deps inp rs w =
    (Won (ticketFor (dp_resolver deps) rs (wd_clock w) r d),
     w\<lparr>wd_tick := wd_tick w + 2,
       wd_prs := committedTable (wd_prs w) (in_sessionId inp)
                   (ticketFor (dp_resolver deps) rs (wd_clock w) r d)\<rparr>)"
proof -
  let ?post = "fst (finalDecision (dp_resolver deps) rs (wd_clock w) r d)"
  have "snd (casUpdatePrCoordination (in_sessionId inp) (version r) (Some (d_to ?post))
      (d_writes ?post) (wd_prs w)) = 1"
    using prs.cas_hit[OF assms(2,3) refl, of "(Some (d_to ?post), d_writes ?post)"]
    by (simp add: cas_row_def)
  then show ?thesis
    using assms by (simp add: casAttempt_def Let_def case_prod_beta ticketFor_def committedTable_def)
qed

lemma committed_table_row:
  assumes "pk_unique t" and "getPrCoordination t sid = Some (ct_prev ct)"
  shows "getPrCoordination (committedTable t sid ct) sid
      = Some (applyResult (ct_prev ct) (d_to (ct_decision ct)) (d_writes (ct_decision ct)))"
    and "other \<noteq> sid \<Longrightarrow>
      getPrCoordination (committedTable t sid ct) other = getPrCoordination t other"
  using prs.cas_hit[OF assms refl, of "(Some (d_to (ct_decision ct)), d_writes (ct_decision ct))"]
    prs.cas_frame[of other sid "version (ct_prev ct)"
      "(Some (d_to (ct_decision ct)), d_writes (ct_decision ct))" t]
  by (simp_all add: committedTable_def cas_row_def applyResult_def)

lemma quiet_append:
  assumes "world_ok {} w" and "getPrCoordination (wd_prs w) (in_sessionId inp) = Some (ct_prev ct)"
  shows "appendPrCoordinationEvent (journalRow inp ct) (wd_journal w)
    = Inr (wd_journal w @ [journalRow inp ct])"
proof -
  have "(in_sessionId inp, version (ct_prev ct) + 1) \<notin> version_keys (wd_prs w)"
    using assms(2) by (simp add: version_keys_def)
  then have "\<not> (\<exists>j \<in> set (wd_journal w). j_key j = (in_sessionId inp, version (ct_prev ct) + 1))"
    using assms(1) by (force simp: world_ok_def journal_covers_def)
  then show ?thesis
    by (auto simp: appendPrCoordinationEvent_def j_key_def journalRow_def)
qed

text \<open>The world after the commit, the journal append and the dispatch of one handled event.\<close>

definition afterCommit :: "apply_input \<Rightarrow> commit_ticket \<Rightarrow> bool \<Rightarrow> item_row list \<Rightarrow> nat \<Rightarrow> world \<Rightarrow> world" where
  "afterCommit inp ct failed items ticks w =
    w\<lparr>wd_prs := committedTable (wd_prs w) (in_sessionId inp) ct,
      wd_journal := wd_journal w @ [journalRow inp ct], wd_items := items,
      wd_dispatched := wd_dispatched w @ [dispatchOf inp ct failed], wd_tick := wd_tick w + ticks\<rparr>"

lemma applyEvent_unfold:
  "applyEvent deps inp rs w = spine (Some (applyFrom 3 deps)) deps inp rs w"
  by (simp add: applyEvent_def MAX_REENTRY_DEPTH_def numeral_eq_Suc)

definition afterJournal :: "apply_input \<Rightarrow> commit_ticket \<Rightarrow> world \<Rightarrow> world" where
  "afterJournal inp ct w =
    w\<lparr>wd_prs := committedTable (wd_prs w) (in_sessionId inp) ct,
      wd_journal := wd_journal w @ [journalRow inp ct], wd_tick := wd_tick w + 3\<rparr>"

lemma finish_steps:
  assumes "appendPrCoordinationEvent (journalRow inp ct) (wd_journal (interfere deps w)) = Inr js"
    and "commitWorklist deps inp ct ((interfere deps w)\<lparr>wd_journal := js\<rparr>) = (failure, w1)"
    and "dispatchEffects deps (dispatchOf inp ct (failure \<noteq> None)) w1 = (None, w2)"
  shows "finishCommit again deps inp ct rs w =
    (case failure of
       Some err \<Rightarrow> (Inl (Worklist_Threw err), rs, w2)
     | None \<Rightarrow> recomputeTail again deps inp ct rs w2)"
  unfolding finishCommit_def Let_def assms(1) sum.case assms(2) prod.case assms(3) option.case ..

text \<open>One handled event, up to the recompute tail; the worklist step is left to the caller.\<close>

lemma quiet_commit:
  fixes deps :: "'rs deps"
  assumes env: "dp_env deps = quiet"
    and ok: "world_ok {} w" and get: "getPrCoordination (wd_prs w) (in_sessionId inp) = Some r"
    and t: "transition (state r) (in_event inp) (rv_guards (dp_resolver deps) rs r (in_event inp))
          = Inr (Some d)"
    and ct: "ct = ticketFor (dp_resolver deps) rs (wd_clock w) r d"
    and wl: "commitWorklist deps inp ct (afterJournal inp ct w)
      = (failure, (afterJournal inp ct w)\<lparr>wd_tick := wd_tick w + 3 + k, wd_items := items\<rparr>)"
  shows "spine again deps inp rs w =
    (let failed = failure \<noteq> None;
         (sinkErr, w') = dp_sideEffects deps (dispatchOf inp ct failed) (afterCommit inp ct failed items (k + 4) w)
     in case sinkErr of
          Some err \<Rightarrow> (Inl (Sink_Threw err), rs, w')
        | None \<Rightarrow>
            (case failure of
               Some err \<Rightarrow> (Inl (Worklist_Threw err), rs, w')
             | None \<Rightarrow> recomputeTail again deps inp ct rs w'))"
proof -
  let ?w1 = "w\<lparr>wd_tick := wd_tick w + 2, wd_prs := committedTable (wd_prs w) (in_sessionId inp) ct\<rparr>"
  let ?js = "wd_journal w @ [journalRow inp ct]"
  have pk: "pk_unique (wd_prs w)" using ok by (simp add: world_ok_def)
  have loop: "casLoop MAX_CAS_ATTEMPTS deps inp rs w = (Won ct, ?w1)"
    using quiet_won[OF env pk get t] by (simp add: MAX_CAS_ATTEMPTS_def numeral_eq_Suc ct)
  have app: "appendPrCoordinationEvent (journalRow inp ct) (wd_journal (interfere deps ?w1)) = Inr ?js"
    using quiet_append[OF ok, of inp ct] get by (simp add: ct env)
  have journal: "(interfere deps ?w1)\<lparr>wd_journal := ?js\<rparr> = afterJournal inp ct w"
    by (simp add: env afterJournal_def)
  have eff: "dispatchEffects deps (dispatchOf inp ct (failure \<noteq> None))
        ((afterJournal inp ct w)\<lparr>wd_tick := wd_tick w + 3 + k, wd_items := items\<rparr>)
      = dp_sideEffects deps (dispatchOf inp ct (failure \<noteq> None))
          (afterCommit inp ct (failure \<noteq> None) items (k + 4) w)"
    unfolding dispatchEffects_def Let_def
    by (rule arg_cong[of _ _ "dp_sideEffects deps (dispatchOf inp ct (failure \<noteq> None))"])
       (simp add: env afterJournal_def afterCommit_def)
  have wl': "commitWorklist deps inp ct ((interfere deps ?w1)\<lparr>wd_journal := ?js\<rparr>)
      = (failure, (afterJournal inp ct w)\<lparr>wd_tick := wd_tick w + 3 + k, wd_items := items\<rparr>)"
    using wl by (simp only: journal)
  show ?thesis
    unfolding spine_def loop prod.case attempt.case Let_def finishCommit_def app sum.case wl' eff ..
qed

lemma quiet_spine:
  fixes deps :: "'rs deps"
  assumes env: "dp_env deps = quiet" and sink: "dp_sideEffects deps = noopSideEffectSink"
    and ok: "world_ok {} w" and get: "getPrCoordination (wd_prs w) (in_sessionId inp) = Some r"
    and t: "transition (state r) (in_event inp) (rv_guards (dp_resolver deps) rs r (in_event inp))
          = Inr (Some d)"
    and ct: "ct = ticketFor (dp_resolver deps) rs (wd_clock w) r d"
    and wl: "commitWorklist deps inp ct (afterJournal inp ct w)
      = (failure, (afterJournal inp ct w)\<lparr>wd_tick := wd_tick w + 3 + k, wd_items := items\<rparr>)"
  shows "spine again deps inp rs w =
    (let w' = afterCommit inp ct (failure \<noteq> None) items (k + 4) w
     in case failure of
          Some err \<Rightarrow> (Inl (Worklist_Threw err), rs, w')
        | None \<Rightarrow> recomputeTail again deps inp ct rs w')"
  unfolding quiet_commit[OF env ok get t ct wl] sink noopSideEffectSink_def
  by (simp only: Let_def prod.case option.case)

lemma quiet_handled:
  fixes deps :: "'rs deps"
  assumes env: "dp_env deps = quiet" and sink: "dp_sideEffects deps = noopSideEffectSink"
    and ok: "world_ok {} w" and get: "getPrCoordination (wd_prs w) (in_sessionId inp) = Some r"
    and t: "transition (state r) (in_event inp) (rv_guards (dp_resolver deps) rs r (in_event inp))
          = Inr (Some d)"
    and ct: "ct = ticketFor (dp_resolver deps) rs (wd_clock w) r d"
    and wl: "commitWorklist deps inp ct (afterJournal inp ct w)
      = (failure, (afterJournal inp ct w)\<lparr>wd_tick := wd_tick w + 3 + k, wd_items := items\<rparr>)"
  shows "applyEvent deps inp rs w =
    (let w' = afterCommit inp ct (failure \<noteq> None) items (k + 4) w
     in case failure of
          Some err \<Rightarrow> (Inl (Worklist_Threw err), rs, w')
        | None \<Rightarrow> recomputeTail (Some (applyFrom 3 deps)) deps inp ct rs w')"
  unfolding applyEvent_unfold by (rule quiet_spine[OF assms])

text \<open>
  C5.  A handled event commits once: in an undisturbed world, an edge that registers nothing and is no
  recompute trigger leaves the row at the decision's target and writes, one version higher, every other
  row as it was, the journal longer by one row that records the edge, the actor, the metadata and the
  dwell time at the instant used for the row, the store of items unchanged, and hands the sink exactly
  the decision's effects followed by the card projection.
\<close>

theorem handled_commits_once:
  fixes deps :: "'rs deps"
  assumes "dp_env deps = quiet" and "dp_sideEffects deps = noopSideEffectSink" and "world_ok {} w"
    and "getPrCoordination (wd_prs w) (in_sessionId inp) = Some r"
    and "transition (state r) (in_event inp) (rv_guards (dp_resolver deps) rs r (in_event inp))
          = Inr (Some d)"
    and "nullish (d_regs d) [] = []"
    and "classifyCaughtUpTrigger (state r) (in_event inp) (d_to d) = None"
  shows "\<exists>w' r'. applyEvent deps inp rs w =
      (Inr \<lparr>ar_outcome = Handled, ar_from = Some (state r), ar_to = Some (d_to d),
            ar_version = Some (version r + 1)\<rparr>, rs, w')
    \<and> getPrCoordination (wd_prs w') (in_sessionId inp) = Some r'
    \<and> r' = applyResult r (d_to d) (d_writes (fst (finalDecision (dp_resolver deps) rs (wd_clock w) r d)))
    \<and> state r' = d_to d \<and> version r' = version r + 1
    \<and> (\<forall>other. other \<noteq> in_sessionId inp \<longrightarrow>
          getPrCoordination (wd_prs w') other = getPrCoordination (wd_prs w) other)
    \<and> wd_journal w' = wd_journal w @
        [\<lparr>j_sessionId = in_sessionId inp, j_version = version r + 1, j_fromState = state r,
          j_toState = d_to d, j_event = event_type (in_event inp), j_at = wd_clock w,
          j_actor = in_actor inp, j_metadata = in_metadata inp,
          j_dwellMs = Some (computeDwellMs (wd_clock w) (stateEnteredAt r)), j_settleDedupKey = None\<rparr>]
    \<and> wd_items w' = wd_items w
    \<and> map dsp_effects (wd_dispatched w') = map dsp_effects (wd_dispatched w) @ [d_effects d @ [Project_Card]]"
proof -
  let ?ct = "ticketFor (dp_resolver deps) rs (wd_clock w) r d"
  let ?w' = "afterCommit inp ?ct False (wd_items w) 4 w"
  have run: "applyEvent deps inp rs w = (Inr (handledResult ?ct), rs, ?w')"
    using assms(6,7)
    by (subst quiet_handled[OF assms(1-5) refl, where failure = None and items = "wd_items w" and k = 0])
       (simp_all add: commitWorklist_def recomputeTail_def afterJournal_def)
  have pk: "pk_unique (wd_prs w)" using assms(3) by (simp add: world_ok_def)
  have rows: "getPrCoordination (wd_prs ?w') (in_sessionId inp)
        = Some (applyResult r (d_to d) (d_writes (fst (finalDecision (dp_resolver deps) rs (wd_clock w) r d))))"
      "\<And>other. other \<noteq> in_sessionId inp \<Longrightarrow>
        getPrCoordination (wd_prs ?w') other = getPrCoordination (wd_prs w) other"
    using committed_table_row[OF pk, of "in_sessionId inp" ?ct] assms(4) by (simp_all add: afterCommit_def)
  show ?thesis
    by (intro exI conjI allI impI, rule run[unfolded handledResult_def ticket_sel finalDecision_sel],
        rule rows(1), rule refl)
       (simp_all add: rows(2) applyResult_def, simp_all add: afterCommit_def journalRow_def dispatchOf_def)
qed

theorem handled_commits_once_witness:
  "\<exists>w' r'. applyEvent (liveDeps ''s'' no_context offline None noopSideEffectSink quiet)
        (plain_input ''s'' Sandbox_Spawn_Requested) (live_init no_context) (genesis_world ''s'')
      = (Inr \<lparr>ar_outcome = Handled, ar_from = Some CREATED, ar_to = Some PROVISIONING,
              ar_version = Some 1\<rparr>, live_init no_context, w')
    \<and> getPrCoordination (wd_prs w') ''s'' = Some r' \<and> state r' = PROVISIONING \<and> version r' = 1
    \<and> map j_version (wd_journal w') = [1] \<and> map j_dwellMs (wd_journal w') = [Some 5]"
proof -
  define deps where "deps = liveDeps ''s'' no_context offline None noopSideEffectSink quiet"
  define inp where "inp = plain_input ''s'' Sandbox_Spawn_Requested"
  define w where "w = genesis_world ''s''"
  define r where "r = buildGenesisRecord ''s'' 0"
  define rs where "rs = live_init no_context"
  define d where "d = decide PROVISIONING no_writes [Spawn_Sandbox]"
  have q: "dp_env deps = quiet" "dp_sideEffects deps = noopSideEffectSink"
    by (simp_all add: deps_def liveDeps_def)
  have ok: "world_ok {} w" unfolding w_def by (rule genesis_world_ok)
  have seed: "state r = CREATED" "version r = 0" "stateEnteredAt r = Some 0" "in_sessionId inp = ''s''"
      "in_event inp = Sandbox_Spawn_Requested" "wd_journal w = []" "wd_clock w = 5" "d_to d = PROVISIONING"
    by (simp_all add: r_def buildGenesisRecord_def inp_def plain_input_def w_def genesis_world_def seed_world_def d_def)
  have get: "getPrCoordination (wd_prs w) (in_sessionId inp) = Some r"
    by (simp add: w_def r_def inp_def genesis_world_def seed_world_def plain_input_def buildGenesisRecord_def)
  have t: "transition (state r) (in_event inp) (rv_guards (dp_resolver deps) rs r (in_event inp))
      = Inr (Some d)"
    unfolding seed d_def by (simp add: transition_def coreTransition_def step_defs handled_def)
  have regs: "nullish (d_regs d) [] = []" by (simp add: d_def)
  have trig: "classifyCaughtUpTrigger (state r) (in_event inp) (d_to d) = None"
    by (simp add: classifyCaughtUpTrigger_def seed)
  from handled_commits_once[OF q ok get t regs trig]
  obtain w' r' where "applyEvent deps inp rs w =
      (Inr \<lparr>ar_outcome = Handled, ar_from = Some (state r), ar_to = Some (d_to d),
            ar_version = Some (version r + 1)\<rparr>, rs, w')"
      "getPrCoordination (wd_prs w') (in_sessionId inp) = Some r'"
      "state r' = d_to d" "version r' = version r + 1"
      "map j_version (wd_journal w') = [version r + 1]"
      "map j_dwellMs (wd_journal w') = [Some (computeDwellMs (wd_clock w) (stateEnteredAt r))]"
    by (elim exE conjE) (simp add: seed(6))
  then have "applyEvent deps inp rs w =
      (Inr \<lparr>ar_outcome = Handled, ar_from = Some CREATED, ar_to = Some PROVISIONING,
            ar_version = Some 1\<rparr>, rs, w')
    \<and> getPrCoordination (wd_prs w') ''s'' = Some r' \<and> state r' = PROVISIONING \<and> version r' = 1
    \<and> map j_version (wd_journal w') = [1] \<and> map j_dwellMs (wd_journal w') = [Some 5]"
    by (simp add: seed computeDwellMs_def)
  then show ?thesis unfolding deps_def inp_def rs_def w_def by (intro exI)
qed

section \<open>The worklist\<close>

text \<open>
  C6.  A failed registration is loud and withholds the cascade.  In a world no other writer disturbs, let the
  worklist sink fail on the registrations of an event, whatever items it has written before it failed.  The
  commit stands: the world the side-effect sink is handed has the row one version on, every other row as it was,
  one journal row more and those items; and the sink is handed the decision's full effect bag once, marked as
  following a worklist failure.  Whatever that sink answers, the call ends there with an error, the sink's own
  when it throws and the worklist's otherwise, in the world the sink leaves: no caught-up event re-enters.
\<close>

theorem worklist_failure_withholds_cascade:
  fixes deps :: "'rs deps"
  assumes env: "dp_env deps = quiet" and ok: "world_ok {} w"
    and get: "getPrCoordination (wd_prs w) (in_sessionId inp) = Some r"
    and t: "transition (state r) (in_event inp) (rv_guards (dp_resolver deps) rs r (in_event inp))
          = Inr (Some d)"
    and regs: "d_regs d = Some (reg # regs)"
    and fails: "\<And>u. \<exists>items. dp_worklist deps (in_sessionId inp) (version r + 1) (reg # regs)
        (applyResult r (d_to d) (d_writes (fst (finalDecision (dp_resolver deps) rs (wd_clock w) r d)))) u
      = (Some err, u\<lparr>wd_items := items\<rparr>)"
  shows "\<exists>dsp w1 r'. applyEvent deps inp rs w =
      (case dp_sideEffects deps dsp w1 of
         (None, w') \<Rightarrow> (Inl (Worklist_Threw err), rs, w')
       | (Some e, w') \<Rightarrow> (Inl (Sink_Threw e), rs, w'))
    \<and> getPrCoordination (wd_prs w1) (in_sessionId inp) = Some r'
    \<and> state r' = d_to d \<and> version r' = version r + 1
    \<and> (\<forall>other. other \<noteq> in_sessionId inp \<longrightarrow>
          getPrCoordination (wd_prs w1) other = getPrCoordination (wd_prs w) other)
    \<and> map j_key (wd_journal w1) = map j_key (wd_journal w) @ [(in_sessionId inp, version r + 1)]
    \<and> wd_dispatched w1 = wd_dispatched w @ [dsp]
    \<and> dsp_effects dsp = d_effects d @ [Project_Card] \<and> dsp_worklistFailed dsp"
proof -
  let ?ct = "ticketFor (dp_resolver deps) rs (wd_clock w) r d"
  obtain items where "dp_worklist deps (in_sessionId inp) (version r + 1) (reg # regs) (ct_result ?ct)
      (interfere deps (afterJournal inp ?ct w)) = (Some err, (interfere deps (afterJournal inp ?ct w))\<lparr>wd_items := items\<rparr>)"
    using fails[of "interfere deps (afterJournal inp ?ct w)"] unfolding ticket_sel by blast
  then have "commitWorklist deps inp ?ct (afterJournal inp ?ct w)
      = (Some err, (afterJournal inp ?ct w)\<lparr>wd_tick := wd_tick w + 3 + 1, wd_items := items\<rparr>)"
    using env regs by (simp add: commitWorklist_def afterJournal_def)
  note run = quiet_commit[OF env ok get t refl this, where again = "Some (applyFrom 3 deps)", folded applyEvent_unfold]
  let ?dsp = "dispatchOf inp ?ct True" and ?w1 = "afterCommit inp ?ct True items (1 + 4) w"
  have pk: "pk_unique (wd_prs w)" using ok by (simp add: world_ok_def)
  note row = committed_table_row[OF pk, of "in_sessionId inp" ?ct, unfolded ticket_sel finalDecision_sel, OF get]
  have "applyEvent deps inp rs w =
      (case dp_sideEffects deps ?dsp ?w1 of
         (None, w') \<Rightarrow> (Inl (Worklist_Threw err), rs, w')
       | (Some e, w') \<Rightarrow> (Inl (Sink_Threw e), rs, w'))"
    unfolding run by (simp add: Let_def split: prod.split option.split)
  then show ?thesis
    by (intro exI[of _ ?dsp] exI[of _ ?w1] exI[of _ "ct_result ?ct"] conjI, assumption)
       (simp_all add: afterCommit_def row, simp_all add: dispatchOf_def journalRow_def j_key_def applyResult_def)
qed

text \<open>A pull-request session at rest in REVIEW, for the concrete runs below.\<close>

definition review_seed :: fsm_record where
  "review_seed = buildSyntheticCoordinatorRecord ''s'' ''u'' ''h'' 0"

lemma review_seed_sel [simp]:
  "sessionId review_seed = ''s''" "version review_seed = 0" "state review_seed = REVIEW"
  "prUrl review_seed = Some ''u''" "headSha review_seed = Some ''h''"
  "inFlightEpochId review_seed = None"
  by (simp_all add: review_seed_def buildSyntheticCoordinatorRecord_def buildGenesisRecord_def)

lemma review_seed_ok: "world_ok {} (seed_world review_seed)"
proof (rule seed_world_ok)
  have "\<exists>sid pr head now. pr \<noteq> [] \<and> review_seed = buildSyntheticCoordinatorRecord sid pr head now"
    unfolding review_seed_def by (intro exI conjI, rule list.distinct(2), rule refl)
  then show "seed_record review_seed" by (simp add: seed_record_def)
qed

definition review_context :: live_context where
  "review_context = no_context\<lparr>lc_reviewSourceId := Some ''thread-1''\<rparr>"

lemma live_new_epoch [simp]:
  "g_newEpochId (live_guards sid review_context st r e) = Some (syntheticEpochId sid (version r))"
  "g_reviewSourceId (live_guards sid review_context st r e) = Some ''thread-1''"
  "syntheticEpochId sid v \<noteq> []"
  by (simp_all add: live_guards_def review_context_def no_context_def syntheticEpochId_def)

lemma review_seed_received:
  "transition (state review_seed) (Review_Received Reviewer_Bot True)
     (live_guards ''s'' review_context st review_seed (Review_Received Reviewer_Bot True))
   = Inr (Some (decide_reg REVIEW (setInFlightEpoch (syntheticEpochId ''s'' 0))
       [dispatchEpoch Trigger_Review] [registerReview ''thread-1'']))"
proof -
  have "g_noInflightEpoch (live_guards ''s'' review_context st review_seed e) = Some True" for e
    by (simp add: live_guards_def)
  then show ?thesis
    by (simp add: transition_def coreTransition_def step_defs handled_def requireNewEpochId_def)
qed

text \<open>The live sink itself fails: a review event whose context carries no source id registers a blank one.\<close>

theorem worklist_failure_withholds_cascade_witness:
  "\<exists>w'. applyEvent (liveDeps ''s'' no_context offline None noopSideEffectSink quiet)
      (plain_input ''s'' (Review_Received Reviewer_Bot True)) (live_init no_context) (seed_world review_seed)
    = (Inl (Worklist_Threw Worklist_Blank_Source_Id), live_init no_context, w')
    \<and> map j_key (wd_journal w') = [(''s'', 1)] \<and> dsp_worklistFailed (last (wd_dispatched w'))"
proof -
  define deps where "deps = liveDeps ''s'' no_context offline None noopSideEffectSink quiet"
  define inp where "inp = plain_input ''s'' (Review_Received Reviewer_Bot True)"
  define w where "w = seed_world review_seed"
  define rs where "rs = live_init no_context"
  define d where "d = decide_reg REVIEW (setInFlightEpoch (syntheticEpochId ''s'' 0))
          [dispatchEpoch Trigger_Review] [registerReview []]"
  have q: "dp_env deps = quiet" "dp_sideEffects deps = noopSideEffectSink" "dp_worklist deps = liveWorklistSink"
    by (simp_all add: deps_def liveDeps_def)
  have i: "in_sessionId inp = ''s''" "in_event inp = Review_Received Reviewer_Bot True" "wd_journal w = []"
    by (simp_all add: inp_def plain_input_def w_def seed_world_def)
  have get: "getPrCoordination (wd_prs w) (in_sessionId inp) = Some review_seed"
    by (simp add: w_def seed_world_def i)
  have t: "transition (state review_seed) (in_event inp)
      (rv_guards (dp_resolver deps) rs review_seed (in_event inp)) = Inr (Some d)"
    unfolding i d_def
    by (simp add: deps_def liveDeps_def liveResolver_def live_guards_def no_context_def transition_def
        coreTransition_def step_defs handled_def requireNewEpochId_def syntheticEpochId_def)
  have regs: "d_regs d = Some [registerReview []]" by (simp add: d_def)
  have fails: "\<exists>items. dp_worklist deps (in_sessionId inp) (version review_seed + 1) [registerReview []]
      (applyResult review_seed (d_to d) (d_writes (fst (finalDecision (dp_resolver deps) rs (wd_clock w) review_seed d)))) u
      = (Some Worklist_Blank_Source_Id, u\<lparr>wd_items := items\<rparr>)" for u
    by (intro exI[of _ "wd_items u"])
       (simp add: q liveWorklistSink_def liveWorklistCommit_def registerReview_def d_def applyResult_def committed_row_def
         setInFlightEpoch_def)
  obtain w1 dsp where "applyEvent deps inp rs w = (Inl (Worklist_Threw Worklist_Blank_Source_Id), rs, w1)"
      "map j_key (wd_journal w1) = [(''s'', 1)]" "wd_dispatched w1 = wd_dispatched w @ [dsp]" "dsp_worklistFailed dsp"
    using worklist_failure_withholds_cascade[OF q(1) review_seed_ok[folded w_def] get t regs fails] i(1,3)
    unfolding q(2) noopSideEffectSink_def by auto
  then have "applyEvent deps inp rs w = (Inl (Worklist_Threw Worklist_Blank_Source_Id), rs, w1)
      \<and> map j_key (wd_journal w1) = [(''s'', 1)] \<and> dsp_worklistFailed (last (wd_dispatched w1))"
    by simp
  then show ?thesis unfolding deps_def inp_def rs_def w_def by (rule exI)
qed

section \<open>FG-5\<close>

text \<open>The edge of an actionable review, on any bag: it registers the item and lands short of MERGE_READY.\<close>

lemma review_received_edge:
  assumes "transition s (Review_Received k True) g = Inr (Some d)"
  shows "published_state s \<and> (d_to d = REVIEW \<or> d_to d = VERIFYING)
    \<and> d_regs d = Some [registerReview (nullish (g_reviewSourceId g) [])]
    \<and> w_prUrl (d_writes d) = None"
proof -
  have "step_all (\<lambda>d. published_state s \<and> (d_to d = REVIEW \<or> d_to d = VERIFYING)
    \<and> d_regs d = Some [registerReview (nullish (g_reviewSourceId g) [])]
    \<and> w_prUrl (d_writes d) = None) (transition s (Review_Received k True) g)"
    by (rule step_all_transitionI, rule step_all_coreI)
       (simp_all add: step_defs write_defs crossCuttingTransition_def published_state_def)
  then show ?thesis using assms by simp
qed

text \<open>
  What the other writers and the side-effect sink may not do: re-point the session to another pull request or
  stamp the item of the review.  Versions, states, heads, epochs, other items and the journal are theirs.
\<close>

definition keeps :: "('rs, 'm) deps_scheme \<Rightarrow> (world \<Rightarrow> bool) \<Rightarrow> bool" where
  "keeps deps I \<longleftrightarrow> (\<forall>n w. I w \<longrightarrow> I (dp_env deps n w)) \<and> (\<forall>dsp w. I w \<longrightarrow> I (snd (dp_sideEffects deps dsp w)))"

definition review_open :: "item_key \<Rightarrow> world \<Rightarrow> bool" where
  "review_open k w \<longleftrightarrow> pk_unique (wd_prs w) \<and> keys_unique (wd_items w)
     \<and> (\<forall>r. getPrCoordination (wd_prs w) (fst k) = Some r \<longrightarrow> prUrl r = Some (fst (snd k)))
     \<and> (disposition_of (wd_items w) k = None \<or> disposition_of (wd_items w) k = Some Disposition_None)"

definition review_registered :: "item_key \<Rightarrow> world \<Rightarrow> bool" where
  "review_registered k w \<longleftrightarrow> keys_unique (wd_items w) \<and> disposition_of (wd_items w) k = Some Disposition_None"

definition short_of_merge :: "string \<Rightarrow> world \<Rightarrow> bool" where
  "short_of_merge sid w \<longleftrightarrow> pk_unique (wd_prs w)
     \<and> (\<exists>r. getPrCoordination (wd_prs w) sid = Some r \<and> state r \<noteq> MERGE_READY)"

definition table_fact :: "(world \<Rightarrow> bool) \<Rightarrow> bool" where
  "table_fact I \<longleftrightarrow> (\<forall>w n ds. I (w\<lparr>wd_tick := n\<rparr>) = I w \<and> I (w\<lparr>wd_dispatched := ds\<rparr>) = I w)"

lemma review_facts [simp]:
  "table_fact (review_open k)" "table_fact (review_registered k)" "table_fact (short_of_merge sid)"
  by (simp_all add: table_fact_def review_open_def review_registered_def short_of_merge_def)

lemma keeps_interfere: "keeps deps I \<Longrightarrow> table_fact I \<Longrightarrow> I w \<Longrightarrow> I (interfere deps w)"
  by (simp add: keeps_def table_fact_def interfere_def)

lemma keeps_dispatch: "keeps deps I \<Longrightarrow> table_fact I \<Longrightarrow> I w \<Longrightarrow> I (snd (dispatchEffects deps dsp w))"
  using keeps_interfere[of deps I w] by (simp add: keeps_def table_fact_def dispatchEffects_def Let_def)

text \<open>The attempt that wins the review's compare-and-swap, against any writers that keep the item open.\<close>

definition review_won :: "string \<Rightarrow> item_key \<Rightarrow> commit_ticket \<Rightarrow> world \<Rightarrow> bool" where
  "review_won src k ct w \<longleftrightarrow> review_open k w \<and> short_of_merge (fst k) w
     \<and> prUrl (ct_result ct) = Some (fst (snd k)) \<and> d_regs (ct_decision ct) = Some [registerReview src]
     \<and> (d_to (ct_decision ct) = REVIEW \<or> d_to (ct_decision ct) = VERIFYING)"

lemma review_attempt_won:
  assumes run: "casAttempt deps inp rs w = (Won ct, w')" and ev: "in_event inp = Review_Received kind True"
    and resolver: "dp_resolver deps = liveResolver (in_sessionId inp) ctx poll auto"
    and src: "lc_reviewSourceId ctx = Some src"
    and I: "review_open (in_sessionId inp, pr, src) w" "keeps deps (review_open (in_sessionId inp, pr, src))"
  shows "review_won src (in_sessionId inp, pr, src) ct w'"
proof -
  let ?k = "(in_sessionId inp, pr, src)" and ?rv = "dp_resolver deps" and ?sid = "in_sessionId inp"
  let ?w1 = "interfere deps w"
  let ?w2 = "interfere deps ?w1"
  have o1: "review_open ?k ?w1" and o2: "review_open ?k ?w2"
    using keeps_interfere[OF I(2)] I(1) by simp_all
  obtain rec d where get: "getPrCoordination (wd_prs ?w1) ?sid = Some rec"
    and t: "transition (state rec) (in_event inp) (rv_guards ?rv rs rec (in_event inp)) = Inr (Some d)"
    using run by (auto simp: casAttempt_def Let_def split: option.splits sum.splits)
  have edge: "d_to d = REVIEW \<or> d_to d = VERIFYING" "d_regs d = Some [registerReview src]"
      "w_prUrl (d_writes d) = None"
    using review_received_edge[OF t[unfolded ev]] src by (simp_all add: resolver liveResolver_def live_guards_def)
  define post where "post = fst (finalDecision ?rv rs (wd_clock ?w1) rec d)"
  obtain prs' n where cas: "casUpdatePrCoordination ?sid (version rec) (Some (d_to post))
      (d_writes post) (wd_prs ?w2) = (prs', n)" by fastforce
  have n: "n \<noteq> 0" and w': "w' = ?w2\<lparr>wd_prs := prs'\<rparr>" and ct: "ct_decision ct = post"
      "ct_result ct = applyResult rec (d_to post) (d_writes post)"
    using run get t cas
    by (auto simp: casAttempt_def Let_def post_def[symmetric] case_prod_beta split: if_splits)
  obtain r where r: "getPrCoordination (wd_prs ?w2) ?sid = Some r"
      "getPrCoordination prs' ?sid = Some (committed_row (Some (d_to post)) (d_writes post) r)" "pk_unique prs'"
    using cas_won[OF _ cas n] o2 unfolding review_open_def by metis
  have "prUrl rec = Some pr" "prUrl r = Some pr"
    using o1 o2 get r(1) by (simp_all add: review_open_def)
  then show ?thesis
    using o2 r edge
    by (auto simp: review_won_def review_open_def short_of_merge_def w' ct post_def applyResult_def committed_row_def)
qed

lemma review_loop_won:
  assumes run: "casLoop m deps inp rs w = (Won ct, w')" and ev: "in_event inp = Review_Received kind True"
    and resolver: "dp_resolver deps = liveResolver (in_sessionId inp) ctx poll auto"
    and src: "lc_reviewSourceId ctx = Some src"
    and I: "review_open (in_sessionId inp, pr, src) w" "keeps deps (review_open (in_sessionId inp, pr, src))"
  shows "review_won src (in_sessionId inp, pr, src) ct w'"
  using run I(1)
proof (induction m arbitrary: w)
  case (Suc m)
  obtain a w1 where a: "casAttempt deps inp rs w = (a, w1)" by fastforce
  show ?case
  proof (cases a)
    case Retry
    have "w1 = interfere deps w \<or> w1 = interfere deps (interfere deps w)"
      using a Retry by (auto simp: casAttempt_def Let_def case_prod_beta
          split: option.splits sum.splits if_splits)
    then have "review_open (in_sessionId inp, pr, src) w1"
      using keeps_interfere[OF I(2)] Suc.prems(2) by auto
    then show ?thesis using Suc.IH[of w1] Suc.prems(1) a Retry by simp
  qed (use Suc.prems a review_attempt_won[OF _ ev resolver src _ I(2)] in auto)
qed simp

text \<open>The live recompute is silent while an item of the pull request is undispositioned.\<close>

lemma registered_counts:
  "review_registered (sid, pr, src) w \<Longrightarrow> countUndispositionedActionable (wd_items w) sid pr \<noteq> 0"
  using count_zero_lookup by (auto simp: review_registered_def)

lemma live_recompute_silent:
  assumes resolver: "dp_resolver deps = liveResolver sid ctx poll auto"
    and res: "prUrl (ct_result ct) = Some pr" "pr \<noteq> []"
    and item: "review_registered (sid, pr, src) w" "keeps deps (review_registered (sid, pr, src))"
  shows "\<exists>rs' w'. (w' = w \<or> w' = interfere deps w)
    \<and> (\<forall>f. recomputeTail (Some f) deps inp ct rs w = (Inr (handledResult ct), rs', w'))"
proof (cases "classifyCaughtUpTrigger (state (ct_prev ct)) (in_event inp) (d_to (ct_decision ct))")
  case None
  then show ?thesis by (intro exI[of _ rs] exI[of _ w]) (simp add: recomputeTail_def)
next
  case (Some y)
  let ?w' = "interfere deps w"
  have to: "d_to (ct_decision ct) = REVIEW" by (rule trigger_lands_in_review[OF Some])
  have "countUndispositionedActionable (wd_items ?w') sid pr \<noteq> 0"
    using registered_counts keeps_interfere[OF item(2) _ item(1)] by simp
  then show ?thesis
    using Some[unfolded to] to res
    by (intro exI[of _ "fst (live_caughtUpInputs sid ctx poll auto rs
          \<lparr>ws_items = wd_items ?w', ws_journal = wd_journal ?w'\<rparr> (ct_result ct) (in_event inp))"]
          exI[of _ ?w'])
       (simp add: recomputeTail_def resolver liveResolver_def live_caughtUpInputs_def Let_def
          recomputeCaughtUp_def caughtUp_def)
qed

text \<open>The commit tail registers the item and hands on; whatever the sink and the writers do, it does not re-enter.\<close>

lemma review_finish:
  assumes resolver: "dp_resolver deps = liveResolver sid ctx poll auto" and live: "dp_worklist deps = liveWorklistSink"
    and sid: "sid = in_sessionId inp" and ne: "src \<noteq> []" "pr \<noteq> []"
    and won: "review_won src (sid, pr, src) ct w"
    and item: "keeps deps (review_open (sid, pr, src))" "keeps deps (review_registered (sid, pr, src))"
    and run: "finishCommit (Some f) deps inp ct rs w = (Inr res, rs', w')"
  shows "(\<forall>g. finishCommit (Some g) deps inp ct rs w = (Inr res, rs', w')) \<and> res = handledResult ct
    \<and> review_registered (sid, pr, src) w' \<and> (keeps deps (short_of_merge sid) \<longrightarrow> short_of_merge sid w')"
proof -
  let ?k = "(sid, pr, src)" and ?w1 = "interfere deps w"
  have won': "review_open ?k w" "short_of_merge sid w" "prUrl (ct_result ct) = Some pr"
      "d_regs (ct_decision ct) = Some [registerReview src]"
    using won by (simp_all add: review_won_def)
  obtain js where app: "appendPrCoordinationEvent (journalRow inp ct) (wd_journal ?w1) = Inr js"
    using run by (auto simp: finishCommit_def Let_def split: sum.splits)
  let ?u = "interfere deps (?w1\<lparr>wd_journal := js\<rparr>)"
  let ?w2 = "?u\<lparr>wd_items := registerDispositionsIfAbsent [?k] (wd_clock ?u) (wd_items ?u)\<rparr>"
  have wl: "commitWorklist deps inp ct (?w1\<lparr>wd_journal := js\<rparr>) = (None, ?w2)"
    using won' ne
    by (simp add: commitWorklist_def live liveWorklistSink_def liveWorklistCommit_def registerReview_def sid)
  have "review_open ?k (?w1\<lparr>wd_journal := js\<rparr>)"
    using keeps_interfere[OF item(1) review_facts(1) won'(1)] by (simp add: review_open_def)
  then have "review_open ?k ?u" by (rule keeps_interfere[OF item(1) review_facts(1)])
  then have reg: "review_registered ?k ?w2"
    by (auto simp: review_open_def review_registered_def keys_unique_register_all disposition_register)
  have short: "short_of_merge sid ?w2" if "keeps deps (short_of_merge sid)"
  proof -
    have "short_of_merge sid (?w1\<lparr>wd_journal := js\<rparr>)"
      using keeps_interfere[OF that review_facts(3) won'(2)] by (simp add: short_of_merge_def)
    then have "short_of_merge sid ?u" by (rule keeps_interfere[OF that review_facts(3)])
    then show ?thesis by (simp add: short_of_merge_def)
  qed
  obtain e w3 where se: "dispatchEffects deps (dispatchOf inp ct False) ?w2 = (e, w3)" by fastforce
  have e: "e = None" using run by (auto simp: finishCommit_def Let_def app wl se split: option.splits)
  have reg3: "review_registered ?k w3" using keeps_dispatch[OF item(2) _ reg, of "dispatchOf inp ct False"] se by simp
  obtain rs2 w4 where tail: "w4 = w3 \<or> w4 = interfere deps w3"
      "\<And>g. recomputeTail (Some g) deps inp ct rs w3 = (Inr (handledResult ct), rs2, w4)"
    using live_recompute_silent[OF resolver won'(3) ne(2) reg3 item(2), of inp rs] by blast
  have fin: "finishCommit (Some g) deps inp ct rs w = (Inr (handledResult ct), rs2, w4)" for g
    using tail(2) by (simp add: finishCommit_def Let_def app wl se e)
  have "review_registered ?k w4" using tail(1) reg3 keeps_interfere[OF item(2) _ reg3] by auto
  moreover have "short_of_merge sid w4" if k: "keeps deps (short_of_merge sid)"
    using tail(1) keeps_interfere[OF k, of w3] keeps_dispatch[OF k _ short[OF k], of "dispatchOf inp ct False"] se
    by auto
  ultimately show ?thesis using fin run by simp
qed

text \<open>
  C4.  FG-5 end to end, under races.  On the live resolver and the live worklist sink, with any side-effect sink
  and any other writers that neither stamp the item of the review nor re-point the session to another pull
  request, an actionable review whose item carries no terminal stamp is never followed by its own cascade: a
  call that returns \<open>handled\<close> went to REVIEW or VERIFYING, left the pull request with an undispositioned item,
  and did what it would have done with any other continuation in place of the caught-up re-entry.  So the session
  is still short of MERGE_READY when the call ends, unless another writer or the sink itself moved it there.
  The CI poll, the auto-verify setting, lost races and retries make no difference.
\<close>

theorem actionable_review_blocks_merge_ready:
  fixes inp :: apply_input
  assumes deps: "deps = liveDeps (in_sessionId inp) ctx poll auto sink env"
    and k: "k = (in_sessionId inp, pr, src)" "src \<noteq> []" "pr \<noteq> []"
    and ev: "in_event inp = Review_Received kind True" "lc_reviewSourceId ctx = Some src"
    and item: "review_open k w" "keeps deps (review_open k)" "keeps deps (review_registered k)"
    and run: "applyEvent deps inp rs w = (Inr res, rs', w')" and handled: "ar_outcome res = Handled"
  shows "(ar_to res = Some REVIEW \<or> ar_to res = Some VERIFYING)
    \<and> countUndispositionedActionable (wd_items w') (in_sessionId inp) pr \<noteq> 0
    \<and> (\<forall>continuation. spine (Some continuation) deps inp rs w = (Inr res, rs', w'))
    \<and> (keeps deps (short_of_merge (in_sessionId inp)) \<longrightarrow> short_of_merge (in_sessionId inp) w')"
proof -
  have q: "dp_resolver deps = liveResolver (in_sessionId inp) ctx poll auto" "dp_worklist deps = liveWorklistSink"
    by (simp_all add: deps liveDeps_def)
  obtain a w1 where loop: "casLoop MAX_CAS_ATTEMPTS deps inp rs w = (a, w1)" by fastforce
  obtain ct where a: "a = Won ct"
  proof (cases a)
    case (Settled x)
    then show ?thesis
      using run handled settled_not_handled[OF loop[unfolded Settled]]
      by (simp add: applyEvent_unfold spine_def loop)
  qed (use run handled that in \<open>auto simp: applyEvent_unfold spine_def loop\<close>)
  have won: "review_won src k ct w1"
    using review_loop_won[OF loop[unfolded a] ev(1) q(1) ev(2)] item unfolding k by blast
  have fin: "finishCommit (Some (applyFrom 3 deps)) deps inp ct rs w1 = (Inr res, rs', w')"
    using run unfolding applyEvent_unfold spine_def loop a by simp
  note r = review_finish[OF q refl k(2,3) won[unfolded k] item(2,3)[unfolded k] fin]
  have "ar_to res = Some (d_to (ct_decision ct))" using r by (simp add: handledResult_def)
  then show ?thesis
    using r won registered_counts by (auto simp: spine_def loop a review_won_def)
qed

text \<open>
  A rival that takes the version between the review's read and its compare-and-swap, and a sink that registers
  an item of its own.
\<close>

definition bump_once :: "nat \<Rightarrow> world \<Rightarrow> world" where
  "bump_once n w =
    (if n = 1
     then w\<lparr>wd_prs := fst (casUpdatePrCoordination ''s'' 0 None no_writes (wd_prs w)),
            wd_journal := wd_journal w @
              [\<lparr>j_sessionId = ''s'', j_version = 1, j_fromState = REVIEW, j_toState = REVIEW,
                j_event = ''ci.signal'', j_at = wd_clock w, j_actor = Actor_Webhook, j_metadata = None,
                j_dwellMs = None, j_settleDedupKey = None\<rparr>]\<rparr>
     else w)"

definition registering_sink :: "dispatch \<Rightarrow> world \<Rightarrow> sink_error option \<times> world" where
  "registering_sink dsp w =
    (None, w\<lparr>wd_items := registerDispositionsIfAbsent [(''s'', ''u'', ''thread-2'')] (wd_clock w) (wd_items w)\<rparr>)"

definition raced_deps :: "live_state deps" where
  "raced_deps = liveDeps ''s'' review_context offline None registering_sink bump_once"

lemma bumped_row:
  assumes "pk_unique t"
  shows "pk_unique (fst (casUpdatePrCoordination ''s'' 0 None no_writes t))"
    and "getPrCoordination (fst (casUpdatePrCoordination ''s'' 0 None no_writes t)) ''s''
      = map_option (\<lambda>r. r\<lparr>version := (if version r = 0 then 1 else version r)\<rparr>) (getPrCoordination t ''s'')"
proof -
  have c: "cas_row ''s'' 0 (None, no_writes) t = casUpdatePrCoordination ''s'' 0 None no_writes t"
    by (simp add: cas_row_def)
  show "pk_unique (fst (casUpdatePrCoordination ''s'' 0 None no_writes t))"
    using prs.wf_cas[OF assms, of "''s''" 0 "(None, no_writes)"] c by simp
  show "getPrCoordination (fst (casUpdatePrCoordination ''s'' 0 None no_writes t)) ''s''
      = map_option (\<lambda>r. r\<lparr>version := (if version r = 0 then 1 else version r)\<rparr>) (getPrCoordination t ''s'')"
  proof (cases "\<exists>r. getPrCoordination t ''s'' = Some r \<and> version r = 0")
    case True
    then obtain r where r: "getPrCoordination t ''s'' = Some r" "version r = 0" by blast
    show ?thesis
      using prs.cas_hit[OF assms r, of "(None, no_writes)"] r
      by (simp add: c committed_row_def)
  next
    case False
    then show ?thesis
      using prs.cas_miss[OF assms, of "''s''" 0 "(None, no_writes)"] c
      by (cases "getPrCoordination t ''s''") auto
  qed
qed

lemma raced_keeps:
  "keeps raced_deps (review_open (''s'', ''u'', ''thread-1''))"
  "keeps raced_deps (review_registered (''s'', ''u'', ''thread-1''))"
  "keeps raced_deps (short_of_merge ''s'')"
  by (auto simp: keeps_def raced_deps_def liveDeps_def review_open_def review_registered_def short_of_merge_def
      bump_once_def registering_sink_def bumped_row keys_unique_register_all disposition_register split: if_splits)
     (rule_tac x = "if version r = 0 then r\<lparr>version := 1\<rparr> else r" in exI, auto)

theorem actionable_review_blocks_merge_ready_witness:
  "\<exists>res rs' w'. applyEvent raced_deps (plain_input ''s'' (Review_Received Reviewer_Bot True))
        (live_init review_context) (seed_world review_seed) = (Inr res, rs', w')
    \<and> ar_version res = Some 2 \<and> (ar_to res = Some REVIEW \<or> ar_to res = Some VERIFYING)
    \<and> countUndispositionedActionable (wd_items w') ''s'' ''u'' \<noteq> 0 \<and> short_of_merge ''s'' w'"
proof -
  define inp where "inp = plain_input ''s'' (Review_Received Reviewer_Bot True)"
  have i: "in_sessionId inp = ''s''" "in_event inp = Review_Received Reviewer_Bot True"
    by (simp_all add: inp_def plain_input_def)
  obtain x rs' w' where run: "applyEvent raced_deps inp (live_init review_context) (seed_world review_seed) = (x, rs', w')"
    by (metis prod_cases3)
  have "(case fst (applyEvent raced_deps (plain_input ''s'' (Review_Received Reviewer_Bot True))
        (live_init review_context) (seed_world review_seed)) of
      Inl e \<Rightarrow> False | Inr res \<Rightarrow> ar_outcome res = Handled \<and> ar_version res = Some 2)"
    by code_simp
  then obtain res where res: "x = Inr res" "ar_outcome res = Handled" "ar_version res = Some 2"
    using run by (cases x) (simp_all add: inp_def)
  have open_item: "review_open (''s'', ''u'', ''thread-1'') (seed_world review_seed)"
    using review_seed_ok
    by (auto simp: review_open_def world_ok_def seed_world_def disposition_of_def find_item_def)
  have "raced_deps = liveDeps (in_sessionId inp) review_context offline None registering_sink bump_once"
    by (simp add: raced_deps_def i)
  note main = actionable_review_blocks_merge_ready[OF this _ _ _ i(2) _ _ _ _ run[unfolded res(1)] res(2),
      where k = "(''s'', ''u'', ''thread-1'')" and pr = "''u''" and src = "''thread-1''"]
  have "(ar_to res = Some REVIEW \<or> ar_to res = Some VERIFYING)
    \<and> countUndispositionedActionable (wd_items w') ''s'' ''u'' \<noteq> 0 \<and> short_of_merge ''s'' w'"
    using main open_item raced_keeps by (simp add: i review_context_def)
  then show ?thesis using run res unfolding inp_def by blast
qed

section \<open>Dwell anchors\<close>

text \<open>
  C16.  The dwell anchor and the backstop move together and only on real edges: the committed row of a
  decision enters its state now and is due one deadline class later, except that a dwell-neutral self-loop
  leaves both instants of the row as they were.
\<close>

theorem anchors_move_on_real_edges:
  "let r' = applyResult r (d_to d) (d_writes (fst (finalDecision rv rs now r d)))
   in stateEnteredAt r' = (if isDwellNeutralSelfLoop (state r) d then stateEnteredAt r else Some now)
    \<and> deadlineAt r' = (if isDwellNeutralSelfLoop (state r) d then deadlineAt r
                     else map_option (\<lambda>ms. now + ms) (rv_deadlineMs rv (d_to d)))"
proof (cases "isDwellNeutralSelfLoop (state r) d")
  case True
  then have "d_writes d = no_writes" by (simp add: isDwellNeutralSelfLoop_def)
  then show ?thesis using True
    by (simp add: finalDecision_def universalPostActions_def applyCiFixResetPostAction_def
        resetCiFixRounds_def applyResult_def committed_row_def Let_def)
next
  case False
  then show ?thesis
    by (simp add: finalDecision_def universalPostActions_def applyArmDeadlinePostAction_def
        applyCiFixResetPostAction_def armDeadline_def resetCiFixRounds_def applyResult_def
        committed_row_def Let_def split: option.split)
qed

end
