(* ===== verification/Spine_Hazards.thy ===== *)
theory Spine_Hazards
  imports Apply_Event_Props
begin

text \<open>
  Two questions of timing about the spine.  Churn: re-observed events that change nothing must not push
  the backstop of a stuck session out of reach.  And the version-0 maintenance writes of
  \<open>session/pr-coordination-db.ts\<close>: unlike every other writer they change a row without moving its version,
  so the compare-and-swap cannot see them.
\<close>

section \<open>Churn\<close>

text \<open>The row after a run of CI signals, each handled by the spine at its own instant.\<close>

fun ci_churn ::
  "'rs resolver \<Rightarrow> 'rs \<Rightarrow> (int \<times> ci_signal_state) list \<Rightarrow> fsm_record \<Rightarrow> fsm_record" where
  "ci_churn rv rs [] r = r"
| "ci_churn rv rs ((now, ci) # rest) r =
    (case transition (state r) (Ci_Signal ci) (rv_guards rv rs r (Ci_Signal ci)) of
       Inr (Some d) \<Rightarrow>
         ci_churn rv rs rest (applyResult r (d_to d) (d_writes (fst (finalDecision rv rs now r d))))
     | _ \<Rightarrow> ci_churn rv rs rest r)"

lemma verifying_ci_signal:
  "transition VERIFYING (Ci_Signal ci) g = Inr (Some (decide VERIFYING no_writes [Log_Noop]))"
  by (simp add: transition_def coreTransition_def step_defs handled_def)

lemma verifying_noop_row:
  assumes "state r = VERIFYING"
  shows "let d = decide VERIFYING no_writes [Log_Noop];
             r' = applyResult r (d_to d) (d_writes (fst (finalDecision rv rs now r d)))
         in state r' = VERIFYING \<and> version r' = version r + 1
            \<and> stateEnteredAt r' = stateEnteredAt r \<and> deadlineAt r' = deadlineAt r"
proof -
  have "isDwellNeutralSelfLoop (state r) (decide VERIFYING no_writes [Log_Noop])"
    using assms by (simp add: isDwellNeutralSelfLoop_def DWELL_NEUTRAL_SELF_LOOP_STATES_def)
  moreover note anchors_move_on_real_edges[of r "decide VERIFYING no_writes [Log_Noop]" rv rs now]
  ultimately show ?thesis by (simp add: Let_def applyResult_def)
qed

text \<open>
  C11.  Churn cannot postpone the backstop: however many CI signals a session in VERIFYING handles, at
  whatever instants and on whatever resolver, each is a commit of its own, yet the dwell anchor and the
  deadline stay where they were, so the deadline check still fires one backstop window after the session
  entered VERIFYING.
\<close>

theorem churn_cannot_postpone_backstop:
  assumes "state r = VERIFYING"
  shows "state (ci_churn rv rs sig r) = VERIFYING
    \<and> version (ci_churn rv rs sig r) = version r + int (length sig)
    \<and> deadlineAt (ci_churn rv rs sig r) = deadlineAt r
    \<and> deadlineWouldFire (state (ci_churn rv rs sig r)) (stateEnteredAt (ci_churn rv rs sig r)) now
        = (case stateEnteredAt r of None \<Rightarrow> False | Some t \<Rightarrow> t + VERIFYING_BACKSTOP_DEADLINE_MS \<le> now)"
proof -
  have "state (ci_churn rv rs sig r) = VERIFYING
    \<and> version (ci_churn rv rs sig r) = version r + int (length sig)
    \<and> deadlineAt (ci_churn rv rs sig r) = deadlineAt r
    \<and> stateEnteredAt (ci_churn rv rs sig r) = stateEnteredAt r"
    using assms
  proof (induction sig arbitrary: r)
    case (Cons x rest)
    obtain t ci where x: "x = (t, ci)" by fastforce
    show ?case
      using Cons.IH verifying_noop_row[OF Cons.prems, of rv rs t] Cons.prems
      by (simp add: x verifying_ci_signal Let_def del: decide_sel)
  qed simp
  then show ?thesis
    by (auto simp: deadlineWouldFire_def split: option.split)
qed

theorem churn_cannot_postpone_backstop_witness:
  "deadlineWouldFire VERIFYING
     (stateEnteredAt (ci_churn transportResolver () [(7, Signal_Green), (9, Signal_Failing)]
        (review_seed\<lparr>state := VERIFYING\<rparr>)))
     VERIFYING_BACKSTOP_DEADLINE_MS"
proof -
  let ?r = "review_seed\<lparr>state := VERIFYING\<rparr>"
  have v: "state ?r = VERIFYING" and t: "stateEnteredAt ?r = Some 0"
    by (simp_all add: review_seed_def buildSyntheticCoordinatorRecord_def buildGenesisRecord_def)
  show ?thesis
    using churn_cannot_postpone_backstop[OF v, of transportResolver "()"
        "[(7, Signal_Green), (9, Signal_Failing)]" VERIFYING_BACKSTOP_DEADLINE_MS] t
    by (elim conjE) (simp del: ci_churn.simps)
qed

section \<open>Version-0 maintenance under a producer\<close>

text \<open>
  The backfill's re-baseline lands between a producer's read of a version-0 row and its
  compare-and-swap.
\<close>

definition rebaselineBetween :: "fsm_record \<Rightarrow> nat \<Rightarrow> world \<Rightarrow> world" where
  "rebaselineBetween rec n w =
    (if n = 1 then w\<lparr>wd_prs := fst (rebaselinePrCoordinationVersion0 rec (wd_prs w))\<rparr> else w)"

text \<open>
  C20.  The version check does not protect the re-baseline: a session read at CREATED is re-baselined to
  a pull request in REVIEW, which keeps version 0, and the producer's compare-and-swap then still wins;
  the call reports \<open>handled\<close> and the row it leaves is in PROVISIONING with the pull request attached, which
  no sequence of commits can reach.
\<close>

theorem rebaseline_slips_under_cas:
  "\<exists>res rs' w' r. applyEvent
      (liveDeps ''s'' no_context offline None noopSideEffectSink (rebaselineBetween review_seed))
      (plain_input ''s'' Sandbox_Spawn_Requested) (live_init no_context) (genesis_world ''s'')
      = (Inr res, rs', w')
    \<and> ar_outcome res = Handled
    \<and> getPrCoordination (wd_prs w') ''s'' = Some r
    \<and> state r = PROVISIONING \<and> prUrl r = Some ''u'' \<and> \<not> lifecycle_reach r"
proof -
  define deps where "deps = liveDeps ''s'' no_context offline None noopSideEffectSink
    (rebaselineBetween review_seed)"
  define inp where "inp = plain_input ''s'' Sandbox_Spawn_Requested"
  define w where "w = genesis_world ''s''"
  define gen where "gen = buildGenesisRecord ''s'' 0"
  define rs where "rs = live_init no_context"
  define d where "d = decide PROVISIONING no_writes [Spawn_Sandbox]"
  define ct where "ct = ticketFor (dp_resolver deps) rs 5 gen d"
  define w2 where "w2 = w\<lparr>wd_tick := 2, wd_prs := committedTable [review_seed] ''s'' ct\<rparr>"
  have i: "in_sessionId inp = ''s''" "in_event inp = Sandbox_Spawn_Requested"
    by (simp_all add: inp_def plain_input_def)
  have g: "state gen = CREATED" "version gen = 0" "sessionId gen = ''s''"
    by (simp_all add: gen_def buildGenesisRecord_def)
  have w: "wd_prs w = [gen]" "wd_journal w = []" "wd_clock w = 5" "wd_tick w = 0"
    by (simp_all add: w_def genesis_world_def seed_world_def gen_def)
  have env: "dp_env deps = rebaselineBetween review_seed" "dp_sideEffects deps = noopSideEffectSink"
    by (simp_all add: deps_def liveDeps_def)
  have t: "transition CREATED Sandbox_Spawn_Requested g = Inr (Some d)" for g
    by (simp add: d_def transition_def coreTransition_def step_defs handled_def)
  have d_sel: "d_to d = PROVISIONING" "d_regs d = None" "d_writes d = no_writes" by (simp_all add: d_def)
  let ?w1 = "w\<lparr>wd_tick := Suc 0\<rparr>"
  have i1: "interfere deps w = ?w1" by (simp add: interfere_def env rebaselineBetween_def w)
  have i2: "interfere deps ?w1 = w\<lparr>wd_tick := 2, wd_prs := [review_seed]\<rparr>"
    by (simp add: interfere_def env rebaselineBetween_def w rebaselinePrCoordinationVersion0_def
        update_where_def g)
  have post: "fst (finalDecision (dp_resolver deps) rs 5 gen d) = ct_decision ct" by (simp add: ct_def)
  have hit: "snd (casUpdatePrCoordination ''s'' 0 (Some PROVISIONING) (d_writes (ct_decision ct))
      [review_seed]) = 1"
    by (simp add: casUpdatePrCoordination_def update_where_def)
  have "casAttempt deps inp rs w = (Won ct, w2)"
    using hit by (simp add: casAttempt_def i1 i2 i w g t Let_def case_prod_beta post d_sel w2_def
        committedTable_def, simp add: ct_def ticketFor_def case_prod_beta d_sel g)
  then have loop: "casLoop MAX_CAS_ATTEMPTS deps inp rs w = (Won ct, w2)"
    by (simp add: MAX_CAS_ATTEMPTS_def numeral_eq_Suc)
  let ?js = "[journalRow inp ct]"
  have later: "interfere deps x = x\<lparr>wd_tick := wd_tick x + 1\<rparr>" if "wd_tick x \<noteq> 1" for x
    using that by (simp add: interfere_def env rebaselineBetween_def)
  have app: "appendPrCoordinationEvent (journalRow inp ct) (wd_journal (interfere deps w2)) = Inr ?js"
    by (simp add: later w2_def w appendPrCoordinationEvent_def)
  have wl: "commitWorklist deps inp ct ((interfere deps w2)\<lparr>wd_journal := ?js\<rparr>)
      = (None, (interfere deps w2)\<lparr>wd_journal := ?js\<rparr>)"
    by (simp add: commitWorklist_def ct_def d_sel)
  obtain w3 where eff: "dispatchEffects deps (dispatchOf inp ct ((None :: store_error option) \<noteq> None))
      ((interfere deps w2)\<lparr>wd_journal := ?js\<rparr>) = (None, w3)" and prs3: "wd_prs w3 = wd_prs w2"
    by (simp add: dispatchEffects_def later env noopSideEffectSink_def Let_def w2_def)
  have run: "applyEvent deps inp rs w = (Inr (handledResult ct), rs, w3)"
    unfolding applyEvent_unfold spine_def loop prod.case attempt.case finish_steps[OF app wl eff] option.case
    by (simp add: recomputeTail_def classifyCaughtUpTrigger_def ct_def d_sel i g)
  let ?row = "applyResult review_seed PROVISIONING (d_writes (ct_decision ct))"
  have row: "getPrCoordination (wd_prs w3) ''s'' = Some ?row"
    by (simp add: prs3 w2_def committedTable_def casUpdatePrCoordination_def update_where_def
        applyResult_def, simp add: ct_def d_sel g)
  have prRow: "state ?row = PROVISIONING" "prUrl ?row = Some ''u''"
    by (simp_all add: applyResult_def committed_row_def ct_def d_sel)
  have "\<not> record_ok ?row"
    using prRow by (simp add: record_ok_def inv_publish_def phase_state_def published_state_def)
  then have "\<not> lifecycle_reach ?row" using lifecycle_reach_ok by blast
  moreover have "ar_outcome (handledResult ct) = Handled" by (simp add: handledResult_def)
  ultimately show ?thesis
    using run row prRow unfolding deps_def inp_def rs_def w_def by blast
qed

end
