(* ===== verification/Session_Lifecycle.thy ===== *)
theory Session_Lifecycle
  imports Prelude
begin

text \<open>
  The transport sub-machine of a session: the lifecycle state and events (\<open>session/lifecycle/types.ts\<close>),
  the deadline arithmetic (\<open>deadlines.ts\<close>), the precedence of terminal error codes and the terminal-event
  decision (\<open>terminal-decision.ts\<close>), heartbeat freshness (\<open>heartbeat-freshness.ts\<close>) and the reducer
  (\<open>reducer.ts\<close>), one definition per event that does more than write a constant patch.

  A decision list is what the reducer returns; \<open>overlay\<close> is the state the patches of a decision leave, an
  object spread of every part.  An absent patch key is the outer \<open>None\<close>, a key set to null \<open>Some None\<close>.
\<close>



type_synonym sandbox_error_code = string

section \<open>State\<close>

datatype sandbox_state =
    Sb_None | Sb_Spawning | Sb_Connecting | Sb_Ready | Sb_Reconnecting | Sb_Stopping | Sb_Stopped | Sb_Failed

datatype prompt_phase = Pp_None | Pp_Queued | Pp_Dispatching | Pp_Running | Pp_Terminal

datatype session_status = Session_Active | Session_Archived

record sandbox_part =
  sb_state :: sandbox_state
  sb_sandboxId :: "string option"
  sb_startupAttemptId :: "string option"
  sb_spawnInProgress :: bool
  sb_spawnFailureCount :: int
  sb_lastSpawnFailureAt :: "int option"
  sb_lastHeartbeatAt :: "int option"

record prompt_part =
  pp_phase :: prompt_phase
  pp_promptId :: "string option"
  pp_startupAttemptId :: "string option"
  pp_sandboxId :: "string option"
  pp_queuedAt :: "int option"
  pp_sentToBridgeAt :: "int option"
  pp_bridgeAcceptedAt :: "int option"
  pp_codexPromptSentAt :: "int option"
  pp_lastRunningActivityAt :: "int option"
  pp_terminalErrorCode :: "sandbox_error_code option"

record review_part =
  rl_active :: bool
  rl_prUrl :: "string option"
  rl_currentHeadSha :: "string option"
  rl_enteredAt :: "int option"

record lifecycle_deadlines =
  dl_sandboxReconnectGrace :: "int option"
  dl_sandboxLiveness :: "int option"
  dl_promptStartup :: "int option"
  dl_promptDispatch :: "int option"
  dl_promptRunningInactivity :: "int option"
  dl_spawnTimeout :: "int option"

record lifecycle_state =
  lf_sessionStatus :: session_status
  lf_sandbox :: sandbox_part
  lf_prompt :: prompt_part
  lf_review :: review_part
  lf_deadlines :: lifecycle_deadlines

definition createEmptyLifecycleState :: lifecycle_state where
  "createEmptyLifecycleState = \<lparr>
    lf_sessionStatus = Session_Active,
    lf_sandbox = \<lparr>sb_state = Sb_None, sb_sandboxId = None, sb_startupAttemptId = None,
      sb_spawnInProgress = False, sb_spawnFailureCount = 0, sb_lastSpawnFailureAt = None,
      sb_lastHeartbeatAt = None\<rparr>,
    lf_prompt = \<lparr>pp_phase = Pp_None, pp_promptId = None, pp_startupAttemptId = None, pp_sandboxId = None,
      pp_queuedAt = None, pp_sentToBridgeAt = None, pp_bridgeAcceptedAt = None,
      pp_codexPromptSentAt = None, pp_lastRunningActivityAt = None, pp_terminalErrorCode = None\<rparr>,
    lf_review = \<lparr>rl_active = False, rl_prUrl = None, rl_currentHeadSha = None, rl_enteredAt = None\<rparr>,
    lf_deadlines = \<lparr>dl_sandboxReconnectGrace = None, dl_sandboxLiveness = None, dl_promptStartup = None,
      dl_promptDispatch = None, dl_promptRunningInactivity = None, dl_spawnTimeout = None\<rparr>\<rparr>"

section \<open>Patches\<close>

record sandbox_patch =
  xs_state :: "sandbox_state option"
  xs_sandboxId :: "string option option"
  xs_startupAttemptId :: "string option option"
  xs_spawnInProgress :: "bool option"
  xs_spawnFailureCount :: "int option"
  xs_lastSpawnFailureAt :: "int option option"
  xs_lastHeartbeatAt :: "int option option"
  xs_disconnectStartedAt :: "int option option"
  xs_autoCloseScheduledAt :: "int option option"

record prompt_patch =
  xp_phase :: "prompt_phase option"
  xp_promptId :: "string option option"
  xp_startupAttemptId :: "string option option"
  xp_sandboxId :: "string option option"
  xp_queuedAt :: "int option option"
  xp_sentToBridgeAt :: "int option option"
  xp_bridgeAcceptedAt :: "int option option"
  xp_codexPromptSentAt :: "int option option"
  xp_lastRunningActivityAt :: "int option option"
  xp_terminalErrorCode :: "sandbox_error_code option option"

record review_patch =
  xr_active :: "bool option"
  xr_prUrl :: "string option option"
  xr_currentHeadSha :: "string option option"
  xr_enteredAt :: "int option option"

record deadlines_patch =
  xd_sandboxReconnectGrace :: "int option option"
  xd_sandboxLiveness :: "int option option"
  xd_promptStartup :: "int option option"
  xd_promptDispatch :: "int option option"
  xd_promptRunningInactivity :: "int option option"
  xd_spawnTimeout :: "int option option"

record lifecycle_patch =
  px_sandbox :: "sandbox_patch option"
  px_prompt :: "prompt_patch option"
  px_review :: "review_patch option"
  px_deadlines :: "deadlines_patch option"

definition no_sandbox :: sandbox_patch where
  "no_sandbox = \<lparr>xs_state = None, xs_sandboxId = None, xs_startupAttemptId = None,
     xs_spawnInProgress = None, xs_spawnFailureCount = None, xs_lastSpawnFailureAt = None,
     xs_lastHeartbeatAt = None, xs_disconnectStartedAt = None, xs_autoCloseScheduledAt = None\<rparr>"

definition no_prompt :: prompt_patch where
  "no_prompt = \<lparr>xp_phase = None, xp_promptId = None, xp_startupAttemptId = None, xp_sandboxId = None,
     xp_queuedAt = None, xp_sentToBridgeAt = None, xp_bridgeAcceptedAt = None,
     xp_codexPromptSentAt = None, xp_lastRunningActivityAt = None, xp_terminalErrorCode = None\<rparr>"

definition no_deadlines :: deadlines_patch where
  "no_deadlines = \<lparr>xd_sandboxReconnectGrace = None, xd_sandboxLiveness = None, xd_promptStartup = None,
     xd_promptDispatch = None, xd_promptRunningInactivity = None, xd_spawnTimeout = None\<rparr>"

definition no_patch :: lifecycle_patch where
  "no_patch = \<lparr>px_sandbox = None, px_prompt = None, px_review = None, px_deadlines = None\<rparr>"

definition overlay_sandbox :: "sandbox_part \<Rightarrow> sandbox_patch \<Rightarrow> sandbox_part" where
  "overlay_sandbox s x = \<lparr>
     sb_state = nullish (xs_state x) (sb_state s),
     sb_sandboxId = nullish (xs_sandboxId x) (sb_sandboxId s),
     sb_startupAttemptId = nullish (xs_startupAttemptId x) (sb_startupAttemptId s),
     sb_spawnInProgress = nullish (xs_spawnInProgress x) (sb_spawnInProgress s),
     sb_spawnFailureCount = nullish (xs_spawnFailureCount x) (sb_spawnFailureCount s),
     sb_lastSpawnFailureAt = nullish (xs_lastSpawnFailureAt x) (sb_lastSpawnFailureAt s),
     sb_lastHeartbeatAt = nullish (xs_lastHeartbeatAt x) (sb_lastHeartbeatAt s)\<rparr>"

definition overlay_prompt :: "prompt_part \<Rightarrow> prompt_patch \<Rightarrow> prompt_part" where
  "overlay_prompt p x = \<lparr>
     pp_phase = nullish (xp_phase x) (pp_phase p),
     pp_promptId = nullish (xp_promptId x) (pp_promptId p),
     pp_startupAttemptId = nullish (xp_startupAttemptId x) (pp_startupAttemptId p),
     pp_sandboxId = nullish (xp_sandboxId x) (pp_sandboxId p),
     pp_queuedAt = nullish (xp_queuedAt x) (pp_queuedAt p),
     pp_sentToBridgeAt = nullish (xp_sentToBridgeAt x) (pp_sentToBridgeAt p),
     pp_bridgeAcceptedAt = nullish (xp_bridgeAcceptedAt x) (pp_bridgeAcceptedAt p),
     pp_codexPromptSentAt = nullish (xp_codexPromptSentAt x) (pp_codexPromptSentAt p),
     pp_lastRunningActivityAt = nullish (xp_lastRunningActivityAt x) (pp_lastRunningActivityAt p),
     pp_terminalErrorCode = nullish (xp_terminalErrorCode x) (pp_terminalErrorCode p)\<rparr>"

definition overlay_review :: "review_part \<Rightarrow> review_patch \<Rightarrow> review_part" where
  "overlay_review r x = \<lparr>
     rl_active = nullish (xr_active x) (rl_active r),
     rl_prUrl = nullish (xr_prUrl x) (rl_prUrl r),
     rl_currentHeadSha = nullish (xr_currentHeadSha x) (rl_currentHeadSha r),
     rl_enteredAt = nullish (xr_enteredAt x) (rl_enteredAt r)\<rparr>"

definition overlay_deadlines :: "lifecycle_deadlines \<Rightarrow> deadlines_patch \<Rightarrow> lifecycle_deadlines" where
  "overlay_deadlines d x = \<lparr>
     dl_sandboxReconnectGrace = nullish (xd_sandboxReconnectGrace x) (dl_sandboxReconnectGrace d),
     dl_sandboxLiveness = nullish (xd_sandboxLiveness x) (dl_sandboxLiveness d),
     dl_promptStartup = nullish (xd_promptStartup x) (dl_promptStartup d),
     dl_promptDispatch = nullish (xd_promptDispatch x) (dl_promptDispatch d),
     dl_promptRunningInactivity = nullish (xd_promptRunningInactivity x) (dl_promptRunningInactivity d),
     dl_spawnTimeout = nullish (xd_spawnTimeout x) (dl_spawnTimeout d)\<rparr>"

definition overlay :: "lifecycle_state \<Rightarrow> lifecycle_patch \<Rightarrow> lifecycle_state" where
  "overlay st x = st\<lparr>
     lf_sandbox := (case px_sandbox x of None \<Rightarrow> lf_sandbox st | Some y \<Rightarrow> overlay_sandbox (lf_sandbox st) y),
     lf_prompt := (case px_prompt x of None \<Rightarrow> lf_prompt st | Some y \<Rightarrow> overlay_prompt (lf_prompt st) y),
     lf_review := (case px_review x of None \<Rightarrow> lf_review st | Some y \<Rightarrow> overlay_review (lf_review st) y),
     lf_deadlines := (case px_deadlines x of
        None \<Rightarrow> lf_deadlines st | Some y \<Rightarrow> overlay_deadlines (lf_deadlines st) y)\<rparr>"

section \<open>Events, decisions, configuration\<close>

record lifecycle_config =
  cf_startupTimeoutMs :: int
  cf_promptDispatchTimeoutMs :: int
  cf_runningInactivityMs :: int
  cf_sandboxReconnectGraceMs :: int
  cf_sandboxLivenessMs :: int
  cf_spawnTimeoutMs :: int
  cf_spawnFailureCircuitLimit :: int
  cf_spawnFailureResetMs :: int

datatype boundary_stop_reason = Boundary_User | Boundary_Reaped | Boundary_Spawn_Failed

datatype review_exit_reason =
    Exit_Merged | Exit_Closed | Exit_Archived | Exit_User_Stop | Exit_Draft_Republish | Exit_Max_Ttl

datatype lifecycle_decision =
    Noop string
  | Persist_State lifecycle_patch string
  | Arm_Alarm int string
  | Emit_Terminal string sandbox_error_code string
  | Spawn_Sandbox_Decision string
  | Stop_Sandbox_Decision string
  | Finalize_Sandbox_Stopped "boundary_stop_reason option" bool lifecycle_patch string

datatype lifecycle_event =
    Ev_Spawn_Requested string
  | Ev_Spawn_Succeeded string string
  | Ev_Spawn_Failed string "sandbox_error_code option"
  | Ev_Ws_Connected string
  | Ev_Heartbeat_Received string
  | Ev_Ws_Disconnected string
  | Ev_Reconnect_Grace_Expired "string option"
  | Ev_Liveness_Expired string
  | Ev_Stop_Requested
  | Ev_Stop_Completed "string option"
  | Ev_Enqueued string
  | Ev_Sent_To_Bridge string string
  | Ev_Bridge_Accepted string string "string option"
  | Ev_Dispatching_Progress string string "string option"
  | Ev_Agent_Prompt_Sent string string "string option"
  | Ev_Running_Activity string string "string option"
  | Ev_Running_Keepalive string string bool
  | Ev_Terminal_Received string "string option" "sandbox_error_code option" bool
  | Ev_Startup_Deadline_Elapsed string
  | Ev_Dispatch_Deadline_Elapsed string
  | Ev_Running_Inactivity_Elapsed string
  | Ev_Abort_Requested string
  | Ev_Stop_Finalize "boundary_stop_reason option" string
  | Ev_Close_Finalize string
  | Ev_Transport_Stop_Finalize "boundary_stop_reason option" string
  | Ev_Pre_Publish_Stall_Expired
  | Ev_Auto_Close_Scheduled
  | Ev_Intentional_Pause_Close
  | Ev_Review_Entered string string
  | Ev_Review_Epoch_Enqueued string string
  | Ev_Review_Exited review_exit_reason

section \<open>Deadlines\<close>

definition LIFECYCLE_STARTUP_TIMEOUT_MS :: int where
  "LIFECYCLE_STARTUP_TIMEOUT_MS = 180 * 1000"

definition LIFECYCLE_SPAWN_FAILURE_RESET_MS :: int where
  "LIFECYCLE_SPAWN_FAILURE_RESET_MS = 10 * 60 * 1000"

definition SANDBOX_LOSS_RECOVERY_BUDGET_MS :: int where
  "SANDBOX_LOSS_RECOVERY_BUDGET_MS = 60 * 1000"

text \<open>The values of the deadlines object; a deadline that is due or past is skipped.\<close>

definition deadline_values :: "lifecycle_deadlines \<Rightarrow> int option list" where
  "deadline_values d =
    [dl_sandboxReconnectGrace d, dl_sandboxLiveness d, dl_promptStartup d, dl_promptDispatch d,
     dl_promptRunningInactivity d, dl_spawnTimeout d]"

definition nextLifecycleDeadline :: "lifecycle_deadlines \<Rightarrow> int \<Rightarrow> int option" where
  "nextLifecycleDeadline d now =
    fold (\<lambda>v acc. case v of
            None \<Rightarrow> acc
          | Some t \<Rightarrow> if t \<le> now then acc
                      else (case acc of None \<Rightarrow> Some t | Some a \<Rightarrow> Some (min a t)))
      (deadline_values d) None"

definition defaultLifecycleConfig :: "int \<Rightarrow> int \<Rightarrow> lifecycle_config" where
  "defaultLifecycleConfig runningInactivityMs spawnTimeoutMs = \<lparr>
     cf_startupTimeoutMs = LIFECYCLE_STARTUP_TIMEOUT_MS,
     cf_promptDispatchTimeoutMs = LIFECYCLE_STARTUP_TIMEOUT_MS,
     cf_runningInactivityMs = runningInactivityMs,
     cf_sandboxReconnectGraceMs = SANDBOX_LOSS_RECOVERY_BUDGET_MS,
     cf_sandboxLivenessMs = SANDBOX_LOSS_RECOVERY_BUDGET_MS,
     cf_spawnTimeoutMs = spawnTimeoutMs,
     cf_spawnFailureCircuitLimit = 3,
     cf_spawnFailureResetMs = LIFECYCLE_SPAWN_FAILURE_RESET_MS\<rparr>"

section \<open>Terminal error codes\<close>

definition TERMINAL_ERROR_PRECEDENCE :: "sandbox_error_code list" where
  "TERMINAL_ERROR_PRECEDENCE =
    [''spawn_timeout'', ''spawn_provider_error'', ''spawn_modal_error'', ''spawn_deadline_no_object'',
     ''spawn_deadline_no_bridge'', ''spawn_preconnect'', ''sandbox_terminated'',
     ''sandbox_disconnected_exhausted'', ''sandbox_never_started'', ''sandbox_disconnected'',
     ''session_archived'', ''sandbox_callback'', ''codex_startup_timeout'', ''codex_not_ready'',
     ''codex_api_readiness_timeout'', ''codex_session_create_timeout'',
     ''codex_prompt_dispatch_timeout'', ''codex_transport_closed'', ''codex_unrecoverable'',
     ''stale_prompt'', ''max_duration_exceeded'', ''failure_loop_suspected'', ''failed_edits'',
     ''memory_enforcement_failed'', ''empty_completion'', ''followup_not_started'',
     ''context_overflow'', ''output_length'', ''rate_limit'', ''api_error'', ''aborted'',
     ''config_error'', ''auth'', ''policy_block'', ''handled_automatically'',
     ''question_delivery_failed'', ''malformed_search_command'', ''unknown'']"

text \<open>A code outside the table has the rank \<open>Number.MAX_SAFE_INTEGER\<close>.\<close>

fun index_from :: "'a \<Rightarrow> 'a list \<Rightarrow> int \<Rightarrow> int option" where
  "index_from x [] n = None"
| "index_from x (y # ys) n = (if x = y then Some n else index_from x ys (n + 1))"

definition precedence_rank :: "sandbox_error_code \<Rightarrow> int" where
  "precedence_rank c = nullish (index_from c TERMINAL_ERROR_PRECEDENCE 0) 9007199254740991"

definition pickTerminalErrorCode :: "sandbox_error_code option \<Rightarrow> sandbox_error_code option \<Rightarrow> sandbox_error_code option" where
  "pickTerminalErrorCode existing incoming =
    (if \<not> truthy existing then incoming
     else if \<not> truthy incoming then existing
     else if precedence_rank (the incoming) < precedence_rank (the existing) then incoming
     else existing)"

definition shouldRecoverTerminalFailure :: "sandbox_error_code option \<Rightarrow> bool" where
  "shouldRecoverTerminalFailure c \<longleftrightarrow> c = Some ''stale_prompt''"

datatype terminal_event_decision =
    Complete_Active string
  | Recover_Stale string string
  | Ack_Ignore_User_Stopped string
  | Ack_Ignore_Superseded string "string option"
  | Ignore_Unknown_Prompt string

record terminal_decision_input =
  td_promptId :: string
  td_activePromptId :: "string option"
  td_currentConnectionGeneration :: "int option"
  td_eventConnectionGeneration :: "int option"
  td_stoppedByUser :: bool
  td_promptRun :: "(string option \<times> sandbox_error_code option) option"

definition decideTerminalEvent :: "terminal_decision_input \<Rightarrow> terminal_event_decision" where
  "decideTerminalEvent i =
    (let older = (case (td_currentConnectionGeneration i, td_eventConnectionGeneration i) of
                    (Some c, Some e) \<Rightarrow> e < c
                  | _ \<Rightarrow> False)
     in if td_stoppedByUser i then Ack_Ignore_User_Stopped (td_promptId i)
        else if td_activePromptId i = Some (td_promptId i) \<and> \<not> older then Complete_Active (td_promptId i)
        else if shouldRecoverTerminalFailure (Option.bind (td_promptRun i) snd)
                  \<and> Option.bind (td_promptRun i) fst = Some ''failed''
        then Recover_Stale (td_promptId i) ''stale_prompt''
        else if truthy (td_activePromptId i) \<and> td_activePromptId i \<noteq> Some (td_promptId i)
        then Ack_Ignore_Superseded (td_promptId i) (td_activePromptId i)
        else Ignore_Unknown_Prompt (td_promptId i))"

text \<open>
  Heartbeat freshness: \<open>None\<close> is a missing or malformed timestamp; the answer is the timestamp, its age and
  whether the age is within the bound on either side.
\<close>

definition evaluateSandboxHeartbeatFreshness :: "int option \<Rightarrow> int \<Rightarrow> int option \<times> int option \<times> bool" where
  "evaluateSandboxHeartbeatFreshness seen now =
    (case seen of
       None \<Rightarrow> (None, None, False)
     | Some t \<Rightarrow> (Some t, Some (now - t), \<bar>now - t\<bar> \<le> SANDBOX_LOSS_RECOVERY_BUDGET_MS))"

section \<open>Field access\<close>

lemma no_sandbox_sel [simp]:
  "xs_state no_sandbox = None" "xs_sandboxId no_sandbox = None" "xs_startupAttemptId no_sandbox = None"
  "xs_spawnInProgress no_sandbox = None" "xs_spawnFailureCount no_sandbox = None"
  "xs_lastSpawnFailureAt no_sandbox = None" "xs_lastHeartbeatAt no_sandbox = None"
  "xs_disconnectStartedAt no_sandbox = None" "xs_autoCloseScheduledAt no_sandbox = None"
  by (simp_all add: no_sandbox_def)

lemma no_prompt_sel [simp]:
  "xp_phase no_prompt = None" "xp_promptId no_prompt = None" "xp_startupAttemptId no_prompt = None"
  "xp_sandboxId no_prompt = None" "xp_queuedAt no_prompt = None" "xp_sentToBridgeAt no_prompt = None"
  "xp_bridgeAcceptedAt no_prompt = None" "xp_codexPromptSentAt no_prompt = None"
  "xp_lastRunningActivityAt no_prompt = None" "xp_terminalErrorCode no_prompt = None"
  by (simp_all add: no_prompt_def)

lemma no_deadlines_sel [simp]:
  "xd_sandboxReconnectGrace no_deadlines = None" "xd_sandboxLiveness no_deadlines = None"
  "xd_promptStartup no_deadlines = None" "xd_promptDispatch no_deadlines = None"
  "xd_promptRunningInactivity no_deadlines = None" "xd_spawnTimeout no_deadlines = None"
  by (simp_all add: no_deadlines_def)

lemma no_patch_sel [simp]:
  "px_sandbox no_patch = None" "px_prompt no_patch = None" "px_review no_patch = None"
  "px_deadlines no_patch = None"
  by (simp_all add: no_patch_def)

lemma overlay_sandbox_sel [simp]:
  "sb_state (overlay_sandbox s x) = nullish (xs_state x) (sb_state s)"
  "sb_sandboxId (overlay_sandbox s x) = nullish (xs_sandboxId x) (sb_sandboxId s)"
  "sb_startupAttemptId (overlay_sandbox s x) = nullish (xs_startupAttemptId x) (sb_startupAttemptId s)"
  "sb_spawnInProgress (overlay_sandbox s x) = nullish (xs_spawnInProgress x) (sb_spawnInProgress s)"
  "sb_spawnFailureCount (overlay_sandbox s x) = nullish (xs_spawnFailureCount x) (sb_spawnFailureCount s)"
  "sb_lastSpawnFailureAt (overlay_sandbox s x) = nullish (xs_lastSpawnFailureAt x) (sb_lastSpawnFailureAt s)"
  "sb_lastHeartbeatAt (overlay_sandbox s x) = nullish (xs_lastHeartbeatAt x) (sb_lastHeartbeatAt s)"
  by (simp_all add: overlay_sandbox_def)

lemma overlay_prompt_sel [simp]:
  "pp_phase (overlay_prompt p x) = nullish (xp_phase x) (pp_phase p)"
  "pp_promptId (overlay_prompt p x) = nullish (xp_promptId x) (pp_promptId p)"
  "pp_startupAttemptId (overlay_prompt p x) = nullish (xp_startupAttemptId x) (pp_startupAttemptId p)"
  "pp_sandboxId (overlay_prompt p x) = nullish (xp_sandboxId x) (pp_sandboxId p)"
  "pp_queuedAt (overlay_prompt p x) = nullish (xp_queuedAt x) (pp_queuedAt p)"
  "pp_sentToBridgeAt (overlay_prompt p x) = nullish (xp_sentToBridgeAt x) (pp_sentToBridgeAt p)"
  "pp_bridgeAcceptedAt (overlay_prompt p x) = nullish (xp_bridgeAcceptedAt x) (pp_bridgeAcceptedAt p)"
  "pp_codexPromptSentAt (overlay_prompt p x) = nullish (xp_codexPromptSentAt x) (pp_codexPromptSentAt p)"
  "pp_lastRunningActivityAt (overlay_prompt p x) =
    nullish (xp_lastRunningActivityAt x) (pp_lastRunningActivityAt p)"
  "pp_terminalErrorCode (overlay_prompt p x) = nullish (xp_terminalErrorCode x) (pp_terminalErrorCode p)"
  by (simp_all add: overlay_prompt_def)

lemma overlay_deadlines_sel [simp]:
  "dl_sandboxReconnectGrace (overlay_deadlines d x) =
    nullish (xd_sandboxReconnectGrace x) (dl_sandboxReconnectGrace d)"
  "dl_sandboxLiveness (overlay_deadlines d x) = nullish (xd_sandboxLiveness x) (dl_sandboxLiveness d)"
  "dl_promptStartup (overlay_deadlines d x) = nullish (xd_promptStartup x) (dl_promptStartup d)"
  "dl_promptDispatch (overlay_deadlines d x) = nullish (xd_promptDispatch x) (dl_promptDispatch d)"
  "dl_promptRunningInactivity (overlay_deadlines d x) =
    nullish (xd_promptRunningInactivity x) (dl_promptRunningInactivity d)"
  "dl_spawnTimeout (overlay_deadlines d x) = nullish (xd_spawnTimeout x) (dl_spawnTimeout d)"
  by (simp_all add: overlay_deadlines_def)

lemma overlay_sel [simp]:
  "lf_sessionStatus (overlay st x) = lf_sessionStatus st"
  "lf_sandbox (overlay st x) =
    (case px_sandbox x of None \<Rightarrow> lf_sandbox st | Some y \<Rightarrow> overlay_sandbox (lf_sandbox st) y)"
  "lf_prompt (overlay st x) =
    (case px_prompt x of None \<Rightarrow> lf_prompt st | Some y \<Rightarrow> overlay_prompt (lf_prompt st) y)"
  "lf_review (overlay st x) =
    (case px_review x of None \<Rightarrow> lf_review st | Some y \<Rightarrow> overlay_review (lf_review st) y)"
  "lf_deadlines (overlay st x) =
    (case px_deadlines x of None \<Rightarrow> lf_deadlines st | Some y \<Rightarrow> overlay_deadlines (lf_deadlines st) y)"
  by (simp_all add: overlay_def)

section \<open>Merging terminal codes\<close>

lemma index_from_ge: "index_from x xs n = Some k \<Longrightarrow> n \<le> k"
  by (induction x xs n rule: index_from.induct) (auto split: if_splits)

lemma index_from_inj: "index_from x xs n = Some k \<Longrightarrow> index_from y xs n = Some k \<Longrightarrow> x = y"
  by (induction x xs n rule: index_from.induct) (auto split: if_splits dest: index_from_ge)

lemma index_from_listed: "x \<in> set xs \<Longrightarrow> index_from x xs n \<noteq> None"
  by (induction x xs n rule: index_from.induct) auto

lemma rank_inj:
  assumes "a \<in> set TERMINAL_ERROR_PRECEDENCE" "b \<in> set TERMINAL_ERROR_PRECEDENCE"
    "precedence_rank a = precedence_rank b"
  shows "a = b"
proof -
  obtain i j where "index_from a TERMINAL_ERROR_PRECEDENCE 0 = Some i" "index_from b TERMINAL_ERROR_PRECEDENCE 0 = Some j"
    using index_from_listed [OF assms(1), of 0] index_from_listed [OF assms(2), of 0] by auto
  then show ?thesis using assms(3) index_from_inj by (simp add: precedence_rank_def)
qed

lemma listed_nonempty: "a \<in> set TERMINAL_ERROR_PRECEDENCE \<Longrightarrow> a \<noteq> []"
  by (auto simp: TERMINAL_ERROR_PRECEDENCE_def)

text \<open>The code a prompt ends up with when reports with these codes reach it in turn.\<close>

definition merged_reports :: "sandbox_error_code list \<Rightarrow> sandbox_error_code option" where
  "merged_reports cs = fold (\<lambda>c acc. pickTerminalErrorCode acc (Some c)) cs None"

lemma merge_fold:
  assumes "set cs \<subseteq> set TERMINAL_ERROR_PRECEDENCE" "a \<in> set TERMINAL_ERROR_PRECEDENCE"
  shows "\<exists>b\<in>insert a (set cs). fold (\<lambda>c acc. pickTerminalErrorCode acc (Some c)) cs (Some a) = Some b
    \<and> (\<forall>d\<in>insert a (set cs). precedence_rank b \<le> precedence_rank d)"
  using assms
proof (induction cs arbitrary: a)
  case (Cons c cs)
  let ?m = "if precedence_rank c < precedence_rank a then c else a"
  have "pickTerminalErrorCode (Some a) (Some c) = Some ?m"
    using Cons.prems listed_nonempty by (auto simp: pickTerminalErrorCode_def)
  moreover have "?m \<in> set TERMINAL_ERROR_PRECEDENCE" using Cons.prems by auto
  ultimately show ?case
    using Cons.IH [of ?m] Cons.prems by (auto split: if_splits intro: order_trans)
qed simp

text \<open>
  A prompt that several sources report as failed ends with the code of the highest precedence among the
  reports, whatever order they arrive in: the table orders its codes strictly, so the code is one and the same.
\<close>

theorem terminal_code_order_independent:
  assumes "set cs \<subseteq> set TERMINAL_ERROR_PRECEDENCE" "cs \<noteq> []" "set ds = set cs"
  shows "merged_reports ds = merged_reports cs
    \<and> (\<exists>b\<in>set cs. merged_reports cs = Some b \<and> (\<forall>d\<in>set cs. precedence_rank b \<le> precedence_rank d))"
proof -
  have pick: "\<exists>b\<in>set xs. merged_reports xs = Some b \<and> (\<forall>d\<in>set xs. precedence_rank b \<le> precedence_rank d)"
    if "set xs \<subseteq> set TERMINAL_ERROR_PRECEDENCE" "xs \<noteq> []" for xs
    using that merge_fold [of "tl xs" "hd xs"] by (cases xs) (auto simp: merged_reports_def pickTerminalErrorCode_def)
  have "ds \<noteq> []" using assms(2,3) by auto
  with pick [of ds] pick [of cs] assms obtain b c where
    "b \<in> set cs" "merged_reports ds = Some b" "\<forall>d\<in>set cs. precedence_rank b \<le> precedence_rank d"
    "c \<in> set cs" "merged_reports cs = Some c" "\<forall>d\<in>set cs. precedence_rank c \<le> precedence_rank d"
    by auto
  moreover from this have "b = c" by (intro rank_inj) (use assms(1) in \<open>auto intro: order_antisym\<close>)
  ultimately show ?thesis by metis
qed

theorem terminal_code_order_independent_witness:
  "merged_reports [''stale_prompt'', ''aborted'', ''sandbox_disconnected''] = Some ''sandbox_disconnected''
   \<and> merged_reports [''sandbox_disconnected'', ''stale_prompt'', ''aborted'']
     = merged_reports [''stale_prompt'', ''aborted'', ''sandbox_disconnected'']"
proof -
  have "merged_reports [''stale_prompt'', ''aborted'', ''sandbox_disconnected''] = Some ''sandbox_disconnected''"
    by code_simp
  moreover have "set [''stale_prompt'', ''aborted'', ''sandbox_disconnected''] \<subseteq> set TERMINAL_ERROR_PRECEDENCE"
    by (simp add: TERMINAL_ERROR_PRECEDENCE_def)
  ultimately show ?thesis
    using terminal_code_order_independent
      [of "[''stale_prompt'', ''aborted'', ''sandbox_disconnected'']"
          "[''sandbox_disconnected'', ''stale_prompt'', ''aborted'']"]
    by auto
qed

end
