(* ===== verification/Session_Reducer.thy ===== *)
theory Session_Reducer
  imports Session_Lifecycle
begin

text \<open>
  The lifecycle reducer (\<open>session/lifecycle/reducer.ts\<close>): one definition per event that does more than
  one constant patch, in the order of the switch, composed by \<open>reduceLifecycle\<close>; then the applier of a
  decision list and the alarm's batch of due deadlines (\<open>processLifecycleEvent\<close> and
  \<open>dispatchLifecycleAlarm\<close> of \<open>session/durable-object.ts\<close>) with the precedence of disconnects
  (\<open>disconnect-terminal-precedence.ts\<close>).

  A run applies a list of timed events; its outputs are the terminals the reducer decides, in order.
\<close>

named_theorems reduce_defs "the reducer's handlers, unfolded one event at a time"

section \<open>Guards and builders\<close>

definition activePromptMatches :: "lifecycle_state \<Rightarrow> string \<Rightarrow> bool" where
  "activePromptMatches st p \<longleftrightarrow>
    pp_promptId (lf_prompt st) = Some p \<and> pp_phase (lf_prompt st) \<noteq> Pp_Terminal"

definition sandboxMatches :: "lifecycle_state \<Rightarrow> string option \<Rightarrow> bool" where
  "sandboxMatches st i \<longleftrightarrow>
    \<not> truthy i \<or> \<not> truthy (sb_sandboxId (lf_sandbox st)) \<or> sb_sandboxId (lf_sandbox st) = i"

definition startupAttemptMatches :: "lifecycle_state \<Rightarrow> string option \<Rightarrow> bool" where
  "startupAttemptMatches st i \<longleftrightarrow>
    (let current = orelse (pp_startupAttemptId (lf_prompt st)) (sb_startupAttemptId (lf_sandbox st))
     in \<not> truthy i \<or> \<not> truthy current \<or> current = i)"

text \<open>\<open>state.prompt.promptId && state.prompt.phase !== "terminal"\<close>, and the id it yields.\<close>

definition live_prompt :: "lifecycle_state \<Rightarrow> string option" where
  "live_prompt st =
    (if truthy (pp_promptId (lf_prompt st)) \<and> pp_phase (lf_prompt st) \<noteq> Pp_Terminal
     then pp_promptId (lf_prompt st) else None)"

definition armNextDeadline :: "lifecycle_state \<Rightarrow> lifecycle_patch \<Rightarrow> int \<Rightarrow> lifecycle_decision list" where
  "armNextDeadline st x now =
    (case px_deadlines x of
       None \<Rightarrow> []
     | Some d \<Rightarrow>
         (case nextLifecycleDeadline (overlay_deadlines (lf_deadlines st) d) now of
            None \<Rightarrow> []
          | Some t \<Rightarrow> [Arm_Alarm t ''next lifecycle deadline'']))"

definition persist_and_arm ::
  "lifecycle_state \<Rightarrow> lifecycle_patch \<Rightarrow> string \<Rightarrow> int \<Rightarrow> lifecycle_decision list" where
  "persist_and_arm st x reason now = Persist_State x reason # armNextDeadline st x now"

definition terminal_deadlines :: "int option \<Rightarrow> deadlines_patch" where
  "terminal_deadlines livenessAt = no_deadlines\<lparr>
     xd_promptStartup := Some None,
     xd_promptDispatch := Some None,
     xd_promptRunningInactivity := Some None,
     xd_sandboxLiveness := Some livenessAt\<rparr>"

definition terminalPatch ::
  "lifecycle_state \<Rightarrow> string \<Rightarrow> sandbox_error_code \<Rightarrow> string \<Rightarrow> int option \<Rightarrow> lifecycle_decision list" where
  "terminalPatch st p code reason livenessAt =
    (let merged = nullish (pickTerminalErrorCode (pp_terminalErrorCode (lf_prompt st)) (Some code)) code
     in [Persist_State
           (no_patch\<lparr>
              px_prompt := Some (no_prompt\<lparr>
                xp_phase := Some Pp_Terminal,
                xp_promptId := Some (Some p),
                xp_terminalErrorCode := Some (Some merged),
                xp_lastRunningActivityAt := Some None\<rparr>),
              px_deadlines := Some (terminal_deadlines livenessAt)\<rparr>)
           reason,
         Emit_Terminal p merged reason])"

text \<open>The tail \<open>if (state.prompt.promptId && ...) decisions.push(...terminalPatch(...))\<close>.\<close>

definition terminal_if_live :: "lifecycle_state \<Rightarrow> sandbox_error_code \<Rightarrow> string \<Rightarrow> lifecycle_decision list" where
  "terminal_if_live st code reason =
    (case live_prompt st of None \<Rightarrow> [] | Some p \<Rightarrow> terminalPatch st p code reason None)"

definition reviewListeningExitPatch :: review_patch where
  "reviewListeningExitPatch =
    \<lparr>xr_active = Some False, xr_prUrl = Some None, xr_currentHeadSha = Some None, xr_enteredAt = Some None\<rparr>"

definition cleared_deadlines :: deadlines_patch where
  "cleared_deadlines = \<lparr>xd_sandboxReconnectGrace = Some None, xd_sandboxLiveness = Some None,
     xd_promptStartup = Some None, xd_promptDispatch = Some None,
     xd_promptRunningInactivity = Some None, xd_spawnTimeout = Some None\<rparr>"

definition finalizeStoppedDecisions ::
  "boundary_stop_reason option \<Rightarrow> string \<Rightarrow> bool \<Rightarrow> bool \<Rightarrow> lifecycle_decision list" where
  "finalizeStoppedDecisions stopReason reason preserveExisting reviewListeningExit =
    [Finalize_Sandbox_Stopped stopReason preserveExisting
       (no_patch\<lparr>
          px_sandbox := Some (no_sandbox\<lparr>xs_state := Some Sb_Stopped, xs_spawnInProgress := Some False\<rparr>),
          px_deadlines := Some cleared_deadlines,
          px_review := (if reviewListeningExit then Some reviewListeningExitPatch else None)\<rparr>)
       reason]"

text \<open>The four boundary events an archived session still answers.\<close>

fun bypasses_archive :: "lifecycle_event \<Rightarrow> bool" where
  "bypasses_archive (Ev_Close_Finalize _) = True"
| "bypasses_archive (Ev_Transport_Stop_Finalize _ _) = True"
| "bypasses_archive Ev_Intentional_Pause_Close = True"
| "bypasses_archive (Ev_Review_Exited _) = True"
| "bypasses_archive _ = False"

section \<open>Sandbox events\<close>

definition reduce_spawn_requested ::
  "lifecycle_state \<Rightarrow> string \<Rightarrow> lifecycle_config \<Rightarrow> int \<Rightarrow> lifecycle_decision list" where
  [reduce_defs]: "reduce_spawn_requested st attempt cfg now =
    (let sb = lf_sandbox st;
         resetFailures = (case sb_lastSpawnFailureAt sb of
                            None \<Rightarrow> False | Some t \<Rightarrow> cf_spawnFailureResetMs cfg \<le> now - t);
         failureCount = (if resetFailures then 0 else sb_spawnFailureCount sb)
     in if cf_spawnFailureCircuitLimit cfg \<le> failureCount then
          (case live_prompt st of
             Some p \<Rightarrow> terminalPatch st p ''spawn_preconnect'' ''spawn circuit open'' None
           | None \<Rightarrow> [Noop ''spawn circuit open''])
        else
          (let x = no_patch\<lparr>
                 px_sandbox := Some (no_sandbox\<lparr>
                   xs_state := Some Sb_Spawning,
                   xs_startupAttemptId := Some (Some attempt),
                   xs_spawnInProgress := Some True,
                   xs_disconnectStartedAt := Some None,
                   xs_spawnFailureCount := (if resetFailures then Some 0 else None),
                   xs_lastSpawnFailureAt := (if resetFailures then Some None else None)\<rparr>),
                 px_deadlines := Some (no_deadlines\<lparr>
                   xd_spawnTimeout := Some (Some (now + cf_spawnTimeoutMs cfg)),
                   xd_sandboxReconnectGrace := Some None\<rparr>)\<rparr>
           in Persist_State x ''sandbox spawn requested''
              # Spawn_Sandbox_Decision ''sandbox spawn requested''
              # armNextDeadline st x now))"

definition stale_attempt :: "lifecycle_state \<Rightarrow> string \<Rightarrow> bool" where
  "stale_attempt st attempt \<longleftrightarrow>
    truthy (sb_startupAttemptId (lf_sandbox st)) \<and> sb_startupAttemptId (lf_sandbox st) \<noteq> Some attempt"

definition reduce_spawn_succeeded :: "lifecycle_state \<Rightarrow> string \<Rightarrow> string \<Rightarrow> lifecycle_decision list" where
  [reduce_defs]: "reduce_spawn_succeeded st attempt sandboxId =
    (if stale_attempt st attempt then [Noop ''stale spawn succeeded'']
     else [Persist_State
             (no_patch\<lparr>
                px_sandbox := Some (no_sandbox\<lparr>
                  xs_state := Some Sb_Connecting,
                  xs_sandboxId := Some (Some sandboxId),
                  xs_spawnInProgress := Some False,
                  xs_spawnFailureCount := Some 0,
                  xs_lastSpawnFailureAt := Some None\<rparr>),
                px_deadlines := Some (no_deadlines\<lparr>xd_spawnTimeout := Some None\<rparr>)\<rparr>)
             ''sandbox spawn succeeded''])"

definition reduce_spawn_failed ::
  "lifecycle_state \<Rightarrow> string \<Rightarrow> sandbox_error_code option \<Rightarrow> int \<Rightarrow> lifecycle_decision list" where
  [reduce_defs]: "reduce_spawn_failed st attempt errorCode now =
    (if stale_attempt st attempt then [Noop ''stale spawn failed'']
     else Persist_State
            (no_patch\<lparr>
               px_sandbox := Some (no_sandbox\<lparr>
                 xs_state := Some Sb_Failed,
                 xs_spawnInProgress := Some False,
                 xs_spawnFailureCount := Some (sb_spawnFailureCount (lf_sandbox st) + 1),
                 xs_lastSpawnFailureAt := Some (Some now)\<rparr>),
               px_deadlines := Some (no_deadlines\<lparr>xd_spawnTimeout := Some None\<rparr>)\<rparr>)
            ''sandbox spawn failed''
          # terminal_if_live st (nullish errorCode ''spawn_timeout'') ''sandbox spawn failed'')"

definition reduce_ws_connected ::
  "lifecycle_state \<Rightarrow> string \<Rightarrow> lifecycle_config \<Rightarrow> int \<Rightarrow> lifecycle_decision list" where
  [reduce_defs]: "reduce_ws_connected st sandboxId cfg now =
    persist_and_arm st
      (no_patch\<lparr>
         px_sandbox := Some (no_sandbox\<lparr>
           xs_state := Some Sb_Ready,
           xs_sandboxId := Some (Some sandboxId),
           xs_lastHeartbeatAt := Some (Some now),
           xs_spawnInProgress := Some False,
           xs_disconnectStartedAt := Some None,
           xs_autoCloseScheduledAt := Some None\<rparr>),
         px_deadlines := Some (no_deadlines\<lparr>
           xd_sandboxReconnectGrace := Some None,
           xd_spawnTimeout := Some None,
           xd_sandboxLiveness := Some (Some (now + cf_sandboxLivenessMs cfg))\<rparr>)\<rparr>)
      ''sandbox websocket connected'' now"

definition reduce_heartbeat ::
  "lifecycle_state \<Rightarrow> string \<Rightarrow> lifecycle_config \<Rightarrow> int \<Rightarrow> lifecycle_decision list" where
  [reduce_defs]: "reduce_heartbeat st sandboxId cfg now =
    (if \<not> sandboxMatches st (Some sandboxId) then [Noop ''stale sandbox heartbeat'']
     else persist_and_arm st
            (no_patch\<lparr>
               px_sandbox := Some (no_sandbox\<lparr>xs_lastHeartbeatAt := Some (Some now)\<rparr>),
               px_deadlines := Some (no_deadlines\<lparr>
                 xd_sandboxLiveness := Some (Some (now + cf_sandboxLivenessMs cfg))\<rparr>)\<rparr>)
            ''sandbox heartbeat received'' now)"

definition reduce_ws_disconnected ::
  "lifecycle_state \<Rightarrow> string \<Rightarrow> lifecycle_config \<Rightarrow> int \<Rightarrow> lifecycle_decision list" where
  [reduce_defs]: "reduce_ws_disconnected st sandboxId cfg now =
    (if \<not> sandboxMatches st (Some sandboxId) then [Noop ''stale sandbox disconnect'']
     else let lastBridgeContactAt = nullish (sb_lastHeartbeatAt (lf_sandbox st)) now;
              reconnectDeadlineAt = min (now + cf_sandboxReconnectGraceMs cfg)
                                        (lastBridgeContactAt + cf_sandboxLivenessMs cfg)
          in persist_and_arm st
               (no_patch\<lparr>
                  px_sandbox := Some (no_sandbox\<lparr>
                    xs_state := Some Sb_Reconnecting, xs_disconnectStartedAt := Some (Some now)\<rparr>),
                  px_deadlines := Some (no_deadlines\<lparr>
                    xd_sandboxReconnectGrace := Some (Some reconnectDeadlineAt),
                    xd_sandboxLiveness := Some None\<rparr>)\<rparr>)
               ''sandbox websocket disconnected'' now)"

text \<open>Reconnect grace and liveness expiry differ in their reasons only.\<close>

definition disconnect_expired ::
  "lifecycle_state \<Rightarrow> string option \<Rightarrow> string \<Rightarrow> string \<Rightarrow> lifecycle_decision list" where
  [reduce_defs]: "disconnect_expired st sandboxId stale reason =
    (if \<not> sandboxMatches st sandboxId then [Noop stale]
     else Persist_State
            (no_patch\<lparr>
               px_sandbox := Some (no_sandbox\<lparr>xs_state := Some Sb_Stopped\<rparr>),
               px_deadlines := Some (no_deadlines\<lparr>
                 xd_sandboxReconnectGrace := Some None, xd_sandboxLiveness := Some None\<rparr>)\<rparr>)
            reason
          # terminal_if_live st ''sandbox_disconnected'' reason)"

definition reduce_pre_publish_stall :: "lifecycle_state \<Rightarrow> lifecycle_decision list" where
  [reduce_defs]: "reduce_pre_publish_stall st =
    Persist_State
      (no_patch\<lparr>
         px_sandbox := Some (no_sandbox\<lparr>xs_state := Some Sb_Failed, xs_spawnInProgress := Some False\<rparr>),
         px_deadlines := Some cleared_deadlines\<rparr>)
      ''pre-publish stall backstop expired''
    # terminal_if_live st ''sandbox_disconnected'' ''pre-publish stall backstop expired''"

definition reduce_stop_completed :: "lifecycle_state \<Rightarrow> string option \<Rightarrow> lifecycle_decision list" where
  [reduce_defs]: "reduce_stop_completed st sandboxId =
    (if \<not> sandboxMatches st sandboxId then [Noop ''stale sandbox stop completed'']
     else [Persist_State
             (no_patch\<lparr>
                px_sandbox := Some (no_sandbox\<lparr>xs_state := Some Sb_Stopped, xs_spawnInProgress := Some False\<rparr>),
                px_deadlines := Some (no_deadlines\<lparr>
                  xd_sandboxReconnectGrace := Some None, xd_sandboxLiveness := Some None,
                  xd_spawnTimeout := Some None\<rparr>)\<rparr>)
             ''sandbox stop completed''])"

section \<open>Prompt events\<close>

definition reduce_enqueued :: "string \<Rightarrow> int \<Rightarrow> lifecycle_decision list" where
  [reduce_defs]: "reduce_enqueued p now =
    [Persist_State
       (no_patch\<lparr>
          px_prompt := Some \<lparr>
            xp_phase = Some Pp_Queued, xp_promptId = Some (Some p), xp_startupAttemptId = Some None,
            xp_sandboxId = Some None, xp_queuedAt = Some (Some now), xp_sentToBridgeAt = Some None,
            xp_bridgeAcceptedAt = Some None, xp_codexPromptSentAt = Some None,
            xp_lastRunningActivityAt = Some None, xp_terminalErrorCode = Some None\<rparr>,
          px_deadlines := Some (no_deadlines\<lparr>xd_promptDispatch := Some None\<rparr>)\<rparr>)
       ''prompt enqueued'']"

definition reduce_sent_to_bridge ::
  "lifecycle_state \<Rightarrow> string \<Rightarrow> string \<Rightarrow> lifecycle_config \<Rightarrow> int \<Rightarrow> lifecycle_decision list" where
  [reduce_defs]: "reduce_sent_to_bridge st p sandboxId cfg now =
    (if \<not> activePromptMatches st p \<or> pp_phase (lf_prompt st) \<noteq> Pp_Queued
     then [Noop ''stale prompt sent to bridge'']
     else if \<not> sandboxMatches st (Some sandboxId) then [Noop ''mismatched sandbox for prompt dispatch'']
     else persist_and_arm st
            (no_patch\<lparr>
               px_prompt := Some (no_prompt\<lparr>
                 xp_phase := Some Pp_Dispatching, xp_promptId := Some (Some p),
                 xp_sandboxId := Some (Some sandboxId), xp_sentToBridgeAt := Some (Some now)\<rparr>),
               px_deadlines := Some (no_deadlines\<lparr>
                 xd_promptStartup := Some (Some (now + cf_startupTimeoutMs cfg)),
                 xd_promptDispatch := Some None,
                 xd_promptRunningInactivity := Some None\<rparr>)\<rparr>)
            ''prompt sent to bridge'' now)"

text \<open>\<open>prompt.bridge_accepted\<close> and \<open>prompt.dispatching_progress\<close> share one case of the switch.\<close>

definition reduce_dispatching ::
  "lifecycle_state \<Rightarrow> bool \<Rightarrow> string \<Rightarrow> string \<Rightarrow> string option \<Rightarrow> lifecycle_config \<Rightarrow> int \<Rightarrow>
   lifecycle_decision list" where
  [reduce_defs]: "reduce_dispatching st accepted p sandboxId attempt cfg now =
    (if \<not> activePromptMatches st p then [Noop ''stale dispatching prompt event'']
     else if \<not> sandboxMatches st (Some sandboxId) then [Noop ''mismatched sandbox for dispatching event'']
     else if \<not> startupAttemptMatches st attempt then [Noop ''stale startup attempt'']
     else persist_and_arm st
            (no_patch\<lparr>
               px_prompt := Some (no_prompt\<lparr>
                 xp_phase := Some Pp_Dispatching, xp_promptId := Some (Some p),
                 xp_startupAttemptId := Some (orelse attempt (pp_startupAttemptId (lf_prompt st))),
                 xp_sandboxId := Some (Some sandboxId),
                 xp_bridgeAcceptedAt :=
                   Some (if accepted then Some now else pp_bridgeAcceptedAt (lf_prompt st))\<rparr>),
               px_deadlines := Some (no_deadlines\<lparr>
                 xd_promptStartup := Some (Some
                   (nullish (dl_promptStartup (lf_deadlines st)) (now + cf_startupTimeoutMs cfg)))\<rparr>)\<rparr>)
            (if accepted then ''prompt.bridge_accepted'' else ''prompt.dispatching_progress'') now)"

definition reduce_agent_prompt_sent ::
  "lifecycle_state \<Rightarrow> string \<Rightarrow> string \<Rightarrow> string option \<Rightarrow> lifecycle_config \<Rightarrow> int \<Rightarrow>
   lifecycle_decision list" where
  [reduce_defs]: "reduce_agent_prompt_sent st p sandboxId attempt cfg now =
    (if \<not> activePromptMatches st p then [Noop ''stale running prompt event'']
     else if \<not> sandboxMatches st (Some sandboxId) then [Noop ''mismatched sandbox for running event'']
     else if \<not> startupAttemptMatches st attempt then [Noop ''stale startup attempt'']
     else if pp_phase (lf_prompt st) = Pp_Running then [Noop ''running prompt already observed execution'']
     else persist_and_arm st
            (no_patch\<lparr>
               px_prompt := Some (no_prompt\<lparr>
                 xp_phase := Some Pp_Dispatching, xp_promptId := Some (Some p),
                 xp_sandboxId := Some (Some sandboxId), xp_codexPromptSentAt := Some (Some now)\<rparr>),
               px_deadlines := Some (no_deadlines\<lparr>
                 xd_promptStartup := Some None,
                 xd_promptDispatch := Some (Some (now + cf_promptDispatchTimeoutMs cfg))\<rparr>)\<rparr>)
            ''prompt.agent_prompt_sent'' now)"

definition reduce_running_activity ::
  "lifecycle_state \<Rightarrow> string \<Rightarrow> string \<Rightarrow> string option \<Rightarrow> lifecycle_config \<Rightarrow> int \<Rightarrow>
   lifecycle_decision list" where
  [reduce_defs]: "reduce_running_activity st p sandboxId attempt cfg now =
    (if \<not> activePromptMatches st p then [Noop ''stale running prompt event'']
     else if \<not> sandboxMatches st (Some sandboxId) then [Noop ''mismatched sandbox for running event'']
     else if \<not> startupAttemptMatches st attempt then [Noop ''stale startup attempt'']
     else persist_and_arm st
            (no_patch\<lparr>
               px_prompt := Some (no_prompt\<lparr>
                 xp_phase := Some Pp_Running, xp_promptId := Some (Some p),
                 xp_sandboxId := Some (Some sandboxId), xp_lastRunningActivityAt := Some (Some now)\<rparr>),
               px_deadlines := Some (no_deadlines\<lparr>
                 xd_promptDispatch := Some None,
                 xd_promptRunningInactivity := Some (Some (now + cf_runningInactivityMs cfg)),
                 xd_sandboxLiveness := Some (Some (now + cf_sandboxLivenessMs cfg))\<rparr>)\<rparr>)
            ''prompt.running_activity'' now)"

definition reduce_terminal_received ::
  "lifecycle_state \<Rightarrow> string \<Rightarrow> string option \<Rightarrow> sandbox_error_code option \<Rightarrow> lifecycle_config \<Rightarrow> int \<Rightarrow>
   lifecycle_decision list" where
  [reduce_defs]: "reduce_terminal_received st p sandboxId errorCode cfg now =
    (if \<not> activePromptMatches st p then
       (let merged = pickTerminalErrorCode (pp_terminalErrorCode (lf_prompt st)) errorCode
        in if pp_promptId (lf_prompt st) = Some p \<and> merged \<noteq> pp_terminalErrorCode (lf_prompt st)
           then [Persist_State
                   (no_patch\<lparr>px_prompt := Some (no_prompt\<lparr>xp_terminalErrorCode := Some merged\<rparr>)\<rparr>)
                   ''terminal precedence merge'']
           else [Noop ''stale terminal prompt event''])
     else if \<not> sandboxMatches st sandboxId then [Noop ''mismatched sandbox for terminal event'']
     else
       (let sandboxAlive = sb_state (lf_sandbox st) \<in> {Sb_Ready, Sb_Reconnecting};
            livenessAt = (if sandboxAlive then Some (now + cf_sandboxLivenessMs cfg) else None)
        in if \<not> truthy errorCode then
             persist_and_arm st
               (no_patch\<lparr>
                  px_prompt := Some (no_prompt\<lparr>
                    xp_phase := Some Pp_Terminal, xp_promptId := Some (Some p),
                    xp_terminalErrorCode := Some None, xp_lastRunningActivityAt := Some None\<rparr>),
                  px_deadlines := Some (terminal_deadlines livenessAt)\<rparr>)
               ''prompt terminal received'' now
           else
             terminalPatch st p (nullish errorCode ''unknown'') ''prompt terminal received'' livenessAt
             @ armNextDeadline st (no_patch\<lparr>px_deadlines := Some (terminal_deadlines livenessAt)\<rparr>) now))"

definition reduce_startup_elapsed :: "lifecycle_state \<Rightarrow> string \<Rightarrow> lifecycle_decision list" where
  [reduce_defs]: "reduce_startup_elapsed st p =
    (if \<not> activePromptMatches st p then [Noop ''stale prompt startup deadline'']
     else if pp_phase (lf_prompt st) = Pp_Running then [Noop ''running prompt ignores startup deadline'']
     else if pp_codexPromptSentAt (lf_prompt st) \<noteq> None then [Noop ''prompt already dispatched to codex'']
     else terminalPatch st p
            (if pp_bridgeAcceptedAt (lf_prompt st) \<noteq> None
             then ''codex_prompt_dispatch_timeout'' else ''codex_startup_timeout'')
            ''prompt startup deadline elapsed'' None)"

definition reduce_dispatch_elapsed :: "lifecycle_state \<Rightarrow> string \<Rightarrow> lifecycle_decision list" where
  [reduce_defs]: "reduce_dispatch_elapsed st p =
    (if \<not> activePromptMatches st p then [Noop ''stale prompt dispatch deadline'']
     else if pp_phase (lf_prompt st) = Pp_Running then [Noop ''running prompt ignores dispatch deadline'']
     else if pp_codexPromptSentAt (lf_prompt st) = None then [Noop ''prompt not dispatched to codex'']
     else terminalPatch st p ''codex_prompt_dispatch_timeout'' ''prompt dispatch deadline elapsed'' None)"

definition reduce_keepalive ::
  "lifecycle_state \<Rightarrow> string \<Rightarrow> string \<Rightarrow> bool \<Rightarrow> lifecycle_config \<Rightarrow> int \<Rightarrow> lifecycle_decision list" where
  [reduce_defs]: "reduce_keepalive st p sandboxId activeToolCall cfg now =
    (if \<not> activePromptMatches st p then [Noop ''stale running keepalive'']
     else if \<not> sandboxMatches st (Some sandboxId) then [Noop ''mismatched sandbox for keepalive'']
     else if pp_phase (lf_prompt st) = Pp_Dispatching then
       (if pp_bridgeAcceptedAt (lf_prompt st) \<noteq> None then [Noop ''dispatching keepalive already accepted'']
        else persist_and_arm st
               (no_patch\<lparr>
                  px_prompt := Some (no_prompt\<lparr>xp_bridgeAcceptedAt := Some (Some now)\<rparr>),
                  px_deadlines := Some (no_deadlines\<lparr>
                    xd_promptStartup := Some (Some
                      (nullish (dl_promptStartup (lf_deadlines st)) (now + cf_startupTimeoutMs cfg)))\<rparr>)\<rparr>)
               ''dispatching keepalive'' now)
     else if pp_phase (lf_prompt st) \<noteq> Pp_Running then [Noop ''non-running prompt ignores keepalive'']
     else if \<not> activeToolCall then [Noop ''model wait keepalive without active tool'']
     else persist_and_arm st
            (no_patch\<lparr>
               px_deadlines := Some (no_deadlines\<lparr>
                 xd_promptRunningInactivity := Some (Some (now + cf_runningInactivityMs cfg))\<rparr>)\<rparr>)
            ''running keepalive'' now)"

definition reduce_inactivity_elapsed :: "lifecycle_state \<Rightarrow> string \<Rightarrow> lifecycle_decision list" where
  [reduce_defs]: "reduce_inactivity_elapsed st p =
    (if \<not> activePromptMatches st p then [Noop ''stale running inactivity deadline'']
     else if pp_phase (lf_prompt st) \<noteq> Pp_Running
     then [Noop ''non-running prompt ignores running inactivity deadline'']
     else terminalPatch st p ''stale_prompt'' ''prompt running inactivity elapsed'' None)"

definition reduce_abort :: "lifecycle_state \<Rightarrow> string \<Rightarrow> lifecycle_decision list" where
  [reduce_defs]: "reduce_abort st p =
    (if \<not> activePromptMatches st p then [Noop ''stale prompt abort'']
     else terminalPatch st p ''aborted'' ''prompt abort requested'' None)"

section \<open>Boundary and review-listening events\<close>

definition review_entered_patch :: "string \<Rightarrow> string \<Rightarrow> int \<Rightarrow> lifecycle_patch" where
  "review_entered_patch prUrl headSha now = no_patch\<lparr>
     px_review := Some \<lparr>xr_active = Some True, xr_prUrl = Some (Some prUrl),
       xr_currentHeadSha = Some (Some headSha), xr_enteredAt = Some (Some now)\<rparr>\<rparr>"

fun review_exit_label :: "review_exit_reason \<Rightarrow> string" where
  "review_exit_label Exit_Merged = ''merged''"
| "review_exit_label Exit_Closed = ''closed''"
| "review_exit_label Exit_Archived = ''archived''"
| "review_exit_label Exit_User_Stop = ''user_stop''"
| "review_exit_label Exit_Draft_Republish = ''draft_republish''"
| "review_exit_label Exit_Max_Ttl = ''max_monitoring_ttl''"

section \<open>The reducer\<close>

fun reduce_event ::
  "lifecycle_state \<Rightarrow> lifecycle_event \<Rightarrow> lifecycle_config \<Rightarrow> int \<Rightarrow> lifecycle_decision list" where
  "reduce_event st (Ev_Spawn_Requested a) cfg now = reduce_spawn_requested st a cfg now"
| "reduce_event st (Ev_Spawn_Succeeded a i) cfg now = reduce_spawn_succeeded st a i"
| "reduce_event st (Ev_Spawn_Failed a c) cfg now = reduce_spawn_failed st a c now"
| "reduce_event st (Ev_Ws_Connected i) cfg now = reduce_ws_connected st i cfg now"
| "reduce_event st (Ev_Heartbeat_Received i) cfg now = reduce_heartbeat st i cfg now"
| "reduce_event st (Ev_Ws_Disconnected i) cfg now = reduce_ws_disconnected st i cfg now"
| "reduce_event st (Ev_Reconnect_Grace_Expired i) cfg now =
     disconnect_expired st i ''stale reconnect grace deadline'' ''sandbox reconnect grace expired''"
| "reduce_event st (Ev_Liveness_Expired i) cfg now =
     disconnect_expired st (Some i) ''stale sandbox liveness deadline'' ''sandbox liveness expired''"
| "reduce_event st Ev_Pre_Publish_Stall_Expired cfg now = reduce_pre_publish_stall st"
| "reduce_event st Ev_Stop_Requested cfg now =
     [Persist_State (no_patch\<lparr>px_sandbox := Some (no_sandbox\<lparr>xs_state := Some Sb_Stopping\<rparr>)\<rparr>)
        ''sandbox stop requested'',
      Stop_Sandbox_Decision ''sandbox stop requested'']"
| "reduce_event st (Ev_Stop_Completed i) cfg now = reduce_stop_completed st i"
| "reduce_event st (Ev_Enqueued p) cfg now = reduce_enqueued p now"
| "reduce_event st (Ev_Sent_To_Bridge p i) cfg now = reduce_sent_to_bridge st p i cfg now"
| "reduce_event st (Ev_Bridge_Accepted p i a) cfg now = reduce_dispatching st True p i a cfg now"
| "reduce_event st (Ev_Dispatching_Progress p i a) cfg now = reduce_dispatching st False p i a cfg now"
| "reduce_event st (Ev_Agent_Prompt_Sent p i a) cfg now = reduce_agent_prompt_sent st p i a cfg now"
| "reduce_event st (Ev_Running_Activity p i a) cfg now = reduce_running_activity st p i a cfg now"
| "reduce_event st (Ev_Terminal_Received p i c stopped) cfg now = reduce_terminal_received st p i c cfg now"
| "reduce_event st (Ev_Startup_Deadline_Elapsed p) cfg now = reduce_startup_elapsed st p"
| "reduce_event st (Ev_Dispatch_Deadline_Elapsed p) cfg now = reduce_dispatch_elapsed st p"
| "reduce_event st (Ev_Running_Keepalive p i tool) cfg now = reduce_keepalive st p i tool cfg now"
| "reduce_event st (Ev_Running_Inactivity_Elapsed p) cfg now = reduce_inactivity_elapsed st p"
| "reduce_event st (Ev_Abort_Requested p) cfg now = reduce_abort st p"
| "reduce_event st (Ev_Stop_Finalize r reason) cfg now =
     finalizeStoppedDecisions r reason False (r = Some Boundary_User)"
| "reduce_event st (Ev_Close_Finalize reason) cfg now = finalizeStoppedDecisions None reason False True"
| "reduce_event st (Ev_Transport_Stop_Finalize r reason) cfg now =
     finalizeStoppedDecisions r reason True False"
| "reduce_event st Ev_Auto_Close_Scheduled cfg now =
     [Persist_State
        (no_patch\<lparr>px_sandbox := Some (no_sandbox\<lparr>xs_autoCloseScheduledAt := Some (Some now)\<rparr>)\<rparr>)
        ''auto-close scheduled'']"
| "reduce_event st Ev_Intentional_Pause_Close cfg now =
     [Persist_State
        (no_patch\<lparr>px_sandbox := Some (no_sandbox\<lparr>
           xs_disconnectStartedAt := Some None, xs_autoCloseScheduledAt := Some None\<rparr>)\<rparr>)
        ''intentional pause WS close'']"
| "reduce_event st (Ev_Review_Entered u h) cfg now =
     [Persist_State (review_entered_patch u h now) ''review listening entered'']"
| "reduce_event st (Ev_Review_Epoch_Enqueued u h) cfg now =
     [Persist_State (review_entered_patch u h now) ''review listening epoch enqueued'']"
| "reduce_event st (Ev_Review_Exited r) cfg now =
     [Persist_State (no_patch\<lparr>px_review := Some reviewListeningExitPatch\<rparr>)
        (''review listening exited: '' @ review_exit_label r)]"

definition reduceLifecycle ::
  "lifecycle_state \<Rightarrow> lifecycle_event \<Rightarrow> lifecycle_config \<Rightarrow> int \<Rightarrow> lifecycle_decision list" where
  "reduceLifecycle st ev cfg now =
    (if lf_sessionStatus st = Session_Archived \<and> \<not> bypasses_archive ev
     then [Noop ''session archived''] else reduce_event st ev cfg now)"

end
