(* ===== verification/Session_Store.thy ===== *)
theory Session_Store
  imports Session_Reducer
begin

text \<open>
  The session object's storage of the lifecycle state (\<open>session/durable-object.ts\<close>): two partial records, the
  counters and deadlines under keys of their own, and the \<open>sandbox_state\<close> row with the transport markers
  (\<open>transport-markers.ts\<close>).  \<open>readLifecycleState\<close> rebuilds the state, \<open>applyLifecycleStatePatch\<close>
  writes a patch, \<open>applyLifecycleDecision\<close> and \<open>processLifecycleEvent\<close> run the reducer over it.

  The writes do what the reducer assumes of them: processing events through storage is the fold of the reducer
  over states, up to the two fields that a row may answer for and that no handler reads.
\<close>

section \<open>The storage\<close>

record sandbox_row =
  dr_status :: "string option"
  dr_sandboxId :: "string option"
  dr_disconnectStartedAt :: "int option"
  dr_autoCloseScheduledAt :: "int option"
  dr_spawnRetryCount :: int
  dr_runtimeSandboxId :: "string option"
  dr_modalObjectId :: "string option"
  dr_stopReason :: "boundary_stop_reason option"
  dr_pendingPromptDispatch :: bool

datatype prompt_row_status = Row_Processing | Row_Queued | Row_Other

text \<open>
  \<open>ss_activePrompt\<close> is the prompt id the prompts table reports as processing, with the status of its row.
\<close>

record session_store =
  ss_archived :: bool
  ss_sandbox :: "sandbox_patch option"
  ss_prompt :: "prompt_patch option"
  ss_spawnInProgress :: "bool option"
  ss_spawnFailureCount :: "int option"
  ss_lastSpawnFailureAt :: "int option"
  ss_deadlines :: lifecycle_deadlines
  ss_review :: review_part
  ss_row :: sandbox_row
  ss_activePrompt :: "(string \<times> prompt_row_status option) option"
  ss_alarm :: "int option"

section \<open>Reading\<close>

definition mapSandboxStatusToLifecycle :: "string option \<Rightarrow> sandbox_state" where
  "mapSandboxStatusToLifecycle s =
    (if s = Some ''spawning'' then Sb_Spawning
     else if s = Some ''ready'' then Sb_Ready
     else if s = Some ''reconnecting'' then Sb_Reconnecting
     else if s = Some ''stopping'' then Sb_Stopping
     else if s = Some ''stopped'' then Sb_Stopped
     else if s = Some ''failed'' then Sb_Failed
     else Sb_None)"

text \<open>The phase of a prompt whose lifecycle record was never written comes from its row.\<close>

definition phase_of_row :: "(string \<times> prompt_row_status option) option \<Rightarrow> prompt_phase" where
  "phase_of_row active =
    (case Option.bind active snd of
       Some Row_Processing \<Rightarrow> Pp_Running
     | Some Row_Queued \<Rightarrow> Pp_Queued
     | Some Row_Other \<Rightarrow> Pp_Terminal
     | None \<Rightarrow> Pp_None)"

definition readLifecycleState :: "session_store \<Rightarrow> lifecycle_state" where
  "readLifecycleState s =
    (let row = ss_row s;
         sb = nullish (ss_sandbox s) no_sandbox;
         pp = nullish (ss_prompt s) no_prompt
     in \<lparr>lf_sessionStatus = (if ss_archived s then Session_Archived else Session_Active),
         lf_sandbox = (overlay_sandbox (lf_sandbox createEmptyLifecycleState) sb)\<lparr>
           sb_state := nullish (xs_state sb) (mapSandboxStatusToLifecycle (dr_status row)),
           sb_sandboxId := orelse (nullish (xs_sandboxId sb) None) (dr_sandboxId row),
           sb_spawnInProgress := (ss_spawnInProgress s = Some True \<or> dr_status row = Some ''spawning''),
           sb_spawnFailureCount := nullish (ss_spawnFailureCount s) (dr_spawnRetryCount row),
           sb_lastSpawnFailureAt := ss_lastSpawnFailureAt s\<rparr>,
         lf_prompt = (overlay_prompt (lf_prompt createEmptyLifecycleState) pp)\<lparr>
           pp_phase := nullish (xp_phase pp) (phase_of_row (ss_activePrompt s)),
           pp_promptId := orelse (nullish (xp_promptId pp) None) (map_option fst (ss_activePrompt s)),
           pp_sandboxId := orelse (nullish (xp_sandboxId pp) None) (dr_sandboxId row)\<rparr>,
         lf_review = ss_review s,
         lf_deadlines = ss_deadlines s\<rparr>)"

section \<open>Writing\<close>

text \<open>\<open>{...(current ?? {}), ...patch}\<close>; the two row-only markers never enter the record.\<close>

definition merge_sandbox :: "sandbox_patch \<Rightarrow> sandbox_patch \<Rightarrow> sandbox_patch" where
  "merge_sandbox c x = \<lparr>
     xs_state = orelse (xs_state x) (xs_state c),
     xs_sandboxId = orelse (xs_sandboxId x) (xs_sandboxId c),
     xs_startupAttemptId = orelse (xs_startupAttemptId x) (xs_startupAttemptId c),
     xs_spawnInProgress = orelse (xs_spawnInProgress x) (xs_spawnInProgress c),
     xs_spawnFailureCount = orelse (xs_spawnFailureCount x) (xs_spawnFailureCount c),
     xs_lastSpawnFailureAt = orelse (xs_lastSpawnFailureAt x) (xs_lastSpawnFailureAt c),
     xs_lastHeartbeatAt = orelse (xs_lastHeartbeatAt x) (xs_lastHeartbeatAt c),
     xs_disconnectStartedAt = xs_disconnectStartedAt c,
     xs_autoCloseScheduledAt = xs_autoCloseScheduledAt c\<rparr>"

definition merge_prompt :: "prompt_patch \<Rightarrow> prompt_patch \<Rightarrow> prompt_patch" where
  "merge_prompt c x = \<lparr>
     xp_phase = orelse (xp_phase x) (xp_phase c),
     xp_promptId = orelse (xp_promptId x) (xp_promptId c),
     xp_startupAttemptId = orelse (xp_startupAttemptId x) (xp_startupAttemptId c),
     xp_sandboxId = orelse (xp_sandboxId x) (xp_sandboxId c),
     xp_queuedAt = orelse (xp_queuedAt x) (xp_queuedAt c),
     xp_sentToBridgeAt = orelse (xp_sentToBridgeAt x) (xp_sentToBridgeAt c),
     xp_bridgeAcceptedAt = orelse (xp_bridgeAcceptedAt x) (xp_bridgeAcceptedAt c),
     xp_codexPromptSentAt = orelse (xp_codexPromptSentAt x) (xp_codexPromptSentAt c),
     xp_lastRunningActivityAt = orelse (xp_lastRunningActivityAt x) (xp_lastRunningActivityAt c),
     xp_terminalErrorCode = orelse (xp_terminalErrorCode x) (xp_terminalErrorCode c)\<rparr>"

fun status_of_state :: "sandbox_state \<Rightarrow> string" where
  "status_of_state Sb_None = ''none''"
| "status_of_state Sb_Spawning = ''spawning''"
| "status_of_state Sb_Connecting = ''connecting''"
| "status_of_state Sb_Ready = ''ready''"
| "status_of_state Sb_Reconnecting = ''reconnecting''"
| "status_of_state Sb_Stopping = ''stopping''"
| "status_of_state Sb_Stopped = ''stopped''"
| "status_of_state Sb_Failed = ''failed''"

definition setDisconnectStartedAt :: "int option \<Rightarrow> sandbox_row \<Rightarrow> sandbox_row" where
  "setDisconnectStartedAt t row = row\<lparr>dr_disconnectStartedAt := t\<rparr>"

definition scheduleAutoCloseAt :: "int option \<Rightarrow> sandbox_row \<Rightarrow> sandbox_row" where
  "scheduleAutoCloseAt t row = row\<lparr>dr_autoCloseScheduledAt := t\<rparr>"

definition clearTransportMarkers :: "sandbox_row \<Rightarrow> sandbox_row" where
  "clearTransportMarkers row = row\<lparr>dr_disconnectStartedAt := None, dr_autoCloseScheduledAt := None\<rparr>"

text \<open>The row writes of a sandbox patch that the caller has not taken over.\<close>

definition write_row :: "bool \<Rightarrow> sandbox_patch \<Rightarrow> sandbox_row \<Rightarrow> sandbox_row" where
  "write_row delegate x row =
    (let r1 = (case xs_state x of
                 None \<Rightarrow> row
               | Some st \<Rightarrow> if \<not> delegate \<and> st \<noteq> Sb_None \<and> st \<noteq> Sb_Connecting
                             then row\<lparr>dr_status := Some (status_of_state st)\<rparr> else row);
         r2 = (case xs_disconnectStartedAt x of
                 None \<Rightarrow> r1 | Some t \<Rightarrow> if delegate then r1 else setDisconnectStartedAt t r1);
         r3 = (case xs_autoCloseScheduledAt x of
                 None \<Rightarrow> r2 | Some t \<Rightarrow> if delegate then r2 else scheduleAutoCloseAt t r2);
         r4 = (if \<not> delegate \<and> xs_state x = Some Sb_Stopped
                  \<and> xs_disconnectStartedAt x = None \<and> xs_autoCloseScheduledAt x = None
               then clearTransportMarkers r3 else r3)
     in case xs_sandboxId x of None \<Rightarrow> r4 | Some i \<Rightarrow> r4\<lparr>dr_sandboxId := i\<rparr>)"

definition write_sandbox :: "bool \<Rightarrow> sandbox_patch \<Rightarrow> session_store \<Rightarrow> session_store" where
  "write_sandbox delegate x s = s\<lparr>
     ss_sandbox := Some (merge_sandbox (nullish (ss_sandbox s) no_sandbox) x),
     ss_row := write_row delegate x (ss_row s),
     ss_spawnInProgress := orelse (xs_spawnInProgress x) (ss_spawnInProgress s),
     ss_spawnFailureCount := orelse (xs_spawnFailureCount x) (ss_spawnFailureCount s),
     ss_lastSpawnFailureAt := nullish (xs_lastSpawnFailureAt x) (ss_lastSpawnFailureAt s)\<rparr>"

definition applyLifecycleStatePatch :: "bool \<Rightarrow> lifecycle_patch \<Rightarrow> session_store \<Rightarrow> session_store" where
  "applyLifecycleStatePatch delegate x s =
    (let s1 = (case px_sandbox x of None \<Rightarrow> s | Some y \<Rightarrow> write_sandbox delegate y s);
         s2 = (case px_prompt x of
                 None \<Rightarrow> s1
               | Some y \<Rightarrow> s1\<lparr>ss_prompt := Some (merge_prompt (nullish (ss_prompt s1) no_prompt) y)\<rparr>);
         s3 = (case px_review x of
                 None \<Rightarrow> s2 | Some y \<Rightarrow> s2\<lparr>ss_review := overlay_review (ss_review s2) y\<rparr>)
     in case px_deadlines x of
          None \<Rightarrow> s3 | Some y \<Rightarrow> s3\<lparr>ss_deadlines := overlay_deadlines (ss_deadlines s3) y\<rparr>)"

text \<open>The first authoritative stop reason wins when the caller preserves it.\<close>

definition finalizeSandboxStopped ::
  "boundary_stop_reason option \<Rightarrow> bool \<Rightarrow> session_store \<Rightarrow> session_store" where
  "finalizeSandboxStopped stopReason preserveExisting s =
    (let resolved = (if preserveExisting then orelse (dr_stopReason (ss_row s)) stopReason else stopReason)
     in s\<lparr>ss_row := clearTransportMarkers
            ((ss_row s)\<lparr>dr_status := Some ''stopped'', dr_stopReason := resolved,
                         dr_pendingPromptDispatch := False\<rparr>)\<rparr>)"

section \<open>The alarm\<close>

definition MIN_ALARM_DELAY_MS :: int where
  "MIN_ALARM_DELAY_MS = 1000"

definition IMMEDIATE_CATCH_UP_ALARM_SOURCES :: "string list" where
  "IMMEDIATE_CATCH_UP_ALARM_SOURCES =
    [''sandboxReconnectGrace'', ''sandboxLiveness'', ''disconnectStartedAt'', ''autoCloseScheduledAt'',
     ''promptMaxDuration'', ''promptDispatch'', ''promptStartup'', ''promptRunningInactivity'',
     ''verificationCommentRetry'', ''slackNotificationRetry'', ''postExecutionDeadline'',
     ''publishingDeadline'', ''e2bCleanupRetry'', ''planParkPause'', ''planReadyNotificationRetry'',
     ''fsmNoSignalAdvance'']"

definition hasActivePrompt :: "session_store \<Rightarrow> bool" where
  "hasActivePrompt s \<longleftrightarrow>
    truthy (map_option fst (ss_activePrompt s)) \<and> Option.bind (ss_activePrompt s) snd = Some Row_Processing"

text \<open>A stored deadline whose precondition no longer holds is deleted in place.\<close>

definition keep_if :: "bool \<Rightarrow> int option \<Rightarrow> int option" where
  "keep_if valid d = (if valid then d else None)"

definition valid_deadlines :: "session_store \<Rightarrow> lifecycle_deadlines" where
  "valid_deadlines s =
    (let st = readLifecycleState s;
         sb = lf_sandbox st; pp = lf_prompt st; row = ss_row s; d = ss_deadlines s;
         hasActiveSandbox = truthy (orelse (sb_sandboxId sb) (dr_sandboxId row))
     in \<lparr>dl_sandboxReconnectGrace = keep_if
           (nullish (dr_disconnectStartedAt row) 0 \<noteq> 0 \<or> sb_state sb = Sb_Reconnecting)
           (dl_sandboxReconnectGrace d),
         dl_sandboxLiveness = keep_if
           ((sb_state sb = Sb_Ready \<or> sb_state sb = Sb_Reconnecting) \<and> hasActiveSandbox)
           (dl_sandboxLiveness d),
         dl_promptStartup = keep_if
           (hasActivePrompt s \<and>
             (pp_phase pp = Pp_Queued \<or> pp_phase pp = Pp_Dispatching \<and> pp_codexPromptSentAt pp = None))
           (dl_promptStartup d),
         dl_promptDispatch = keep_if
           (hasActivePrompt s \<and> pp_phase pp = Pp_Dispatching \<and> pp_codexPromptSentAt pp \<noteq> None)
           (dl_promptDispatch d),
         dl_promptRunningInactivity = keep_if
           (pp_phase pp = Pp_Running \<and> hasActivePrompt s)
           (dl_promptRunningInactivity d),
         dl_spawnTimeout = keep_if
           (dr_status row = Some ''spawning'' \<or> sb_spawnInProgress sb
             \<or> sb_state sb = Sb_Spawning \<or> sb_state sb = Sb_Connecting)
           (dl_spawnTimeout d)\<rparr>)"

definition candidate :: "string \<Rightarrow> int option \<Rightarrow> (string \<times> int) list" where
  "candidate source d = (case d of None \<Rightarrow> [] | Some t \<Rightarrow> [(source, t)])"

definition lifecycle_candidates :: "lifecycle_deadlines \<Rightarrow> (string \<times> int) list" where
  "lifecycle_candidates d =
    candidate ''sandboxReconnectGrace'' (dl_sandboxReconnectGrace d)
    @ candidate ''sandboxLiveness'' (dl_sandboxLiveness d)
    @ candidate ''promptStartup'' (dl_promptStartup d)
    @ candidate ''promptDispatch'' (dl_promptDispatch d)
    @ candidate ''promptRunningInactivity'' (dl_promptRunningInactivity d)
    @ candidate ''spawnTimeout'' (dl_spawnTimeout d)"

fun soonest :: "(string \<times> int) list \<Rightarrow> int option" where
  "soonest [] = None"
| "soonest ((source, t) # cs) = (case soonest cs of None \<Rightarrow> Some t | Some u \<Rightarrow> Some (min t u))"

definition choose_alarm :: "int \<Rightarrow> (string \<times> int) list \<Rightarrow> int option" where
  "choose_alarm now cs =
    (if \<exists>c \<in> set cs. snd c \<le> now \<and> fst c \<in> set IMMEDIATE_CATCH_UP_ALARM_SOURCES
     then Some (now + MIN_ALARM_DELAY_MS)
     else map_option (\<lambda>t. max t (now + MIN_ALARM_DELAY_MS))
            (soonest (filter (\<lambda>c. now < snd c) cs)))"

text \<open>
  \<open>others\<close> are the candidates of the other owners of the one alarm: auto-close, maximum prompt duration,
  the post-execution and publishing watchdogs, the retries and polls.
\<close>

type_synonym other_alarms = "session_store \<Rightarrow> (string \<times> int) list"

definition alarm_candidates :: "other_alarms \<Rightarrow> session_store \<Rightarrow> (string \<times> int) list" where
  "alarm_candidates others s =
    lifecycle_candidates (valid_deadlines s)
    @ (case dr_disconnectStartedAt (ss_row s) of
         None \<Rightarrow> []
       | Some t \<Rightarrow> if t = 0 then [] else [(''disconnectStartedAt'', t + SANDBOX_LOSS_RECOVERY_BUDGET_MS)])
    @ others s"

definition rescheduleSessionAlarm :: "other_alarms \<Rightarrow> int \<Rightarrow> session_store \<Rightarrow> session_store" where
  "rescheduleSessionAlarm others now s = s\<lparr>
     ss_deadlines := valid_deadlines s,
     ss_alarm := choose_alarm now (alarm_candidates others s)\<rparr>"

section \<open>The applier\<close>

text \<open>
  A terminal is handed to the prompt's completion only when the caller asks for it; the handed-over terminals
  are the output.  A deadline that is due already re-projects the alarm from the store.
\<close>

type_synonym terminal = "string \<times> sandbox_error_code \<times> string"

fun applyLifecycleDecision ::
  "other_alarms \<Rightarrow> bool \<Rightarrow> int \<Rightarrow> lifecycle_decision \<Rightarrow>
   session_store \<times> terminal list \<Rightarrow> session_store \<times> terminal list" where
  "applyLifecycleDecision others applyTerminal now (Persist_State x reason) (s, out) =
     (applyLifecycleStatePatch False x s, out)"
| "applyLifecycleDecision others applyTerminal now (Arm_Alarm t reason) (s, out) =
     (if t \<le> now then (rescheduleSessionAlarm others now s, out)
      else (s\<lparr>ss_alarm := Some (max t (now + MIN_ALARM_DELAY_MS))\<rparr>, out))"
| "applyLifecycleDecision others applyTerminal now (Emit_Terminal p c reason) (s, out) =
     (s, if applyTerminal then out @ [(p, c, reason)] else out)"
| "applyLifecycleDecision others applyTerminal now (Finalize_Sandbox_Stopped r keep x reason) (s, out) =
     (finalizeSandboxStopped r keep (applyLifecycleStatePatch True x s), out)"
| "applyLifecycleDecision others applyTerminal now (Stop_Sandbox_Decision reason) (s, out) = (s, out)"
| "applyLifecycleDecision others applyTerminal now (Spawn_Sandbox_Decision reason) (s, out) = (s, out)"
| "applyLifecycleDecision others applyTerminal now (Noop reason) (s, out) = (s, out)"

definition processLifecycleEvent ::
  "other_alarms \<Rightarrow> lifecycle_config \<Rightarrow> bool \<Rightarrow> int \<Rightarrow> lifecycle_event \<Rightarrow>
   session_store \<Rightarrow> session_store \<times> terminal list" where
  "processLifecycleEvent others cfg applyTerminal now ev s =
    fold (applyLifecycleDecision others applyTerminal now)
      (reduceLifecycle (readLifecycleState s) ev cfg now) (s, [])"

end
