(* ===== verification/Session_Run.thy ===== *)
theory Session_Run
  imports Session_Store
begin

text \<open>
  Runs of the lifecycle reducer: the state a decision list leaves, the terminals it emits, and their
  composition over a list of events, each with its own clock reading and configuration.  The lemmas describe
  what one event can do to the prompt.
\<close>

section \<open>Runs\<close>

fun apply_decision :: "lifecycle_decision \<Rightarrow> lifecycle_state \<Rightarrow> lifecycle_state" where
  "apply_decision (Persist_State x _) st = overlay st x"
| "apply_decision (Finalize_Sandbox_Stopped _ _ x _) st = overlay st x"
| "apply_decision _ st = st"

definition after :: "lifecycle_decision list \<Rightarrow> lifecycle_state \<Rightarrow> lifecycle_state" where
  "after ds st = fold apply_decision ds st"

fun emitted :: "lifecycle_decision list \<Rightarrow> terminal list" where
  "emitted [] = []"
| "emitted (Emit_Terminal p c r # ds) = (p, c, r) # emitted ds"
| "emitted (d # ds) = emitted ds"

record timed_event =
  te_now :: int
  te_cfg :: lifecycle_config
  te_event :: lifecycle_event

definition decided :: "lifecycle_state \<Rightarrow> timed_event \<Rightarrow> lifecycle_decision list" where
  "decided st e = reduceLifecycle st (te_event e) (te_cfg e) (te_now e)"

definition step :: "timed_event \<Rightarrow> lifecycle_state \<Rightarrow> lifecycle_state" where
  "step e st = after (decided st e) st"

definition run :: "timed_event list \<Rightarrow> lifecycle_state \<Rightarrow> lifecycle_state" where
  "run es st = fold step es st"

fun run_terminals :: "timed_event list \<Rightarrow> lifecycle_state \<Rightarrow> terminal list" where
  "run_terminals [] st = []"
| "run_terminals (e # es) st = emitted (decided st e) @ run_terminals es (step e st)"

lemma run_simps [simp]:
  "run [] st = st"
  "run (e # es) st = run es (step e st)"
  by (simp_all add: run_def)

section \<open>Effects of the builders\<close>

lemma after_simps [simp]:
  "after [] st = st"
  "after (d # ds) st = after ds (apply_decision d st)"
  "after (ds @ es) st = after es (after ds st)"
  by (simp_all add: after_def)

lemma emitted_append [simp]: "emitted (ds @ es) = emitted ds @ emitted es"
  by (induction ds rule: emitted.induct) simp_all

lemma arm_inert [simp]:
  "after (armNextDeadline st x now) st' = st'"
  "emitted (armNextDeadline st x now) = []"
  by (simp_all add: armNextDeadline_def split: option.splits)

lemma persist_and_arm_effect [simp]:
  "after (persist_and_arm st x reason now) st' = overlay st' x"
  "emitted (persist_and_arm st x reason now) = []"
  by (simp_all add: persist_and_arm_def)

lemma terminal_deadlines_sel [simp]:
  "xd_sandboxReconnectGrace (terminal_deadlines l) = None"
  "xd_sandboxLiveness (terminal_deadlines l) = Some l"
  "xd_promptStartup (terminal_deadlines l) = Some None"
  "xd_promptDispatch (terminal_deadlines l) = Some None"
  "xd_promptRunningInactivity (terminal_deadlines l) = Some None"
  "xd_spawnTimeout (terminal_deadlines l) = None"
  by (simp_all add: terminal_deadlines_def)

text \<open>The prompt a terminal leaves, and its one emission.\<close>

definition merged_code :: "lifecycle_state \<Rightarrow> sandbox_error_code \<Rightarrow> sandbox_error_code" where
  "merged_code st code = nullish (pickTerminalErrorCode (pp_terminalErrorCode (lf_prompt st)) (Some code)) code"

definition terminal_patch :: "lifecycle_state \<Rightarrow> string \<Rightarrow> sandbox_error_code \<Rightarrow> int option \<Rightarrow> lifecycle_patch" where
  "terminal_patch st p code livenessAt = no_patch\<lparr>
     px_prompt := Some (no_prompt\<lparr>
       xp_phase := Some Pp_Terminal, xp_promptId := Some (Some p),
       xp_terminalErrorCode := Some (Some (merged_code st code)), xp_lastRunningActivityAt := Some None\<rparr>),
     px_deadlines := Some (terminal_deadlines livenessAt)\<rparr>"

lemma terminalPatch_effect [simp]:
  "after (terminalPatch st p code reason l) st' = overlay st' (terminal_patch st p code l)"
  "emitted (terminalPatch st p code reason l) = [(p, merged_code st code, reason)]"
  by (simp_all add: terminalPatch_def merged_code_def terminal_patch_def Let_def)

lemma terminal_patch_sel [simp]:
  "px_sandbox (terminal_patch st p code l) = None"
  "px_review (terminal_patch st p code l) = None"
  "px_deadlines (terminal_patch st p code l) = Some (terminal_deadlines l)"
  "px_prompt (terminal_patch st p code l) = Some (no_prompt\<lparr>
     xp_phase := Some Pp_Terminal, xp_promptId := Some (Some p),
     xp_terminalErrorCode := Some (Some (merged_code st code)), xp_lastRunningActivityAt := Some None\<rparr>)"
  by (simp_all add: terminal_patch_def)

lemma live_prompt_Some:
  "live_prompt st = Some p \<longleftrightarrow> activePromptMatches st p \<and> p \<noteq> []"
  by (cases "pp_promptId (lf_prompt st)") (auto simp: live_prompt_def activePromptMatches_def)

lemma live_prompt_None:
  "live_prompt st = None \<longleftrightarrow> (\<forall>p. p \<noteq> [] \<longrightarrow> \<not> activePromptMatches st p)"
  by (cases "pp_promptId (lf_prompt st)") (auto simp: live_prompt_def activePromptMatches_def)

section \<open>What an event can do to the prompt\<close>

lemma emits_only_active:
  assumes "(p, c, r) \<in> set (emitted (reduce_event st ev cfg now))"
  shows "emitted (reduce_event st ev cfg now) = [(p, c, r)]
       \<and> activePromptMatches st p
       \<and> \<not> activePromptMatches (after (reduce_event st ev cfg now) st) p"
  using assms
  by (cases ev)
    (auto simp: reduce_defs Let_def terminal_if_live_def finalizeStoppedDecisions_def
        activePromptMatches_def live_prompt_Some split: if_splits option.splits)

lemma active_stays_or_enqueued:
  assumes "activePromptMatches (after (reduce_event st ev cfg now) st) p"
  shows "activePromptMatches st p \<or> ev = Ev_Enqueued p"
  using assms
  by (cases ev)
    (auto simp: reduce_defs Let_def terminal_if_live_def finalizeStoppedDecisions_def
        activePromptMatches_def review_entered_patch_def split: if_splits option.splits)

section \<open>One terminal per prompt\<close>

lemma decided_cases:
  "decided st e = (if lf_sessionStatus st = Session_Archived \<and> \<not> bypasses_archive (te_event e)
     then [Noop ''session archived''] else reduce_event st (te_event e) (te_cfg e) (te_now e))"
  by (simp add: decided_def reduceLifecycle_def)

definition ends :: "string \<Rightarrow> terminal list \<Rightarrow> nat" where
  "ends p ts = length (filter (\<lambda>t. fst t = p) ts)"

lemma ends_simps [simp]:
  "ends p [] = 0"
  "ends p (t # ts) = (if fst t = p then Suc (ends p ts) else ends p ts)"
  "ends p (ts @ us) = ends p ts + ends p us"
  by (simp_all add: ends_def)

lemma step_ends:
  assumes "te_event e \<noteq> Ev_Enqueued p"
  shows "ends p (emitted (decided st e)) + (if activePromptMatches (step e st) p then 1 else 0)
       \<le> (if activePromptMatches st p then 1 else 0)"
proof (cases "ends p (emitted (decided st e)) = 0")
  case True
  show ?thesis
    using active_stays_or_enqueued [of st "te_event e" "te_cfg e" "te_now e" p] assms True
    by (auto simp: step_def decided_cases)
next
  case False
  then obtain t where t: "t \<in> set (emitted (decided st e))" "fst t = p"
    by (auto simp: ends_def filter_empty_conv)
  obtain c r where "t = (p, c, r)" using t(2) by (cases t) auto
  then show ?thesis
    using emits_only_active [of p c r st "te_event e" "te_cfg e" "te_now e"] t(1)
    by (auto simp: step_def decided_cases split: if_splits)
qed

text \<open>
  C25. However the events of a session interleave, with any clock readings and timeouts, a prompt is handed at
  most one terminal until it is enqueued again: none at all if it is not the active prompt to begin with, and
  once it has its terminal it is no longer active.
\<close>

theorem prompt_terminal_at_most_once:
  assumes "\<forall>e\<in>set es. te_event e \<noteq> Ev_Enqueued p"
  shows "ends p (run_terminals es st) + (if activePromptMatches (run es st) p then 1 else 0)
       \<le> (if activePromptMatches st p then 1 else 0)"
  using assms
proof (induction es arbitrary: st)
  case (Cons e es)
  then have "te_event e \<noteq> Ev_Enqueued p" by simp
  from add_mono [OF step_ends [OF this, of st] Cons.IH [of "step e st"]] Cons.prems show ?case
    by (simp only: run_simps run_terminals.simps ends_simps list.set ball_simps) linarith
qed simp

theorem prompt_terminal_at_most_once_witness:
  "ends ''p1'' (run_terminals
     [\<lparr>te_now = 5, te_cfg = defaultLifecycleConfig 900000 180000, te_event = Ev_Abort_Requested ''p1''\<rparr>,
      \<lparr>te_now = 6, te_cfg = defaultLifecycleConfig 900000 180000, te_event = Ev_Pre_Publish_Stall_Expired\<rparr>]
     (overlay createEmptyLifecycleState
       (no_patch\<lparr>px_prompt := Some (no_prompt\<lparr>xp_phase := Some Pp_Running, xp_promptId := Some (Some ''p1'')\<rparr>)\<rparr>)))
   \<le> 1"
  by (rule order_trans [OF le_add1 order_trans [OF prompt_terminal_at_most_once]]) simp_all

section \<open>Storage\<close>

text \<open>
  The two fields a row may answer for in the storage: no handler reads them.
\<close>

definition view :: "lifecycle_state \<Rightarrow> lifecycle_state" where
  "view st = st\<lparr>lf_sandbox := (lf_sandbox st)\<lparr>sb_spawnInProgress := False\<rparr>,
                lf_prompt := (lf_prompt st)\<lparr>pp_sandboxId := None\<rparr>\<rparr>"

lemma view_sel [simp]:
  "lf_sessionStatus (view st) = lf_sessionStatus st"
  "lf_sandbox (view st) = (lf_sandbox st)\<lparr>sb_spawnInProgress := False\<rparr>"
  "lf_prompt (view st) = (lf_prompt st)\<lparr>pp_sandboxId := None\<rparr>"
  "lf_review (view st) = lf_review st"
  "lf_deadlines (view st) = lf_deadlines st"
  by (simp_all add: view_def)

lemma view_guards [simp]:
  "activePromptMatches (view st) p = activePromptMatches st p"
  "sandboxMatches (view st) i = sandboxMatches st i"
  "startupAttemptMatches (view st) a = startupAttemptMatches st a"
  "live_prompt (view st) = live_prompt st"
  "stale_attempt (view st) b = stale_attempt st b"
  "armNextDeadline (view st) x now = armNextDeadline st x now"
  "persist_and_arm (view st) x reason now = persist_and_arm st x reason now"
  "terminalPatch (view st) p c r l = terminalPatch st p c r l"
  "terminal_if_live (view st) c r = terminal_if_live st c r"
  by (simp_all add: activePromptMatches_def sandboxMatches_def startupAttemptMatches_def live_prompt_def
      stale_attempt_def armNextDeadline_def persist_and_arm_def terminalPatch_def terminal_if_live_def
      cong: option.case_cong)

lemma reduce_event_view [simp]: "reduce_event (view st) ev cfg now = reduce_event st ev cfg now"
  by (cases ev) (simp_all add: reduce_defs Let_def cong: option.case_cong)

lemma reduce_view [simp]: "reduceLifecycle (view st) ev cfg now = reduceLifecycle st ev cfg now"
  by (simp add: reduceLifecycle_def)

text \<open>A patch of the reducer never nulls an id that the storage would answer for.\<close>

definition keeps_ids :: "lifecycle_patch \<Rightarrow> bool" where
  "keeps_ids x \<longleftrightarrow>
    (\<forall>y. px_sandbox x = Some y \<longrightarrow> xs_sandboxId y \<noteq> Some None)
    \<and> (\<forall>y. px_prompt x = Some y \<longrightarrow> xp_promptId y \<noteq> Some None)"

fun tame :: "int \<Rightarrow> lifecycle_decision \<Rightarrow> bool" where
  "tame now (Persist_State x _) = keeps_ids x"
| "tame now (Finalize_Sandbox_Stopped _ _ x _) =
     (keeps_ids x \<and> (\<exists>y. px_sandbox x = Some y \<and> xs_state y = Some Sb_Stopped))"
| "tame now (Arm_Alarm t _) = (now < t)"
| "tame now _ = True"

lemma fold_soonest_future:
  assumes "\<forall>t. acc = Some t \<longrightarrow> now < t"
    "fold (\<lambda>v acc. case v of None \<Rightarrow> acc
        | Some t \<Rightarrow> if t \<le> now then acc else (case acc of None \<Rightarrow> Some t | Some a \<Rightarrow> Some (min a t)))
      vs acc = Some u"
  shows "now < (u :: int)"
  using assms
proof (induction vs arbitrary: acc)
  case (Cons v vs)
  let ?acc = "case v of None \<Rightarrow> acc
    | Some t \<Rightarrow> if t \<le> now then acc else (case acc of None \<Rightarrow> Some t | Some a \<Rightarrow> Some (min a t))"
  have "\<forall>t. ?acc = Some t \<longrightarrow> now < t"
    using Cons.prems(1) by (auto split: option.splits if_splits)
  from Cons.IH [OF this] Cons.prems(2) show ?case by simp
qed simp

lemma nextLifecycleDeadline_future: "nextLifecycleDeadline d now = Some t \<Longrightarrow> now < t"
  unfolding nextLifecycleDeadline_def by (rule fold_soonest_future [rotated]) auto

lemma tame_arm: "d \<in> set (armNextDeadline st x now) \<Longrightarrow> tame now d"
  by (auto simp: armNextDeadline_def nextLifecycleDeadline_future split: option.splits)

lemma tame_terminal: "d \<in> set (terminalPatch st p c r l) \<Longrightarrow> tame now d"
  by (auto simp: terminalPatch_def keeps_ids_def Let_def)

lemma tame_decisions:
  assumes "d \<in> set (reduce_event st ev cfg now)"
  shows "tame now d"
  using assms
  by (cases ev)
    (auto simp: reduce_defs Let_def terminal_if_live_def finalizeStoppedDecisions_def persist_and_arm_def
        review_entered_patch_def keeps_ids_def intro: tame_arm tame_terminal
        split: if_splits option.splits)

lemma nullish_or [simp]: "nullish (orelse a b) c = nullish a (nullish b c)"
  by (cases a) simp_all

lemma read_sel:
  "lf_sessionStatus (readLifecycleState s) = (if ss_archived s then Session_Archived else Session_Active)"
  "lf_review (readLifecycleState s) = ss_review s"
  "lf_deadlines (readLifecycleState s) = ss_deadlines s"
  by (simp_all add: readLifecycleState_def Let_def)

lemma read_sandbox:
  "(lf_sandbox (readLifecycleState s))\<lparr>sb_spawnInProgress := False\<rparr> = (let sb = nullish (ss_sandbox s) no_sandbox in \<lparr>
     sb_state = nullish (xs_state sb) (mapSandboxStatusToLifecycle (dr_status (ss_row s))),
     sb_sandboxId = orelse (nullish (xs_sandboxId sb) None) (dr_sandboxId (ss_row s)),
     sb_startupAttemptId = nullish (xs_startupAttemptId sb) None,
     sb_spawnInProgress = False,
     sb_spawnFailureCount = nullish (ss_spawnFailureCount s) (dr_spawnRetryCount (ss_row s)),
     sb_lastSpawnFailureAt = ss_lastSpawnFailureAt s,
     sb_lastHeartbeatAt = nullish (xs_lastHeartbeatAt sb) None\<rparr>)"
  by (simp add: readLifecycleState_def Let_def overlay_sandbox_def createEmptyLifecycleState_def)

lemma read_prompt:
  "(lf_prompt (readLifecycleState s))\<lparr>pp_sandboxId := None\<rparr> = (let pp = nullish (ss_prompt s) no_prompt in \<lparr>
     pp_phase = nullish (xp_phase pp) (phase_of_row (ss_activePrompt s)),
     pp_promptId = orelse (nullish (xp_promptId pp) None) (map_option fst (ss_activePrompt s)),
     pp_startupAttemptId = nullish (xp_startupAttemptId pp) None,
     pp_sandboxId = None,
     pp_queuedAt = nullish (xp_queuedAt pp) None,
     pp_sentToBridgeAt = nullish (xp_sentToBridgeAt pp) None,
     pp_bridgeAcceptedAt = nullish (xp_bridgeAcceptedAt pp) None,
     pp_codexPromptSentAt = nullish (xp_codexPromptSentAt pp) None,
     pp_lastRunningActivityAt = nullish (xp_lastRunningActivityAt pp) None,
     pp_terminalErrorCode = nullish (xp_terminalErrorCode pp) None\<rparr>)"
  by (simp add: readLifecycleState_def Let_def overlay_prompt_def createEmptyLifecycleState_def)

lemma read_fields:
  "sb_state (lf_sandbox (readLifecycleState s)) =
    nullish (xs_state (nullish (ss_sandbox s) no_sandbox)) (mapSandboxStatusToLifecycle (dr_status (ss_row s)))"
  "sb_sandboxId (lf_sandbox (readLifecycleState s)) =
    orelse (nullish (xs_sandboxId (nullish (ss_sandbox s) no_sandbox)) None) (dr_sandboxId (ss_row s))"
  "sb_startupAttemptId (lf_sandbox (readLifecycleState s)) =
    nullish (xs_startupAttemptId (nullish (ss_sandbox s) no_sandbox)) None"
  "sb_spawnFailureCount (lf_sandbox (readLifecycleState s)) =
    nullish (ss_spawnFailureCount s) (dr_spawnRetryCount (ss_row s))"
  "sb_lastSpawnFailureAt (lf_sandbox (readLifecycleState s)) = ss_lastSpawnFailureAt s"
  "sb_lastHeartbeatAt (lf_sandbox (readLifecycleState s)) =
    nullish (xs_lastHeartbeatAt (nullish (ss_sandbox s) no_sandbox)) None"
  "pp_phase (lf_prompt (readLifecycleState s)) =
    nullish (xp_phase (nullish (ss_prompt s) no_prompt)) (phase_of_row (ss_activePrompt s))"
  "pp_promptId (lf_prompt (readLifecycleState s)) =
    orelse (nullish (xp_promptId (nullish (ss_prompt s) no_prompt)) None) (map_option fst (ss_activePrompt s))"
  by (simp_all add: readLifecycleState_def Let_def createEmptyLifecycleState_def)

lemma write_row_sel:
  "dr_status (write_row d y row) =
    (case xs_state y of None \<Rightarrow> dr_status row
     | Some st \<Rightarrow> if \<not> d \<and> st \<noteq> Sb_None \<and> st \<noteq> Sb_Connecting then Some (status_of_state st) else dr_status row)"
  "dr_sandboxId (write_row d y row) = nullish (xs_sandboxId y) (dr_sandboxId row)"
  "dr_spawnRetryCount (write_row d y row) = dr_spawnRetryCount row"
  by (simp_all add: write_row_def Let_def setDisconnectStartedAt_def scheduleAutoCloseAt_def
      clearTransportMarkers_def split: option.splits)

lemma view_eqI:
  assumes "lf_sessionStatus a = lf_sessionStatus b"
    and "(lf_sandbox a)\<lparr>sb_spawnInProgress := False\<rparr> = (lf_sandbox b)\<lparr>sb_spawnInProgress := False\<rparr>"
    and "(lf_prompt a)\<lparr>pp_sandboxId := None\<rparr> = (lf_prompt b)\<lparr>pp_sandboxId := None\<rparr>"
    and "lf_review a = lf_review b" "lf_deadlines a = lf_deadlines b"
  shows "view a = view b"
  by (rule lifecycle_state.equality) (simp_all add: assms)

lemma view_eqD:
  assumes "view a = view b"
  shows "lf_sessionStatus a = lf_sessionStatus b"
    "(lf_sandbox a)\<lparr>sb_spawnInProgress := False\<rparr> = (lf_sandbox b)\<lparr>sb_spawnInProgress := False\<rparr>"
    "(lf_prompt a)\<lparr>pp_sandboxId := None\<rparr> = (lf_prompt b)\<lparr>pp_sandboxId := None\<rparr>"
    "lf_review a = lf_review b" "lf_deadlines a = lf_deadlines b"
  using arg_cong [OF assms, of lf_sessionStatus] arg_cong [OF assms, of lf_sandbox]
    arg_cong [OF assms, of lf_prompt] arg_cong [OF assms, of lf_review]
    arg_cong [OF assms, of lf_deadlines]
  by simp_all

lemma overlay_sandbox_view:
  "(overlay_sandbox a x)\<lparr>sb_spawnInProgress := False\<rparr>
   = (overlay_sandbox (a\<lparr>sb_spawnInProgress := False\<rparr>) x)\<lparr>sb_spawnInProgress := False\<rparr>"
  by (simp add: overlay_sandbox_def)

lemma overlay_prompt_view:
  "(overlay_prompt a x)\<lparr>pp_sandboxId := None\<rparr>
   = (overlay_prompt (a\<lparr>pp_sandboxId := None\<rparr>) x)\<lparr>pp_sandboxId := None\<rparr>"
  by (simp add: overlay_prompt_def)

lemma overlay_view:
  assumes "view a = view b"
  shows "view (overlay a x) = view (overlay b x)"
proof (rule view_eqI)
  show "(lf_sandbox (overlay a x))\<lparr>sb_spawnInProgress := False\<rparr>
      = (lf_sandbox (overlay b x))\<lparr>sb_spawnInProgress := False\<rparr>"
    using view_eqD(2) [OF assms]
    by (cases "px_sandbox x")
      (simp_all add: overlay_sandbox_view [of "lf_sandbox a"] overlay_sandbox_view [of "lf_sandbox b"])
  show "(lf_prompt (overlay a x))\<lparr>pp_sandboxId := None\<rparr>
      = (lf_prompt (overlay b x))\<lparr>pp_sandboxId := None\<rparr>"
    using view_eqD(3) [OF assms]
    by (cases "px_prompt x")
      (simp_all add: overlay_prompt_view [of "lf_prompt a"] overlay_prompt_view [of "lf_prompt b"])
qed (simp_all add: view_eqD [OF assms] split: option.split)

text \<open>The parts of the store a patch writes.\<close>

lemma apply_patch_sel:
  "ss_archived (applyLifecycleStatePatch d x s) = ss_archived s"
  "ss_activePrompt (applyLifecycleStatePatch d x s) = ss_activePrompt s"
  "ss_deadlines (applyLifecycleStatePatch d x s) =
    (case px_deadlines x of None \<Rightarrow> ss_deadlines s | Some y \<Rightarrow> overlay_deadlines (ss_deadlines s) y)"
  "ss_review (applyLifecycleStatePatch d x s) =
    (case px_review x of None \<Rightarrow> ss_review s | Some y \<Rightarrow> overlay_review (ss_review s) y)"
  "ss_prompt (applyLifecycleStatePatch d x s) =
    (case px_prompt x of None \<Rightarrow> ss_prompt s
     | Some y \<Rightarrow> Some (merge_prompt (nullish (ss_prompt s) no_prompt) y))"
  "ss_sandbox (applyLifecycleStatePatch d x s) =
    (case px_sandbox x of None \<Rightarrow> ss_sandbox s
     | Some y \<Rightarrow> Some (merge_sandbox (nullish (ss_sandbox s) no_sandbox) y))"
  "ss_row (applyLifecycleStatePatch d x s) =
    (case px_sandbox x of None \<Rightarrow> ss_row s | Some y \<Rightarrow> write_row d y (ss_row s))"
  "ss_spawnFailureCount (applyLifecycleStatePatch d x s) =
    (case px_sandbox x of None \<Rightarrow> ss_spawnFailureCount s
     | Some y \<Rightarrow> orelse (xs_spawnFailureCount y) (ss_spawnFailureCount s))"
  "ss_lastSpawnFailureAt (applyLifecycleStatePatch d x s) =
    (case px_sandbox x of None \<Rightarrow> ss_lastSpawnFailureAt s
     | Some y \<Rightarrow> nullish (xs_lastSpawnFailureAt y) (ss_lastSpawnFailureAt s))"
  by (simp_all add: applyLifecycleStatePatch_def write_sandbox_def Let_def split: option.split)

lemma read_apply:
  assumes "keeps_ids x"
  shows "view (readLifecycleState (applyLifecycleStatePatch d x s)) = view (overlay (readLifecycleState s) x)"
proof (rule view_eqI)
  show "(lf_sandbox (readLifecycleState (applyLifecycleStatePatch d x s)))\<lparr>sb_spawnInProgress := False\<rparr>
      = (lf_sandbox (overlay (readLifecycleState s) x))\<lparr>sb_spawnInProgress := False\<rparr>"
  proof (cases "px_sandbox x")
    case None
    then show ?thesis by (simp add: read_sandbox apply_patch_sel)
  next
    case (Some y)
    have id: "xs_sandboxId y \<noteq> Some None" using assms Some by (simp add: keeps_ids_def)
    then have row: "orelse (nullish (xs_sandboxId y) a) (nullish (xs_sandboxId y) b)
        = nullish (xs_sandboxId y) (orelse a b)" for a b
      by (cases "xs_sandboxId y") auto
    have st: "nullish (xs_state y) (nullish c (mapSandboxStatusToLifecycle (dr_status (write_row d y r))))
        = nullish (xs_state y) (nullish c (mapSandboxStatusToLifecycle (dr_status r)))" for c r
      by (cases "xs_state y") (simp_all add: write_row_sel)
    show ?thesis
      using Some
      by (simp add: read_sandbox apply_patch_sel merge_sandbox_def overlay_sandbox_def Let_def read_fields
          write_row_sel(2,3) row st)
  qed
  show "(lf_prompt (readLifecycleState (applyLifecycleStatePatch d x s)))\<lparr>pp_sandboxId := None\<rparr>
      = (lf_prompt (overlay (readLifecycleState s) x))\<lparr>pp_sandboxId := None\<rparr>"
  proof (cases "px_prompt x")
    case None
    then show ?thesis by (simp add: read_prompt apply_patch_sel)
  next
    case (Some y)
    have id: "xp_promptId y \<noteq> Some None" using assms Some by (simp add: keeps_ids_def)
    then have pid: "orelse (nullish (xp_promptId y) a) b = nullish (xp_promptId y) (orelse a b)" for a b
      by (cases "xp_promptId y") auto
    show ?thesis
      using Some
      by (simp add: overlay_prompt_view [of "lf_prompt (readLifecycleState s)"] read_prompt apply_patch_sel
          merge_prompt_def Let_def pid)
  qed
qed (simp_all add: read_sel apply_patch_sel split: option.split)

lemma read_finalize:
  assumes "ss_sandbox s = Some y" "xs_state y = Some q"
  shows "view (readLifecycleState (finalizeSandboxStopped r keep s)) = view (readLifecycleState s)"
  by (rule view_eqI)
    (simp_all add: read_sandbox read_prompt read_sel finalizeSandboxStopped_def clearTransportMarkers_def
      Let_def assms)

lemma read_alarm [simp]: "readLifecycleState (s\<lparr>ss_alarm := a\<rparr>) = readLifecycleState s"
  by (simp add: readLifecycleState_def)

lemma apply_one:
  assumes "tame now d" "view (readLifecycleState s) = view st"
  shows "view (readLifecycleState (fst (applyLifecycleDecision others applyTerminal now d (s, out))))
         = view (apply_decision d st)
       \<and> snd (applyLifecycleDecision others applyTerminal now d (s, out))
         = out @ (if applyTerminal then emitted [d] else [])"
proof (cases d)
  case (Persist_State x r)
  then show ?thesis
    using assms read_apply [of x False s] overlay_view [of "readLifecycleState s" st x] by simp
next
  case (Finalize_Sandbox_Stopped r keep x reason)
  then obtain y where y: "px_sandbox x = Some y" "xs_state y = Some Sb_Stopped" and ids: "keeps_ids x"
    using assms(1) by auto
  have "view (readLifecycleState (finalizeSandboxStopped r keep (applyLifecycleStatePatch True x s)))
      = view (readLifecycleState (applyLifecycleStatePatch True x s))"
    by (rule read_finalize [where q = Sb_Stopped
          and y = "merge_sandbox (nullish (ss_sandbox s) no_sandbox) y"])
      (simp_all add: apply_patch_sel y merge_sandbox_def)
  then show ?thesis
    using Finalize_Sandbox_Stopped read_apply [OF ids] overlay_view [OF assms(2)] by simp
qed (use assms in auto)

text \<open>
  What the fold needs of an applier: on a decision of the reducer it leaves a store that reads back as the
  decision's state, and hands over the decision's terminal or nothing.
\<close>

locale decision_applier =
  fixes read :: "'s \<Rightarrow> lifecycle_state"
    and apply1 :: "int \<Rightarrow> lifecycle_decision \<Rightarrow> 's \<times> terminal list \<Rightarrow> 's \<times> terminal list"
    and hands :: bool
  assumes one: "tame now d \<Longrightarrow> view (read s) = view st \<Longrightarrow>
      view (read (fst (apply1 now d (s, out)))) = view (apply_decision d st)
      \<and> snd (apply1 now d (s, out)) = out @ (if hands then emitted [d] else [])"
begin

lemma all:
  assumes "\<forall>d\<in>set ds. tame now d" "view (read s) = view st"
  shows "view (read (fst (fold (apply1 now) ds (s, out)))) = view (after ds st)
    \<and> snd (fold (apply1 now) ds (s, out)) = out @ (if hands then emitted ds else [])"
  using assms
proof (induction ds arbitrary: s st out)
  case (Cons d ds)
  obtain s' out' where s': "apply1 now d (s, out) = (s', out')"
    by fastforce
  have "view (read s') = view (apply_decision d st)" "out' = out @ (if hands then emitted [d] else [])"
    using one [of now d s st out] Cons.prems s' by auto
  then show ?case
    using Cons.IH [of s' "apply_decision d st" out'] Cons.prems s' emitted_append [of "[d]" ds] by auto
qed simp

end

interpretation applier: decision_applier readLifecycleState "applyLifecycleDecision others applyTerminal" applyTerminal
  for others applyTerminal
  by unfold_locales (rule apply_one)

lemma tame_reduce: "d \<in> set (reduceLifecycle st ev cfg now) \<Longrightarrow> tame now d"
  by (auto simp: reduceLifecycle_def tame_decisions split: if_splits)

fun store_run ::
  "other_alarms \<Rightarrow> bool \<Rightarrow> timed_event list \<Rightarrow> session_store \<Rightarrow> session_store \<times> terminal list" where
  "store_run others applyTerminal [] s = (s, [])"
| "store_run others applyTerminal (e # es) s =
    (let (s1, out1) = processLifecycleEvent others (te_cfg e) applyTerminal (te_now e) (te_event e) s;
         (s2, out2) = store_run others applyTerminal es s1
     in (s2, out1 @ out2))"

lemma decided_view: "view a = view b \<Longrightarrow> decided a e = decided b e"
  using reduce_view [of a "te_event e" "te_cfg e" "te_now e"]
    reduce_view [of b "te_event e" "te_cfg e" "te_now e"]
  by (simp add: decided_def)

lemma process_event:
  assumes "view (readLifecycleState s) = view st"
  shows "view (readLifecycleState
           (fst (processLifecycleEvent others (te_cfg e) applyTerminal (te_now e) (te_event e) s)))
         = view (step e st)
       \<and> snd (processLifecycleEvent others (te_cfg e) applyTerminal (te_now e) (te_event e) s)
         = (if applyTerminal then emitted (decided st e) else [])"
  using applier.all [OF _ assms, of "decided st e" "te_now e" others applyTerminal "[]"]
    decided_view [OF assms, of e]
  by (auto simp: processLifecycleEvent_def step_def decided_def tame_reduce)

text \<open>
  C26. The storage of the session object implements the reducer: processing any sequence of lifecycle events
  through read, reduce and patch leaves a store that reads back as the fold of the reducer over states, up to
  the prompt's sandbox id and the spawn flag (a row may answer for them and no handler reads them), and hands
  over the terminals that fold emits, in order, exactly when the caller applies terminals.
\<close>

theorem storage_implements_reducer:
  "view (readLifecycleState (fst (store_run others applyTerminal es s))) = view (run es (readLifecycleState s))
   \<and> snd (store_run others applyTerminal es s)
     = (if applyTerminal then run_terminals es (readLifecycleState s) else [])"
proof -
  have "view (readLifecycleState s) = view st \<longrightarrow>
      view (readLifecycleState (fst (store_run others applyTerminal es s))) = view (run es st)
      \<and> snd (store_run others applyTerminal es s) = (if applyTerminal then run_terminals es st else [])" for st
  proof (induction es arbitrary: s st)
    case (Cons e es)
    obtain s1 out1 where p:
      "processLifecycleEvent others (te_cfg e) applyTerminal (te_now e) (te_event e) s = (s1, out1)"
      by fastforce
    show ?case
      using process_event [of s st others e applyTerminal] p Cons.IH [of s1 "step e st"]
      by (auto simp: case_prod_beta Let_def)
  qed simp
  then show ?thesis by blast
qed

end
