(* ===== verification/Session_Alarm.thy ===== *)
theory Session_Alarm
  imports Session_Run
begin

text \<open>
  The lifecycle batch of the session object's alarm (\<open>dispatchLifecycleAlarm\<close> in \<open>session/durable-object.ts\<close>,
  \<open>disconnect-terminal-precedence.ts\<close>, \<open>classifySpawnTimeoutPhase.ts\<close>): the due deadlines of the store become
  one sorted batch of events, whose terminals are handed over or deferred.

  The lemmas follow one batch: its events carry the state's own ids, each of them either ends the prompt or leaves
  it alone, and the batch of a watched prompt holds the one that ends it.
\<close>

section \<open>Precedence\<close>

definition DISCONNECT_TERMINAL_LIFECYCLE_EVENTS :: "lifecycle_event \<Rightarrow> bool" where
  "DISCONNECT_TERMINAL_LIFECYCLE_EVENTS ev =
    (case ev of Ev_Reconnect_Grace_Expired _ \<Rightarrow> True | Ev_Liveness_Expired _ \<Rightarrow> True | _ \<Rightarrow> False)"

definition DISCONNECT_PREEMPTED_PROMPT_DEADLINE_EVENTS :: "lifecycle_event \<Rightarrow> bool" where
  "DISCONNECT_PREEMPTED_PROMPT_DEADLINE_EVENTS ev =
    (case ev of Ev_Startup_Deadline_Elapsed _ \<Rightarrow> True | Ev_Dispatch_Deadline_Elapsed _ \<Rightarrow> True
      | Ev_Running_Inactivity_Elapsed _ \<Rightarrow> True | _ \<Rightarrow> False)"

definition shouldDeferLifecycleTerminal :: "lifecycle_event \<Rightarrow> bool \<Rightarrow> bool" where
  "shouldDeferLifecycleTerminal ev batchHasDisconnectTerminal \<longleftrightarrow>
    DISCONNECT_TERMINAL_LIFECYCLE_EVENTS ev
    \<or> batchHasDisconnectTerminal \<and> DISCONNECT_PREEMPTED_PROMPT_DEADLINE_EVENTS ev"

fun event_order :: "lifecycle_event \<Rightarrow> nat" where
  "event_order (Ev_Abort_Requested _) = 0"
| "event_order (Ev_Spawn_Failed _ _) = 1"
| "event_order (Ev_Reconnect_Grace_Expired _) = 2"
| "event_order (Ev_Startup_Deadline_Elapsed _) = 3"
| "event_order (Ev_Dispatch_Deadline_Elapsed _) = 4"
| "event_order (Ev_Running_Inactivity_Elapsed _) = 5"
| "event_order (Ev_Spawn_Requested _) = 6"
| "event_order (Ev_Spawn_Succeeded _ _) = 7"
| "event_order (Ev_Ws_Connected _) = 8"
| "event_order (Ev_Heartbeat_Received _) = 9"
| "event_order (Ev_Ws_Disconnected _) = 10"
| "event_order (Ev_Liveness_Expired _) = 11"
| "event_order Ev_Stop_Requested = 12"
| "event_order (Ev_Stop_Completed _) = 13"
| "event_order (Ev_Enqueued _) = 14"
| "event_order (Ev_Sent_To_Bridge _ _) = 15"
| "event_order (Ev_Bridge_Accepted _ _ _) = 16"
| "event_order (Ev_Dispatching_Progress _ _ _) = 17"
| "event_order (Ev_Agent_Prompt_Sent _ _ _) = 18"
| "event_order (Ev_Running_Activity _ _ _) = 19"
| "event_order (Ev_Running_Keepalive _ _ _) = 20"
| "event_order (Ev_Terminal_Received _ _ _ _) = 21"
| "event_order (Ev_Stop_Finalize _ _) = 22"
| "event_order (Ev_Close_Finalize _) = 23"
| "event_order Ev_Pre_Publish_Stall_Expired = 24"
| "event_order (Ev_Transport_Stop_Finalize _ _) = 25"
| "event_order Ev_Auto_Close_Scheduled = 26"
| "event_order Ev_Intentional_Pause_Close = 27"
| "event_order (Ev_Review_Entered _ _) = 28"
| "event_order (Ev_Review_Epoch_Enqueued _ _) = 29"
| "event_order (Ev_Review_Exited _) = 30"

datatype spawn_timeout_origin = Provider_Error | Spawn_Deadline

definition classifySpawnTimeoutPhase :: "spawn_timeout_origin \<Rightarrow> string option \<Rightarrow> sandbox_error_code" where
  "classifySpawnTimeoutPhase origin providerObjectId =
    (if origin = Provider_Error then ''spawn_provider_error''
     else if truthy providerObjectId then ''spawn_deadline_no_bridge'' else ''spawn_deadline_no_object'')"

section \<open>The batch\<close>

definition due :: "int option \<Rightarrow> int \<Rightarrow> bool" where
  "due d now = (case d of None \<Rightarrow> False | Some t \<Rightarrow> t \<le> now)"

definition push_if :: "bool \<Rightarrow> 'a \<Rightarrow> 'a list" where
  "push_if b x = (if b then [x] else [])"

definition due_events :: "int \<Rightarrow> session_store \<Rightarrow> lifecycle_event list" where
  "due_events now s =
    (let st = readLifecycleState s; d = lf_deadlines st; row = ss_row s;
         sandboxId = sb_sandboxId (lf_sandbox st);
         promptId = pp_promptId (lf_prompt st);
         attempt = sb_startupAttemptId (lf_sandbox st)
     in push_if (due (dl_sandboxReconnectGrace d) now) (Ev_Reconnect_Grace_Expired sandboxId)
      @ push_if (due (dl_promptStartup d) now \<and> truthy promptId) (Ev_Startup_Deadline_Elapsed (the promptId))
      @ push_if (due (dl_promptDispatch d) now \<and> truthy promptId) (Ev_Dispatch_Deadline_Elapsed (the promptId))
      @ push_if (due (dl_promptRunningInactivity d) now \<and> truthy promptId)
          (Ev_Running_Inactivity_Elapsed (the promptId))
      @ push_if (due (dl_sandboxLiveness d) now \<and> truthy sandboxId) (Ev_Liveness_Expired (the sandboxId))
      @ push_if (due (dl_spawnTimeout d) now \<and> truthy attempt \<and> dr_status row \<noteq> Some ''spawning'')
          (Ev_Spawn_Failed (the attempt)
            (Some (classifySpawnTimeoutPhase Spawn_Deadline
                     (orelse (dr_runtimeSandboxId row) (dr_modalObjectId row))))))"

text \<open>Every event of the batch is processed at a clock reading of its own.\<close>

fun dispatch_all ::
  "other_alarms \<Rightarrow> lifecycle_config \<Rightarrow> (lifecycle_event \<Rightarrow> int) \<Rightarrow> bool \<Rightarrow> lifecycle_event list \<Rightarrow>
   session_store \<Rightarrow> session_store \<times> terminal list" where
  "dispatch_all others cfg clock batchHasDisconnect [] s = (s, [])"
| "dispatch_all others cfg clock batchHasDisconnect (ev # evs) s =
    (let (s1, out1) = processLifecycleEvent others cfg
                        (\<not> shouldDeferLifecycleTerminal ev batchHasDisconnect) (clock ev) ev s;
         (s2, out2) = dispatch_all others cfg clock batchHasDisconnect evs s1
     in (s2, out1 @ out2))"

definition alarm_batch :: "int \<Rightarrow> session_store \<Rightarrow> lifecycle_event list" where
  "alarm_batch now s = sort_key event_order (due_events now s)"

definition has_disconnect :: "lifecycle_event list \<Rightarrow> bool" where
  "has_disconnect evs = list_ex DISCONNECT_TERMINAL_LIFECYCLE_EVENTS evs"

definition dispatchLifecycleAlarm ::
  "other_alarms \<Rightarrow> lifecycle_config \<Rightarrow> (lifecycle_event \<Rightarrow> int) \<Rightarrow> int \<Rightarrow> int \<Rightarrow> session_store \<Rightarrow>
   session_store \<times> terminal list" where
  "dispatchLifecycleAlarm others cfg clock now later s =
    (let evs = alarm_batch now s
     in if evs = [] then (s, [])
        else let (s', out) = dispatch_all others cfg clock (has_disconnect evs) evs s
             in (rescheduleSessionAlarm others later s', out))"

section \<open>Deadlines that are watched\<close>

text \<open>The deadline that ends a prompt in its phase.\<close>

definition watchdog :: "lifecycle_state \<Rightarrow> int option" where
  "watchdog st =
    (case pp_phase (lf_prompt st) of
       Pp_Dispatching \<Rightarrow>
         if pp_codexPromptSentAt (lf_prompt st) = None then dl_promptStartup (lf_deadlines st)
         else dl_promptDispatch (lf_deadlines st)
     | Pp_Running \<Rightarrow> dl_promptRunningInactivity (lf_deadlines st)
     | _ \<Rightarrow> None)"

definition at_work :: "lifecycle_state \<Rightarrow> bool" where
  "at_work st \<longleftrightarrow> pp_phase (lf_prompt st) \<in> {Pp_Dispatching, Pp_Running}"

definition watched :: "lifecycle_state \<Rightarrow> bool" where
  "watched st \<longleftrightarrow>
    pp_promptId (lf_prompt st) \<noteq> Some []
    \<and> (pp_phase (lf_prompt st) = Pp_None \<longrightarrow> pp_promptId (lf_prompt st) = None)
    \<and> (pp_phase (lf_prompt st) = Pp_Queued \<longrightarrow> pp_codexPromptSentAt (lf_prompt st) = None)
    \<and> (at_work st \<longrightarrow> pp_promptId (lf_prompt st) \<noteq> None \<and> watchdog st \<noteq> None)"

text \<open>
  The events that keep it so: no prompt has the empty id, no session is stopped under a prompt at work, and
  no acceptance or progress report arrives for a prompt already running under codex.
\<close>

fun benign :: "lifecycle_state \<Rightarrow> lifecycle_event \<Rightarrow> bool" where
  "benign st (Ev_Enqueued p) = (p \<noteq> [])"
| "benign st (Ev_Stop_Finalize _ _) = (\<not> at_work st)"
| "benign st (Ev_Close_Finalize _) = (\<not> at_work st)"
| "benign st (Ev_Transport_Stop_Finalize _ _) = (\<not> at_work st)"
| "benign st (Ev_Bridge_Accepted _ _ _) =
     (\<not> (pp_phase (lf_prompt st) = Pp_Running \<and> pp_codexPromptSentAt (lf_prompt st) \<noteq> None))"
| "benign st (Ev_Dispatching_Progress _ _ _) =
     (\<not> (pp_phase (lf_prompt st) = Pp_Running \<and> pp_codexPromptSentAt (lf_prompt st) \<noteq> None))"
| "benign st _ = True"

fun benign_run :: "timed_event list \<Rightarrow> lifecycle_state \<Rightarrow> bool" where
  "benign_run [] st = True"
| "benign_run (e # es) st = (benign st (te_event e) \<and> benign_run es (step e st))"

lemma cleared_deadlines_sel [simp]:
  "xd_sandboxReconnectGrace cleared_deadlines = Some None" "xd_sandboxLiveness cleared_deadlines = Some None"
  "xd_promptStartup cleared_deadlines = Some None" "xd_promptDispatch cleared_deadlines = Some None"
  "xd_promptRunningInactivity cleared_deadlines = Some None" "xd_spawnTimeout cleared_deadlines = Some None"
  by (simp_all add: cleared_deadlines_def)

lemma watched_overlay [simp]:
  assumes "px_prompt x = None"
  shows "px_deadlines x = None \<Longrightarrow> watched (overlay st x) = watched st"
    "px_deadlines x = Some d \<Longrightarrow> xd_promptStartup d = None \<Longrightarrow> xd_promptDispatch d = None \<Longrightarrow>
     xd_promptRunningInactivity d = None \<Longrightarrow> watched (overlay st x) = watched st"
  using assms by (simp_all add: watched_def watchdog_def at_work_def)

lemma watched_terminal [simp]: "watched (overlay st' (terminal_patch st p code l)) \<longleftrightarrow> p \<noteq> []"
  by (simp add: watched_def at_work_def)

lemma watched_idle:
  assumes "watched st" "\<not> at_work st" "px_prompt x = None"
  shows "watched (overlay st x)"
  using assms by (simp add: watched_def at_work_def)

lemma watched_live: "watched st \<Longrightarrow> live_prompt st = None \<Longrightarrow> \<not> at_work st"
  by (auto simp: watched_def live_prompt_def at_work_def split: if_splits)

lemma live_prompt_id: "live_prompt st = Some p \<Longrightarrow> p \<noteq> []"
  by (simp add: live_prompt_Some)

lemma watched_active: "watched st \<Longrightarrow> activePromptMatches st p \<Longrightarrow> p \<noteq> []"
  by (auto simp: watched_def activePromptMatches_def)

lemma watched_terminal_if_live:
  "watched st \<Longrightarrow> watched st' \<Longrightarrow> watched (after (terminal_if_live st code reason) st')"
  by (auto simp: terminal_if_live_def live_prompt_Some split: option.splits)

lemma watched_sandbox_events:
  assumes "watched st"
  shows "watched (after (reduce_spawn_requested st a cfg now) st)"
    "watched (after (reduce_spawn_succeeded st a i) st)"
    "watched (after (reduce_spawn_failed st a c now) st)"
    "watched (after (reduce_ws_connected st i cfg now) st)"
    "watched (after (reduce_heartbeat st i cfg now) st)"
    "watched (after (reduce_ws_disconnected st i cfg now) st)"
    "watched (after (disconnect_expired st j r1 r2) st)"
    "watched (after (reduce_stop_completed st j) st)"
  using assms
  by (auto simp: reduce_defs Let_def live_prompt_Some intro!: watched_terminal_if_live split: option.splits)

lemma watched_stall: "watched st \<Longrightarrow> watched (after (reduce_pre_publish_stall st) st)"
  by (cases "live_prompt st")
    (auto simp: reduce_pre_publish_stall_def terminal_if_live_def
      intro: watched_idle dest: watched_live live_prompt_id)

lemma watched_prompt_events:
  assumes "watched st"
  shows "watched (after (reduce_sent_to_bridge st p i cfg now) st)"
    "watched (after (reduce_agent_prompt_sent st p i a cfg now) st)"
    "watched (after (reduce_running_activity st p i a cfg now) st)"
    "watched (after (reduce_startup_elapsed st p) st)"
    "watched (after (reduce_dispatch_elapsed st p) st)"
    "watched (after (reduce_inactivity_elapsed st p) st)"
    "watched (after (reduce_abort st p) st)"
    "watched (after (reduce_enqueued q now) st) \<longleftrightarrow> q \<noteq> []"
  using assms watched_active [OF assms, of p]
  by (auto simp: reduce_defs) (auto simp: watched_def watchdog_def at_work_def activePromptMatches_def)

lemma watched_keepalive:
  assumes "watched st"
  shows "watched (after (reduce_keepalive st p i tool cfg now) st)"
  using assms watched_active [OF assms, of p]
  by (auto simp: reduce_keepalive_def)
    (auto simp: watched_def watchdog_def at_work_def activePromptMatches_def)

lemma watched_terminal_received:
  assumes "watched st"
  shows "watched (after (reduce_terminal_received st p i c cfg now) st)"
  using assms watched_active [OF assms, of p]
  by (auto simp: reduce_terminal_received_def Let_def)
    (auto simp: watched_def watchdog_def at_work_def activePromptMatches_def)

lemma watched_dispatching:
  assumes "watched st"
    "\<not> (pp_phase (lf_prompt st) = Pp_Running \<and> pp_codexPromptSentAt (lf_prompt st) \<noteq> None)"
  shows "watched (after (reduce_dispatching st accepted p i a cfg now) st)"
  using assms watched_active [OF assms(1), of p]
  by (cases "pp_phase (lf_prompt st)")
    (auto simp: reduce_dispatching_def watched_def watchdog_def at_work_def activePromptMatches_def)

lemma watched_event:
  assumes "watched st" "benign st ev"
  shows "watched (after (reduce_event st ev cfg now) st)"
  using assms
  by (cases ev)
    (simp_all add: watched_sandbox_events watched_stall watched_prompt_events watched_keepalive
      watched_terminal_received watched_dispatching watched_idle finalizeStoppedDecisions_def
      review_entered_patch_def)

lemma watched_run:
  assumes "watched st" "benign_run es st"
  shows "watched (run es st)"
  using assms
proof (induction es arbitrary: st)
  case (Cons e es)
  then show ?case by (simp add: step_def decided_cases watched_event)
qed simp

lemma watched_empty: "watched createEmptyLifecycleState"
  by (simp add: watched_def at_work_def createEmptyLifecycleState_def)

section \<open>One batch over the states\<close>

text \<open>The events of a batch carry the ids of the state they were read from.\<close>

definition own :: "lifecycle_state \<Rightarrow> lifecycle_event \<Rightarrow> bool" where
  "own st ev =
    (case ev of
       Ev_Reconnect_Grace_Expired i \<Rightarrow> sb_sandboxId (lf_sandbox st) = i
     | Ev_Liveness_Expired i \<Rightarrow> sb_sandboxId (lf_sandbox st) = Some i
     | Ev_Startup_Deadline_Elapsed p \<Rightarrow> pp_promptId (lf_prompt st) = Some p
     | Ev_Dispatch_Deadline_Elapsed p \<Rightarrow> pp_promptId (lf_prompt st) = Some p
     | Ev_Running_Inactivity_Elapsed p \<Rightarrow> pp_promptId (lf_prompt st) = Some p
     | Ev_Spawn_Failed a c \<Rightarrow> sb_startupAttemptId (lf_sandbox st) = Some a
     | _ \<Rightarrow> False)"

text \<open>The event that ends a prompt in the state's phase.\<close>

definition decisive :: "lifecycle_state \<Rightarrow> lifecycle_event \<Rightarrow> bool" where
  "decisive st ev =
    (case ev of
       Ev_Startup_Deadline_Elapsed p \<Rightarrow>
         pp_phase (lf_prompt st) = Pp_Dispatching \<and> pp_codexPromptSentAt (lf_prompt st) = None
     | Ev_Dispatch_Deadline_Elapsed p \<Rightarrow>
         pp_phase (lf_prompt st) = Pp_Dispatching \<and> pp_codexPromptSentAt (lf_prompt st) \<noteq> None
     | Ev_Running_Inactivity_Elapsed p \<Rightarrow> pp_phase (lf_prompt st) = Pp_Running
     | _ \<Rightarrow> False)"

definition same_ids :: "lifecycle_state \<Rightarrow> lifecycle_state \<Rightarrow> bool" where
  "same_ids a b \<longleftrightarrow>
    lf_sessionStatus a = lf_sessionStatus b
    \<and> sb_sandboxId (lf_sandbox a) = sb_sandboxId (lf_sandbox b)
    \<and> sb_startupAttemptId (lf_sandbox a) = sb_startupAttemptId (lf_sandbox b)
    \<and> pp_promptId (lf_prompt a) = pp_promptId (lf_prompt b)"

lemma own_same: "same_ids a b \<Longrightarrow> own a ev = own b ev"
  by (cases ev) (simp_all add: own_def same_ids_def)

lemma own_event:
  assumes "own st ev" "pp_promptId (lf_prompt st) = Some p" "p \<noteq> []"
    "pp_phase (lf_prompt st) \<noteq> Pp_Terminal"
  shows "same_ids (after (reduce_event st ev cfg now) st) st
    \<and> (pp_phase (lf_prompt (after (reduce_event st ev cfg now) st)) = Pp_Terminal
         \<and> (\<exists>c r. emitted (reduce_event st ev cfg now) = [(p, c, r)])
       \<or> \<not> decisive st ev \<and> lf_prompt (after (reduce_event st ev cfg now) st) = lf_prompt st
         \<and> emitted (reduce_event st ev cfg now) = [])"
proof -
  have live: "live_prompt st = Some p" "activePromptMatches st p"
    using assms by (simp_all add: live_prompt_def activePromptMatches_def)
  show ?thesis
    using assms(1,2) live
    by (cases ev)
      (auto simp: own_def decisive_def same_ids_def reduce_defs terminal_if_live_def sandboxMatches_def
        stale_attempt_def)
qed

lemma own_event_terminal:
  assumes "own st ev" "pp_phase (lf_prompt st) = Pp_Terminal"
  shows "same_ids (after (reduce_event st ev cfg now) st) st
    \<and> pp_phase (lf_prompt (after (reduce_event st ev cfg now) st)) = Pp_Terminal
    \<and> emitted (reduce_event st ev cfg now) = []"
  using assms
  by (cases ev)
    (auto simp: own_def same_ids_def reduce_defs terminal_if_live_def live_prompt_def activePromptMatches_def)

lemma decisive_prompt: "lf_prompt a = lf_prompt b \<Longrightarrow> decisive a ev = decisive b ev"
  by (cases ev) (simp_all add: decisive_def)

definition timed :: "lifecycle_config \<Rightarrow> (lifecycle_event \<Rightarrow> int) \<Rightarrow> lifecycle_event \<Rightarrow> timed_event" where
  "timed cfg clock ev = \<lparr>te_now = clock ev, te_cfg = cfg, te_event = ev\<rparr>"

lemma timed_sel [simp]:
  "te_event (timed cfg clock ev) = ev" "te_now (timed cfg clock ev) = clock ev" "te_cfg (timed cfg clock ev) = cfg"
  by (simp_all add: timed_def)

lemma own_step:
  assumes "own st ev" "lf_sessionStatus st = Session_Active"
  shows "step (timed cfg clock ev) st = after (reduce_event st ev cfg (clock ev)) st"
    "decided st (timed cfg clock ev) = reduce_event st ev cfg (clock ev)"
  using assms by (simp_all add: step_def decided_cases)

lemma batch_terminal:
  assumes "\<forall>ev\<in>set evs. own st ev" "lf_sessionStatus st = Session_Active"
    "pp_phase (lf_prompt st) = Pp_Terminal"
  shows "pp_phase (lf_prompt (run (map (timed cfg clock) evs) st)) = Pp_Terminal
    \<and> run_terminals (map (timed cfg clock) evs) st = []"
  using assms
proof (induction evs arbitrary: st)
  case (Cons ev evs)
  let ?st = "after (reduce_event st ev cfg (clock ev)) st"
  have s: "same_ids ?st st" "pp_phase (lf_prompt ?st) = Pp_Terminal" "emitted (reduce_event st ev cfg (clock ev)) = []"
    using own_event_terminal [of st ev cfg "clock ev"] Cons.prems by auto
  have "\<forall>ev\<in>set evs. own ?st ev" using own_same [OF s(1)] Cons.prems(1) by simp
  moreover have "lf_sessionStatus ?st = Session_Active" using s(1) Cons.prems(2) by (simp add: same_ids_def)
  ultimately show ?case using Cons.IH [of ?st] s Cons.prems by (simp add: own_step)
qed simp

lemma batch_ends_prompt:
  assumes "\<forall>ev\<in>set evs. own st ev" "lf_sessionStatus st = Session_Active"
    "pp_promptId (lf_prompt st) = Some p" "p \<noteq> []" "pp_phase (lf_prompt st) \<noteq> Pp_Terminal"
    "\<exists>ev\<in>set evs. decisive st ev"
  shows "pp_phase (lf_prompt (run (map (timed cfg clock) evs) st)) = Pp_Terminal
    \<and> (\<exists>c r. run_terminals (map (timed cfg clock) evs) st = [(p, c, r)])"
  using assms
proof (induction evs arbitrary: st)
  case (Cons ev evs)
  let ?st = "after (reduce_event st ev cfg (clock ev)) st"
  have s: "same_ids ?st st"
    and e: "pp_phase (lf_prompt ?st) = Pp_Terminal \<and> (\<exists>c r. emitted (reduce_event st ev cfg (clock ev)) = [(p, c, r)])
      \<or> \<not> decisive st ev \<and> lf_prompt ?st = lf_prompt st \<and> emitted (reduce_event st ev cfg (clock ev)) = []"
    using own_event [of st ev p cfg "clock ev"] Cons.prems by auto
  have own': "\<forall>ev\<in>set evs. own ?st ev" using own_same [OF s] Cons.prems(1) by simp
  have active: "lf_sessionStatus ?st = Session_Active" using s Cons.prems(2) by (simp add: same_ids_def)
  from e show ?case
  proof
    assume "pp_phase (lf_prompt ?st) = Pp_Terminal
      \<and> (\<exists>c r. emitted (reduce_event st ev cfg (clock ev)) = [(p, c, r)])"
    then show ?thesis
      using batch_terminal [OF own' active, of cfg clock] Cons.prems by (auto simp: own_step)
  next
    assume n: "\<not> decisive st ev \<and> lf_prompt ?st = lf_prompt st
      \<and> emitted (reduce_event st ev cfg (clock ev)) = []"
    then have "\<exists>ev\<in>set evs. decisive ?st ev"
      using Cons.prems(6) decisive_prompt [of ?st st] by auto
    then show ?thesis
      using Cons.IH [OF own' active] n Cons.prems by (auto simp: own_step)
  qed
qed simp

section \<open>One batch over the store\<close>

lemma dispatch_all_runs:
  assumes "view (readLifecycleState s) = view st"
  shows "view (readLifecycleState (fst (dispatch_all others cfg clock b evs s)))
         = view (run (map (timed cfg clock) evs) st)
       \<and> ((\<forall>ev\<in>set evs. \<not> shouldDeferLifecycleTerminal ev b) \<longrightarrow>
           snd (dispatch_all others cfg clock b evs s) = run_terminals (map (timed cfg clock) evs) st)"
  using assms
proof (induction evs arbitrary: s st)
  case (Cons ev evs)
  obtain s1 out1 where p:
    "processLifecycleEvent others cfg (\<not> shouldDeferLifecycleTerminal ev b) (clock ev) ev s = (s1, out1)"
    by fastforce
  show ?case
    using process_event [OF Cons.prems, of others "timed cfg clock ev" "\<not> shouldDeferLifecycleTerminal ev b"]
      p Cons.IH [of s1 "step (timed cfg clock ev) st"]
    by (auto simp: case_prod_beta Let_def)
qed simp

lemma reschedule_sel [simp]:
  "ss_archived (rescheduleSessionAlarm others now s) = ss_archived s"
  "ss_deadlines (rescheduleSessionAlarm others now s) = valid_deadlines s"
  "ss_alarm (rescheduleSessionAlarm others now s) = choose_alarm now (alarm_candidates others s)"
  "ss_row (rescheduleSessionAlarm others now s) = ss_row s"
  by (simp_all add: rescheduleSessionAlarm_def)

lemma read_reschedule:
  "readLifecycleState (rescheduleSessionAlarm others now s)
   = (readLifecycleState s)\<lparr>lf_deadlines := valid_deadlines s\<rparr>"
  by (simp add: readLifecycleState_def rescheduleSessionAlarm_def Let_def)

lemma watchdog_survives:
  assumes "watchdog (readLifecycleState s) = Some t" "hasActivePrompt s"
  shows "watchdog (readLifecycleState (rescheduleSessionAlarm others now s)) = Some t"
  using assms
  by (auto simp: watchdog_def read_reschedule valid_deadlines_def keep_if_def read_sel Let_def
      split: prompt_phase.splits if_splits)

lemma set_push_if [simp]: "x \<in> set (push_if b y) \<longleftrightarrow> b \<and> x = y"
  by (auto simp: push_if_def)

lemma truthy_the: "truthy x \<Longrightarrow> x = Some (the x)"
  by (cases x) simp_all

lemma batch_own: "ev \<in> set (alarm_batch now s) \<Longrightarrow> own (readLifecycleState s) ev"
  by (auto simp: alarm_batch_def due_events_def Let_def own_def dest: truthy_the)

lemma batch_decisive:
  assumes "watchdog (readLifecycleState s) = Some t" "t \<le> now"
    "truthy (pp_promptId (lf_prompt (readLifecycleState s)))"
  shows "\<exists>ev\<in>set (alarm_batch now s). decisive (readLifecycleState s) ev"
proof -
  let ?st = "readLifecycleState s"
  let ?p = "the (pp_promptId (lf_prompt ?st))"
  let ?ev = "case pp_phase (lf_prompt ?st) of
      Pp_Running \<Rightarrow> Ev_Running_Inactivity_Elapsed ?p
    | _ \<Rightarrow> if pp_codexPromptSentAt (lf_prompt ?st) = None then Ev_Startup_Deadline_Elapsed ?p
          else Ev_Dispatch_Deadline_Elapsed ?p"
  have "?ev \<in> set (alarm_batch now s) \<and> decisive ?st ?ev"
    using assms
    by (auto simp: watchdog_def alarm_batch_def due_events_def Let_def due_def decisive_def
        split: prompt_phase.splits if_splits)
  then show ?thesis by blast
qed

lemma no_disconnect_no_deferral:
  assumes "\<not> has_disconnect evs" "ev \<in> set evs"
  shows "\<not> shouldDeferLifecycleTerminal ev (has_disconnect evs)"
  using assms by (auto simp: has_disconnect_def shouldDeferLifecycleTerminal_def list_ex_iff)

lemma after_status [simp]: "lf_sessionStatus (after ds st) = lf_sessionStatus st"
proof (induction ds arbitrary: st)
  case (Cons d ds)
  then show ?case by (cases d) simp_all
qed simp

lemma run_status [simp]: "lf_sessionStatus (run es st) = lf_sessionStatus st"
  by (induction es arbitrary: st) (simp_all add: step_def)

lemma view_watched: "view a = view b \<Longrightarrow> watched a = watched b"
proof -
  have "watched (view st) = watched st" for st
    by (simp add: watched_def watchdog_def at_work_def cong: prompt_phase.case_cong)
  then show "view a = view b \<Longrightarrow> watched a = watched b" by metis
qed

lemma alarm_ends_prompt:
  assumes "\<not> ss_archived s" "at_work (readLifecycleState s)"
    "pp_promptId (lf_prompt (readLifecycleState s)) = Some p" "p \<noteq> []"
    "watchdog (readLifecycleState s) = Some t" "t \<le> now"
  shows "alarm_batch now s \<noteq> []
    \<and> pp_phase (lf_prompt (readLifecycleState (fst (dispatchLifecycleAlarm others cfg clock now later s)))) = Pp_Terminal
    \<and> (\<not> has_disconnect (alarm_batch now s) \<longrightarrow>
        (\<exists>c r. snd (dispatchLifecycleAlarm others cfg clock now later s) = [(p, c, r)]))"
proof -
  let ?st = "readLifecycleState s"
  let ?evs = "alarm_batch now s"
  let ?d = "dispatch_all others cfg clock (has_disconnect ?evs) ?evs s"
  have ex: "\<exists>ev\<in>set ?evs. decisive ?st ev"
    using batch_decisive [OF assms(5,6)] assms(3,4) by simp
  have active: "lf_sessionStatus ?st = Session_Active" using assms(1) by (simp add: read_sel)
  have ends: "pp_phase (lf_prompt (run (map (timed cfg clock) ?evs) ?st)) = Pp_Terminal
    \<and> (\<exists>c r. run_terminals (map (timed cfg clock) ?evs) ?st = [(p, c, r)])"
    by (rule batch_ends_prompt [OF _ active assms(3,4) _ ex])
      (use assms(2) batch_own in \<open>auto simp: at_work_def\<close>)
  note d = dispatch_all_runs [OF refl, of others cfg clock "has_disconnect ?evs" ?evs s]
  have "pp_phase (lf_prompt (readLifecycleState (fst ?d))) = Pp_Terminal"
    using ends view_eqD(3) [OF conjunct1 [OF d]] by (metis prompt_part.select_convs(1) prompt_part.surjective
        prompt_part.update_convs(4))
  moreover have "?evs \<noteq> []" using ex by auto
  moreover have "\<not> has_disconnect ?evs \<longrightarrow> (\<exists>c r. snd ?d = [(p, c, r)])"
    using ends d no_disconnect_no_deferral by metis
  ultimately show ?thesis
    by (simp add: dispatchLifecycleAlarm_def Let_def case_prod_beta read_reschedule)
qed

section \<open>At most one terminal in a batch\<close>

lemma live_prompt_prompt: "live_prompt st = Some p \<Longrightarrow> pp_promptId (lf_prompt st) = Some p"
  by (simp add: live_prompt_Some activePromptMatches_def)

lemma own_ids:
  assumes "own st ev"
  shows "same_ids (after (reduce_event st ev cfg now) st) st"
  using assms
  by (cases ev; cases "live_prompt st")
    (auto simp: own_def same_ids_def reduce_defs terminal_if_live_def activePromptMatches_def
      dest: live_prompt_prompt)

lemma own_emits:
  assumes "own st ev" "emitted (reduce_event st ev cfg now) \<noteq> []"
  shows "length (emitted (reduce_event st ev cfg now)) = 1
    \<and> pp_phase (lf_prompt (after (reduce_event st ev cfg now) st)) = Pp_Terminal"
  using assms
  by (cases ev)
    (auto simp: own_def reduce_defs terminal_if_live_def split: if_splits option.splits)

lemma batch_at_most_one:
  assumes "\<forall>ev\<in>set evs. own st ev" "lf_sessionStatus st = Session_Active"
  shows "length (run_terminals (map (timed cfg clock) evs) st) \<le> 1"
  using assms
proof (induction evs arbitrary: st)
  case (Cons ev evs)
  let ?st = "after (reduce_event st ev cfg (clock ev)) st"
  have ids: "same_ids ?st st" using own_ids Cons.prems(1) by simp
  have own': "\<forall>ev\<in>set evs. own ?st ev" using own_same [OF ids] Cons.prems(1) by simp
  have active: "lf_sessionStatus ?st = Session_Active" using Cons.prems(2) by simp
  show ?case
  proof (cases "emitted (reduce_event st ev cfg (clock ev)) = []")
    case True
    then show ?thesis using Cons.IH [OF own' active] Cons.prems by (simp add: own_step)
  next
    case False
    then have "length (emitted (reduce_event st ev cfg (clock ev))) = 1" "pp_phase (lf_prompt ?st) = Pp_Terminal"
      using own_emits [of st ev cfg "clock ev"] Cons.prems(1) by auto
    then show ?thesis
      using batch_terminal [OF own' active, of cfg clock] Cons.prems by (simp add: own_step)
  qed
qed simp

lemma dispatch_all_count:
  assumes "view (readLifecycleState s) = view st"
  shows "length (snd (dispatch_all others cfg clock b evs s))
       \<le> length (run_terminals (map (timed cfg clock) evs) st)"
  using assms
proof (induction evs arbitrary: s st)
  case (Cons ev evs)
  obtain s1 out1 where p:
    "processLifecycleEvent others cfg (\<not> shouldDeferLifecycleTerminal ev b) (clock ev) ev s = (s1, out1)"
    by fastforce
  have "view (readLifecycleState s1) = view (step (timed cfg clock ev) st)"
    "length out1 \<le> length (emitted (decided st (timed cfg clock ev)))"
    using process_event [OF Cons.prems, of others "timed cfg clock ev" "\<not> shouldDeferLifecycleTerminal ev b"] p
    by auto
  then show ?case using Cons.IH [of s1 "step (timed cfg clock ev) st"] p by (simp add: case_prod_beta Let_def)
qed simp

lemma deferred_batch_silent:
  assumes "\<forall>ev\<in>set evs. shouldDeferLifecycleTerminal ev b"
  shows "snd (dispatch_all others cfg clock b evs s) = []"
  using assms
proof (induction evs arbitrary: s)
  case (Cons ev evs)
  have "snd (processLifecycleEvent others cfg False (clock ev) ev s) = []"
    using process_event [OF refl, of others "timed cfg clock ev" False s] by simp
  then show ?case using Cons by (simp add: case_prod_beta Let_def)
qed simp

lemma batch_kinds:
  assumes "ev \<in> set (alarm_batch now s)"
  shows "DISCONNECT_TERMINAL_LIFECYCLE_EVENTS ev \<or> DISCONNECT_PREEMPTED_PROMPT_DEADLINE_EVENTS ev
    \<or> (\<exists>a c. ev = Ev_Spawn_Failed a c)"
  using assms
  by (auto simp: alarm_batch_def due_events_def Let_def DISCONNECT_TERMINAL_LIFECYCLE_EVENTS_def
      DISCONNECT_PREEMPTED_PROMPT_DEADLINE_EVENTS_def)

end
