(* ===== verification/Session_Tick.thy ===== *)
theory Session_Tick
  imports Session_Alarm
begin

text \<open>
  One tick of the session object's alarm (\<open>runAlarmTick\<close> in \<open>session/durable-object.ts\<close>), as far as it acts on
  the lifecycle store: the early return for a due cleanup retry, the archived guard, the re-projection, the
  reconciliation of a stale reconnect grace with a live socket, the lifecycle batch, and the disconnect tail
  with the authority that may take a disconnect back (\<open>runtime-termination-authority.ts\<close>).

  What the tick learns from outside the store is a record of arguments: the cleanup pointer, the socket, the
  accepted handoff, the kill switch and the provider's answer to the liveness probe.  The passes of other owners
  that run between these steps (plan parking and delivery, the post-execution watchdogs, the no-signal advance,
  the state deadline backstop, Slack recovery) write other keys and are left out, and so are the branches after
  the disconnect tail (auto-close, a spawn in progress, the maximum duration), which a tick reaches only when no
  lifecycle deadline was due.  Where a confirmed death is handed to the prompt queue the tick ends.
\<close>

section \<open>What a tick is given\<close>

record sandbox_socket =
  sk_generation :: "int option"
  sk_sandboxIdTag :: "string option"

record accepted_handoff =
  ho_connectionGeneration :: int
  ho_acceptedAtMs :: int

datatype runtime_liveness = Runtime_Alive | Runtime_Dead | Runtime_Unknown

text \<open>
  \<open>tk_cleanupRetry\<close> is the deadline of the cleanup pointer and \<open>tk_cleanupWork\<close> what handling it leaves of the
  store: a stale pointer is dropped and the alarm re-projected, a live job runs and re-arms or clears its own
  deadline.
\<close>

record tick_input =
  tk_cleanupRetry :: "int option"
  tk_cleanupWork :: "session_store \<Rightarrow> session_store"
  tk_socket :: "sandbox_socket option"
  tk_handoff :: "accepted_handoff option"
  tk_killSwitch :: bool
  tk_knownProvider :: bool
  tk_probe :: runtime_liveness

datatype tick_end =
    Tick_Cleanup | Tick_Archived | Tick_Handled | Tick_Deferred | Tick_Killed | Tick_Fails_Prompt string
  | Tick_Elsewhere

definition dispatchE2BCleanupRetryAlarm :: "tick_input \<Rightarrow> int \<Rightarrow> session_store \<Rightarrow> session_store option" where
  "dispatchE2BCleanupRetryAlarm tv now s =
    (if due (tk_cleanupRetry tv) now then Some (tk_cleanupWork tv s) else None)"

section \<open>The reconnect grace and a live socket\<close>

text \<open>A zero instant is falsy.\<close>

definition marked :: "int option \<Rightarrow> bool" where
  "marked t \<longleftrightarrow> nullish t 0 \<noteq> 0"

definition socketProvesReconnect :: "tick_input \<Rightarrow> int option \<Rightarrow> sandbox_socket \<Rightarrow> bool" where
  "socketProvesReconnect tv disconnectAt sk \<longleftrightarrow>
    \<not> marked disconnectAt
    \<or> (case (sk_generation sk, tk_handoff tv) of
         (Some g, Some h) \<Rightarrow> ho_connectionGeneration h = g \<and> nullish disconnectAt 0 \<le> ho_acceptedAtMs h
       | _ \<Rightarrow> False)"

definition reconcile_reconnect ::
  "other_alarms \<Rightarrow> lifecycle_config \<Rightarrow> (lifecycle_event \<Rightarrow> int) \<Rightarrow> tick_input \<Rightarrow> int \<Rightarrow> session_store \<Rightarrow>
   session_store" where
  "reconcile_reconnect others cfg clock tv now s =
    (case tk_socket tv of
       None \<Rightarrow> s
     | Some sk \<Rightarrow>
         (let liveSandboxId = orelse (dr_sandboxId (ss_row s)) (sk_sandboxIdTag sk);
              ev = Ev_Ws_Connected (nullish liveSandboxId [])
          in if due (dl_sandboxReconnectGrace (ss_deadlines s)) now
                \<and> socketProvesReconnect tv (dr_disconnectStartedAt (ss_row s)) sk \<and> truthy liveSandboxId
             then fst (processLifecycleEvent others cfg False (clock ev) ev s)
             else s))"

text \<open>The store the lifecycle batch reads.\<close>

definition tick_prepared ::
  "other_alarms \<Rightarrow> lifecycle_config \<Rightarrow> (lifecycle_event \<Rightarrow> int) \<Rightarrow> tick_input \<Rightarrow> int \<Rightarrow> session_store \<Rightarrow>
   session_store" where
  "tick_prepared others cfg clock tv now s =
    reconcile_reconnect others cfg clock tv now (rescheduleSessionAlarm others now s)"

section \<open>Taking a disconnect back\<close>

definition decideRuntimeTerminationOnDisconnect ::
  "bool \<Rightarrow> bool \<Rightarrow> bool \<Rightarrow> runtime_liveness option \<Rightarrow> bool" where
  "decideRuntimeTerminationOnDisconnect killSwitchEnabled hasRuntime lossWindowElapsed liveness =
    (killSwitchEnabled \<and> hasRuntime \<and> lossWindowElapsed \<and> liveness = Some Runtime_Dead)"

text \<open>The provider is asked only after the window has passed since the last proven contact of the bridge.\<close>

definition confirmRuntimeDeadBeforeTerminalize :: "tick_input \<Rightarrow> int \<Rightarrow> session_store \<Rightarrow> bool" where
  "confirmRuntimeDeadBeforeTerminalize tv now s =
    (let hasManagedRuntime = (tk_knownProvider tv \<and> truthy (dr_runtimeSandboxId (ss_row s)));
         (lastHeartbeatAt, ageMs, fresh) =
           evaluateSandboxHeartbeatFreshness (nullish (xs_lastHeartbeatAt (nullish (ss_sandbox s) no_sandbox)) None) now;
         lossWindowElapsed = (case ageMs of None \<Rightarrow> False | Some age \<Rightarrow> SANDBOX_LOSS_RECOVERY_BUDGET_MS \<le> age);
         liveness = (if tk_killSwitch tv \<and> hasManagedRuntime \<and> lossWindowElapsed then Some (tk_probe tv) else None)
     in decideRuntimeTerminationOnDisconnect (tk_killSwitch tv) hasManagedRuntime lossWindowElapsed liveness)"

definition prompt_snapshot :: "prompt_part \<Rightarrow> prompt_patch" where
  "prompt_snapshot p = \<lparr>
     xp_phase = Some (pp_phase p), xp_promptId = Some (pp_promptId p),
     xp_startupAttemptId = Some (pp_startupAttemptId p), xp_sandboxId = Some (pp_sandboxId p),
     xp_queuedAt = Some (pp_queuedAt p), xp_sentToBridgeAt = Some (pp_sentToBridgeAt p),
     xp_bridgeAcceptedAt = Some (pp_bridgeAcceptedAt p), xp_codexPromptSentAt = Some (pp_codexPromptSentAt p),
     xp_lastRunningActivityAt = Some (pp_lastRunningActivityAt p),
     xp_terminalErrorCode = Some (pp_terminalErrorCode p)\<rparr>"

datatype disconnect_lane = Lane_Liveness_Expiry | Lane_Reconnect_Grace_Expiry

definition deferDisconnectTerminalize ::
  "other_alarms \<Rightarrow> disconnect_lane \<Rightarrow> lifecycle_state \<Rightarrow> int \<Rightarrow> session_store \<Rightarrow> session_store" where
  "deferDisconnectTerminalize others lane pre now s =
    (let d = lf_deadlines pre;
         nextObservationAt = now + SANDBOX_LOSS_RECOVERY_BUDGET_MS;
         restored = no_deadlines\<lparr>
           xd_promptStartup := Some (dl_promptStartup d),
           xd_promptDispatch := Some (dl_promptDispatch d),
           xd_promptRunningInactivity := Some (dl_promptRunningInactivity d)\<rparr>;
         s1 = s\<lparr>ss_prompt := Some (prompt_snapshot (lf_prompt pre))\<rparr>;
         x = (case lane of
                Lane_Liveness_Expiry \<Rightarrow> no_patch\<lparr>
                  px_sandbox := Some (no_sandbox\<lparr>xs_state := Some (sb_state (lf_sandbox pre))\<rparr>),
                  px_deadlines := Some (restored\<lparr>
                    xd_sandboxLiveness := Some (Some nextObservationAt),
                    xd_sandboxReconnectGrace := Some None\<rparr>)\<rparr>
              | Lane_Reconnect_Grace_Expiry \<Rightarrow> no_patch\<lparr>
                  px_sandbox := Some (no_sandbox\<lparr>
                    xs_state := Some Sb_Reconnecting, xs_disconnectStartedAt := Some (Some now)\<rparr>),
                  px_deadlines := Some (restored\<lparr>
                    xd_sandboxReconnectGrace := Some (Some nextObservationAt),
                    xd_sandboxLiveness := Some None\<rparr>)\<rparr>)
     in rescheduleSessionAlarm others now (applyLifecycleStatePatch False x s1))"

definition markRuntimeKilledLocally :: "session_store \<Rightarrow> session_store" where
  "markRuntimeKilledLocally s = s\<lparr>ss_row := clearTransportMarkers
    ((ss_row s)\<lparr>dr_status := Some ''stopped'', dr_stopReason := Some Boundary_Reaped\<rparr>)\<rparr>"

definition scheduleAutoCloseAfterDisconnect ::
  "other_alarms \<Rightarrow> lifecycle_config \<Rightarrow> int \<Rightarrow> session_store \<Rightarrow> session_store" where
  "scheduleAutoCloseAfterDisconnect others cfg now s =
    rescheduleSessionAlarm others now (fst (processLifecycleEvent others cfg False now Ev_Auto_Close_Scheduled s))"

definition handleDisconnectTerminalize ::
  "other_alarms \<Rightarrow> lifecycle_config \<Rightarrow> tick_input \<Rightarrow> disconnect_lane \<Rightarrow> lifecycle_state \<Rightarrow> int \<Rightarrow>
   session_store \<Rightarrow> session_store \<times> tick_end" where
  "handleDisconnectTerminalize others cfg tv lane pre now s =
    (if \<not> confirmRuntimeDeadBeforeTerminalize tv now s
     then (deferDisconnectTerminalize others lane pre now s, Tick_Deferred)
     else
       (let killed = markRuntimeKilledLocally s; active = map_option fst (ss_activePrompt s)
        in if hasActivePrompt s then (killed, Tick_Fails_Prompt (the active))
           else if \<not> truthy active then (scheduleAutoCloseAfterDisconnect others cfg now killed, Tick_Killed)
           else (rescheduleSessionAlarm others now killed, Tick_Killed)))"

section \<open>The tick\<close>

definition disconnect_origin :: "lifecycle_event list \<Rightarrow> disconnect_lane" where
  "disconnect_origin evs =
    (if list_ex (\<lambda>ev. case ev of Ev_Liveness_Expired _ \<Rightarrow> True | _ \<Rightarrow> False) evs
        \<and> \<not> list_ex (\<lambda>ev. case ev of Ev_Reconnect_Grace_Expired _ \<Rightarrow> True | _ \<Rightarrow> False) evs
     then Lane_Liveness_Expiry else Lane_Reconnect_Grace_Expiry)"

text \<open>The write of \<open>putSandboxStatus\<close> for \<open>ready\<close>: the row's sandbox counts as connected first.\<close>

definition put_ready :: "other_alarms \<Rightarrow> lifecycle_config \<Rightarrow> int \<Rightarrow> session_store \<Rightarrow> session_store" where
  "put_ready others cfg now s =
    (let s1 = (if truthy (dr_sandboxId (ss_row s))
               then fst (processLifecycleEvent others cfg False now (Ev_Ws_Connected (the (dr_sandboxId (ss_row s)))) s)
               else s)
     in s1\<lparr>ss_row := (ss_row s1)\<lparr>dr_status := Some ''ready'', dr_stopReason := None\<rparr>\<rparr>)"

text \<open>
  The marker the tick read at its start, when no lifecycle deadline was due; \<open>SANDBOX_RECONNECT_GRACE_MS\<close> is the
  recovery budget by definition.
\<close>

definition disconnect_tail ::
  "other_alarms \<Rightarrow> lifecycle_config \<Rightarrow> tick_input \<Rightarrow> int \<Rightarrow> lifecycle_state \<Rightarrow> int \<Rightarrow> session_store \<Rightarrow>
   session_store \<times> tick_end" where
  "disconnect_tail others cfg tv disconnectAt pre now s =
    (if tk_socket tv \<noteq> None
     then (rescheduleSessionAlarm others now
             (put_ready others cfg now (s\<lparr>ss_row := clearTransportMarkers (ss_row s)\<rparr>)), Tick_Handled)
     else if SANDBOX_LOSS_RECOVERY_BUDGET_MS \<le> now - disconnectAt
     then handleDisconnectTerminalize others cfg tv Lane_Reconnect_Grace_Expiry pre now s
     else (rescheduleSessionAlarm others now s, Tick_Handled))"

definition lifecycle_tick ::
  "other_alarms \<Rightarrow> lifecycle_config \<Rightarrow> (lifecycle_event \<Rightarrow> int) \<Rightarrow> tick_input \<Rightarrow> int \<Rightarrow> int \<Rightarrow> session_store \<Rightarrow>
   session_store \<times> terminal list \<times> tick_end" where
  "lifecycle_tick others cfg clock tv now later s =
    (case dispatchE2BCleanupRetryAlarm tv now s of
       Some cleaned \<Rightarrow> (cleaned, [], Tick_Cleanup)
     | None \<Rightarrow>
         if ss_archived s then (s\<lparr>ss_alarm := None\<rparr>, [], Tick_Archived)
         else
           (let disconnectAt = dr_disconnectStartedAt (ss_row s);
                s1 = tick_prepared others cfg clock tv now s;
                pre = readLifecycleState s1;
                evs = alarm_batch now s1;
                (s2, out) = dispatchLifecycleAlarm others cfg clock now later s1;
                (s3, fin) =
                  (if has_disconnect evs
                   then handleDisconnectTerminalize others cfg tv (disconnect_origin evs) pre later s2
                   else if evs \<noteq> [] then (s2, Tick_Handled)
                   else if marked disconnectAt
                   then disconnect_tail others cfg tv (nullish disconnectAt 0) pre later s2
                   else (s2, Tick_Elsewhere))
            in (s3, out, fin)))"

section \<open>What the steps keep\<close>

lemma apply_keeps_active:
  "ss_activePrompt (fst (applyLifecycleDecision others applyTerminal now d (s, out))) = ss_activePrompt s"
  by (cases d) (simp_all add: apply_patch_sel finalizeSandboxStopped_def rescheduleSessionAlarm_def)

lemma fold_keeps_active:
  "ss_activePrompt (fst (fold (applyLifecycleDecision others applyTerminal now) ds a)) = ss_activePrompt (fst a)"
proof (induction ds arbitrary: a)
  case (Cons d ds)
  then show ?case using apply_keeps_active [of others applyTerminal now d "fst a" "snd a"] by simp
qed simp

lemma dispatch_keeps_active:
  "ss_activePrompt (fst (dispatch_all others cfg clock b evs s)) = ss_activePrompt s"
  by (induction evs arbitrary: s) (simp_all add: case_prod_beta Let_def processLifecycleEvent_def fold_keeps_active)

lemma alarm_keeps_active:
  "hasActivePrompt (fst (dispatchLifecycleAlarm others cfg clock now later s)) = hasActivePrompt s"
  by (simp add: dispatchLifecycleAlarm_def Let_def case_prod_beta hasActivePrompt_def rescheduleSessionAlarm_def
      dispatch_keeps_active)

lemma reschedule_keeps_active: "hasActivePrompt (rescheduleSessionAlarm others now s) = hasActivePrompt s"
  by (simp add: hasActivePrompt_def rescheduleSessionAlarm_def)

text \<open>What deferral leaves: the prompt and its own deadlines as they were before the batch.\<close>

lemma snapshot_sel [simp]:
  "xp_phase (prompt_snapshot p) = Some (pp_phase p)"
  "xp_promptId (prompt_snapshot p) = Some (pp_promptId p)"
  "xp_startupAttemptId (prompt_snapshot p) = Some (pp_startupAttemptId p)"
  "xp_sandboxId (prompt_snapshot p) = Some (pp_sandboxId p)"
  "xp_queuedAt (prompt_snapshot p) = Some (pp_queuedAt p)"
  "xp_sentToBridgeAt (prompt_snapshot p) = Some (pp_sentToBridgeAt p)"
  "xp_bridgeAcceptedAt (prompt_snapshot p) = Some (pp_bridgeAcceptedAt p)"
  "xp_codexPromptSentAt (prompt_snapshot p) = Some (pp_codexPromptSentAt p)"
  "xp_lastRunningActivityAt (prompt_snapshot p) = Some (pp_lastRunningActivityAt p)"
  "xp_terminalErrorCode (prompt_snapshot p) = Some (pp_terminalErrorCode p)"
  by (simp_all add: prompt_snapshot_def)

lemma deferral_prompt:
  assumes "pp_promptId (lf_prompt pre) = Some p"
  shows "(lf_prompt (readLifecycleState (deferDisconnectTerminalize others lane pre now s)))\<lparr>pp_sandboxId := None\<rparr>
       = (lf_prompt pre)\<lparr>pp_sandboxId := None\<rparr>"
  using assms
  by (cases lane)
    (simp_all add: deferDisconnectTerminalize_def Let_def read_reschedule read_prompt apply_patch_sel)

lemma deferral_sandbox:
  "sb_state (lf_sandbox (readLifecycleState (deferDisconnectTerminalize others lane pre now s))) =
    (case lane of Lane_Liveness_Expiry \<Rightarrow> sb_state (lf_sandbox pre)
     | Lane_Reconnect_Grace_Expiry \<Rightarrow> Sb_Reconnecting)"
  by (cases lane)
    (simp_all add: deferDisconnectTerminalize_def Let_def read_reschedule read_fields apply_patch_sel merge_sandbox_def)

lemma deferral_watchdog:
  assumes "pp_promptId (lf_prompt pre) = Some p" "hasActivePrompt s" "watchdog pre = Some t"
  shows "watchdog (readLifecycleState (deferDisconnectTerminalize others lane pre now s)) = Some t"
proof -
  define x where "x = deferDisconnectTerminalize others lane pre now s"
  obtain y where y: "x = rescheduleSessionAlarm others now y" "hasActivePrompt y"
    "lf_prompt (readLifecycleState x) = lf_prompt (readLifecycleState y)"
    "dl_promptStartup (ss_deadlines y) = dl_promptStartup (lf_deadlines pre)"
    "dl_promptDispatch (ss_deadlines y) = dl_promptDispatch (lf_deadlines pre)"
    "dl_promptRunningInactivity (ss_deadlines y) = dl_promptRunningInactivity (lf_deadlines pre)"
  proof -
    show ?thesis
      using assms(2)
      by (intro that [OF x_def [unfolded deferDisconnectTerminalize_def Let_def]])
        (cases lane; simp add: x_def deferDisconnectTerminalize_def Let_def hasActivePrompt_def apply_patch_sel
          read_reschedule)+
  qed
  have "pp_phase (lf_prompt (readLifecycleState y)) = pp_phase (lf_prompt pre)"
    "pp_codexPromptSentAt (lf_prompt (readLifecycleState y)) = pp_codexPromptSentAt (lf_prompt pre)"
    using deferral_prompt [OF assms(1), of others lane now s, folded x_def] y(3)
    by (metis prompt_part.select_convs prompt_part.surjective prompt_part.update_convs(4))+
  then have "watchdog (readLifecycleState y) = Some t"
    using assms(3) y(4-6) by (auto simp: watchdog_def read_sel split: prompt_phase.splits)
  then show ?thesis
    using watchdog_survives [OF _ y(2)] y(1) x_def by metis
qed

lemma view_prompt:
  assumes "view a = view b"
  shows "watchdog a = watchdog b" "at_work a = at_work b"
    "pp_phase (lf_prompt a) = pp_phase (lf_prompt b)" "pp_promptId (lf_prompt a) = pp_promptId (lf_prompt b)"
proof -
  have v: "watchdog (view st) = watchdog st" "at_work (view st) = at_work st"
    "pp_phase (lf_prompt (view st)) = pp_phase (lf_prompt st)"
    "pp_promptId (lf_prompt (view st)) = pp_promptId (lf_prompt st)" for st
    by (simp_all add: watchdog_def at_work_def cong: prompt_phase.case_cong)
  show "watchdog a = watchdog b" "at_work a = at_work b"
    "pp_phase (lf_prompt a) = pp_phase (lf_prompt b)" "pp_promptId (lf_prompt a) = pp_promptId (lf_prompt b)"
    using assms v by metis+
qed

lemma process_keeps_active:
  "hasActivePrompt (fst (processLifecycleEvent others cfg b now ev s)) = hasActivePrompt s"
  by (simp add: processLifecycleEvent_def hasActivePrompt_def fold_keeps_active)

lemma prepared_active [simp]: "hasActivePrompt (tick_prepared others cfg clock tv now s) = hasActivePrompt s"
  by (simp add: tick_prepared_def reconcile_reconnect_def Let_def process_keeps_active reschedule_keeps_active
      split: option.split)

text \<open>A prompt under a deadline of its own: what the steps of a tick carry to the batch.\<close>

definition guarded :: "string \<Rightarrow> int \<Rightarrow> session_store \<Rightarrow> bool" where
  "guarded p t s \<longleftrightarrow>
    \<not> ss_archived s \<and> hasActivePrompt s \<and> at_work (readLifecycleState s)
    \<and> pp_promptId (lf_prompt (readLifecycleState s)) = Some p \<and> watchdog (readLifecycleState s) = Some t"

lemma guarded_reschedule: "guarded p t s \<Longrightarrow> guarded p t (rescheduleSessionAlarm others now s)"
  using watchdog_survives [of s t others now]
  by (auto simp: guarded_def reschedule_keeps_active at_work_def read_reschedule)

lemma ws_connected_view:
  assumes "\<not> ss_archived s"
  shows "\<exists>x. px_prompt x = None \<and> px_review x = None
    \<and> (\<exists>d. px_deadlines x = Some d \<and> xd_promptStartup d = None \<and> xd_promptDispatch d = None
           \<and> xd_promptRunningInactivity d = None)
    \<and> view (readLifecycleState (fst (processLifecycleEvent others cfg b now (Ev_Ws_Connected i) s)))
        = view (overlay (readLifecycleState s) x)"
proof -
  let ?e = "\<lparr>te_now = now, te_cfg = cfg, te_event = Ev_Ws_Connected i\<rparr>"
  have "view (readLifecycleState (fst (processLifecycleEvent others cfg b now (Ev_Ws_Connected i) s)))
      = view (step ?e (readLifecycleState s))"
    using process_event [OF refl, of others ?e b s] by simp
  moreover have "decided (readLifecycleState s) ?e = reduce_ws_connected (readLifecycleState s) i cfg now"
    using assms by (simp add: decided_cases read_sel)
  ultimately show ?thesis
    by (simp add: step_def reduce_ws_connected_def) (rule exI, rule conjI [rotated], rule conjI [rotated],
        rule conjI [rotated], rule refl, simp_all)
qed

lemma guarded_ws_connected:
  assumes "guarded p t s"
  shows "guarded p t (fst (processLifecycleEvent others cfg b now (Ev_Ws_Connected i) s))"
proof -
  let ?s = "fst (processLifecycleEvent others cfg b now (Ev_Ws_Connected i) s)"
  have a: "\<not> ss_archived s" using assms by (simp add: guarded_def)
  obtain x d where x: "px_prompt x = None" "px_deadlines x = Some d" "xd_promptStartup d = None"
      "xd_promptDispatch d = None" "xd_promptRunningInactivity d = None"
    and v: "view (readLifecycleState ?s) = view (overlay (readLifecycleState s) x)"
    using ws_connected_view [OF a] by blast
  have "lf_sessionStatus (readLifecycleState ?s) = lf_sessionStatus (readLifecycleState s)"
    using view_eqD(1) [OF v] by simp
  then have "\<not> ss_archived ?s" using a by (auto simp: read_sel split: if_splits)
  moreover have "watchdog (overlay (readLifecycleState s) x) = watchdog (readLifecycleState s)"
    "at_work (overlay (readLifecycleState s) x) = at_work (readLifecycleState s)"
    "lf_prompt (overlay (readLifecycleState s) x) = lf_prompt (readLifecycleState s)"
    using x by (auto simp: watchdog_def at_work_def split: prompt_phase.split)
  ultimately show ?thesis
    using assms view_prompt [OF v] by (simp add: guarded_def process_keeps_active)
qed

lemma guarded_prepared: "guarded p t s \<Longrightarrow> guarded p t (tick_prepared others cfg clock tv now s)"
  by (auto simp: tick_prepared_def reconcile_reconnect_def Let_def intro: guarded_reschedule guarded_ws_connected
      split: option.split)

lemma process_archived [simp]:
  "ss_archived (fst (processLifecycleEvent others cfg b t ev s)) = ss_archived s"
  using view_eqD(1) [OF conjunct1 [OF process_event [OF refl,
        of others "\<lparr>te_now = t, te_cfg = cfg, te_event = ev\<rparr>" b s]]]
  by (simp add: step_def read_sel split: if_splits)

lemma prepared_archived [simp]: "ss_archived (tick_prepared others cfg clock tv now s) = ss_archived s"
  by (simp add: tick_prepared_def reconcile_reconnect_def Let_def split: option.split)

lemma dispatch_archived [simp]:
  "ss_archived (fst (dispatchLifecycleAlarm others cfg clock now later s)) = ss_archived s"
proof -
  have "ss_archived (fst (dispatch_all others cfg clock b evs s)) = ss_archived s" for b evs
    by (induction evs arbitrary: s) (simp_all add: case_prod_beta Let_def)
  then show ?thesis by (simp add: dispatchLifecycleAlarm_def Let_def case_prod_beta)
qed

lemma killed_prompt [simp]:
  "pp_phase (lf_prompt (readLifecycleState (markRuntimeKilledLocally s))) = pp_phase (lf_prompt (readLifecycleState s))"
  by (simp add: markRuntimeKilledLocally_def read_fields)

section \<open>What a tick does to a guarded prompt\<close>

lemma tick_unfold:
  assumes "\<not> due (tk_cleanupRetry tv) now" "\<not> ss_archived s"
    and "s1 = tick_prepared others cfg clock tv now s" "alarm_batch now s1 \<noteq> []"
    and "dispatchLifecycleAlarm others cfg clock now later s1 = (s2, out)"
  shows "lifecycle_tick others cfg clock tv now later s =
    (if has_disconnect (alarm_batch now s1)
     then (let (s3, fin) = handleDisconnectTerminalize others cfg tv (disconnect_origin (alarm_batch now s1))
                             (readLifecycleState s1) later s2
           in (s3, out, fin))
     else (s2, out, Tick_Handled))"
  using assms by (simp add: lifecycle_tick_def dispatchE2BCleanupRetryAlarm_def Let_def)

text \<open>The end of a tick that had no disconnect in its batch, or whose disconnect was confirmed or deferred.\<close>

lemma tick_guarded:
  assumes g: "guarded p t s" and "p \<noteq> []" "t \<le> now" and c: "\<not> due (tk_cleanupRetry tv) now"
    and s1: "s1 = tick_prepared others cfg clock tv now s"
    and run: "lifecycle_tick others cfg clock tv now later s = (s', out, fin)"
  shows "if has_disconnect (alarm_batch now s1)
    then fin = Tick_Deferred
         \<and> s' = deferDisconnectTerminalize others (disconnect_origin (alarm_batch now s1)) (readLifecycleState s1)
                  later (fst (dispatchLifecycleAlarm others cfg clock now later s1))
       \<or> (\<exists>q. fin = Tick_Fails_Prompt q) \<and> pp_phase (lf_prompt (readLifecycleState s')) = Pp_Terminal
    else fin = Tick_Handled \<and> pp_phase (lf_prompt (readLifecycleState s')) = Pp_Terminal
         \<and> (\<exists>c r. out = [(p, c, r)])"
proof -
  have g1: "guarded p t s1" unfolding s1 by (rule guarded_prepared [OF g])
  obtain s2 out2 where d: "dispatchLifecycleAlarm others cfg clock now later s1 = (s2, out2)" by fastforce
  have ends: "alarm_batch now s1 \<noteq> []" "pp_phase (lf_prompt (readLifecycleState s2)) = Pp_Terminal"
    "\<not> has_disconnect (alarm_batch now s1) \<longrightarrow> (\<exists>c r. out2 = [(p, c, r)])"
    using alarm_ends_prompt [of s1 p t now others cfg clock later] g1 assms(2,3) d by (auto simp: guarded_def)
  have active: "hasActivePrompt s2"
    using alarm_keeps_active [of others cfg clock now later s1] g1 d by (simp add: guarded_def)
  have "\<not> ss_archived s" using g by (simp add: guarded_def)
  note u = tick_unfold [OF c this s1 ends(1) d]
  show ?thesis
    using run ends(2,3) active d unfolding u
    by (auto simp: handleDisconnectTerminalize_def Let_def split: if_splits)
qed

lemma guarded_deferred:
  assumes g: "guarded p t s1" and pre: "pre = readLifecycleState s1"
    and s': "s' = deferDisconnectTerminalize others lane pre later (fst (dispatchLifecycleAlarm others cfg clock now later s1))"
  shows "guarded p t s'"
proof -
  let ?s2 = "fst (dispatchLifecycleAlarm others cfg clock now later s1)"
  have p: "pp_promptId (lf_prompt pre) = Some p" "watchdog pre = Some t" "at_work pre"
    using g pre by (simp_all add: guarded_def)
  have active: "hasActivePrompt ?s2" using g by (simp add: guarded_def alarm_keeps_active)
  have prompt: "(lf_prompt (readLifecycleState s'))\<lparr>pp_sandboxId := None\<rparr> = (lf_prompt pre)\<lparr>pp_sandboxId := None\<rparr>"
    using deferral_prompt [OF p(1)] s' by simp
  have "pp_phase (lf_prompt (readLifecycleState s')) = pp_phase (lf_prompt pre)"
    "pp_promptId (lf_prompt (readLifecycleState s')) = pp_promptId (lf_prompt pre)"
    using arg_cong [OF prompt, of pp_phase] arg_cong [OF prompt, of pp_promptId] by simp_all
  moreover have "watchdog (readLifecycleState s') = Some t"
    using deferral_watchdog [OF p(1) active p(2)] s' by simp
  moreover have "hasActivePrompt s'" "ss_archived s' = ss_archived ?s2"
    using active unfolding s' by (cases lane; simp add: deferDisconnectTerminalize_def Let_def hasActivePrompt_def
        apply_patch_sel rescheduleSessionAlarm_def)+
  moreover have "\<not> ss_archived ?s2" using g dispatch_archived by (simp add: guarded_def)
  ultimately show ?thesis using p by (simp add: guarded_def at_work_def)
qed

text \<open>A deferral moves the next observation a window ahead: until then no disconnect is due.\<close>

lemma deferred_deadlines:
  fixes others lane pre later s2
  defines "s' \<equiv> deferDisconnectTerminalize others lane pre later s2"
  assumes "now < later + SANDBOX_LOSS_RECOVERY_BUDGET_MS"
  shows "\<not> due (dl_sandboxReconnectGrace (valid_deadlines s')) now"
    and "\<not> due (dl_sandboxLiveness (valid_deadlines s')) now"
  using assms(2)
  by (cases lane; simp add: s'_def deferDisconnectTerminalize_def Let_def apply_patch_sel valid_deadlines_def
      keep_if_def due_def)+

lemma no_disconnect_batch:
  assumes "\<not> due (dl_sandboxReconnectGrace (ss_deadlines s)) now" "\<not> due (dl_sandboxLiveness (ss_deadlines s)) now"
  shows "\<not> has_disconnect (alarm_batch now s)"
  using assms
  by (auto simp: has_disconnect_def list_ex_iff alarm_batch_def due_events_def Let_def read_sel
      DISCONNECT_TERMINAL_LIFECYCLE_EVENTS_def)

lemma deferred_then_quiet:
  assumes s': "s' = deferDisconnectTerminalize others lane pre later s2"
    and "now < later + SANDBOX_LOSS_RECOVERY_BUDGET_MS"
  shows "\<not> has_disconnect (alarm_batch now (tick_prepared others cfg clock tv now s'))"
proof -
  note d = deferred_deadlines [OF assms(2), of others lane pre s2, folded s']
  have "tick_prepared others cfg clock tv now s' = rescheduleSessionAlarm others now s'"
    using d by (simp add: tick_prepared_def reconcile_reconnect_def Let_def split: option.split)
  then show ?thesis using d by (simp add: no_disconnect_batch)
qed

text \<open>The tick has ended the prompt: it is terminal, and one terminal, its own, was handed over.\<close>

definition ended_once :: "string \<Rightarrow> session_store \<times> terminal list \<times> tick_end \<Rightarrow> bool" where
  "ended_once p result =
    (case result of (s', out, fin) \<Rightarrow>
       fin = Tick_Handled \<and> pp_phase (lf_prompt (readLifecycleState s')) = Pp_Terminal \<and> map fst out = [p])"

lemma ended_once_handled: "ended_once p r \<Longrightarrow> snd (snd r) = Tick_Handled"
  by (auto simp: ended_once_def)

text \<open>Either the tick ends the prompt, or it defers and the next tick inside the window ends it.\<close>

lemma tick_settles:
  assumes g: "guarded p t s" and "p \<noteq> []" "t \<le> now" and c: "\<not> due (tk_cleanupRetry tv) now"
    and r: "r = lifecycle_tick others cfg clock tv now later s"
  shows "if \<not> has_disconnect (alarm_batch now (tick_prepared others cfg clock tv now s)) then ended_once p r
    else (\<exists>q. snd (snd r) = Tick_Fails_Prompt q) \<and> pp_phase (lf_prompt (readLifecycleState (fst r))) = Pp_Terminal
       \<or> snd (snd r) = Tick_Deferred \<and> at_work (readLifecycleState (fst r))
         \<and> pp_promptId (lf_prompt (readLifecycleState (fst r))) = Some p
         \<and> watchdog (readLifecycleState (fst r)) = Some t
         \<and> (\<forall>clock' tv' now' later'. t \<le> now' \<and> now' < later + SANDBOX_LOSS_RECOVERY_BUDGET_MS
              \<and> \<not> due (tk_cleanupRetry tv') now' \<longrightarrow>
              ended_once p (lifecycle_tick others cfg clock' tv' now' later' (fst r)))"
proof -
  let ?s1 = "tick_prepared others cfg clock tv now s"
  obtain s' out fin where run: "lifecycle_tick others cfg clock tv now later s = (s', out, fin)"
    by (metis prod_cases3)
  note first = tick_guarded [OF g assms(2,3) c refl run]
  have again: "ended_once p (lifecycle_tick others cfg clock' tv' now' later' s')"
    if s': "s' = deferDisconnectTerminalize others (disconnect_origin (alarm_batch now ?s1)) (readLifecycleState ?s1)
          later (fst (dispatchLifecycleAlarm others cfg clock now later ?s1))"
      and "t \<le> now'" "now' < later + SANDBOX_LOSS_RECOVERY_BUDGET_MS" "\<not> due (tk_cleanupRetry tv') now'"
    for clock' tv' now' later'
  proof -
    obtain s'' out' fin' where run': "lifecycle_tick others cfg clock' tv' now' later' s' = (s'', out', fin')"
      by (metis prod_cases3)
    have g': "guarded p t s'" by (rule guarded_deferred [OF guarded_prepared [OF g] refl s'])
    show ?thesis
      using tick_guarded [OF g' assms(2) that(2,4) refl run'] deferred_then_quiet [OF s' that(3)] run'
      by (auto simp: ended_once_def)
  qed
  show ?thesis
  proof (cases "has_disconnect (alarm_batch now ?s1)")
    case True
    then consider
      (deferred) "fin = Tick_Deferred"
        "s' = deferDisconnectTerminalize others (disconnect_origin (alarm_batch now ?s1)) (readLifecycleState ?s1)
          later (fst (dispatchLifecycleAlarm others cfg clock now later ?s1))"
      | (killed) "\<exists>q. fin = Tick_Fails_Prompt q" "pp_phase (lf_prompt (readLifecycleState s')) = Pp_Terminal"
      using first by auto
    then show ?thesis
    proof cases
      case deferred
      have "guarded p t s'" by (rule guarded_deferred [OF guarded_prepared [OF g] refl deferred(2)])
      then show ?thesis using True deferred(1) again [OF deferred(2)] run r by (simp add: guarded_def)
    qed (use True run r in simp)
  qed (use first run r in \<open>auto simp: ended_once_def\<close>)
qed

section \<open>The terminals of a tick\<close>

lemma tick_terminals:
  "fst (snd (lifecycle_tick others cfg clock tv now later s)) =
    (if due (tk_cleanupRetry tv) now \<or> ss_archived s then []
     else snd (dispatchLifecycleAlarm others cfg clock now later (tick_prepared others cfg clock tv now s)))"
  by (simp add: lifecycle_tick_def dispatchE2BCleanupRetryAlarm_def Let_def case_prod_beta)

lemma tick_defers:
  assumes "lifecycle_tick others cfg clock tv now later s = (s', out, Tick_Deferred)"
  shows "\<exists>lane. s' = deferDisconnectTerminalize others lane
      (readLifecycleState (tick_prepared others cfg clock tv now s)) later
      (fst (dispatchLifecycleAlarm others cfg clock now later (tick_prepared others cfg clock tv now s)))"
  using assms
  by (auto simp: lifecycle_tick_def dispatchE2BCleanupRetryAlarm_def Let_def case_prod_beta
      handleDisconnectTerminalize_def disconnect_tail_def split: if_splits)

end
