(* ===== verification/Session_Watchdog.thy ===== *)
theory Session_Watchdog
  imports Session_Tick
begin

text \<open>
  What the deadlines and the alarm promise: a prompt at work always has a deadline that ends it, the re-projected
  alarm is the soonest deadline it can serve, and two ways the promise is lost, one in the reducer and one in
  the applier.
\<close>

section \<open>A prompt at work is always ended\<close>

text \<open>
  C27. From a fresh session, through every event run in which no prompt has the empty id, no stop is finalized
  under a prompt at work and no late acceptance or progress report reaches a running prompt, a prompt that is
  dispatching or running, and that the prompts table holds as processing, has an armed deadline of its own.
  Take the first alarm tick at or past it that no due cleanup retry takes over.  With no disconnect in its batch
  the tick leaves the prompt terminal and hands over exactly one terminal, for that prompt.  With a disconnect
  it either leaves the prompt terminal and hands it to the prompt queue, the provider having confirmed the
  death, or takes the disconnect back: the prompt is at work again under the same deadline, and then any such
  tick before the next observation is due ends it as in the first case.
\<close>

theorem watchdog_ends_every_prompt:
  assumes run: "benign_run es createEmptyLifecycleState"
    and store: "view (readLifecycleState s) = view (run es createEmptyLifecycleState)"
    and work: "at_work (readLifecycleState s)" "hasActivePrompt s"
  shows "\<exists>p t. pp_promptId (lf_prompt (readLifecycleState s)) = Some p
    \<and> watchdog (readLifecycleState s) = Some t
    \<and> (\<forall>others cfg clock tv now later r.
        t \<le> now \<and> \<not> due (tk_cleanupRetry tv) now \<and> r = lifecycle_tick others cfg clock tv now later s \<longrightarrow>
        (if \<not> has_disconnect (alarm_batch now (tick_prepared others cfg clock tv now s)) then ended_once p r
         else (\<exists>q. snd (snd r) = Tick_Fails_Prompt q)
              \<and> pp_phase (lf_prompt (readLifecycleState (fst r))) = Pp_Terminal
            \<or> snd (snd r) = Tick_Deferred \<and> at_work (readLifecycleState (fst r))
              \<and> pp_promptId (lf_prompt (readLifecycleState (fst r))) = Some p
              \<and> watchdog (readLifecycleState (fst r)) = Some t
              \<and> (\<forall>clock' tv' now' later'. t \<le> now' \<and> now' < later + SANDBOX_LOSS_RECOVERY_BUDGET_MS
                   \<and> \<not> due (tk_cleanupRetry tv') now' \<longrightarrow>
                   ended_once p (lifecycle_tick others cfg clock' tv' now' later' (fst r)))))"
proof -
  have w: "watched (readLifecycleState s)"
    using watched_run [OF watched_empty run] view_watched [OF store] by simp
  then obtain p t where p: "pp_promptId (lf_prompt (readLifecycleState s)) = Some p" "p \<noteq> []"
    and t: "watchdog (readLifecycleState s) = Some t"
    using work(1) by (auto simp: watched_def)
  have "\<not> ss_archived s"
    using view_eqD(1) [OF store] by (auto simp: read_sel createEmptyLifecycleState_def split: if_splits)
  then have g: "guarded p t s" using work p(1) t by (simp add: guarded_def)
  show ?thesis
  proof (intro exI [of _ p] exI [of _ t] conjI allI impI p(1) t)
    fix others cfg clock tv now later and r :: "session_store \<times> terminal list \<times> tick_end"
    assume a: "t \<le> now \<and> \<not> due (tk_cleanupRetry tv) now \<and> r = lifecycle_tick others cfg clock tv now later s"
    show "if \<not> has_disconnect (alarm_batch now (tick_prepared others cfg clock tv now s)) then ended_once p r
       else (\<exists>q. snd (snd r) = Tick_Fails_Prompt q)
              \<and> pp_phase (lf_prompt (readLifecycleState (fst r))) = Pp_Terminal
            \<or> snd (snd r) = Tick_Deferred \<and> at_work (readLifecycleState (fst r))
              \<and> pp_promptId (lf_prompt (readLifecycleState (fst r))) = Some p
              \<and> watchdog (readLifecycleState (fst r)) = Some t
              \<and> (\<forall>clock' tv' now' later'. t \<le> now' \<and> now' < later + SANDBOX_LOSS_RECOVERY_BUDGET_MS
                   \<and> \<not> due (tk_cleanupRetry tv') now' \<longrightarrow>
                   ended_once p (lifecycle_tick others cfg clock' tv' now' later' (fst r)))"
      by (rule tick_settles [OF g p(2)]) (use a in simp_all)
  qed
qed

text \<open>A session row that has nothing stored.\<close>

definition fresh_row :: sandbox_row where
  "fresh_row = \<lparr>dr_status = None, dr_sandboxId = None, dr_disconnectStartedAt = None,
     dr_autoCloseScheduledAt = None, dr_spawnRetryCount = 0, dr_runtimeSandboxId = None,
     dr_modalObjectId = None, dr_stopReason = None, dr_pendingPromptDispatch = False\<rparr>"

definition fresh_store :: session_store where
  "fresh_store = \<lparr>ss_archived = False, ss_sandbox = None, ss_prompt = None, ss_spawnInProgress = None,
     ss_spawnFailureCount = None, ss_lastSpawnFailureAt = None,
     ss_deadlines = lf_deadlines createEmptyLifecycleState, ss_review = lf_review createEmptyLifecycleState,
     ss_row = fresh_row, ss_activePrompt = None, ss_alarm = None\<rparr>"

text \<open>A running prompt whose bridge went silent: its inactivity and the sandbox's liveness will both be due.
  The prompts table learns of the prompt through the queue, outside the lifecycle events.\<close>

definition silent_run :: "timed_event list" where
  "silent_run = map (timed (defaultLifecycleConfig 900000 180000) (\<lambda>_. 1000))
     [Ev_Ws_Connected ''sb1'', Ev_Enqueued ''p1'', Ev_Sent_To_Bridge ''p1'' ''sb1'',
      Ev_Running_Activity ''p1'' ''sb1'' None]"

definition silent_store :: session_store where
  "silent_store = (fst (store_run (\<lambda>_. []) True silent_run fresh_store))
     \<lparr>ss_activePrompt := Some (''p1'', Some Row_Processing)\<rparr>"

text \<open>A tick with no cleanup due and no socket, whose provider says the runtime is alive.\<close>

definition alive_tick :: tick_input where
  "alive_tick = \<lparr>tk_cleanupRetry = None, tk_cleanupWork = id, tk_socket = None, tk_handoff = None,
     tk_killSwitch = True, tk_knownProvider = True, tk_probe = Runtime_Alive\<rparr>"

definition deferred_tick :: "session_store \<times> terminal list \<times> tick_end" where
  "deferred_tick = lifecycle_tick (\<lambda>_. []) (defaultLifecycleConfig 900000 180000) (\<lambda>_. 901000) alive_tick
     901000 901000 silent_store"

theorem watchdog_ends_every_prompt_witness:
  "watchdog (readLifecycleState silent_store) = Some 901000
   \<and> snd (snd deferred_tick) = Tick_Deferred
   \<and> watchdog (readLifecycleState (fst deferred_tick)) = Some 901000
   \<and> ended_once ''p1'' (lifecycle_tick (\<lambda>_. []) (defaultLifecycleConfig 900000 180000) (\<lambda>_. 902000) alive_tick
         902000 902000 (fst deferred_tick))"
proof -
  have h: "benign_run silent_run createEmptyLifecycleState"
    "view (readLifecycleState silent_store) = view (run silent_run createEmptyLifecycleState)"
    "at_work (readLifecycleState silent_store)" "hasActivePrompt silent_store"
    by code_simp+
  have t: "watchdog (readLifecycleState silent_store) = Some 901000"
    and p: "pp_promptId (lf_prompt (readLifecycleState silent_store)) = Some ''p1''"
    and fin: "snd (snd deferred_tick) = Tick_Deferred"
    by code_simp+
  have c: "\<not> due (tk_cleanupRetry alive_tick) n" for n by (simp add: alive_tick_def due_def)
  have r: "901000 \<le> (901000 :: int) \<and> \<not> due (tk_cleanupRetry alive_tick) 901000
      \<and> deferred_tick = lifecycle_tick (\<lambda>_. []) (defaultLifecycleConfig 900000 180000) (\<lambda>_. 901000) alive_tick
          901000 901000 silent_store"
    using c by (simp add: deferred_tick_def)
  have "watchdog (readLifecycleState (fst deferred_tick)) = Some 901000
      \<and> (\<forall>clock' tv' now' later'. 901000 \<le> now' \<and> now' < 901000 + SANDBOX_LOSS_RECOVERY_BUDGET_MS
           \<and> \<not> due (tk_cleanupRetry tv') now' \<longrightarrow>
           ended_once ''p1'' (lifecycle_tick (\<lambda>_. []) (defaultLifecycleConfig 900000 180000) clock' tv' now' later'
             (fst deferred_tick)))"
  proof -
    obtain p' t' where w: "Some ''p1'' = Some p'" "Some 901000 = Some t'"
      and all: "if \<not> has_disconnect (alarm_batch 901000 (tick_prepared (\<lambda>_. []) (defaultLifecycleConfig 900000 180000)
            (\<lambda>_. 901000) alive_tick 901000 silent_store)) then ended_once p' deferred_tick
         else (\<exists>q. snd (snd deferred_tick) = Tick_Fails_Prompt q)
              \<and> pp_phase (lf_prompt (readLifecycleState (fst deferred_tick))) = Pp_Terminal
            \<or> snd (snd deferred_tick) = Tick_Deferred \<and> at_work (readLifecycleState (fst deferred_tick))
              \<and> pp_promptId (lf_prompt (readLifecycleState (fst deferred_tick))) = Some p'
              \<and> watchdog (readLifecycleState (fst deferred_tick)) = Some t'
              \<and> (\<forall>clock' tv' now' later'. t' \<le> now' \<and> now' < 901000 + SANDBOX_LOSS_RECOVERY_BUDGET_MS
                   \<and> \<not> due (tk_cleanupRetry tv') now' \<longrightarrow>
                   ended_once p' (lifecycle_tick (\<lambda>_. []) (defaultLifecycleConfig 900000 180000) clock' tv' now' later'
                     (fst deferred_tick)))"
      using watchdog_ends_every_prompt [OF h] r unfolding t p by blast
    then show ?thesis using fin ended_once_handled [of _ deferred_tick] by (auto split: if_splits)
  qed
  then show ?thesis
    using t fin c by (simp add: SANDBOX_LOSS_RECOVERY_BUDGET_MS_def)
qed

section \<open>The re-projected alarm\<close>

text \<open>A candidate the alarm can serve: in the future, or past but of a source that catches up.\<close>

definition serviceable :: "int \<Rightarrow> string \<times> int \<Rightarrow> bool" where
  "serviceable now c \<longleftrightarrow> now < snd c \<or> fst c \<in> set IMMEDIATE_CATCH_UP_ALARM_SOURCES"

lemma soonest_Min:
  "soonest cs = (if cs = [] then None else Some (Min (snd ` set cs)))"
proof (induction cs)
  case (Cons c cs)
  then show ?case by (cases c; cases cs) auto
qed simp

text \<open>
  C28. The alarm left by a re-projection is exactly the soonest of the deadlines it can serve, no earlier than
  one second from now; there is no alarm exactly when there is no such deadline.
\<close>

theorem alarm_is_soonest_serviceable:
  "ss_alarm (rescheduleSessionAlarm others now s) =
    (let ts = snd ` set (filter (serviceable now) (alarm_candidates others s))
     in if ts = {} then None else Some (max (Min ts) (now + MIN_ALARM_DELAY_MS)))"
proof -
  let ?cs = "alarm_candidates others s"
  let ?ts = "snd ` set (filter (serviceable now) ?cs)"
  show ?thesis
  proof (cases "\<exists>c\<in>set ?cs. snd c \<le> now \<and> fst c \<in> set IMMEDIATE_CATCH_UP_ALARM_SOURCES")
    case True
    then obtain c where c: "c \<in> set ?cs" "snd c \<le> now" "serviceable now c"
      by (auto simp: serviceable_def)
    have m: "snd c \<in> ?ts" by (rule imageI) (use c in simp)
    have "Min ?ts \<le> snd c" by (rule Min_le [OF _ m]) simp
    then have "Min ?ts \<le> now" using c(2) by simp
    moreover have "?ts \<noteq> {}" using m by (metis empty_iff)
    ultimately show ?thesis using True by (simp add: choose_alarm_def MIN_ALARM_DELAY_MS_def Let_def)
  next
    case False
    then have "filter (serviceable now) ?cs = filter (\<lambda>c. now < snd c) ?cs"
      by (intro filter_cong) (auto simp: serviceable_def)
    moreover have "snd ` set cs = {} \<longleftrightarrow> cs = []" for cs :: "(string \<times> int) list" by simp
    ultimately show ?thesis using False by (auto simp: choose_alarm_def soonest_Min Let_def simp del: set_filter)
  qed
qed

section \<open>Heartbeats and the other owners of the alarm\<close>

text \<open>
  The alarm's fate while heartbeats arrive: whether it rang before one of them, and the store they leave.
\<close>

fun beats ::
  "other_alarms \<Rightarrow> lifecycle_config \<Rightarrow> string \<Rightarrow> int list \<Rightarrow> session_store \<Rightarrow> session_store \<times> bool" where
  "beats others cfg i [] s = (s, False)"
| "beats others cfg i (t # ts) s =
    (let rang = (case ss_alarm s of None \<Rightarrow> False | Some a \<Rightarrow> a \<le> t);
         s1 = fst (processLifecycleEvent others cfg False t (Ev_Heartbeat_Received i) s);
         (s2, later) = beats others cfg i ts s1
     in (s2, rang \<or> later))"

fun steady :: "int \<Rightarrow> int list \<Rightarrow> bool" where
  "steady window (t # u # ts) = (t \<le> u \<and> u < t + window \<and> steady window (u # ts))"
| "steady window _ = True"

definition only_liveness :: "lifecycle_deadlines \<Rightarrow> bool" where
  "only_liveness d \<longleftrightarrow>
    dl_sandboxReconnectGrace d = None \<and> dl_promptStartup d = None \<and> dl_promptDispatch d = None
    \<and> dl_promptRunningInactivity d = None \<and> dl_spawnTimeout d = None"

lemma heartbeat_alarm:
  assumes "\<not> ss_archived s" "sandboxMatches (readLifecycleState s) (Some i)" "only_liveness (ss_deadlines s)"
    "MIN_ALARM_DELAY_MS \<le> cf_sandboxLivenessMs cfg"
    "s' = fst (processLifecycleEvent others cfg b t (Ev_Heartbeat_Received i) s)"
  shows "ss_alarm s' = Some (t + cf_sandboxLivenessMs cfg)"
    "\<not> ss_archived s'" "sandboxMatches (readLifecycleState s') (Some i)" "only_liveness (ss_deadlines s')"
  using assms
  by (auto simp: processLifecycleEvent_def reduceLifecycle_def read_sel reduce_heartbeat_def persist_and_arm_def
      armNextDeadline_def nextLifecycleDeadline_def deadline_values_def only_liveness_def apply_patch_sel
      MIN_ALARM_DELAY_MS_def sandboxMatches_def read_fields write_row_sel merge_sandbox_def)


lemma beats_pending:
  assumes "\<not> ss_archived s" "sandboxMatches (readLifecycleState s) (Some i)" "only_liveness (ss_deadlines s)"
    "MIN_ALARM_DELAY_MS \<le> cf_sandboxLivenessMs cfg" "steady (cf_sandboxLivenessMs cfg) (t # ts)"
    "\<forall>a. ss_alarm s = Some a \<longrightarrow> t < a"
  shows "\<not> snd (beats others cfg i (t # ts) s)
    \<and> ss_alarm (fst (beats others cfg i (t # ts) s)) = Some (last (t # ts) + cf_sandboxLivenessMs cfg)
    \<and> \<not> ss_archived (fst (beats others cfg i (t # ts) s))"
  using assms
proof (induction ts arbitrary: s t)
  case Nil
  let ?s1 = "fst (processLifecycleEvent others cfg False t (Ev_Heartbeat_Received i) s)"
  note h = heartbeat_alarm [OF Nil.prems(1-4) refl, of others False t]
  show ?case using h(1,2) Nil.prems(6) by (auto split: option.splits)
next
  case (Cons u ts)
  let ?s1 = "fst (processLifecycleEvent others cfg False t (Ev_Heartbeat_Received i) s)"
  note h = heartbeat_alarm [OF Cons.prems(1-4) refl, of others False t]
  have "\<not> snd (beats others cfg i (u # ts) ?s1)
    \<and> ss_alarm (fst (beats others cfg i (u # ts) ?s1)) = Some (last (u # ts) + cf_sandboxLivenessMs cfg)
    \<and> \<not> ss_archived (fst (beats others cfg i (u # ts) ?s1))"
    by (rule Cons.IH [OF h(2-4) Cons.prems(4)]) (use Cons.prems(5) h(1) in auto)
  moreover have "\<not> (case ss_alarm s of None \<Rightarrow> False | Some a \<Rightarrow> a \<le> t)"
    using Cons.prems(6) by (auto split: option.splits)
  ultimately show ?case
    by (simp only: beats.simps Let_def case_prod_beta snd_conv fst_conv last.simps) simp
qed

text \<open>
  C29. A bridge that beats within its liveness window keeps the one alarm from ever ringing on an idle session:
  every beat moves it to the end of the window, whoever else had armed it earlier.  A catch-up deadline of
  another owner that fell due meanwhile (a post-execution or publishing watchdog, a retry) is still unserved
  after any number of beats, while a re-projection at that moment would ring within a second.
\<close>

theorem heartbeats_starve_other_alarms:
  assumes "\<not> ss_archived s" "sandboxMatches (readLifecycleState s) (Some i)" "only_liveness (ss_deadlines s)"
    "MIN_ALARM_DELAY_MS \<le> cf_sandboxLivenessMs cfg" "steady (cf_sandboxLivenessMs cfg) (t # ts)"
    "\<forall>a. ss_alarm s = Some a \<longrightarrow> t < a"
    "(source, overdue) \<in> set (others (fst (beats others cfg i (t # ts) s)))"
    "source \<in> set IMMEDIATE_CATCH_UP_ALARM_SOURCES" "overdue \<le> last (t # ts)"
  shows "\<not> snd (beats others cfg i (t # ts) s)
    \<and> ss_alarm (fst (beats others cfg i (t # ts) s)) = Some (last (t # ts) + cf_sandboxLivenessMs cfg)
    \<and> ss_alarm (rescheduleSessionAlarm others (last (t # ts)) (fst (beats others cfg i (t # ts) s)))
      = Some (last (t # ts) + MIN_ALARM_DELAY_MS)"
proof -
  have "\<exists>c\<in>set (alarm_candidates others (fst (beats others cfg i (t # ts) s))).
      snd c \<le> last (t # ts) \<and> fst c \<in> set IMMEDIATE_CATCH_UP_ALARM_SOURCES"
    using assms(7-9) by (intro bexI [of _ "(source, overdue)"]) (auto simp: alarm_candidates_def)
  then show ?thesis
    using beats_pending [OF assms(1-6), of others] by (simp add: choose_alarm_def del: beats.simps)
qed

text \<open>An idle session with a ready sandbox, beating every thirty seconds past a post-execution deadline.\<close>

definition idle_store :: session_store where
  "idle_store = fresh_store\<lparr>
     ss_sandbox := Some (no_sandbox\<lparr>xs_state := Some Sb_Ready, xs_sandboxId := Some (Some ''sb1'')\<rparr>),
     ss_alarm := Some 60000\<rparr>"

definition post_execution :: "other_alarms" where
  "post_execution s = [(''postExecutionDeadline'', 60000)]"

theorem heartbeats_starve_other_alarms_witness:
  "\<not> snd (beats post_execution (defaultLifecycleConfig 900000 180000) ''sb1'' [30000, 59000, 88000, 117000] idle_store)
   \<and> ss_alarm (fst (beats post_execution (defaultLifecycleConfig 900000 180000) ''sb1''
       [30000, 59000, 88000, 117000] idle_store)) = Some 177000
   \<and> ss_alarm (rescheduleSessionAlarm post_execution 117000
       (fst (beats post_execution (defaultLifecycleConfig 900000 180000) ''sb1''
         [30000, 59000, 88000, 117000] idle_store))) = Some 118000"
proof -
  have m: "\<not> ss_archived idle_store" "sandboxMatches (readLifecycleState idle_store) (Some ''sb1'')"
    "only_liveness (ss_deadlines idle_store)"
    by code_simp+
  show ?thesis
    using heartbeats_starve_other_alarms [OF m, of "defaultLifecycleConfig 900000 180000" 30000
        "[59000, 88000, 117000]" "''postExecutionDeadline''" 60000 post_execution]
    by (simp add: defaultLifecycleConfig_def SANDBOX_LOSS_RECOVERY_BUDGET_MS_def MIN_ALARM_DELAY_MS_def
        idle_store_def post_execution_def IMMEDIATE_CATCH_UP_ALARM_SOURCES_def del: beats.simps)
qed

section \<open>Disconnects take precedence\<close>

definition spawn_failure_due :: "lifecycle_event list \<Rightarrow> bool" where
  "spawn_failure_due evs = list_ex (\<lambda>ev. event_order ev = 1) evs"

text \<open>
  C30. One alarm tick hands over at most one terminal of the lifecycle, and none at all when a disconnect is due
  in its batch and no spawn failure is: the prompt's own deadlines cannot finalize it ahead of the disconnect's
  re-enqueue.
\<close>

theorem tick_hands_over_at_most_one:
  "length (fst (snd (lifecycle_tick others cfg clock tv now later s))) \<le> 1
   \<and> (has_disconnect (alarm_batch now (tick_prepared others cfg clock tv now s))
       \<and> \<not> spawn_failure_due (alarm_batch now (tick_prepared others cfg clock tv now s))
     \<longrightarrow> fst (snd (lifecycle_tick others cfg clock tv now later s)) = [])"
proof -
  let ?s = "tick_prepared others cfg clock tv now s"
  let ?evs = "alarm_batch now ?s"
  have "length (snd (dispatch_all others cfg clock (has_disconnect ?evs) ?evs ?s)) \<le> 1" if "\<not> ss_archived s"
    using dispatch_all_count [OF refl, of others cfg clock "has_disconnect ?evs" ?evs ?s]
      batch_at_most_one [of ?evs "readLifecycleState ?s" cfg clock] batch_own that
    by (fastforce simp: read_sel)
  moreover have "snd (dispatch_all others cfg clock (has_disconnect ?evs) ?evs ?s) = []"
    if "has_disconnect ?evs" "\<not> spawn_failure_due ?evs"
    by (rule deferred_batch_silent)
      (use batch_kinds that in \<open>fastforce simp: shouldDeferLifecycleTerminal_def spawn_failure_due_def list_ex_iff\<close>)
  ultimately show ?thesis
    by (simp add: tick_terminals dispatchLifecycleAlarm_def Let_def case_prod_beta)
qed

theorem tick_hands_over_at_most_one_witness:
  "length (alarm_batch 901000 (tick_prepared (\<lambda>_. []) (defaultLifecycleConfig 900000 180000) (\<lambda>_. 901000) alive_tick
       901000 silent_store)) = 2
   \<and> fst (snd deferred_tick) = []"
proof -
  let ?s = "tick_prepared (\<lambda>_. []) (defaultLifecycleConfig 900000 180000) (\<lambda>_. 901000) alive_tick 901000 silent_store"
  have "has_disconnect (alarm_batch 901000 ?s)" "\<not> spawn_failure_due (alarm_batch 901000 ?s)"
    "length (alarm_batch 901000 ?s) = 2"
    by code_simp+
  then show ?thesis
    using tick_hands_over_at_most_one [of "\<lambda>_. []" "defaultLifecycleConfig 900000 180000" "\<lambda>_. 901000"
        alive_tick 901000 901000 silent_store]
    by (simp add: deferred_tick_def)
qed

section \<open>A late progress report disarms the watchdogs\<close>

text \<open>
  C31. A dispatching-progress report that reaches a prompt already running under codex takes it back to
  dispatching: its startup and inactivity deadlines are no longer valid for the phase and its dispatch deadline
  was cleared when it started to run, so the next re-projection leaves it with no prompt deadline at all.
\<close>

theorem late_progress_disarms_watchdog:
  assumes "\<not> ss_archived s"
    and "pp_phase (lf_prompt (readLifecycleState s)) = Pp_Running"
    and "pp_codexPromptSentAt (lf_prompt (readLifecycleState s)) \<noteq> None"
    and "dl_promptDispatch (ss_deadlines s) = None"
    and "pp_promptId (lf_prompt (readLifecycleState s)) = Some p"
    and "sandboxMatches (readLifecycleState s) (Some i)" "startupAttemptMatches (readLifecycleState s) a"
    and "s' = fst (processLifecycleEvent others cfg applyTerminal now (Ev_Dispatching_Progress p i a) s)"
  shows "pp_phase (lf_prompt (readLifecycleState s')) = Pp_Dispatching
    \<and> dl_promptStartup (valid_deadlines s') = None
    \<and> dl_promptDispatch (valid_deadlines s') = None
    \<and> dl_promptRunningInactivity (valid_deadlines s') = None
    \<and> watchdog (readLifecycleState (rescheduleSessionAlarm others now s')) = None"
proof -
  let ?e = "\<lparr>te_now = now, te_cfg = cfg, te_event = Ev_Dispatching_Progress p i a\<rparr>"
  let ?st = "readLifecycleState s"
  have d: "decided ?st ?e = reduce_dispatching ?st False p i a cfg now"
    using assms(1) by (simp add: decided_cases read_sel)
  have "view (readLifecycleState s') = view (step ?e ?st)"
    using process_event [OF refl, of others ?e applyTerminal s] assms(8) by simp
  note v = view_eqD [OF this]
  have "pp_phase (lf_prompt (step ?e ?st)) = Pp_Dispatching"
    "pp_codexPromptSentAt (lf_prompt (step ?e ?st)) \<noteq> None"
    "dl_promptDispatch (lf_deadlines (step ?e ?st)) = None"
    using assms(2-7)
    by (simp_all add: step_def d reduce_dispatching_def activePromptMatches_def read_sel)
  moreover have "pp_phase (lf_prompt (readLifecycleState s')) = pp_phase (lf_prompt (step ?e ?st))"
    "pp_codexPromptSentAt (lf_prompt (readLifecycleState s')) = pp_codexPromptSentAt (lf_prompt (step ?e ?st))"
    using arg_cong [OF v(3), of pp_phase] arg_cong [OF v(3), of pp_codexPromptSentAt] by simp_all
  ultimately show ?thesis
    using v(5) by (auto simp: valid_deadlines_def keep_if_def Let_def read_sel watchdog_def read_reschedule)
qed

text \<open>A prompt that codex took and that reported activity, then a fresh session-creation report.\<close>

definition late_run :: "timed_event list" where
  "late_run = map (timed (defaultLifecycleConfig 900000 180000) (\<lambda>_. 1000))
     [Ev_Enqueued ''p1'', Ev_Sent_To_Bridge ''p1'' ''sb1'', Ev_Agent_Prompt_Sent ''p1'' ''sb1'' None,
      Ev_Running_Activity ''p1'' ''sb1'' None]"

definition late_store :: session_store where
  "late_store = (fst (store_run (\<lambda>_. []) True late_run fresh_store))
     \<lparr>ss_activePrompt := Some (''p1'', Some Row_Processing)\<rparr>"

definition late_after :: session_store where
  "late_after = fst (processLifecycleEvent (\<lambda>_. []) (defaultLifecycleConfig 900000 180000) False 2000
     (Ev_Dispatching_Progress ''p1'' ''sb1'' None) late_store)"

theorem late_progress_disarms_watchdog_witness:
  "watchdog (readLifecycleState late_store) \<noteq> None
   \<and> pp_phase (lf_prompt (readLifecycleState late_after)) = Pp_Dispatching
   \<and> watchdog (readLifecycleState (rescheduleSessionAlarm (\<lambda>_. []) 2000 late_after)) = None"
proof -
  have "\<not> ss_archived late_store"
    "pp_phase (lf_prompt (readLifecycleState late_store)) = Pp_Running"
    "pp_codexPromptSentAt (lf_prompt (readLifecycleState late_store)) \<noteq> None"
    "dl_promptDispatch (ss_deadlines late_store) = None"
    "pp_promptId (lf_prompt (readLifecycleState late_store)) = Some ''p1''"
    "sandboxMatches (readLifecycleState late_store) (Some ''sb1'')"
    "startupAttemptMatches (readLifecycleState late_store) None"
    by code_simp+
  from late_progress_disarms_watchdog [OF this late_after_def]
  have "pp_phase (lf_prompt (readLifecycleState late_after)) = Pp_Dispatching
    \<and> watchdog (readLifecycleState (rescheduleSessionAlarm (\<lambda>_. []) 2000 late_after)) = None"
    by blast
  moreover have "watchdog (readLifecycleState late_store) \<noteq> None" by code_simp
  ultimately show ?thesis by blast
qed

end
