(* ===== verification/Transport_Producer.thy ===== *)
theory Transport_Producer
  imports Session_Watchdog Fsm_Transition
begin

text \<open>
  Where the two machines meet: \<open>fsm/transport-producer.ts\<close> maps a lifecycle event and the reducer's decisions
  to events of the coordination record, \<open>processLifecycleEvent\<close> and \<open>shadowEmitFsmTransportEvents\<close> of
  \<open>session/durable-object.ts\<close> gate them.

  The lemmas compose the reducer, the mapping and the alarm tick: what the record does when a prompt ends, and when
  the tick takes a disconnect back.
\<close>

section \<open>The mapping\<close>

record transport_emission =
  em_event :: fsm_event
  em_metadata :: event_metadata
  em_actor :: event_actor

definition tx :: "fsm_event \<Rightarrow> event_metadata \<Rightarrow> transport_emission" where
  "tx e meta = \<lparr>em_event = e, em_metadata = meta, em_actor = Actor_Transport\<rparr>"

definition tx_plain :: "fsm_event \<Rightarrow> transport_emission" where
  "tx_plain e = tx e (Meta_Plain (event_type e))"

fun is_noop :: "lifecycle_decision \<Rightarrow> bool" where
  "is_noop (Noop _) = True"
| "is_noop _ = False"

definition reducerActed :: "lifecycle_decision list \<Rightarrow> bool" where
  "reducerActed ds = list_ex (\<lambda>d. \<not> is_noop d) ds"

fun persistedSandboxState :: "lifecycle_decision list \<Rightarrow> sandbox_state option" where
  "persistedSandboxState [] = None"
| "persistedSandboxState (Persist_State x r # ds) =
     (case Option.bind (px_sandbox x) xs_state of Some q \<Rightarrow> Some q | None \<Rightarrow> persistedSandboxState ds)"
| "persistedSandboxState (d # ds) = persistedSandboxState ds"

fun persistedPromptPhase :: "lifecycle_decision list \<Rightarrow> prompt_phase option" where
  "persistedPromptPhase [] = None"
| "persistedPromptPhase (Persist_State x r # ds) =
     (case Option.bind (px_prompt x) xp_phase of Some q \<Rightarrow> Some q | None \<Rightarrow> persistedPromptPhase ds)"
| "persistedPromptPhase (d # ds) = persistedPromptPhase ds"

fun emittedTerminal :: "lifecycle_decision list \<Rightarrow> bool" where
  "emittedTerminal [] = False"
| "emittedTerminal (Emit_Terminal _ _ _ # ds) = True"
| "emittedTerminal (d # ds) = emittedTerminal ds"

fun emittedTerminalErrorCode :: "lifecycle_decision list \<Rightarrow> sandbox_error_code option" where
  "emittedTerminalErrorCode [] = None"
| "emittedTerminalErrorCode (Emit_Terminal _ c _ # ds) = Some c"
| "emittedTerminalErrorCode (d # ds) = emittedTerminalErrorCode ds"

fun launches_spawn :: "lifecycle_decision list \<Rightarrow> bool" where
  "launches_spawn [] = False"
| "launches_spawn (Spawn_Sandbox_Decision _ # ds) = True"
| "launches_spawn (d # ds) = launches_spawn ds"

definition emit_if :: "bool \<Rightarrow> transport_emission \<Rightarrow> transport_emission list" where
  "emit_if b em = (if b then [em] else [])"

definition archive_reason :: "string \<Rightarrow> bool" where
  "archive_reason r \<longleftrightarrow>
    r \<in> {''fsm_kill_verification'', ''session_archived'', ''dashboard_archive'', ''api_archive''}"

definition terminal_emission :: "lifecycle_decision list \<Rightarrow> bool \<Rightarrow> transport_emission list" where
  "terminal_emission ds stoppedByUser =
    (if persistedPromptPhase ds \<noteq> Some Pp_Terminal then []
     else case emittedTerminalErrorCode ds of
            Some c \<Rightarrow> [tx (Prompt_Terminal Outcome_Error (Some c) (Some stoppedByUser))
                         (Meta_Prompt_Terminal Outcome_Error (Some c) (Some stoppedByUser))]
          | None \<Rightarrow> [tx (Prompt_Terminal Outcome_Changes None None)
                       (Meta_Prompt_Terminal Outcome_Changes None None)])"

fun mapLifecycleEventToFsmEvents ::
  "lifecycle_event \<Rightarrow> lifecycle_decision list \<Rightarrow> transport_emission list" where
  "mapLifecycleEventToFsmEvents (Ev_Spawn_Requested a) ds =
     emit_if (launches_spawn ds) (tx_plain Sandbox_Spawn_Requested)"
| "mapLifecycleEventToFsmEvents (Ev_Ws_Connected i) ds =
     emit_if (persistedSandboxState ds = Some Sb_Ready) (tx_plain Sandbox_Ready)"
| "mapLifecycleEventToFsmEvents (Ev_Spawn_Failed a c) ds =
     emit_if (persistedSandboxState ds = Some Sb_Failed) (tx_plain Sandbox_Spawn_Failed)"
| "mapLifecycleEventToFsmEvents (Ev_Liveness_Expired i) ds =
     emit_if (reducerActed ds) (tx_plain Sandbox_Liveness_Expired)"
| "mapLifecycleEventToFsmEvents (Ev_Reconnect_Grace_Expired i) ds =
     emit_if (reducerActed ds) (tx_plain Sandbox_Death)"
| "mapLifecycleEventToFsmEvents (Ev_Enqueued p) ds =
     emit_if (persistedPromptPhase ds = Some Pp_Queued) (tx_plain Prompt_Enqueued)"
| "mapLifecycleEventToFsmEvents (Ev_Terminal_Received p i c stopped) ds = terminal_emission ds stopped"
| "mapLifecycleEventToFsmEvents (Ev_Running_Inactivity_Elapsed p) ds =
     emit_if (emittedTerminal ds) (tx_plain Prompt_Max_Duration_Exceeded)"
| "mapLifecycleEventToFsmEvents (Ev_Startup_Deadline_Elapsed p) ds =
     emit_if (emittedTerminal ds)
       (tx (Prompt_Terminal Outcome_Error None None) (Meta_Prompt_Terminal Outcome_Error None None))"
| "mapLifecycleEventToFsmEvents (Ev_Dispatch_Deadline_Elapsed p) ds =
     emit_if (emittedTerminal ds)
       (tx (Prompt_Terminal Outcome_Error None None) (Meta_Prompt_Terminal Outcome_Error None None))"
| "mapLifecycleEventToFsmEvents (Ev_Close_Finalize r) ds = emit_if (archive_reason r) (tx_plain Session_Archived)"
| "mapLifecycleEventToFsmEvents _ ds = []"

definition buildPostexecDoneEmission :: "bool \<Rightarrow> bool \<Rightarrow> transport_emission" where
  "buildPostexecDoneEmission hasChanges intends =
    tx (Postexec_Done hasChanges intends) (Meta_Postexec_Done hasChanges intends)"

definition buildPlanAwaitingInputEmission :: transport_emission where
  "buildPlanAwaitingInputEmission = tx_plain Prompt_Awaiting_Input"

definition buildPlanUserInputEmission :: transport_emission where
  "buildPlanUserInputEmission =
    \<lparr>em_event = User_Input, em_metadata = Meta_Plain ''user.input'', em_actor = Actor_User\<rparr>"

section \<open>The gates\<close>

text \<open>
  A gated plan parks from these events without telling the record; a pending plan approval drops a batch that
  would fail it.
\<close>

fun parks_gated_plan :: "lifecycle_event \<Rightarrow> bool" where
  "parks_gated_plan (Ev_Liveness_Expired _) = True"
| "parks_gated_plan (Ev_Reconnect_Grace_Expired _) = True"
| "parks_gated_plan (Ev_Running_Inactivity_Elapsed _) = True"
| "parks_gated_plan (Ev_Startup_Deadline_Elapsed _) = True"
| "parks_gated_plan (Ev_Dispatch_Deadline_Elapsed _) = True"
| "parks_gated_plan _ = False"

definition ends_pending_plan :: "fsm_event \<Rightarrow> bool" where
  "ends_pending_plan e \<longleftrightarrow>
    event_type e \<in> {''prompt.terminal'', ''prompt.max_duration_exceeded'', ''sandbox.spawn_failed'',
                    ''sandbox.death'', ''sandbox.liveness_expired''}"

definition shadowEmitFsmTransportEvents ::
  "bool \<Rightarrow> lifecycle_event \<Rightarrow> lifecycle_decision list \<Rightarrow> transport_emission list" where
  "shadowEmitFsmTransportEvents planApprovalPending ev ds =
    (let ems = mapLifecycleEventToFsmEvents ev ds
     in if planApprovalPending \<and> list_ex (\<lambda>em. ends_pending_plan (em_event em)) ems then [] else ems)"

record plan_gate =
  pg_suppressed :: bool
  pg_gatedPlan :: bool
  pg_approvalPending :: bool

definition transport_events ::
  "plan_gate \<Rightarrow> lifecycle_event \<Rightarrow> lifecycle_decision list \<Rightarrow> transport_emission list" where
  "transport_events pg ev ds =
    (if pg_suppressed pg \<or> pg_gatedPlan pg \<and> parks_gated_plan ev then []
     else shadowEmitFsmTransportEvents (pg_approvalPending pg) ev ds)"

text \<open>The events one alarm batch sends to the record, in order.\<close>

fun batch_events ::
  "plan_gate \<Rightarrow> other_alarms \<Rightarrow> lifecycle_config \<Rightarrow> (lifecycle_event \<Rightarrow> int) \<Rightarrow> bool \<Rightarrow>
   lifecycle_event list \<Rightarrow> session_store \<Rightarrow> transport_emission list" where
  "batch_events pg others cfg clock b [] s = []"
| "batch_events pg others cfg clock b (ev # evs) s =
     transport_events pg ev (reduceLifecycle (readLifecycleState s) ev cfg (clock ev))
     @ batch_events pg others cfg clock b evs
         (fst (processLifecycleEvent others cfg (\<not> shouldDeferLifecycleTerminal ev b) (clock ev) ev s))"

section \<open>When a prompt ends, the record leaves the codegen states\<close>

lemma emittedTerminal_iff: "emittedTerminal ds \<longleftrightarrow> emitted ds \<noteq> []"
  by (induction ds rule: emittedTerminal.induct) simp_all

lemma emittedTerminal_append [simp]:
  "emittedTerminal (ds @ es) = (emittedTerminal ds \<or> emittedTerminal es)"
  by (simp add: emittedTerminal_iff)

lemma terminalPatch_reads [simp]:
  "emittedTerminal (terminalPatch st p code r l)"
  "emittedTerminalErrorCode (terminalPatch st p code r l @ ds) = Some (merged_code st code)"
  "persistedPromptPhase (terminalPatch st p code r l @ ds) = Some Pp_Terminal"
  "\<not> launches_spawn (terminalPatch st p code r l)"
  by (simp_all add: terminalPatch_def merged_code_def Let_def)

lemma launches_spawn_arm [simp]: "\<not> launches_spawn (armNextDeadline st x now)"
  by (simp add: armNextDeadline_def split: option.splits)

text \<open>The three events that can end a prompt without a word to the record.\<close>

fun ends_silently :: "lifecycle_event \<Rightarrow> bool" where
  "ends_silently (Ev_Abort_Requested _) = True"
| "ends_silently Ev_Pre_Publish_Stall_Expired = True"
| "ends_silently (Ev_Spawn_Requested _) = True"
| "ends_silently _ = False"

definition fails_loudly :: "decision \<Rightarrow> bool" where
  "fails_loudly d \<longleftrightarrow> d_to d = FAILED \<and> Loud \<in> set (d_effects d) \<and> (\<exists>r. w_failureReason (d_writes d) = Some (Some r))"

lemma codegen_hard_failure:
  assumes "s \<in> set HARD_FAILURE_STATES"
  shows "\<exists>d. transition s Sandbox_Spawn_Failed g = Inr (Some d) \<and> fails_loudly d"
    "\<exists>d. transition s Sandbox_Liveness_Expired g = Inr (Some d) \<and> fails_loudly d"
    "\<exists>d. transition s Sandbox_Death g = Inr (Some d) \<and> fails_loudly d"
    "\<exists>d. transition s Prompt_Max_Duration_Exceeded g = Inr (Some d) \<and> fails_loudly d"
    "\<exists>d. transition s (Prompt_Terminal Outcome_Error c b) g = Inr (Some d)
       \<and> (fails_loudly d \<or> d_to d = STOPPED \<and> c = Some aborted \<and> b = Some True)"
  using assms
  by (auto simp: HARD_FAILURE_STATES_def transition_def coreTransition_def crossCuttingTransition_def
      sandboxGone_def hardFailure_def fails_loudly_def step_created_def step_provisioning_def
      step_generating_def step_finalizing_def step_publishing_def setFailureReason_def
      handled_def unhandled_def)

lemma ended_by_error:
  assumes "emitted (reduceLifecycle st ev cfg now) \<noteq> []" "s \<in> set HARD_FAILURE_STATES"
  shows "if ends_silently ev then mapLifecycleEventToFsmEvents ev (reduceLifecycle st ev cfg now) = []
    else \<exists>em d. mapLifecycleEventToFsmEvents ev (reduceLifecycle st ev cfg now) = [em]
      \<and> ends_pending_plan (em_event em) \<and> transition s (em_event em) g = Inr (Some d)
      \<and> (fails_loudly d
         \<or> d_to d = STOPPED \<and> em_event em = Prompt_Terminal Outcome_Error (Some aborted) (Some True))"
proof -
  have r: "reduceLifecycle st ev cfg now = reduce_event st ev cfg now"
    using assms(1) by (auto simp: reduceLifecycle_def split: if_splits)
  note c = codegen_hard_failure [OF assms(2), where g = g]
  show ?thesis
    using assms(1) c unfolding r
    by (cases ev)
      (auto simp: reduce_defs Let_def terminal_if_live_def emit_if_def tx_plain_def tx_def reducerActed_def
        terminal_emission_def finalizeStoppedDecisions_def review_entered_patch_def ends_pending_plan_def
        split: if_splits option.splits)
qed

lemma persistedPromptPhase_inert [simp]:
  "persistedPromptPhase (armNextDeadline st x now) = None"
  "persistedPromptPhase (persist_and_arm st x reason now) = Option.bind (px_prompt x) xp_phase"
  "emittedTerminalErrorCode (persist_and_arm st x reason now) = None"
  by (simp_all add: armNextDeadline_def persist_and_arm_def split: option.splits)

lemma ended_in_success:
  assumes "persistedPromptPhase (reduceLifecycle st ev cfg now) = Some Pp_Terminal"
    "emitted (reduceLifecycle st ev cfg now) = []"
  shows "\<exists>em. mapLifecycleEventToFsmEvents ev (reduceLifecycle st ev cfg now) = [em]
    \<and> em_event em = Prompt_Terminal Outcome_Changes None None
    \<and> (\<exists>p i c stopped. ev = Ev_Terminal_Received p i c stopped)"
proof -
  have r: "reduceLifecycle st ev cfg now = reduce_event st ev cfg now"
    using assms(1) by (auto simp: reduceLifecycle_def split: if_splits)
  show ?thesis
    using assms unfolding r
    by (cases ev)
      (auto simp: reduce_defs Let_def terminal_if_live_def tx_def terminal_emission_def finalizeStoppedDecisions_def
        review_entered_patch_def split: if_splits option.splits)
qed

text \<open>The gates that keep every end of a prompt from the record.\<close>

definition gate_holds_back :: "plan_gate \<Rightarrow> lifecycle_event \<Rightarrow> bool" where
  "gate_holds_back pg ev \<longleftrightarrow>
    pg_suppressed pg \<or> pg_gatedPlan pg \<and> parks_gated_plan ev \<or> pg_approvalPending pg"

text \<open>
  C32. When an event of the session ends its prompt while the coordination record is in a codegen state, the
  record is sent either nothing or exactly one transport event.  Nothing is sent for an abort request, for the
  pre-publish stall, for a spawn refused by the open circuit, when the caller suppresses the transport, when a
  gated plan parks from a disconnect or a prompt deadline, and while a plan approval is pending.  Otherwise a
  prompt that ended with an emitted terminal takes the record out of the codegen states, loudly into FAILED with
  a failure reason or, for a corroborated user stop, into STOPPED; one that ended in success is reported as a
  terminal with changes, which moves GENERATING on to FINALIZING and is ignored in the other codegen states.
\<close>

theorem ended_prompt_leaves_codegen:
  assumes ended: "persistedPromptPhase (reduceLifecycle st ev cfg now) = Some Pp_Terminal"
    and codegen: "s \<in> set HARD_FAILURE_STATES"
  shows "if ends_silently ev \<or> gate_holds_back pg ev
    then transport_events pg ev (reduceLifecycle st ev cfg now) = []
    else \<exists>em. transport_events pg ev (reduceLifecycle st ev cfg now) = [em]
      \<and> (if emitted (reduceLifecycle st ev cfg now) \<noteq> []
         then \<exists>d. transition s (em_event em) g = Inr (Some d)
           \<and> (fails_loudly d
              \<or> d_to d = STOPPED \<and> em_event em = Prompt_Terminal Outcome_Error (Some aborted) (Some True))
         else em_event em = Prompt_Terminal Outcome_Changes None None
           \<and> transition s (em_event em) g
               = (if s = GENERATING then Inr (Some (decide FINALIZING no_writes [])) else Inr None))"
proof (cases "emitted (reduceLifecycle st ev cfg now) = []")
  case True
  obtain em p i c stopped where em: "mapLifecycleEventToFsmEvents ev (reduceLifecycle st ev cfg now) = [em]"
      "em_event em = Prompt_Terminal Outcome_Changes None None" "ev = Ev_Terminal_Received p i c stopped"
    using ended_in_success [OF ended True] by blast
  have "transition s (Prompt_Terminal Outcome_Changes None None) g
      = (if s = GENERATING then Inr (Some (decide FINALIZING no_writes [])) else Inr None)"
    using codegen by (auto simp: HARD_FAILURE_STATES_def transition_def coreTransition_def step_defs
        crossCuttingTransition_def handled_def unhandled_def)
  then show ?thesis
    using em True by (auto simp: transport_events_def shadowEmitFsmTransportEvents_def gate_holds_back_def
        ends_pending_plan_def)
next
  case False
  then show ?thesis
    using ended_by_error [OF False codegen, where g = g]
    by (auto simp: transport_events_def shadowEmitFsmTransportEvents_def gate_holds_back_def Let_def
        split: if_splits)
qed

text \<open>A running prompt that falls silent, and one whose bridge reports its success, with and without a pending plan.\<close>

definition running_p1 :: lifecycle_state where
  "running_p1 = overlay createEmptyLifecycleState
     (no_patch\<lparr>px_prompt := Some (no_prompt\<lparr>xp_phase := Some Pp_Running, xp_promptId := Some (Some ''p1'')\<rparr>)\<rparr>)"

definition open_gate :: plan_gate where
  "open_gate = \<lparr>pg_suppressed = False, pg_gatedPlan = False, pg_approvalPending = False\<rparr>"

theorem ended_prompt_leaves_codegen_witness:
  "let cfg = defaultLifecycleConfig 900000 180000;
       silent = reduceLifecycle running_p1 (Ev_Running_Inactivity_Elapsed ''p1'') cfg 5;
       done = reduceLifecycle running_p1 (Ev_Terminal_Received ''p1'' None None False) cfg 5
   in (\<exists>em d. transport_events open_gate (Ev_Running_Inactivity_Elapsed ''p1'') silent = [em]
         \<and> transition GENERATING (em_event em) (bare_guards True) = Inr (Some d) \<and> d_to d = FAILED)
    \<and> transport_events (open_gate\<lparr>pg_gatedPlan := True\<rparr>) (Ev_Running_Inactivity_Elapsed ''p1'') silent = []
    \<and> (\<exists>em. transport_events open_gate (Ev_Terminal_Received ''p1'' None None False) done = [em]
         \<and> transition GENERATING (em_event em) (bare_guards True) = Inr (Some (decide FINALIZING no_writes [])))"
proof -
  let ?cfg = "defaultLifecycleConfig 900000 180000"
  let ?silent = "Ev_Running_Inactivity_Elapsed ''p1''"
  let ?done = "Ev_Terminal_Received ''p1'' None None False"
  have ends: "persistedPromptPhase (reduceLifecycle running_p1 ?silent ?cfg 5) = Some Pp_Terminal"
      "persistedPromptPhase (reduceLifecycle running_p1 ?done ?cfg 5) = Some Pp_Terminal"
    and out: "emitted (reduceLifecycle running_p1 ?silent ?cfg 5) \<noteq> []"
      "emitted (reduceLifecycle running_p1 ?done ?cfg 5) = []"
    and ev: "em_event (hd (transport_events open_gate ?silent (reduceLifecycle running_p1 ?silent ?cfg 5)))
      = Prompt_Max_Duration_Exceeded"
    by code_simp+
  have q: "GENERATING \<in> set HARD_FAILURE_STATES" by simp
  note l = ended_prompt_leaves_codegen [OF ends(1) q, where g = "bare_guards True"]
  have silent: "\<exists>em d. transport_events open_gate ?silent (reduceLifecycle running_p1 ?silent ?cfg 5) = [em]
      \<and> transition GENERATING (em_event em) (bare_guards True) = Inr (Some d) \<and> d_to d = FAILED"
    using l [of open_gate] out(1) ev by (auto simp: gate_holds_back_def open_gate_def fails_loudly_def)
  have "transport_events (open_gate\<lparr>pg_gatedPlan := True\<rparr>) ?silent (reduceLifecycle running_p1 ?silent ?cfg 5) = []"
    using l [of "open_gate\<lparr>pg_gatedPlan := True\<rparr>"] by (simp add: gate_holds_back_def)
  moreover have "\<exists>em. transport_events open_gate ?done (reduceLifecycle running_p1 ?done ?cfg 5) = [em]
      \<and> transition GENERATING (em_event em) (bare_guards True) = Inr (Some (decide FINALIZING no_writes []))"
    using ended_prompt_leaves_codegen [OF ends(2) q, of open_gate "bare_guards True"] out(2)
    by (auto simp: gate_holds_back_def open_gate_def)
  ultimately show ?thesis using silent by (simp only: Let_def)
qed

section \<open>A deferred disconnect\<close>

lemma own_view: "view a = view b \<Longrightarrow> own a ev = own b ev"
proof -
  have "own (view st) ev = own st ev" for st
    by (cases ev) (simp_all add: own_def)
  then show "view a = view b \<Longrightarrow> own a ev = own b ev" by metis
qed

lemma own_liveness_reported:
  assumes "own (readLifecycleState s) (Ev_Liveness_Expired i)" "\<not> ss_archived s"
    "\<not> pg_suppressed pg" "\<not> pg_gatedPlan pg" "\<not> pg_approvalPending pg"
  shows "tx_plain Sandbox_Liveness_Expired
    \<in> set (transport_events pg (Ev_Liveness_Expired i)
             (reduceLifecycle (readLifecycleState s) (Ev_Liveness_Expired i) cfg now))"
  using assms
  by (auto simp: transport_events_def shadowEmitFsmTransportEvents_def reduceLifecycle_def read_sel
      disconnect_expired_def own_def sandboxMatches_def emit_if_def reducerActed_def)

lemma batch_reports_liveness:
  assumes "\<forall>ev\<in>set evs. own (readLifecycleState s) ev" "\<not> ss_archived s"
    "Ev_Liveness_Expired i \<in> set evs"
    "\<not> pg_suppressed pg" "\<not> pg_gatedPlan pg" "\<not> pg_approvalPending pg"
  shows "tx_plain Sandbox_Liveness_Expired \<in> set (batch_events pg others cfg clock b evs s)"
  using assms
proof (induction evs arbitrary: s)
  case (Cons ev evs)
  let ?s = "fst (processLifecycleEvent others cfg (\<not> shouldDeferLifecycleTerminal ev b) (clock ev) ev s)"
  let ?st = "readLifecycleState s"
  have v: "view (readLifecycleState ?s) = view (step (timed cfg clock ev) ?st)"
    using process_event [OF refl, of others "timed cfg clock ev" "\<not> shouldDeferLifecycleTerminal ev b" s] by simp
  have active: "lf_sessionStatus ?st = Session_Active" using Cons.prems(2) by (simp add: read_sel)
  have "same_ids (step (timed cfg clock ev) ?st) ?st"
    using own_ids [of ?st ev cfg "clock ev"] own_step [of ?st ev cfg clock] Cons.prems(1) active by simp
  then have "\<forall>ev\<in>set evs. own (readLifecycleState ?s) ev"
    using Cons.prems(1) own_same own_view [OF v] by auto
  moreover have "\<not> ss_archived ?s"
    using view_eqD(1) [OF v] active by (auto simp: step_def read_sel split: if_splits)
  ultimately show ?case
    using Cons.IH [of ?s] Cons.prems own_liveness_reported by (cases "ev = Ev_Liveness_Expired i") auto
qed simp

lemma failed_ignores_codegen:
  "transition FAILED (Prompt_Terminal outc c b) g = Inr None"
  "transition FAILED (Postexec_Done hasChanges intends) g = Inr None"
  "transition FAILED (Publish_Pr_Opened head) g = Inr None"
  by (auto simp: transition_def coreTransition_def step_failed_def crossCuttingTransition_def
      HARD_FAILURE_STATES_def unhandled_def)

text \<open>
  C33. When an alarm tick finds the liveness of a sandbox lapsed under a prompt at work and defers the disconnect,
  since the provider does not confirm the death, the session object takes it back: the prompt is at work again
  with the same phase and the same deadline.  The record of the session is not told: unless a gate held it back,
  the tick's batch has reported the lapse, which failed the record loudly from any codegen state, and in FAILED
  the prompt's terminal, its diff decision and its pull request are all discarded.
\<close>

theorem deferred_disconnect_fails_record:
  assumes active: "hasActivePrompt s"
    and s1: "s1 = tick_prepared others cfg clock tv now s" and pre: "pre = readLifecycleState s1"
    and prompt: "pp_promptId (lf_prompt pre) = Some p" "at_work pre" "watchdog pre = Some w"
    and lapse: "Ev_Liveness_Expired i \<in> set (alarm_batch now s1)"
    and gate: "\<not> pg_suppressed pg" "\<not> pg_gatedPlan pg" "\<not> pg_approvalPending pg"
    and codegen: "q \<in> set HARD_FAILURE_STATES"
    and deferred: "lifecycle_tick others cfg clock tv now later s = (s', out, Tick_Deferred)"
  shows "(lf_prompt (readLifecycleState s'))\<lparr>pp_sandboxId := None\<rparr> = (lf_prompt pre)\<lparr>pp_sandboxId := None\<rparr>
    \<and> watchdog (readLifecycleState s') = Some w
    \<and> (\<exists>em\<in>set (batch_events pg others cfg clock (has_disconnect (alarm_batch now s1)) (alarm_batch now s1) s1).
         \<exists>d. transition q (em_event em) g = Inr (Some d) \<and> fails_loudly d)
    \<and> (\<forall>outc c b hasChanges intends head.
         transition FAILED (Prompt_Terminal outc c b) g = Inr None
         \<and> transition FAILED (Postexec_Done hasChanges intends) g = Inr None
         \<and> transition FAILED (Publish_Pr_Opened head) g = Inr None)"
proof -
  obtain lane where s': "s' = deferDisconnectTerminalize others lane pre later
      (fst (dispatchLifecycleAlarm others cfg clock now later s1))"
    using tick_defers [OF deferred] unfolding s1 pre by blast
  have open_session: "\<not> ss_archived s1"
    using deferred by (auto simp: s1 lifecycle_tick_def split: option.splits if_splits)
  have "hasActivePrompt (fst (dispatchLifecycleAlarm others cfg clock now later s1))"
    using active by (simp add: alarm_keeps_active s1)
  then have "watchdog (readLifecycleState s') = Some w"
    using deferral_watchdog [OF prompt(1) _ prompt(3)] s' by blast
  moreover have "tx_plain Sandbox_Liveness_Expired
      \<in> set (batch_events pg others cfg clock (has_disconnect (alarm_batch now s1)) (alarm_batch now s1) s1)"
    using batch_reports_liveness [OF _ open_session lapse gate] batch_own by simp
  moreover have "em_event (tx_plain Sandbox_Liveness_Expired) = Sandbox_Liveness_Expired"
    by (simp add: tx_plain_def tx_def)
  moreover note codegen_hard_failure(2) [OF codegen, where g = g]
  ultimately show ?thesis
    using deferral_prompt [OF prompt(1)] failed_ignores_codegen s' by metis
qed

text \<open>The bridge falls silent a minute into a run, and the provider says the sandbox is alive.\<close>

definition lapsed :: session_store where
  "lapsed = tick_prepared (\<lambda>_. []) (defaultLifecycleConfig 900000 180000) (\<lambda>_. 100000) alive_tick 100000 silent_store"

definition taken_back :: "session_store \<times> terminal list \<times> tick_end" where
  "taken_back = lifecycle_tick (\<lambda>_. []) (defaultLifecycleConfig 900000 180000) (\<lambda>_. 100000) alive_tick 100000 100000
     silent_store"

theorem deferred_disconnect_fails_record_witness:
  "watchdog (readLifecycleState (fst taken_back)) = Some 901000
   \<and> pp_phase (lf_prompt (readLifecycleState (fst taken_back))) = Pp_Running
   \<and> (\<exists>em\<in>set (batch_events open_gate (\<lambda>_. []) (defaultLifecycleConfig 900000 180000) (\<lambda>_. 100000)
        (has_disconnect (alarm_batch 100000 lapsed)) (alarm_batch 100000 lapsed) lapsed).
     \<exists>d. transition GENERATING (em_event em) (bare_guards True) = Inr (Some d) \<and> fails_loudly d)"
proof -
  have h: "hasActivePrompt silent_store"
    "pp_promptId (lf_prompt (readLifecycleState lapsed)) = Some ''p1''" "at_work (readLifecycleState lapsed)"
    "watchdog (readLifecycleState lapsed) = Some 901000"
    "Ev_Liveness_Expired ''sb1'' \<in> set (alarm_batch 100000 lapsed)"
    and running: "pp_phase (lf_prompt (readLifecycleState lapsed)) = Pp_Running"
    and fin: "snd (snd taken_back) = Tick_Deferred"
    by code_simp+
  have g: "\<not> pg_suppressed open_gate" "\<not> pg_gatedPlan open_gate" "\<not> pg_approvalPending open_gate"
    by (simp_all add: open_gate_def)
  have q: "GENERATING \<in> set HARD_FAILURE_STATES" by simp
  obtain s' out where run: "taken_back = (s', out, Tick_Deferred)" using fin by (metis prod.collapse)
  note r = deferred_disconnect_fails_record [OF h(1) lapsed_def refl h(2-5) g q run [unfolded taken_back_def],
      of "bare_guards True"]
  have "pp_phase (lf_prompt (readLifecycleState s')) = Pp_Running"
    using arg_cong [OF conjunct1 [OF r], of pp_phase] running by simp
  moreover have "fst taken_back = s'" by (simp add: run)
  ultimately show ?thesis using r by (simp only: simp_thms)
qed

end
