(* ===== verification/Legacy_Backfill.thy ===== *)
theory Legacy_Backfill
  imports Fsm_Project
begin

text \<open>
  Materialising coordination rows for sessions older than the spine: the legacy adapter
  (\<open>session/fsm/legacy-adapter.ts\<close>), the seed builder and the isolated batch (\<open>session/fsm/backfill.ts\<close>)
  and the fleet runner with its stale fence, re-baseline and dry-run modes
  (\<open>session/fsm/backfill-runner.ts\<close>).

  Every awaited store call is a turn of the environment: the other writers run first, and the call may
  be rejected.  A write that took effect although its call was rejected is a step of the other writers.
  The session loader and \<open>Date.parse\<close>, whose answer on a text that is not ISO-8601 is
  implementation-defined, are parameters.
\<close>

section \<open>The adapter\<close>

text \<open>\<open>Exclude<Phase, "idle">\<close>.\<close>

datatype legacy_phase =
    Legacy_Running | Legacy_Waiting_For_Input | Legacy_Finalizing | Legacy_Review_Listening
  | Legacy_Completed | Legacy_Superseded | Legacy_Blocked | Legacy_Failed | Legacy_Stopped
  | Legacy_Archived

fun phase_of_legacy :: "legacy_phase \<Rightarrow> phase" where
  "phase_of_legacy Legacy_Running = Phase_Running"
| "phase_of_legacy Legacy_Waiting_For_Input = Phase_Waiting_For_Input"
| "phase_of_legacy Legacy_Finalizing = Phase_Finalizing"
| "phase_of_legacy Legacy_Review_Listening = Phase_Review_Listening"
| "phase_of_legacy Legacy_Completed = Phase_Completed"
| "phase_of_legacy Legacy_Superseded = Phase_Superseded"
| "phase_of_legacy Legacy_Blocked = Phase_Blocked"
| "phase_of_legacy Legacy_Failed = Phase_Failed"
| "phase_of_legacy Legacy_Stopped = Phase_Stopped"
| "phase_of_legacy Legacy_Archived = Phase_Archived"

record legacy_input =
  la_sessionId :: string
  la_phase :: legacy_phase
  la_prUrl :: "string option"
  la_headSha :: "string option"
  la_verificationState :: "verification_state option"
  la_verificationResult :: "verification_result option"
  la_reviewLoopDoneState :: "review_loop_done_state option"
  la_cycloidDone :: cycloid_done_status

fun CYCLOID_DONE_REASON_TO_BLOCKED_REASON :: "cycloid_done_reason \<Rightarrow> blocked_reason" where
  "CYCLOID_DONE_REASON_TO_BLOCKED_REASON Reason_Ci_Red = Ci_Fix_Exhausted"
| "CYCLOID_DONE_REASON_TO_BLOCKED_REASON Reason_Verification_Exhausted = Verification_Noconverge"
| "CYCLOID_DONE_REASON_TO_BLOCKED_REASON Reason_Verification_Stopped = Verification_No_Verdict"
| "CYCLOID_DONE_REASON_TO_BLOCKED_REASON Reason_Verification_Inconclusive = Verification_Unresolved"

definition verdictFromLegacy ::
  "verification_state option \<Rightarrow> verification_result option \<Rightarrow> verdict option" where
  "verdictFromLegacy s result =
    (if s = Some Vs_Done
     then (if result = Some Vr_Needs_Work then Some Verdict_App_Breaks else Some Verdict_Pass)
     else if s = Some Vs_Skipped then Some Verdict_Skipped
     else None)"

definition adaptStateAndReason ::
  "('a legacy_input_scheme) \<Rightarrow> fsm_state \<times> blocked_reason option" where
  "adaptStateAndReason i =
    (case la_phase i of
       Legacy_Running \<Rightarrow> (GENERATING, None)
     | Legacy_Waiting_For_Input \<Rightarrow> (AWAITING_INPUT, None)
     | Legacy_Finalizing \<Rightarrow> (FINALIZING, None)
     | Legacy_Review_Listening \<Rightarrow>
         (if la_verificationState i = Some Vs_In_Progress then VERIFYING else REVIEW, None)
     | Legacy_Completed \<Rightarrow>
         (if cd_state (la_cycloidDone i) = Done_Done
             \<and> cd_outcome (la_cycloidDone i) = Some Outcome_Success
          then (MERGE_READY, None)
          else (if truthy (la_prUrl i) then MERGED else ANSWERED_NO_PR, None))
     | Legacy_Superseded \<Rightarrow> (SUPERSEDED, None)
     | Legacy_Blocked \<Rightarrow>
         (NEEDS_YOU,
          Some (case cd_reasons (la_cycloidDone i) of
                  reason # _ \<Rightarrow>
                    (if cd_outcome (la_cycloidDone i) = Some Outcome_Needs_Attention
                     then CYCLOID_DONE_REASON_TO_BLOCKED_REASON reason else Owner_Approval)
                | [] \<Rightarrow> Owner_Approval))
     | Legacy_Failed \<Rightarrow> (FAILED, None)
     | Legacy_Stopped \<Rightarrow> (STOPPED, None)
     | Legacy_Archived \<Rightarrow> (ARCHIVED, None))"

definition legacyAdapterRecord :: "('a legacy_input_scheme) \<Rightarrow> fsm_record" where
  "legacyAdapterRecord i =
    (let (s, reason) = adaptStateAndReason i in
     \<lparr>sessionId = la_sessionId i, version = 0, state = s, prUrl = la_prUrl i, headSha = la_headSha i,
      verdict = verdictFromLegacy (la_verificationState i) (la_verificationResult i),
      verdictHeadSha = None, verificationRunHead = None, verificationRunId = 0,
      verificationChildId = None, verificationRunCount = 0, ciFixRounds = 0, inFlightEpochId = None,
      codeChangedSinceVerification = False, promptIntendsChange = None, mergeReadyReopenCount = 0,
      blockedReason = reason, failureReason = None, stopMode = None, preStopState = None,
      updateBranchQueuedAt = None, deadlineAt = None, stateEnteredAt = None\<rparr>)"

section \<open>The seed\<close>

record backfill_input = legacy_input +
  bi_verificationRunCount :: int
  bi_ciFixRounds :: int
  bi_verificationVerdictHeadSha :: "string option"
  bi_businessId :: "string option"

definition BACKFILL_SKIP_STATES :: "fsm_state list" where
  "BACKFILL_SKIP_STATES = [CREATED, MERGED, CLOSED, SUPERSEDED, ARCHIVED]"

definition isBackfillTargetState :: "fsm_state \<Rightarrow> bool" where
  "isBackfillTargetState s \<longleftrightarrow> s \<notin> set BACKFILL_SKIP_STATES"

definition buildBackfillRecord :: "backfill_input \<Rightarrow> int \<Rightarrow> fsm_record" where
  "buildBackfillRecord i now =
    (let adapted = legacyAdapterRecord i;
         seed = adapted\<lparr>version := 0, stateEnteredAt := Some now,
                  verificationRunCount := bi_verificationRunCount i, ciFixRounds := bi_ciFixRounds i\<rparr>
     in if state adapted = STOPPED
        then seed\<lparr>stopMode := Some stop_mode.Stop_Resumable,
                  preStopState := Some (if truthy (prUrl adapted) then REVIEW else GENERATING)\<rparr>
        else seed)"

section \<open>Store calls\<close>

record backfill_world =
  bw_prs :: pr_table
  bw_tick :: nat

text \<open>What the environment does at each turn: the other writers, a rejected call, the clock.\<close>

record backfill_env =
  be_others :: "nat \<Rightarrow> pr_table \<Rightarrow> pr_table"
  be_rejects :: "nat \<Rightarrow> bool"
  be_clock :: "nat \<Rightarrow> int"

datatype call_error = Call_Rejected | Call_Threw pr_error | Load_Threw

definition store_call ::
  "backfill_env \<Rightarrow> (pr_table \<Rightarrow> pr_error + 'a \<times> pr_table) \<Rightarrow> backfill_world
     \<Rightarrow> (call_error + 'a) \<times> backfill_world" where
  "store_call env op w =
    (let n = bw_tick w;
         w' = \<lparr>bw_prs = be_others env n (bw_prs w), bw_tick = n + 1\<rparr>
     in if be_rejects env n then (Inl Call_Rejected, w')
        else (case op (bw_prs w') of
                Inl e \<Rightarrow> (Inl (Call_Threw e), w')
              | Inr (a, t) \<Rightarrow> (Inr a, w'\<lparr>bw_prs := t\<rparr>)))"

definition read_clock :: "backfill_env \<Rightarrow> backfill_world \<Rightarrow> int \<times> backfill_world" where
  "read_clock env w = (be_clock env (bw_tick w), w\<lparr>bw_tick := bw_tick w + 1\<rparr>)"

definition select_call :: "string \<Rightarrow> pr_table \<Rightarrow> pr_error + fsm_record option \<times> pr_table" where
  "select_call sid t = Inr (getPrCoordination t sid, t)"

definition insert_call :: "fsm_record \<Rightarrow> pr_table \<Rightarrow> pr_error + unit \<times> pr_table" where
  "insert_call rec t = rbind (insertPrCoordination rec t) (\<lambda>t'. Inr ((), t'))"

definition counted_call :: "(pr_table \<Rightarrow> pr_table \<times> int) \<Rightarrow> pr_table \<Rightarrow> pr_error + int \<times> pr_table" where
  "counted_call f t = (let (t', n) = f t in Inr (n, t'))"

section \<open>One session, and the isolated batch\<close>

datatype backfill_outcome = Skipped_Terminal | Backfill_Inserted | Backfill_Exists | Rebaselined

definition backfillInFlightSession ::
  "backfill_env \<Rightarrow> bool \<Rightarrow> backfill_input \<Rightarrow> backfill_world
     \<Rightarrow> (call_error + backfill_outcome) \<times> backfill_world" where
  "backfillInFlightSession env rebaseline i w0 =
    (let (now, w) = read_clock env w0; rec = buildBackfillRecord i now in
     if \<not> isBackfillTargetState (state rec) then (Inr Skipped_Terminal, w)
     else (case store_call env (select_call (la_sessionId i)) w of
             (Inl e, w1) \<Rightarrow> (Inl e, w1)
           | (Inr (Some existing), w1) \<Rightarrow>
               (if rebaseline \<and> version existing = 0
                then (case store_call env (counted_call (rebaselinePrCoordinationVersion0 rec)) w1 of
                        (Inl e, w2) \<Rightarrow> (Inl e, w2)
                      | (Inr changed, w2) \<Rightarrow>
                          (Inr (if changed = 1 then Rebaselined else Backfill_Exists), w2))
                else (Inr Backfill_Exists, w1))
           | (Inr None, w1) \<Rightarrow>
               (case store_call env (insert_call rec) w1 of
                  (Inl e, w2) \<Rightarrow> (Inl e, w2)
                | (Inr _, w2) \<Rightarrow> (Inr Backfill_Inserted, w2))))"

record batch_result =
  br_skippedTerminal :: int
  br_inserted :: int
  br_exists :: int
  br_rebaselined :: int
  br_failed :: int

definition empty_batch :: batch_result where
  "empty_batch = \<lparr>br_skippedTerminal = 0, br_inserted = 0, br_exists = 0, br_rebaselined = 0, br_failed = 0\<rparr>"

definition tally :: "call_error + backfill_outcome \<Rightarrow> 'a batch_result_scheme \<Rightarrow> 'a batch_result_scheme" where
  "tally outcome b =
    (case outcome of
       Inl _ \<Rightarrow> b\<lparr>br_failed := br_failed b + 1\<rparr>
     | Inr Skipped_Terminal \<Rightarrow> b\<lparr>br_skippedTerminal := br_skippedTerminal b + 1\<rparr>
     | Inr Backfill_Inserted \<Rightarrow> b\<lparr>br_inserted := br_inserted b + 1\<rparr>
     | Inr Backfill_Exists \<Rightarrow> b\<lparr>br_exists := br_exists b + 1\<rparr>
     | Inr Rebaselined \<Rightarrow> b\<lparr>br_rebaselined := br_rebaselined b + 1\<rparr>)"

fun backfillSessions ::
  "backfill_env \<Rightarrow> bool \<Rightarrow> backfill_input list \<Rightarrow> batch_result \<Rightarrow> backfill_world
     \<Rightarrow> batch_result \<times> backfill_world" where
  "backfillSessions env rebaseline [] b w = (b, w)"
| "backfillSessions env rebaseline (i # is) b w =
    (let (outcome, w') = backfillInFlightSession env rebaseline i w
     in backfillSessions env rebaseline is (tally outcome b) w')"

section \<open>The fleet\<close>

text \<open>A cell of \<open>session_index.updated_at\<close>: the column holds numbers and texts side by side.\<close>

datatype stored_time = Time_Number int | Time_Not_Finite | Time_Text string | Time_Null

definition normalizeSessionIndexTimestamp :: "(string \<Rightarrow> int option) \<Rightarrow> stored_time \<Rightarrow> int option" where
  "normalizeSessionIndexTimestamp date_parse v =
    (case v of
       Time_Number n \<Rightarrow> Some n
     | Time_Not_Finite \<Rightarrow> None
     | Time_Text s \<Rightarrow> (if s \<noteq> [] then date_parse s else None)
     | Time_Null \<Rightarrow> None)"

record session_index_row =
  si_sessionId :: string
  si_status :: string
  si_richStatus :: "string option"
  si_ownerUserId :: "int option"
  si_updatedAt :: stored_time

record active_session_row =
  as_sessionId :: string
  as_phase :: string
  as_ownerUserId :: "int option"
  as_updatedAt :: "int option"

text \<open>An empty scope is no scope.\<close>

definition listActiveSessionsForBackfill ::
  "(string \<Rightarrow> int option) \<Rightarrow> string option \<Rightarrow> session_index_row list \<Rightarrow> active_session_row list" where
  "listActiveSessionsForBackfill date_parse scope index =
    map (\<lambda>r. \<lparr>as_sessionId = si_sessionId r, as_phase = nullish (si_richStatus r) ''idle'',
              as_ownerUserId = si_ownerUserId r,
              as_updatedAt = normalizeSessionIndexTimestamp date_parse (si_updatedAt r)\<rparr>)
      (filter (\<lambda>r. si_status r = ''active'' \<and> (truthy scope \<longrightarrow> si_richStatus r = scope)) index)"

text \<open>The fields of the loaded session state the runner reads.\<close>

record legacy_session =
  ls_reviewListeningPrUrl :: "string option"
  ls_targetPrUrl :: "string option"
  ls_reviewListeningHeadSha :: "string option"
  ls_verificationState :: "verification_state option"
  ls_verificationResult :: "verification_result option"
  ls_verificationVerdictHeadSha :: "string option"
  ls_verificationAttemptCount :: "int option"
  ls_businessId :: "string option"

definition BACKFILLABLE_PHASES :: "legacy_phase list" where
  "BACKFILLABLE_PHASES =
    [Legacy_Running, Legacy_Waiting_For_Input, Legacy_Finalizing, Legacy_Review_Listening,
     Legacy_Completed, Legacy_Superseded, Legacy_Blocked, Legacy_Failed, Legacy_Stopped,
     Legacy_Archived]"

definition backfillable_phase :: "string \<Rightarrow> legacy_phase option" where
  "backfillable_phase name = find (\<lambda>p. phase_name (phase_of_legacy p) = name) BACKFILLABLE_PHASES"

definition doneStatusFromBackfillSignals :: "legacy_phase \<Rightarrow> legacy_session \<Rightarrow> cycloid_done_status" where
  "doneStatusFromBackfillSignals p s =
    (if p = Legacy_Completed \<and> truthy (orelse (ls_reviewListeningPrUrl s) (ls_targetPrUrl s))
        \<and> ls_verificationState s = Some Vs_Done \<and> ls_verificationResult s = Some Vr_Merge_Ready
     then \<lparr>cd_state = Done_Done, cd_outcome = Some Outcome_Success, cd_reasons = []\<rparr>
     else \<lparr>cd_state = Done_Working, cd_outcome = None, cd_reasons = []\<rparr>)"

definition buildBackfillInputFromSession ::
  "string \<Rightarrow> string \<Rightarrow> legacy_session \<Rightarrow> backfill_input option" where
  "buildBackfillInputFromSession sid name s =
    (case backfillable_phase name of
       None \<Rightarrow> None
     | Some p \<Rightarrow>
         Some \<lparr>la_sessionId = sid, la_phase = p,
               la_prUrl = orelse (ls_reviewListeningPrUrl s) (ls_targetPrUrl s),
               la_headSha = ls_reviewListeningHeadSha s,
               la_verificationState = ls_verificationState s,
               la_verificationResult = ls_verificationResult s,
               la_reviewLoopDoneState = None,
               la_cycloidDone = doneStatusFromBackfillSignals p s,
               bi_verificationRunCount = nullish (ls_verificationAttemptCount s) 0,
               bi_ciFixRounds = 0,
               bi_verificationVerdictHeadSha = ls_verificationVerdictHeadSha s,
               bi_businessId = ls_businessId s\<rparr>)"

section \<open>The runner\<close>

definition DEFAULT_BACKFILL_STALE_CUTOFF_MS :: int where
  "DEFAULT_BACKFILL_STALE_CUTOFF_MS = 12 * 60 * 60 * 1000"

record backfill_opts =
  bo_dryRun :: bool
  bo_limit :: "int option"
  bo_rebaseline :: bool
  bo_staleActivityCutoffMs :: "int option"

record backfill_report = batch_result +
  rp_enumerated :: int
  rp_eligible :: int
  rp_missingSession :: int
  rp_skippedIdle :: int
  rp_skippedStale :: int
  rp_removedStale :: int
  rp_dryRun :: bool

text \<open>The counters of the first loop; its \<open>exists\<close> and \<open>failed\<close> are the stale fence's own.\<close>

record scan =
  sc_inputs :: "backfill_input list"
  sc_missingSession :: int
  sc_skippedIdle :: int
  sc_skippedStale :: int
  sc_removedStale :: int
  sc_staleExists :: int
  sc_staleFailed :: int

definition empty_scan :: scan where
  "empty_scan = \<lparr>sc_inputs = [], sc_missingSession = 0, sc_skippedIdle = 0, sc_skippedStale = 0,
     sc_removedStale = 0, sc_staleExists = 0, sc_staleFailed = 0\<rparr>"

definition fence_cutoff :: "int option \<Rightarrow> int option" where
  "fence_cutoff cutoff = (case cutoff of Some c \<Rightarrow> if c > 0 then Some c else None | None \<Rightarrow> None)"

definition is_stale :: "int option \<Rightarrow> active_session_row \<Rightarrow> bool" where
  "is_stale staleBefore row \<longleftrightarrow>
    (case staleBefore of
       None \<Rightarrow> False
     | Some b \<Rightarrow> (case as_updatedAt row of None \<Rightarrow> True | Some at \<Rightarrow> at < b))"

text \<open>The re-baseline pass over one stale session; every failure is tallied, none escapes.\<close>

definition prune_stale ::
  "backfill_env \<Rightarrow> bool \<Rightarrow> string \<Rightarrow> scan \<Rightarrow> backfill_world \<Rightarrow> scan \<times> backfill_world" where
  "prune_stale env dryRun sid sc w =
    (case store_call env (select_call sid) w of
       (Inl _, w1) \<Rightarrow> (sc\<lparr>sc_staleFailed := sc_staleFailed sc + 1\<rparr>, w1)
     | (Inr None, w1) \<Rightarrow> (sc\<lparr>sc_skippedStale := sc_skippedStale sc + 1\<rparr>, w1)
     | (Inr (Some existing), w1) \<Rightarrow>
         (if version existing \<ge> 1 then (sc\<lparr>sc_staleExists := sc_staleExists sc + 1\<rparr>, w1)
          else if dryRun then (sc\<lparr>sc_removedStale := sc_removedStale sc + 1\<rparr>, w1)
          else (case store_call env (counted_call (deletePrCoordinationVersion0 sid)) w1 of
                  (Inl _, w2) \<Rightarrow> (sc\<lparr>sc_staleFailed := sc_staleFailed sc + 1\<rparr>, w2)
                | (Inr changes, w2) \<Rightarrow>
                    (if changes = 1 then (sc\<lparr>sc_removedStale := sc_removedStale sc + 1\<rparr>, w2)
                     else (sc\<lparr>sc_staleExists := sc_staleExists sc + 1\<rparr>, w2)))))"

text \<open>The loader's answer is its own: a rejected lookup is thrown out of the run.\<close>

definition scan_row ::
  "backfill_env \<Rightarrow> (string \<Rightarrow> call_error + legacy_session option) \<Rightarrow> backfill_opts \<Rightarrow> int option
     \<Rightarrow> active_session_row \<Rightarrow> scan \<Rightarrow> backfill_world \<Rightarrow> (call_error + scan) \<times> backfill_world" where
  "scan_row env load opts staleBefore row sc w =
    (if is_stale staleBefore row
     then (if \<not> bo_rebaseline opts then (Inr (sc\<lparr>sc_skippedStale := sc_skippedStale sc + 1\<rparr>), w)
           else (let (sc', w') = prune_stale env (bo_dryRun opts) (as_sessionId row) sc w in (Inr sc', w')))
     else (case load (as_sessionId row) of
             Inl e \<Rightarrow> (Inl e, w)
           | Inr None \<Rightarrow> (Inr (sc\<lparr>sc_missingSession := sc_missingSession sc + 1\<rparr>), w)
           | Inr (Some s) \<Rightarrow>
               (case buildBackfillInputFromSession (as_sessionId row) (as_phase row) s of
                  None \<Rightarrow> (Inr (sc\<lparr>sc_skippedIdle := sc_skippedIdle sc + 1\<rparr>), w)
                | Some i \<Rightarrow> (Inr (sc\<lparr>sc_inputs := sc_inputs sc @ [i]\<rparr>), w))))"

fun scan_fleet ::
  "backfill_env \<Rightarrow> (string \<Rightarrow> call_error + legacy_session option) \<Rightarrow> backfill_opts \<Rightarrow> int option
     \<Rightarrow> active_session_row list \<Rightarrow> scan \<Rightarrow> backfill_world \<Rightarrow> (call_error + scan) \<times> backfill_world" where
  "scan_fleet env load opts staleBefore [] sc w = (Inr sc, w)"
| "scan_fleet env load opts staleBefore (row # rows) sc w =
    (case scan_row env load opts staleBefore row sc w of
       (Inl e, w') \<Rightarrow> (Inl e, w')
     | (Inr sc', w') \<Rightarrow> scan_fleet env load opts staleBefore rows sc' w')"

text \<open>One input of the dry run: it classifies, and reads the row only in re-baseline mode.\<close>

definition dry_one ::
  "backfill_env \<Rightarrow> bool \<Rightarrow> backfill_input \<Rightarrow> backfill_report \<Rightarrow> backfill_world
     \<Rightarrow> (call_error + backfill_report) \<times> backfill_world" where
  "dry_one env rebaseline i b w0 =
    (let (now, w) = read_clock env w0 in
     if \<not> isBackfillTargetState (state (buildBackfillRecord i now))
     then (Inr (tally (Inr Skipped_Terminal) b), w)
     else if rebaseline
     then (case store_call env (select_call (la_sessionId i)) w of
             (Inl e, w1) \<Rightarrow> (Inl e, w1)
           | (Inr None, w1) \<Rightarrow> (Inr (tally (Inr Backfill_Inserted) b), w1)
           | (Inr (Some existing), w1) \<Rightarrow>
               (Inr (tally (Inr (if version existing = 0 then Rebaselined else Backfill_Exists)) b), w1))
     else (Inr (tally (Inr Backfill_Inserted) b), w))"

fun dry_classify ::
  "backfill_env \<Rightarrow> bool \<Rightarrow> backfill_input list \<Rightarrow> backfill_report \<Rightarrow> backfill_world
     \<Rightarrow> (call_error + backfill_report) \<times> backfill_world" where
  "dry_classify env rebaseline [] b w = (Inr b, w)"
| "dry_classify env rebaseline (i # is) b w =
    (case dry_one env rebaseline i b w of
       (Inl e, w') \<Rightarrow> (Inl e, w')
     | (Inr b', w') \<Rightarrow> dry_classify env rebaseline is b' w')"

definition processed_rows :: "int option \<Rightarrow> active_session_row list \<Rightarrow> active_session_row list" where
  "processed_rows limit rows = (case limit of Some n \<Rightarrow> take (nat (max n 0)) rows | None \<Rightarrow> rows)"

definition base_report :: "backfill_opts \<Rightarrow> active_session_row list \<Rightarrow> scan \<Rightarrow> backfill_report" where
  "base_report opts rows sc =
    \<lparr>br_skippedTerminal = 0, br_inserted = 0, br_exists = sc_staleExists sc, br_rebaselined = 0,
     br_failed = sc_staleFailed sc, rp_enumerated = int (length rows),
     rp_eligible = int (length (sc_inputs sc)), rp_missingSession = sc_missingSession sc,
     rp_skippedIdle = sc_skippedIdle sc, rp_skippedStale = sc_skippedStale sc,
     rp_removedStale = sc_removedStale sc, rp_dryRun = bo_dryRun opts\<rparr>"

definition add_batch :: "batch_result \<Rightarrow> backfill_report \<Rightarrow> backfill_report" where
  "add_batch b r =
    r\<lparr>br_skippedTerminal := br_skippedTerminal r + br_skippedTerminal b,
      br_inserted := br_inserted r + br_inserted b, br_exists := br_exists r + br_exists b,
      br_rebaselined := br_rebaselined r + br_rebaselined b, br_failed := br_failed r + br_failed b\<rparr>"

text \<open>\<open>staleBefore\<close>: the clock is read only when the fence is up.\<close>

definition stale_before :: "backfill_env \<Rightarrow> int option \<Rightarrow> backfill_world \<Rightarrow> int option \<times> backfill_world" where
  "stale_before env cutoff w =
    (case fence_cutoff cutoff of
       None \<Rightarrow> (None, w)
     | Some c \<Rightarrow> (let (now, w') = read_clock env w in (Some (now - c), w')))"

definition runFsmBackfill ::
  "backfill_env \<Rightarrow> (string \<Rightarrow> call_error + legacy_session option) \<Rightarrow> backfill_opts
     \<Rightarrow> active_session_row list \<Rightarrow> backfill_world \<Rightarrow> (call_error + backfill_report) \<times> backfill_world" where
  "runFsmBackfill env load opts rows w =
    (let toProcess = processed_rows (bo_limit opts) rows;
         (staleBefore, w0) = stale_before env (bo_staleActivityCutoffMs opts) w
     in case scan_fleet env load opts staleBefore toProcess empty_scan w0 of
          (Inl e, w1) \<Rightarrow> (Inl e, w1)
        | (Inr sc, w1) \<Rightarrow>
            (let base = base_report opts rows sc in
             if bo_dryRun opts then dry_classify env (bo_rebaseline opts) (sc_inputs sc) base w1
             else (let (b, w2) = backfillSessions env (bo_rebaseline opts) (sc_inputs sc) empty_batch w1
                   in (Inr (add_batch b base), w2))))"

section \<open>What the adapter carries over\<close>

text \<open>
  The adapter keeps the phase of every legacy session, so pill and phase survive the change of record;
  it keeps the done aggregate exactly when that is the neutral one, a clean success of a completed
  session, or a blocked session with one reason.  Any other aggregate (a second reason, a red reason kept while working) is lost.
\<close>

lemma reason_round_trip [simp]:
  "BLOCKED_REASON_TO_CYCLOID_DONE_REASON (CYCLOID_DONE_REASON_TO_BLOCKED_REASON x) = Some x"
  by (cases x) simp_all

lemma adapter_state [simp]: "state (legacyAdapterRecord i) = fst (adaptStateAndReason i)"
  by (simp add: legacyAdapterRecord_def case_prod_beta)

lemma adapter_reason [simp]: "blockedReason (legacyAdapterRecord i) = snd (adaptStateAndReason i)"
  by (simp add: legacyAdapterRecord_def case_prod_beta)

lemma done_status_eq_iff:
  "(s = (t::cycloid_done_status)) \<longleftrightarrow>
     cd_state s = cd_state t \<and> cd_outcome s = cd_outcome t \<and> cd_reasons s = cd_reasons t"
  by (cases s; cases t) simp

text \<open>
  C38.  The legacy adapter is the right inverse of the projection: the record it builds projects back to the
  phase it was built from and to the pill of that phase, for every phase; the done aggregate comes back
  unchanged exactly when it is the neutral one, a clean success of a completed session, or one reason of a
  blocked session.
\<close>

theorem legacy_adapter_parity:
  "phaseOf (state (legacyAdapterRecord i)) = phase_of_legacy (la_phase i)
   \<and> feChipOf (state (legacyAdapterRecord i)) = feChipFromPhase (Some (phase_name (phase_of_legacy (la_phase i))))
   \<and> (cycloidDoneOf (legacyAdapterRecord i) = la_cycloidDone i \<longleftrightarrow>
        la_cycloidDone i = WORKING_CYCLOID_DONE
      \<or> la_phase i = Legacy_Completed
          \<and> la_cycloidDone i = \<lparr>cd_state = Done_Done, cd_outcome = Some Outcome_Success, cd_reasons = []\<rparr>
      \<or> la_phase i = Legacy_Blocked
          \<and> (\<exists>r. la_cycloidDone i =
                  \<lparr>cd_state = Done_Done, cd_outcome = Some Outcome_Needs_Attention, cd_reasons = [r]\<rparr>))"
proof -
  have phase: "phaseOf (state (legacyAdapterRecord i)) = phase_of_legacy (la_phase i)"
    by (cases "la_phase i") (simp_all add: adaptStateAndReason_def)
  moreover have "feChipOf (state (legacyAdapterRecord i))
      = feChipFromPhase (Some (phase_name (phase_of_legacy (la_phase i))))"
    using pill_of_phase[of "state (legacyAdapterRecord i)"] phase by simp
  moreover have "cycloidDoneOf (legacyAdapterRecord i) = la_cycloidDone i \<longleftrightarrow>
        la_cycloidDone i = WORKING_CYCLOID_DONE
      \<or> la_phase i = Legacy_Completed
          \<and> la_cycloidDone i = \<lparr>cd_state = Done_Done, cd_outcome = Some Outcome_Success, cd_reasons = []\<rparr>
      \<or> la_phase i = Legacy_Blocked
          \<and> (\<exists>r. la_cycloidDone i =
                  \<lparr>cd_state = Done_Done, cd_outcome = Some Outcome_Needs_Attention, cd_reasons = [r]\<rparr>)"
    by (cases "la_phase i"; cases "cd_reasons (la_cycloidDone i)")
      (auto simp: adaptStateAndReason_def cycloidDoneOf_def WORKING_CYCLOID_DONE_def done_status_eq_iff)
  ultimately show ?thesis by blast
qed

section \<open>Which seeds the state machine accepts\<close>

lemma seed_sel [simp]:
  "sessionId (buildBackfillRecord i now) = la_sessionId i"
  "version (buildBackfillRecord i now) = 0"
  "state (buildBackfillRecord i now) = fst (adaptStateAndReason i)"
  "prUrl (buildBackfillRecord i now) = la_prUrl i"
  "headSha (buildBackfillRecord i now) = la_headSha i"
  "verificationRunId (buildBackfillRecord i now) = 0"
  "verificationRunCount (buildBackfillRecord i now) = bi_verificationRunCount i"
  "ciFixRounds (buildBackfillRecord i now) = bi_ciFixRounds i"
  "inFlightEpochId (buildBackfillRecord i now) = None"
  "mergeReadyReopenCount (buildBackfillRecord i now) = 0"
  "blockedReason (buildBackfillRecord i now) = snd (adaptStateAndReason i)"
  "failureReason (buildBackfillRecord i now) = None"
  "(buildBackfillRecord i now)\<lparr>version := 0\<rparr> = buildBackfillRecord i now"
  by (simp_all add: buildBackfillRecord_def legacyAdapterRecord_def Let_def case_prod_beta)

lemma seed_stop:
  "stopMode (buildBackfillRecord i now) =
     (if la_phase i = Legacy_Stopped then Some stop_mode.Stop_Resumable else None)"
  "preStopState (buildBackfillRecord i now) =
     (if la_phase i = Legacy_Stopped then Some (if truthy (la_prUrl i) then REVIEW else GENERATING) else None)"
  by (cases "la_phase i"; simp add: buildBackfillRecord_def legacyAdapterRecord_def Let_def
      case_prod_beta adaptStateAndReason_def)+

definition on_live_pr :: "backfill_input \<Rightarrow> bool" where
  "on_live_pr i \<longleftrightarrow> truthy (la_prUrl i) \<and> la_headSha i \<noteq> None"

definition before_pr :: "backfill_input \<Rightarrow> bool" where
  "before_pr i \<longleftrightarrow>
    la_prUrl i = None \<and> la_headSha i = None \<and> bi_verificationRunCount i = 0 \<and> bi_ciFixRounds i = 0"

theorem backfill_seed_legal_iff:
  "record_ok (buildBackfillRecord i now) \<longleftrightarrow>
     0 \<le> bi_verificationRunCount i \<and> 0 \<le> bi_ciFixRounds i \<and> bi_ciFixRounds i \<le> MAX_CI_FIX_ROUNDS
   \<and> (case state (buildBackfillRecord i now) of
        FAILED \<Rightarrow> False
      | MERGED \<Rightarrow> True
      | ARCHIVED \<Rightarrow> True
      | STOPPED \<Rightarrow> (if truthy (la_prUrl i) then la_headSha i \<noteq> None else before_pr i)
      | MERGE_READY \<Rightarrow> on_live_pr i \<and> bi_ciFixRounds i = 0
      | REVIEW \<Rightarrow> on_live_pr i
      | VERIFYING \<Rightarrow> on_live_pr i
      | NEEDS_YOU \<Rightarrow> on_live_pr i
      | SUPERSEDED \<Rightarrow> on_live_pr i
      | _ \<Rightarrow> before_pr i)"
  by (cases "la_phase i"; simp add: record_ok_def inv_defs seed_stop adaptStateAndReason_def
      phase_state_def published_state_def on_live_pr_def before_pr_def FINAL_TERMINAL_STATES_def
      NON_TERMINAL_STATES_def MAX_MERGE_READY_REOPENS_def; fastforce)

section \<open>Reasons a seed loses\<close>

text \<open>
  The runner never passes a needs-attention aggregate, so a session the legacy publish gate blocked on
  verification is seeded as waiting for owner approval and projects that label; a failed session is
  seeded without a failure reason, which no reachable record is.
\<close>

theorem seeds_lose_the_reason:
  "\<exists>i j. buildBackfillInputFromSession sid ''blocked'' s = Some i
    \<and> state (buildBackfillRecord i now) = NEEDS_YOU
    \<and> labelsOf (buildBackfillRecord i now) = [OWNER_APPROVAL_LABEL]
    \<and> buildBackfillInputFromSession sid ''failed'' s = Some j
    \<and> isBackfillTargetState (state (buildBackfillRecord j now))
    \<and> lifecycleChipDetail (state (buildBackfillRecord j now)) (blockedReason (buildBackfillRecord j now))
        (failureReason (buildBackfillRecord j now)) = None
    \<and> \<not> lifecycle_reach (buildBackfillRecord j now)"
proof -
  have names: "backfillable_phase ''blocked'' = Some Legacy_Blocked" "backfillable_phase ''failed'' = Some Legacy_Failed"
    by code_simp+
  have "\<not> record_ok r" if "state r = FAILED" "failureReason r = None" for r
    using that by (simp add: record_ok_def inv_reasons_def)
  then have "\<not> lifecycle_reach r" if "state r = FAILED" "failureReason r = None" for r
    using that lifecycle_reach_ok by blast
  then show ?thesis
    by (simp add: buildBackfillInputFromSession_def names adaptStateAndReason_def labelsOf_def
        doneStatusFromBackfillSignals_def blockedReasonDisplay_def lifecycleChipDetail_def
        isBackfillTargetState_def BACKFILL_SKIP_STATES_def)
qed

end
