(* ===== verification/Backfill_Run.thy ===== *)
theory Backfill_Run
  imports Legacy_Backfill
begin

text \<open>
  The fleet runner of \<open>session/fsm/backfill-runner.ts\<close> as a whole: every session it processes is counted once
  whatever the store does, rows with spine history are out of its reach under any interleaving, and in an undisturbed
  store the table it leaves and the report of its dry run are what the specification \<open>row_after\<close> says, session by session.
\<close>

section \<open>Every session is accounted for\<close>

definition batch_total :: "'a batch_result_scheme \<Rightarrow> int" where
  "batch_total b = br_skippedTerminal b + br_inserted b + br_exists b + br_rebaselined b + br_failed b"

lemma batch_total_tally [simp]: "batch_total (tally out b) = batch_total b + 1"
  by (simp add: batch_total_def tally_def split: sum.split backfill_outcome.split)

lemma batch_total_backfill:
  "batch_total (fst (backfillSessions env reb is b w)) = batch_total b + int (length is)"
  by (induction "is" arbitrary: b w) (simp_all add: case_prod_beta)

definition scan_total :: "scan \<Rightarrow> int" where
  "scan_total sc = int (length (sc_inputs sc)) + sc_missingSession sc + sc_skippedIdle sc
     + sc_skippedStale sc + sc_removedStale sc + sc_staleExists sc + sc_staleFailed sc"

lemma scan_total_prune: "scan_total (fst (prune_stale env dry sid sc w)) = scan_total sc + 1"
  by (simp add: prune_stale_def scan_total_def split: prod.split sum.split option.split)

lemma scan_total_row:
  "scan_row env load opts sb row sc w = (Inr sc', w') \<Longrightarrow> scan_total sc' = scan_total sc + 1"
  using scan_total_prune[of env "bo_dryRun opts" "as_sessionId row" sc w]
  by (auto simp: scan_row_def case_prod_beta scan_total_def split: if_splits sum.splits option.splits)

lemma scan_total_fleet:
  "scan_fleet env load opts sb rows sc w = (Inr sc', w') \<Longrightarrow>
     scan_total sc' = scan_total sc + int (length rows)"
  by (induction rows arbitrary: sc w)
    (auto simp: scan_total_row split: prod.splits sum.splits dest!: scan_total_row)

lemma tally_more [simp]: "batch_result.more (tally out b) = batch_result.more b"
  by (simp add: tally_def split: sum.split backfill_outcome.split)

lemma dry_one_total:
  "dry_one env reb i b w = (Inr b', w') \<Longrightarrow>
     batch_total b' = batch_total b + 1 \<and> batch_result.more b' = batch_result.more b"
  by (auto simp: dry_one_def case_prod_beta split: if_splits sum.splits option.splits prod.splits)

lemma dry_classify_total:
  "dry_classify env reb is b w = (Inr b', w') \<Longrightarrow>
     batch_total b' = batch_total b + int (length is) \<and> batch_result.more b' = batch_result.more b"
  by (induction "is" arbitrary: b w) (auto split: prod.splits sum.splits dest!: dry_one_total)

definition fleet_total :: "backfill_report \<Rightarrow> int" where
  "fleet_total r = batch_total r + rp_missingSession r + rp_skippedIdle r + rp_skippedStale r
     + rp_removedStale r"

lemma base_report_total:
  "fleet_total (base_report opts rows sc) = scan_total sc - int (length (sc_inputs sc))"
  by (simp add: fleet_total_def base_report_def batch_total_def scan_total_def)

lemma fleet_total_add: "fleet_total (add_batch b r) = fleet_total r + batch_total b"
  by (simp add: fleet_total_def add_batch_def batch_total_def)

lemma fleet_total_more:
  "batch_result.more r' = batch_result.more r \<Longrightarrow>
     fleet_total r' = fleet_total r + batch_total r' - batch_total r
     \<and> rp_enumerated r' = rp_enumerated r \<and> rp_eligible r' = rp_eligible r \<and> rp_dryRun r' = rp_dryRun r"
  by (cases r; cases r') (simp add: fleet_total_def)

lemma scan_error:
  "scan_fleet env load opts sb rows sc w = (Inl e, w') \<Longrightarrow>
     \<exists>row \<in> set rows. load (as_sessionId row) = Inl e"
  by (induction rows arbitrary: sc w)
    (auto simp: scan_row_def case_prod_beta split: prod.splits sum.splits if_splits option.splits)

lemma prune_inputs [simp]: "sc_inputs (fst (prune_stale env dry sid sc w)) = sc_inputs sc"
  by (simp add: prune_stale_def split: prod.split sum.split option.split)

lemma scan_inputs:
  "scan_fleet env load opts sb rows sc w = (Inr sc', w') \<Longrightarrow>
     length (sc_inputs sc') \<le> length (sc_inputs sc) + length rows"
proof (induction rows arbitrary: sc w)
  case (Cons row rows)
  obtain sc1 w1 where row: "scan_row env load opts sb row sc w = (Inr sc1, w1)"
    and rest: "scan_fleet env load opts sb rows sc1 w1 = (Inr sc', w')"
    using Cons.prems by (auto split: prod.splits sum.splits)
  have "length (sc_inputs sc1) \<le> length (sc_inputs sc) + 1"
    using row prune_inputs[of env "bo_dryRun opts" "as_sessionId row" sc w]
    by (auto simp: scan_row_def case_prod_beta split: if_splits sum.splits option.splits)
  then show ?case using Cons.IH[OF rest] by simp
qed simp

lemma dry_classify_error:
  "dry_classify env reb is b w = (Inl e, w') \<Longrightarrow> reb"
  by (induction "is" arbitrary: b w)
    (auto simp: dry_one_def case_prod_beta split: if_splits prod.splits sum.splits option.splits)

theorem report_accounts_for_every_session:
  assumes "runFsmBackfill env load opts rows w = (answer, w')"
  shows "case answer of
      Inr rep \<Rightarrow> fleet_total rep = int (length (processed_rows (bo_limit opts) rows))
        \<and> rp_enumerated rep = int (length rows) \<and> rp_eligible rep \<le> rp_enumerated rep
        \<and> rp_dryRun rep = bo_dryRun opts
    | Inl e \<Rightarrow> (\<exists>row \<in> set (processed_rows (bo_limit opts) rows). load (as_sessionId row) = Inl e)
        \<or> bo_dryRun opts \<and> bo_rebaseline opts"
proof -
  let ?rows = "processed_rows (bo_limit opts) rows"
  obtain sb w0 where sb: "stale_before env (bo_staleActivityCutoffMs opts) w = (sb, w0)" by fastforce
  obtain scanned w1 where sc: "scan_fleet env load opts sb ?rows empty_scan w0 = (scanned, w1)" by fastforce
  show ?thesis
  proof (cases scanned)
    case (Inl e)
    then have "answer = Inl e" using assms sb sc by (simp add: runFsmBackfill_def)
    then show ?thesis using scan_error sc Inl by fastforce
  next
    case (Inr s)
    have total: "scan_total s = int (length ?rows)"
      using scan_total_fleet[of env load opts sb ?rows empty_scan w0 s w1] sc Inr
      by (simp add: scan_total_def empty_scan_def)
    have few: "length (sc_inputs s) \<le> length rows"
      using scan_inputs[of env load opts sb ?rows empty_scan w0 s w1] sc Inr
      by (auto simp: empty_scan_def processed_rows_def split: option.splits)
    show ?thesis
    proof (cases "bo_dryRun opts")
      case True
      then have dry: "dry_classify env (bo_rebaseline opts) (sc_inputs s) (base_report opts rows s) w1 = (answer, w')"
        using assms sb sc Inr by (simp add: runFsmBackfill_def)
      show ?thesis
      proof (cases answer)
        case (Inl e)
        then have "bo_rebaseline opts" using dry dry_classify_error by blast
        then show ?thesis using Inl True by simp
      next
        case (Inr rep)
        note run = dry_classify_total[OF dry[unfolded Inr]]
        have "fleet_total rep = int (length ?rows)"
          using fleet_total_more[of rep "base_report opts rows s"] run base_report_total[of opts rows s] total
          by simp
        moreover have "rp_enumerated rep = int (length rows) \<and> rp_eligible rep \<le> rp_enumerated rep
            \<and> rp_dryRun rep = bo_dryRun opts"
          using fleet_total_more[of rep "base_report opts rows s"] run few by (simp add: base_report_def)
        ultimately show ?thesis using Inr by simp
      qed
    next
      case False
      obtain b w2 where b: "backfillSessions env (bo_rebaseline opts) (sc_inputs s) empty_batch w1 = (b, w2)"
        by fastforce
      then have "answer = Inr (add_batch b (base_report opts rows s))"
        using False assms sb sc Inr by (simp add: runFsmBackfill_def)
      moreover have "batch_total b = int (length (sc_inputs s))"
        using batch_total_backfill[of env "bo_rebaseline opts" "sc_inputs s" empty_batch w1] b
        by (simp add: batch_total_def empty_batch_def)
      moreover have "fleet_total (add_batch b (base_report opts rows s)) = scan_total s
          - int (length (sc_inputs s)) + batch_total b"
        by (simp only: fleet_total_add base_report_total)
      moreover have "rp_enumerated (add_batch b (base_report opts rows s)) = int (length rows)
          \<and> rp_eligible (add_batch b (base_report opts rows s)) = int (length (sc_inputs s))
          \<and> rp_dryRun (add_batch b (base_report opts rows s)) = bo_dryRun opts"
        by (simp add: add_batch_def base_report_def)
      ultimately show ?thesis using total few by simp
    qed
  qed
qed

section \<open>Spine history is out of reach\<close>

definition history :: "pr_table \<Rightarrow> fsm_record set" where
  "history t = {r \<in> set t. 1 \<le> version r}"

definition kept_by_others :: "backfill_env \<Rightarrow> (fsm_record set \<Rightarrow> bool) \<Rightarrow> bool" where
  "kept_by_others env P \<longleftrightarrow> (\<forall>n t. P (history t) \<longrightarrow> P (history (be_others env n t)))"

definition spares_history :: "(pr_table \<Rightarrow> pr_error + 'a \<times> pr_table) \<Rightarrow> bool" where
  "spares_history op \<longleftrightarrow> (\<forall>t a t'. op t = Inr (a, t') \<longrightarrow> history t' = history t)"

lemma store_call_keeps:
  "spares_history op \<Longrightarrow> kept_by_others env P \<Longrightarrow> P (history (bw_prs w)) \<Longrightarrow>
     store_call env op w = (res, w') \<Longrightarrow> P (history (bw_prs w'))"
  by (auto simp: store_call_def Let_def spares_history_def kept_by_others_def
      split: if_splits sum.splits prod.splits)

lemma select_spares: "spares_history (select_call sid)"
  by (simp add: spares_history_def select_call_def)

lemma insert_spares: "version rec < 1 \<Longrightarrow> spares_history (insert_call rec)"
  by (auto simp: spares_history_def insert_call_def insertPrCoordination_def history_def split: if_splits)

lemma rebaseline_spares: "spares_history (counted_call (rebaselinePrCoordinationVersion0 rec))"
  by (auto simp: spares_history_def counted_call_def rebaselinePrCoordinationVersion0_def
      update_where_def history_def)

lemma delete_spares: "spares_history (counted_call (deletePrCoordinationVersion0 sid))"
  by (auto simp: spares_history_def counted_call_def deletePrCoordinationVersion0_def history_def)

lemma session_keeps:
  assumes "kept_by_others env P" and "P (history (bw_prs w))"
    and "backfillInFlightSession env reb i w = (res, w')"
  shows "P (history (bw_prs w'))"
proof -
  let ?rec = "buildBackfillRecord i (be_clock env (bw_tick w))"
  let ?w = "w\<lparr>bw_tick := Suc (bw_tick w)\<rparr>"
  have start: "P (history (bw_prs ?w))" using assms(2) by simp
  obtain old w1 where sel: "store_call env (select_call (la_sessionId i)) ?w = (old, w1)" by fastforce
  note one = store_call_keeps[OF select_spares assms(1) start sel]
  obtain a w2 where reb: "store_call env (counted_call (rebaselinePrCoordinationVersion0 ?rec)) w1 = (a, w2)"
    by fastforce
  obtain b w3 where ins: "store_call env (insert_call ?rec) w1 = (b, w3)" by fastforce
  have two: "P (history (bw_prs w2))" by (rule store_call_keeps[OF rebaseline_spares assms(1) one reb])
  have three: "P (history (bw_prs w3))" by (rule store_call_keeps[OF insert_spares assms(1) one ins]) simp
  show ?thesis
    using assms(3) start one two three
    by (auto simp: backfillInFlightSession_def read_clock_def Let_def sel reb ins
        split: if_splits sum.splits option.splits)
qed

lemma batch_keeps:
  assumes "kept_by_others env P"
  shows "P (history (bw_prs w)) \<Longrightarrow> P (history (bw_prs (snd (backfillSessions env reb is b w))))"
proof (induction "is" arbitrary: b w)
  case (Cons i "is")
  obtain out w1 where one: "backfillInFlightSession env reb i w = (out, w1)" by fastforce
  show ?case using Cons.IH[OF session_keeps[OF assms Cons.prems one]] one by simp
qed simp

lemma prune_keeps:
  assumes "kept_by_others env P" and "P (history (bw_prs w))" and "prune_stale env dry sid sc w = (sc', w')"
  shows "P (history (bw_prs w'))"
proof -
  obtain old w1 where sel: "store_call env (select_call sid) w = (old, w1)" by fastforce
  note one = store_call_keeps[OF select_spares assms(1,2) sel]
  obtain a w2 where del: "store_call env (counted_call (deletePrCoordinationVersion0 sid)) w1 = (a, w2)"
    by fastforce
  note two = store_call_keeps[OF delete_spares assms(1) one del]
  show ?thesis
    using assms(3) one two
    by (auto simp: prune_stale_def sel del split: if_splits sum.splits option.splits)
qed

lemma scan_row_keeps:
  assumes "kept_by_others env P" and "P (history (bw_prs w))"
    and "scan_row env load opts sb row sc w = (res, w')"
  shows "P (history (bw_prs w'))"
proof -
  obtain sc1 w1 where p: "prune_stale env (bo_dryRun opts) (as_sessionId row) sc w = (sc1, w1)" by fastforce
  show ?thesis
    using assms(2,3) prune_keeps[OF assms(1,2) p]
    by (auto simp: scan_row_def p split: if_splits sum.splits option.splits)
qed

lemma scan_keeps:
  assumes "kept_by_others env P"
  shows "P (history (bw_prs w)) \<Longrightarrow> P (history (bw_prs (snd (scan_fleet env load opts sb rows sc w))))"
proof (induction rows arbitrary: sc w)
  case (Cons row rows)
  obtain res w1 where one: "scan_row env load opts sb row sc w = (res, w1)" by fastforce
  show ?case
    using Cons.IH[OF scan_row_keeps[OF assms Cons.prems one]] scan_row_keeps[OF assms Cons.prems one] one
    by (simp split: sum.split)
qed simp

lemma dry_keeps:
  assumes "kept_by_others env P"
  shows "P (history (bw_prs w)) \<Longrightarrow> P (history (bw_prs (snd (dry_classify env reb is b w))))"
proof (induction "is" arbitrary: b w)
  case (Cons i "is")
  let ?w = "w\<lparr>bw_tick := Suc (bw_tick w)\<rparr>"
  have start: "P (history (bw_prs ?w))" using Cons.prems by simp
  obtain old w1 where sel: "store_call env (select_call (la_sessionId i)) ?w = (old, w1)" by fastforce
  note one = store_call_keeps[OF select_spares assms start sel]
  obtain res w2 where d: "dry_one env reb i b w = (res, w2)" by fastforce
  have two: "P (history (bw_prs w2))"
    using d start one by (auto simp: dry_one_def read_clock_def Let_def sel split: if_splits sum.splits option.splits)
  show ?case using Cons.IH[OF two] two d by (simp split: sum.split)
qed simp

theorem backfill_spares_history:
  assumes "\<forall>n t. P (history t) \<longrightarrow> P (history (be_others env n t))"
    and "P (history (bw_prs w))"
  shows "P (history (bw_prs (snd (runFsmBackfill env load opts rows w))))"
proof -
  let ?rows = "processed_rows (bo_limit opts) rows"
  have kept: "kept_by_others env P" using assms(1) by (simp add: kept_by_others_def)
  obtain sb w0 where sb: "stale_before env (bo_staleActivityCutoffMs opts) w = (sb, w0)" by fastforce
  then have "bw_prs w0 = bw_prs w"
    by (auto simp: stale_before_def read_clock_def Let_def split: option.splits)
  then have start: "P (history (bw_prs w0))" using assms(2) by simp
  obtain res w1 where sc: "scan_fleet env load opts sb ?rows empty_scan w0 = (res, w1)" by fastforce
  have "P (history (bw_prs w1))" using scan_keeps[OF kept start, of load opts sb ?rows empty_scan] sc by simp
  then show ?thesis
    using batch_keeps[OF kept] dry_keeps[OF kept]
    by (simp add: runFsmBackfill_def sb sc Let_def case_prod_beta split: sum.split)
qed

section \<open>An undisturbed run, session by session\<close>

text \<open>
  The contract of a loop that touches one key per element: what each key holds afterwards is decided by
  the one element that names it.
\<close>

locale keyed_loop =
  fixes wf :: "'t \<Rightarrow> bool"
    and fetch :: "'t \<Rightarrow> string \<Rightarrow> 'r option"
    and key :: "'x \<Rightarrow> string"
    and step :: "'x \<Rightarrow> 't \<Rightarrow> 't"
    and upd :: "'x \<Rightarrow> 'r option \<Rightarrow> 'r option"
  assumes wf_step: "wf t \<Longrightarrow> wf (step x t)"
    and step_at: "wf t \<Longrightarrow> fetch (step x t) (key x) = upd x (fetch t (key x))"
    and step_off: "wf t \<Longrightarrow> k \<noteq> key x \<Longrightarrow> fetch (step x t) k = fetch t k"
begin

lemma wf_loop: "wf t \<Longrightarrow> wf (fold step xs t)"
  by (induction xs arbitrary: t) (simp_all add: wf_step)

lemma loop_off: "wf t \<Longrightarrow> k \<notin> key ` set xs \<Longrightarrow> fetch (fold step xs t) k = fetch t k"
  by (induction xs arbitrary: t) (simp_all add: wf_step step_off)

lemma loop_effect:
  "wf t \<Longrightarrow> distinct (map key xs) \<Longrightarrow>
     fetch (fold step xs t) k =
       (case find (\<lambda>x. key x = k) xs of None \<Rightarrow> fetch t k | Some x \<Rightarrow> upd x (fetch t k))"
proof (induction xs arbitrary: t)
  case (Cons x xs)
  show ?case
  proof (cases "key x = k")
    case True
    then have "k \<notin> key ` set xs" using Cons.prems(2) by auto
    then show ?thesis using True Cons.prems(1) step_at[of t x] by (simp add: loop_off wf_step)
  next
    case False
    then have "fetch (step x t) k = fetch t k" using Cons.prems(1) by (simp add: step_off)
    then show ?thesis using False Cons by (simp add: wf_step split: option.split)
  qed
qed simp

end

definition rows_fine :: "pr_table \<Rightarrow> bool" where
  "rows_fine t \<longleftrightarrow> pk_unique t \<and> (\<forall>r \<in> set t. 0 \<le> version r)"

text \<open>What the run decides for one input over the row it reads, and the row it leaves.\<close>

definition would :: "int \<Rightarrow> bool \<Rightarrow> backfill_input \<Rightarrow> fsm_record option \<Rightarrow> backfill_outcome" where
  "would now reb i old =
    (if \<not> isBackfillTargetState (state (buildBackfillRecord i now)) then Skipped_Terminal
     else (case old of
             None \<Rightarrow> Backfill_Inserted
           | Some r \<Rightarrow> (if reb \<and> version r = 0 then Rebaselined else Backfill_Exists)))"

definition seeded :: "int \<Rightarrow> bool \<Rightarrow> backfill_input \<Rightarrow> fsm_record option \<Rightarrow> fsm_record option" where
  "seeded now reb i old =
    (if would now reb i old = Backfill_Inserted \<or> would now reb i old = Rebaselined
     then Some (buildBackfillRecord i now) else old)"

definition seed_step :: "int \<Rightarrow> bool \<Rightarrow> backfill_input \<Rightarrow> pr_table \<Rightarrow> pr_table" where
  "seed_step now reb i t =
    (let rec = buildBackfillRecord i now in
     case would now reb i (getPrCoordination t (la_sessionId i)) of
       Backfill_Inserted \<Rightarrow> t @ [rec]
     | Rebaselined \<Rightarrow> fst (rebaselinePrCoordinationVersion0 rec t)
     | _ \<Rightarrow> t)"

lemma rebaseline_hit:
  assumes "pk_unique t" and "getPrCoordination t sid = Some r" and "version r = 0" and "sessionId rec = sid"
  shows "snd (rebaselinePrCoordinationVersion0 rec t) = 1"
    and "getPrCoordination (fst (rebaselinePrCoordinationVersion0 rec t)) sid = Some (rec\<lparr>version := 0\<rparr>)"
  using assms
  by (induction t) (auto simp: pk_unique_def rebaselinePrCoordinationVersion0_def update_where_def
      filter_absent split: if_splits)

lemma rebaseline_off:
  "sid \<noteq> sessionId rec \<Longrightarrow>
     getPrCoordination (fst (rebaselinePrCoordinationVersion0 rec t)) sid = getPrCoordination t sid"
  by (induction t) (auto simp: rebaselinePrCoordinationVersion0_def update_where_def)

lemma rebaseline_fine:
  "rows_fine t \<Longrightarrow> rows_fine (fst (rebaselinePrCoordinationVersion0 rec t))"
  using pk_unique_update[of t "\<lambda>r. sessionId r = sessionId rec \<and> version r = 0" "\<lambda>r. rec\<lparr>version := version r\<rparr>"]
  by (auto simp: rows_fine_def rebaselinePrCoordinationVersion0_def update_where_def)

lemma insert_fine:
  "rows_fine t \<Longrightarrow> getPrCoordination t (sessionId rec) = None \<Longrightarrow> version rec = 0 \<Longrightarrow> rows_fine (t @ [rec])"
  by (auto simp: rows_fine_def pk_unique_def get_None)

lemma seed_step_fine: "rows_fine t \<Longrightarrow> rows_fine (seed_step now reb i t)"
  by (auto simp: seed_step_def would_def Let_def rebaseline_fine insert_fine split: option.split)

interpretation seeds: keyed_loop rows_fine getPrCoordination la_sessionId "seed_step now reb" "seeded now reb"
  for now reb
proof unfold_locales
  fix t :: pr_table and x :: backfill_input and k :: string
  assume t: "rows_fine t"
  then show "rows_fine (seed_step now reb x t)" by (rule seed_step_fine)
  show "getPrCoordination (seed_step now reb x t) (la_sessionId x)
      = seeded now reb x (getPrCoordination t (la_sessionId x))"
    using t rebaseline_hit(2)[of t "la_sessionId x" _ "buildBackfillRecord x now"]
    by (auto simp: seed_step_def seeded_def would_def Let_def get_append rows_fine_def split: option.split)
  show "k \<noteq> la_sessionId x \<Longrightarrow> getPrCoordination (seed_step now reb x t) k = getPrCoordination t k"
    by (auto simp: seed_step_def would_def Let_def get_append rebaseline_off split: option.split)
qed

definition pruned :: "fsm_record option \<Rightarrow> fsm_record option" where
  "pruned old = (case old of Some r \<Rightarrow> if version r \<ge> 1 then old else None | None \<Rightarrow> None)"

definition prune_step :: "string \<Rightarrow> pr_table \<Rightarrow> pr_table" where
  "prune_step sid t =
    (if pruned (getPrCoordination t sid) = getPrCoordination t sid then t
     else fst (deletePrCoordinationVersion0 sid t))"

lemma delete_hit:
  assumes "pk_unique t" and "getPrCoordination t sid = Some r" and "version r = 0"
  shows "snd (deletePrCoordinationVersion0 sid t) = 1"
    and "getPrCoordination (fst (deletePrCoordinationVersion0 sid t)) sid = None"
proof -
  have "snd (deletePrCoordinationVersion0 sid t) = 1
      \<and> getPrCoordination (fst (deletePrCoordinationVersion0 sid t)) sid = None"
    using assms
  proof (induction t)
    case (Cons a t)
    then show ?case
      by (cases "sessionId a = sid")
        (auto simp: pk_unique_def deletePrCoordinationVersion0_def filter_absent get_None)
  qed simp
  then show "snd (deletePrCoordinationVersion0 sid t) = 1"
    "getPrCoordination (fst (deletePrCoordinationVersion0 sid t)) sid = None" by auto
qed

lemma delete_off:
  "k \<noteq> sid \<Longrightarrow> getPrCoordination (fst (deletePrCoordinationVersion0 sid t)) k = getPrCoordination t k"
  by (induction t) (auto simp: deletePrCoordinationVersion0_def)

lemma delete_fine: "rows_fine t \<Longrightarrow> rows_fine (fst (deletePrCoordinationVersion0 sid t))"
  by (auto simp: rows_fine_def pk_unique_def deletePrCoordinationVersion0_def distinct_map_filter)

lemma fine_version: "rows_fine t \<Longrightarrow> getPrCoordination t sid = Some r \<Longrightarrow> 0 \<le> version r"
  using get_Some by (fastforce simp: rows_fine_def)

interpretation prunes: keyed_loop rows_fine getPrCoordination "\<lambda>sid. sid" prune_step "\<lambda>_. pruned"
proof unfold_locales
  fix t :: pr_table and x k :: string
  assume t: "rows_fine t"
  then show "rows_fine (prune_step x t)" by (simp add: prune_step_def delete_fine)
  show "getPrCoordination (prune_step x t) x = pruned (getPrCoordination t x)"
    using t delete_hit(2)[of t x] fine_version[OF t, of x]
    by (auto simp: prune_step_def pruned_def rows_fine_def split: option.split)
  show "k \<noteq> x \<Longrightarrow> getPrCoordination (prune_step x t) k = getPrCoordination t k"
    by (simp add: prune_step_def delete_off)
qed

definition undisturbed :: "backfill_env \<Rightarrow> int \<Rightarrow> bool" where
  "undisturbed env now \<longleftrightarrow> (\<forall>n. be_others env n = id \<and> \<not> be_rejects env n \<and> be_clock env n = now)"

lemma undisturbed_call:
  "undisturbed env now \<Longrightarrow>
     store_call env op w =
       (case op (bw_prs w) of
          Inl e \<Rightarrow> (Inl (Call_Threw e), \<lparr>bw_prs = bw_prs w, bw_tick = bw_tick w + 1\<rparr>)
        | Inr (a, t) \<Rightarrow> (Inr a, \<lparr>bw_prs = t, bw_tick = bw_tick w + 1\<rparr>))"
  by (simp add: store_call_def undisturbed_def Let_def split: sum.split)

lemma undisturbed_clock: "undisturbed env now \<Longrightarrow> read_clock env w = (now, \<lparr>bw_prs = bw_prs w, bw_tick = bw_tick w + 1\<rparr>)"
  by (simp add: read_clock_def undisturbed_def)

lemma session_undisturbed:
  assumes "undisturbed env now" and t: "rows_fine (bw_prs w)"
  shows "\<exists>n. backfillInFlightSession env reb i w =
    (Inr (would now reb i (getPrCoordination (bw_prs w) (la_sessionId i))),
     \<lparr>bw_prs = seed_step now reb i (bw_prs w), bw_tick = n\<rparr>)"
proof (cases "getPrCoordination (bw_prs w) (la_sessionId i)")
  case None
  then show ?thesis
    by (simp add: backfillInFlightSession_def undisturbed_clock[OF assms(1)] undisturbed_call[OF assms(1)] Let_def
        select_call_def insert_call_def insertPrCoordination_def would_def seed_step_def)
next
  case (Some r)
  then have "version r = 0 \<Longrightarrow>
      snd (rebaselinePrCoordinationVersion0 (buildBackfillRecord i now) (bw_prs w)) = 1"
    using rebaseline_hit(1)[of "bw_prs w" "la_sessionId i" r] t by (simp add: rows_fine_def)
  then show ?thesis using Some
    by (simp add: backfillInFlightSession_def undisturbed_clock[OF assms(1)] undisturbed_call[OF assms(1)] Let_def
        select_call_def counted_call_def case_prod_beta would_def seed_step_def)
qed

definition outcomes :: "int \<Rightarrow> bool \<Rightarrow> backfill_input list \<Rightarrow> pr_table \<Rightarrow> backfill_outcome list" where
  "outcomes now reb is t = map (\<lambda>i. would now reb i (getPrCoordination t (la_sessionId i))) is"

lemma outcomes_simps [simp]:
  "outcomes now reb [] t = []"
  "outcomes now reb (i # is) t =
     would now reb i (getPrCoordination t (la_sessionId i)) # outcomes now reb is t"
  by (simp_all add: outcomes_def)

lemma outcomes_cong:
  "(\<And>i. i \<in> set is \<Longrightarrow> getPrCoordination t' (la_sessionId i) = getPrCoordination t (la_sessionId i)) \<Longrightarrow>
     outcomes now reb is t' = outcomes now reb is t"
  by (simp add: outcomes_def)

lemma batch_undisturbed:
  assumes "undisturbed env now"
  shows "rows_fine (bw_prs w) \<Longrightarrow> distinct (map la_sessionId is) \<Longrightarrow>
    \<exists>n. backfillSessions env reb is b w =
      (fold (\<lambda>out. tally (Inr out)) (outcomes now reb is (bw_prs w)) b,
       \<lparr>bw_prs = fold (seed_step now reb) is (bw_prs w), bw_tick = n\<rparr>)"
proof (induction "is" arbitrary: b w)
  case Nil
  show ?case by (rule exI[of _ "bw_tick w"]) simp
next
  case (Cons i "is")
  obtain n where one: "backfillInFlightSession env reb i w =
      (Inr (would now reb i (getPrCoordination (bw_prs w) (la_sessionId i))),
       \<lparr>bw_prs = seed_step now reb i (bw_prs w), bw_tick = n\<rparr>)"
    using session_undisturbed[OF assms Cons.prems(1)] by blast
  have "outcomes now reb is (seed_step now reb i (bw_prs w)) = outcomes now reb is (bw_prs w)"
    by (rule outcomes_cong, rule seeds.step_off) (use Cons.prems in \<open>auto simp: image_iff\<close>)
  then show ?case
    using Cons.IH[of "\<lparr>bw_prs = seed_step now reb i (bw_prs w), bw_tick = n\<rparr>"] Cons.prems
      seed_step_fine[OF Cons.prems(1)]
    by (simp add: one)
qed

definition prune_note :: "fsm_record option \<Rightarrow> scan \<Rightarrow> scan" where
  "prune_note old sc =
    (case old of
       None \<Rightarrow> sc\<lparr>sc_skippedStale := sc_skippedStale sc + 1\<rparr>
     | Some r \<Rightarrow> (if version r \<ge> 1 then sc\<lparr>sc_staleExists := sc_staleExists sc + 1\<rparr>
                  else sc\<lparr>sc_removedStale := sc_removedStale sc + 1\<rparr>))"

lemma prune_undisturbed:
  assumes "undisturbed env now" and t: "rows_fine (bw_prs w)"
  shows "\<exists>n. prune_stale env dry sid sc w =
    (prune_note (getPrCoordination (bw_prs w) sid) sc,
     \<lparr>bw_prs = (if dry then bw_prs w else prune_step sid (bw_prs w)), bw_tick = n\<rparr>)"
proof (cases "getPrCoordination (bw_prs w) sid")
  case None
  then show ?thesis
    by (simp add: prune_stale_def undisturbed_call[OF assms(1)] select_call_def prune_note_def prune_step_def
        pruned_def)
next
  case (Some r)
  have "0 \<le> version r" by (rule fine_version[OF t Some])
  moreover have "version r = 0 \<Longrightarrow> snd (deletePrCoordinationVersion0 sid (bw_prs w)) = 1"
    using delete_hit(1)[of "bw_prs w" sid r] t Some by (simp add: rows_fine_def)
  ultimately show ?thesis using Some
    by (simp add: prune_stale_def undisturbed_call[OF assms(1)] select_call_def counted_call_def
        case_prod_beta prune_note_def prune_step_def pruned_def)
qed

definition fleet_input ::
  "(string \<Rightarrow> call_error + legacy_session option) \<Rightarrow> int option \<Rightarrow> active_session_row \<Rightarrow> backfill_input option" where
  "fleet_input load sb row =
    (if is_stale sb row then None
     else (case load (as_sessionId row) of
             Inr (Some s) \<Rightarrow> buildBackfillInputFromSession (as_sessionId row) (as_phase row) s
           | _ \<Rightarrow> None))"

lemma fleet_input_key: "fleet_input load sb row = Some i \<Longrightarrow> la_sessionId i = as_sessionId row"
  by (auto simp: fleet_input_def buildBackfillInputFromSession_def
      split: if_splits sum.splits option.splits)

definition scan_note ::
  "(string \<Rightarrow> call_error + legacy_session option) \<Rightarrow> bool \<Rightarrow> int option \<Rightarrow> pr_table \<Rightarrow> active_session_row
     \<Rightarrow> scan \<Rightarrow> scan" where
  "scan_note load reb sb t row sc =
    (if is_stale sb row
     then (if reb then prune_note (getPrCoordination t (as_sessionId row)) sc
           else sc\<lparr>sc_skippedStale := sc_skippedStale sc + 1\<rparr>)
     else (case load (as_sessionId row) of
             Inr (Some s) \<Rightarrow>
               (case buildBackfillInputFromSession (as_sessionId row) (as_phase row) s of
                  None \<Rightarrow> sc\<lparr>sc_skippedIdle := sc_skippedIdle sc + 1\<rparr>
                | Some i \<Rightarrow> sc\<lparr>sc_inputs := sc_inputs sc @ [i]\<rparr>)
           | _ \<Rightarrow> sc\<lparr>sc_missingSession := sc_missingSession sc + 1\<rparr>))"

definition stale_keys :: "bool \<Rightarrow> int option \<Rightarrow> active_session_row list \<Rightarrow> string list" where
  "stale_keys on sb rows = map as_sessionId (filter (\<lambda>row. on \<and> is_stale sb row) rows)"

lemma stale_keys_simps [simp]:
  "stale_keys on sb [] = []"
  "stale_keys on sb (row # rows) =
     (if on \<and> is_stale sb row then as_sessionId row # stale_keys on sb rows else stale_keys on sb rows)"
  by (simp_all add: stale_keys_def)

lemma scan_note_cong:
  "getPrCoordination t' (as_sessionId row) = getPrCoordination t (as_sessionId row) \<Longrightarrow>
     scan_note load reb sb t' row = scan_note load reb sb t row"
  by (rule ext) (simp add: scan_note_def)

lemma scan_row_undisturbed:
  assumes "undisturbed env now" and "rows_fine (bw_prs w)" and "\<And>e. load (as_sessionId row) \<noteq> Inl e"
  shows "\<exists>n. scan_row env load opts sb row sc w =
    (Inr (scan_note load (bo_rebaseline opts) sb (bw_prs w) row sc),
     \<lparr>bw_prs = fold prune_step (stale_keys (bo_rebaseline opts \<and> \<not> bo_dryRun opts) sb [row]) (bw_prs w),
      bw_tick = n\<rparr>)"
proof -
  obtain n where p: "prune_stale env (bo_dryRun opts) (as_sessionId row) sc w =
      (prune_note (getPrCoordination (bw_prs w) (as_sessionId row)) sc,
       \<lparr>bw_prs = (if bo_dryRun opts then bw_prs w else prune_step (as_sessionId row) (bw_prs w)), bw_tick = n\<rparr>)"
    using prune_undisturbed[OF assms(1,2)] by blast
  have w: "\<exists>n. w = \<lparr>bw_prs = bw_prs w, bw_tick = n\<rparr>" by (cases w) simp
  show ?thesis
  proof (cases "load (as_sessionId row)")
    case (Inl e)
    then show ?thesis using assms(3) by blast
  next
    case (Inr found)
    then show ?thesis
      using p w
      by (cases "is_stale sb row"; cases "bo_rebaseline opts"; cases "bo_dryRun opts";
          simp add: scan_row_def scan_note_def split: option.split)
  qed
qed

lemma prune_keeps_other:
  "rows_fine t \<Longrightarrow> k \<notin> set ks \<Longrightarrow> getPrCoordination (fold prune_step ks t) k = getPrCoordination t k"
  using prunes.loop_off[of t k ks] by simp

lemma scan_undisturbed:
  assumes "undisturbed env now"
  shows "rows_fine (bw_prs w) \<Longrightarrow> distinct (map as_sessionId rows) \<Longrightarrow>
    (\<And>row e. row \<in> set rows \<Longrightarrow> load (as_sessionId row) \<noteq> Inl e) \<Longrightarrow>
    \<exists>n. scan_fleet env load opts sb rows sc w =
      (Inr (fold (scan_note load (bo_rebaseline opts) sb (bw_prs w)) rows sc),
       \<lparr>bw_prs = fold prune_step (stale_keys (bo_rebaseline opts \<and> \<not> bo_dryRun opts) sb rows) (bw_prs w),
        bw_tick = n\<rparr>)"
proof (induction rows arbitrary: sc w)
  case Nil
  show ?case by (rule exI[of _ "bw_tick w"]) simp
next
  case (Cons row rows)
  let ?on = "bo_rebaseline opts \<and> \<not> bo_dryRun opts"
  obtain t n where t: "t = fold prune_step (stale_keys ?on sb [row]) (bw_prs w)"
    and one: "scan_row env load opts sb row sc w =
      (Inr (scan_note load (bo_rebaseline opts) sb (bw_prs w) row sc), \<lparr>bw_prs = t, bw_tick = n\<rparr>)"
    using scan_row_undisturbed[OF assms Cons.prems(1)] Cons.prems(3) by fastforce
  have fine: "rows_fine t" unfolding t by (rule prunes.wf_loop[OF Cons.prems(1)])
  have "scan_note load (bo_rebaseline opts) sb t other = scan_note load (bo_rebaseline opts) sb (bw_prs w) other"
    if "other \<in> set rows" for other
    unfolding t by (rule scan_note_cong, rule prune_keeps_other[OF Cons.prems(1)])
      (use that Cons.prems(2) in \<open>auto simp: image_iff\<close>)
  then have same: "fold (scan_note load (bo_rebaseline opts) sb t) rows sc'
      = fold (scan_note load (bo_rebaseline opts) sb (bw_prs w)) rows sc'" for sc'
    by (rule List.fold_cong[OF refl refl])
  have rest: "fold prune_step (stale_keys ?on sb (row # rows)) (bw_prs w) = fold prune_step (stale_keys ?on sb rows) t"
    by (simp add: t)
  have "\<exists>m. scan_fleet env load opts sb rows (scan_note load (bo_rebaseline opts) sb (bw_prs w) row sc)
        \<lparr>bw_prs = t, bw_tick = n\<rparr> =
      (Inr (fold (scan_note load (bo_rebaseline opts) sb (bw_prs w)) rows
          (scan_note load (bo_rebaseline opts) sb (bw_prs w) row sc)),
       \<lparr>bw_prs = fold prune_step (stale_keys ?on sb rows) t, bw_tick = m\<rparr>)"
    using Cons.IH[of "\<lparr>bw_prs = t, bw_tick = n\<rparr>"] fine Cons.prems(2,3) by (simp add: same)
  then show ?case by (simp add: one rest del: stale_keys_simps)
qed

lemma scan_note_inputs:
  "sc_inputs (scan_note load reb sb t row sc) =
     sc_inputs sc @ (case fleet_input load sb row of None \<Rightarrow> [] | Some i \<Rightarrow> [i])"
  by (simp add: scan_note_def prune_note_def fleet_input_def split: sum.split option.split)

lemma scan_notes_inputs:
  "sc_inputs (fold (scan_note load reb sb t) rows sc) = sc_inputs sc @ List.map_filter (fleet_input load sb) rows"
  by (induction rows arbitrary: sc) (simp_all add: scan_note_inputs List.map_filter_simps split: option.split)

lemma find_inputs:
  "distinct (map as_sessionId rows) \<Longrightarrow>
     find (\<lambda>i. la_sessionId i = sid) (List.map_filter (fleet_input load sb) rows)
       = Option.bind (find (\<lambda>row. as_sessionId row = sid) rows) (fleet_input load sb)"
proof (induction rows)
  case (Cons row rows)
  show ?case
  proof (cases "as_sessionId row = sid")
    case True
    then have "find (\<lambda>r. as_sessionId r = sid) rows = None"
      using Cons.prems by (auto simp: find_None_iff image_iff)
    then show ?thesis
      using True Cons fleet_input_key by (auto simp: List.map_filter_simps split: option.split)
  next
    case False
    then show ?thesis
      using Cons fleet_input_key by (auto simp: List.map_filter_simps split: option.split)
  qed
qed (simp add: List.map_filter_simps)

lemma distinct_inputs:
  "distinct (map as_sessionId rows) \<Longrightarrow>
     distinct (map la_sessionId (List.map_filter (fleet_input load sb) rows))"
proof (induction rows)
  case (Cons row rows)
  have "\<exists>r \<in> set rows. fleet_input load sb r = Some i" if "i \<in> set (List.map_filter (fleet_input load sb) rows)" for i
    using that by (auto simp: List.map_filter_def)
  then have "set (map la_sessionId (List.map_filter (fleet_input load sb) rows)) \<subseteq> as_sessionId ` set rows"
    using fleet_input_key by fastforce
  then have "la_sessionId x \<noteq> as_sessionId row" if "x \<in> set (List.map_filter (fleet_input load sb) rows)" for x
    using that Cons.prems by (metis distinct.simps(2) image_subset_iff list.set_map list.simps(9))
  then show ?case
    using Cons by (auto simp: List.map_filter_simps dest!: fleet_input_key split: option.split)
qed (simp add: List.map_filter_simps)

lemma find_stale:
  "distinct (map as_sessionId rows) \<Longrightarrow>
     find (\<lambda>k. k = sid) (stale_keys on sb rows) =
       (case find (\<lambda>row. as_sessionId row = sid) rows of
          None \<Rightarrow> None | Some row \<Rightarrow> if on \<and> is_stale sb row then Some sid else None)"
proof (induction rows)
  case (Cons row rows)
  have "sid \<notin> as_sessionId ` set rows \<Longrightarrow> find (\<lambda>k. k = sid) (stale_keys on sb rows) = None"
    by (auto simp: find_None_iff stale_keys_def)
  then show ?case using Cons by (auto split: option.split)
qed simp

lemma distinct_stale: "distinct (map as_sessionId rows) \<Longrightarrow> distinct (stale_keys on sb rows)"
  by (simp add: stale_keys_def distinct_map_filter)

text \<open>What a run leaves for one session, from the row it found and what the fleet lists for it.\<close>

definition row_after ::
  "(string \<Rightarrow> call_error + legacy_session option) \<Rightarrow> bool \<Rightarrow> int option \<Rightarrow> int \<Rightarrow> active_session_row
     \<Rightarrow> fsm_record option \<Rightarrow> fsm_record option" where
  "row_after load reb sb now row old =
    (if is_stale sb row then (if reb then pruned old else old)
     else (case fleet_input load sb row of None \<Rightarrow> old | Some i \<Rightarrow> seeded now reb i old))"

definition fence_at :: "int option \<Rightarrow> int \<Rightarrow> int option" where
  "fence_at cutoff now = map_option (\<lambda>c. now - c) (fence_cutoff cutoff)"

lemma stale_before_undisturbed:
  "undisturbed env now \<Longrightarrow> \<exists>n. stale_before env cutoff w = (fence_at cutoff now, \<lparr>bw_prs = bw_prs w, bw_tick = n\<rparr>)"
  by (cases w) (simp add: stale_before_def fence_at_def undisturbed_clock split: option.split)

lemma run_after_scan:
  assumes "undisturbed env now" and "rows_fine (bw_prs w)"
    and "distinct (map as_sessionId (processed_rows (bo_limit opts) rows))"
    and "\<forall>row \<in> set (processed_rows (bo_limit opts) rows). \<forall>e. load (as_sessionId row) \<noteq> Inl e"
    and "sb = fence_at (bo_staleActivityCutoffMs opts) now"
    and "rs = processed_rows (bo_limit opts) rows"
    and "sc = fold (scan_note load (bo_rebaseline opts) sb (bw_prs w)) rs empty_scan"
    and "t = fold prune_step (stale_keys (bo_rebaseline opts \<and> \<not> bo_dryRun opts) sb rs) (bw_prs w)"
  shows "\<exists>n. runFsmBackfill env load opts rows w =
    (let base = base_report opts rows sc in
     if bo_dryRun opts
     then dry_classify env (bo_rebaseline opts) (sc_inputs sc) base \<lparr>bw_prs = t, bw_tick = n\<rparr>
     else (let (b, w2) = backfillSessions env (bo_rebaseline opts) (sc_inputs sc) empty_batch
                           \<lparr>bw_prs = t, bw_tick = n\<rparr>
           in (Inr (add_batch b base), w2)))"
proof -
  obtain n where sb: "stale_before env (bo_staleActivityCutoffMs opts) w = (sb, \<lparr>bw_prs = bw_prs w, bw_tick = n\<rparr>)"
    using stale_before_undisturbed[OF assms(1)] assms(5) by blast
  obtain m where "scan_fleet env load opts sb rs empty_scan \<lparr>bw_prs = bw_prs w, bw_tick = n\<rparr> =
      (Inr sc, \<lparr>bw_prs = t, bw_tick = m\<rparr>)"
    using scan_undisturbed[OF assms(1), of "\<lparr>bw_prs = bw_prs w, bw_tick = n\<rparr>" rs load opts sb empty_scan] assms
    by fastforce
  then show ?thesis by (auto simp: runFsmBackfill_def sb assms(6)[symmetric])
qed

lemma scan_inputs_undisturbed:
  "sc_inputs (fold (scan_note load reb sb t) rows empty_scan) = List.map_filter (fleet_input load sb) rows"
  by (simp add: scan_notes_inputs empty_scan_def)

text \<open>
  C39.  What one run over a fleet leaves, session by session: in an undisturbed store where every lookup answers, the
  row of a session afterwards is the one \<open>row_after\<close> computes from the row before, the session the fleet
  lists and the clock: in re-baseline mode the version-0 row of a stale session is pruned and that of a live one
  re-seeded, an absent row of a live session is seeded, a row with history is left alone, and a session the
  fleet does not list keeps its row.
\<close>

theorem backfill_run_effect:
  assumes "undisturbed env now" and "rows_fine (bw_prs w)"
    and "distinct (map as_sessionId (processed_rows (bo_limit opts) rows))"
    and "\<forall>row \<in> set (processed_rows (bo_limit opts) rows). \<forall>e. load (as_sessionId row) \<noteq> Inl e"
    and "\<not> bo_dryRun opts"
  shows "getPrCoordination (bw_prs (snd (runFsmBackfill env load opts rows w))) sid =
    (case find (\<lambda>row. as_sessionId row = sid) (processed_rows (bo_limit opts) rows) of
       None \<Rightarrow> getPrCoordination (bw_prs w) sid
     | Some row \<Rightarrow> row_after load (bo_rebaseline opts) (fence_at (bo_staleActivityCutoffMs opts) now) now row
                     (getPrCoordination (bw_prs w) sid))"
proof -
  let ?rs = "processed_rows (bo_limit opts) rows"
  let ?sb = "fence_at (bo_staleActivityCutoffMs opts) now"
  let ?is = "List.map_filter (fleet_input load ?sb) ?rs"
  let ?keys = "stale_keys (bo_rebaseline opts) ?sb ?rs"
  let ?t = "fold prune_step ?keys (bw_prs w)"
  have fine: "rows_fine ?t" by (rule prunes.wf_loop[OF assms(2)])
  obtain n where run: "bw_prs (snd (runFsmBackfill env load opts rows w)) =
      bw_prs (snd (backfillSessions env (bo_rebaseline opts) ?is empty_batch \<lparr>bw_prs = ?t, bw_tick = n\<rparr>))"
    using run_after_scan[OF assms(1-4) refl refl refl refl] assms(5)
    by (auto simp: scan_inputs_undisturbed case_prod_beta Let_def)
  also have "\<dots> = fold (seed_step now (bo_rebaseline opts)) ?is ?t"
    using batch_undisturbed[OF assms(1), of "\<lparr>bw_prs = ?t, bw_tick = n\<rparr>" ?is "bo_rebaseline opts" empty_batch]
      fine distinct_inputs[OF assms(3)] by fastforce
  finally have table: "bw_prs (snd (runFsmBackfill env load opts rows w)) = fold (seed_step now (bo_rebaseline opts)) ?is ?t" .
  have after_prune: "getPrCoordination ?t sid =
      (case find (\<lambda>row. as_sessionId row = sid) ?rs of
         None \<Rightarrow> getPrCoordination (bw_prs w) sid
       | Some row \<Rightarrow> if bo_rebaseline opts \<and> is_stale ?sb row then pruned (getPrCoordination (bw_prs w) sid)
                     else getPrCoordination (bw_prs w) sid)"
    using prunes.loop_effect[OF assms(2), of ?keys sid] distinct_stale[OF assms(3)]
    by (simp add: find_stale[OF assms(3)] split: option.split)
  show ?thesis
    unfolding table seeds.loop_effect[OF fine distinct_inputs[OF assms(3)]] find_inputs[OF assms(3)] after_prune
    by (simp add: row_after_def fleet_input_def split: option.split)
qed

section \<open>The dry run\<close>

lemma tally_dry [simp]:
  "tally out (r\<lparr>rp_dryRun := d\<rparr>) = (tally out r)\<lparr>rp_dryRun := d\<rparr>"
  by (simp add: tally_def split: sum.split backfill_outcome.split)

lemma tallies_dry:
  "fold (\<lambda>out. tally (Inr out)) outs (r\<lparr>rp_dryRun := d\<rparr>) = (fold (\<lambda>out. tally (Inr out)) outs r)\<lparr>rp_dryRun := d\<rparr>"
  by (induction outs arbitrary: r) simp_all

lemma add_batch_tally: "add_batch (tally out b) r = tally out (add_batch b r)"
  by (simp add: add_batch_def tally_def split: sum.split backfill_outcome.split)

lemma add_batch_tallies:
  "add_batch (fold (\<lambda>out. tally (Inr out)) outs b) r = fold (\<lambda>out. tally (Inr out)) outs (add_batch b r)"
  by (induction outs arbitrary: b) (simp_all add: add_batch_tally)

lemma add_empty [simp]: "add_batch empty_batch r = r"
  by (simp add: add_batch_def empty_batch_def)

lemma dry_undisturbed:
  assumes "undisturbed env now"
  shows "\<exists>n. dry_classify env True is b w =
    (Inr (fold (\<lambda>out. tally (Inr out)) (outcomes now True is (bw_prs w)) b), \<lparr>bw_prs = bw_prs w, bw_tick = n\<rparr>)"
proof (induction "is" arbitrary: b w)
  case Nil
  show ?case by (rule exI[of _ "bw_tick w"]) simp
next
  case (Cons i "is")
  have "\<exists>n. dry_one env True i b w =
      (Inr (tally (Inr (would now True i (getPrCoordination (bw_prs w) (la_sessionId i)))) b),
       \<lparr>bw_prs = bw_prs w, bw_tick = n\<rparr>)"
    by (simp add: dry_one_def undisturbed_clock[OF assms] undisturbed_call[OF assms] select_call_def would_def
        split: option.split)
  then obtain n where one: "dry_one env True i b w =
      (Inr (tally (Inr (would now True i (getPrCoordination (bw_prs w) (la_sessionId i)))) b),
       \<lparr>bw_prs = bw_prs w, bw_tick = n\<rparr>)" by blast
  show ?case
    using Cons.IH[of _ "\<lparr>bw_prs = bw_prs w, bw_tick = n\<rparr>"] by (simp add: one)
qed

text \<open>
  C40.  The dry run is a prediction: over the same fleet and clock, in an undisturbed store, it reports the counts a real
  re-baselining run reports, and it leaves the table as it was.
\<close>

theorem dry_run_predicts_the_run:
  assumes "undisturbed env now" and "rows_fine (bw_prs w)"
    and "distinct (map as_sessionId (processed_rows (bo_limit opts) rows))"
    and "\<forall>row \<in> set (processed_rows (bo_limit opts) rows). \<forall>e. load (as_sessionId row) \<noteq> Inl e"
    and "bo_rebaseline opts"
  shows "\<exists>rep. fst (runFsmBackfill env load (opts\<lparr>bo_dryRun := True\<rparr>) rows w) = Inr (rep\<lparr>rp_dryRun := True\<rparr>)
    \<and> fst (runFsmBackfill env load (opts\<lparr>bo_dryRun := False\<rparr>) rows w) = Inr (rep\<lparr>rp_dryRun := False\<rparr>)
    \<and> bw_prs (snd (runFsmBackfill env load (opts\<lparr>bo_dryRun := True\<rparr>) rows w)) = bw_prs w"
proof -
  let ?rs = "processed_rows (bo_limit opts) rows"
  let ?sb = "fence_at (bo_staleActivityCutoffMs opts) now"
  let ?sc = "fold (scan_note load True ?sb (bw_prs w)) ?rs empty_scan"
  let ?is = "List.map_filter (fleet_input load ?sb) ?rs"
  let ?keys = "stale_keys True ?sb ?rs"
  let ?t = "fold prune_step ?keys (bw_prs w)"
  let ?outs = "outcomes now True ?is (bw_prs w)"
  let ?rep = "fold (\<lambda>out. tally (Inr out)) ?outs (base_report opts rows ?sc)"
  have base: "base_report (opts\<lparr>bo_dryRun := d\<rparr>) rows ?sc = (base_report opts rows ?sc)\<lparr>rp_dryRun := d\<rparr>" for d
    by (simp add: base_report_def)
  have scanned: "\<And>d. \<forall>row \<in> set (processed_rows (bo_limit (opts\<lparr>bo_dryRun := d\<rparr>)) rows). \<forall>e. load (as_sessionId row) \<noteq> Inl e"
    "\<And>d. distinct (map as_sessionId (processed_rows (bo_limit (opts\<lparr>bo_dryRun := d\<rparr>)) rows))"
    using assms(3,4) by simp_all
  have fine: "rows_fine ?t" by (rule prunes.wf_loop[OF assms(2)])
  have same: "outcomes now True ?is ?t = ?outs"
  proof (rule outcomes_cong, rule prune_keeps_other[OF assms(2)])
    fix i assume "i \<in> set ?is"
    then obtain row where row: "row \<in> set ?rs" "fleet_input load ?sb row = Some i"
      by (auto simp: List.map_filter_def)
    then have "\<not> is_stale ?sb row" "as_sessionId row = la_sessionId i"
      using fleet_input_key by (auto simp: fleet_input_def split: if_splits)
    then show "la_sessionId i \<notin> set ?keys"
      using row(1) assms(3) by (auto simp: stale_keys_def distinct_map dest: inj_onD)
  qed
  obtain n where dry: "runFsmBackfill env load (opts\<lparr>bo_dryRun := True\<rparr>) rows w =
      dry_classify env True ?is ((base_report opts rows ?sc)\<lparr>rp_dryRun := True\<rparr>) \<lparr>bw_prs = bw_prs w, bw_tick = n\<rparr>"
    using run_after_scan[OF assms(1,2) scanned(2)[of True] scanned(1)[of True] refl refl refl refl] assms(5)
    by (auto simp: base scan_inputs_undisturbed stale_keys_def Let_def)
  obtain m where real: "runFsmBackfill env load (opts\<lparr>bo_dryRun := False\<rparr>) rows w =
      (let (b, w2) = backfillSessions env True ?is empty_batch \<lparr>bw_prs = ?t, bw_tick = m\<rparr>
       in (Inr (add_batch b ((base_report opts rows ?sc)\<lparr>rp_dryRun := False\<rparr>)), w2))"
    using run_after_scan[OF assms(1,2) scanned(2)[of False] scanned(1)[of False] refl refl refl refl] assms(5)
    by (auto simp: base scan_inputs_undisturbed Let_def)
  have "\<exists>v. runFsmBackfill env load (opts\<lparr>bo_dryRun := True\<rparr>) rows w = (Inr (?rep\<lparr>rp_dryRun := True\<rparr>), v) \<and> bw_prs v = bw_prs w"
    unfolding dry using dry_undisturbed[OF assms(1), of ?is "(base_report opts rows ?sc)\<lparr>rp_dryRun := True\<rparr>"
      "\<lparr>bw_prs = bw_prs w, bw_tick = n\<rparr>"] by (auto simp: tallies_dry)
  moreover have "fst (runFsmBackfill env load (opts\<lparr>bo_dryRun := False\<rparr>) rows w) = Inr (?rep\<lparr>rp_dryRun := False\<rparr>)"
    unfolding real using batch_undisturbed[OF assms(1), of "\<lparr>bw_prs = ?t, bw_tick = m\<rparr>" ?is True empty_batch]
      fine distinct_inputs[OF assms(3)]
    by (auto simp: tallies_dry same add_batch_tallies)
  ultimately show ?thesis by auto
qed

section \<open>Concrete runs\<close>

definition calm :: backfill_env where
  "calm = \<lparr>be_others = (\<lambda>_ t. t), be_rejects = (\<lambda>_. False), be_clock = (\<lambda>_. 100)\<rparr>"

lemma calm_undisturbed: "undisturbed calm 100"
  by (simp add: undisturbed_def calm_def fun_eq_iff)

definition sample_session :: legacy_session where
  "sample_session = \<lparr>ls_reviewListeningPrUrl = Some ''u'', ls_targetPrUrl = None,
     ls_reviewListeningHeadSha = Some ''h'', ls_verificationState = Some Vs_Exhausted,
     ls_verificationResult = None, ls_verificationVerdictHeadSha = None,
     ls_verificationAttemptCount = Some 2, ls_businessId = None\<rparr>"

definition sample_load :: "string \<Rightarrow> call_error + legacy_session option" where
  "sample_load sid = (if sid = ''c'' then Inr None else Inr (Some sample_session))"

definition sample_row :: "string \<Rightarrow> string \<Rightarrow> int option \<Rightarrow> active_session_row" where
  "sample_row sid name at = \<lparr>as_sessionId = sid, as_phase = name, as_ownerUserId = None, as_updatedAt = at\<rparr>"

definition sample_fleet :: "active_session_row list" where
  "sample_fleet = [sample_row ''a'' ''review_listening'' (Some 99), sample_row ''b'' ''running'' None,
     sample_row ''c'' ''stopped'' (Some 99), sample_row ''d'' ''stopped'' (Some 98)]"

definition sample_world :: backfill_world where
  "sample_world = \<lparr>bw_prs = [buildGenesisRecord ''b'' 1, (buildGenesisRecord ''d'' 1)\<lparr>version := 3\<rparr>], bw_tick = 0\<rparr>"

definition sample_opts :: "bool \<Rightarrow> backfill_opts" where
  "sample_opts dry = \<lparr>bo_dryRun = dry, bo_limit = None, bo_rebaseline = True, bo_staleActivityCutoffMs = Some 10\<rparr>"

lemma sample_facts:
  "rows_fine (bw_prs sample_world)"
  "distinct (map as_sessionId (processed_rows (bo_limit (sample_opts d)) sample_fleet))"
  "\<forall>row \<in> set (processed_rows (bo_limit (sample_opts d)) sample_fleet). \<forall>e. sample_load (as_sessionId row) \<noteq> Inl e"
  "bo_rebaseline (sample_opts d)"
  by (simp_all add: rows_fine_def pk_unique_def sample_world_def buildGenesisRecord_def processed_rows_def
      sample_opts_def sample_fleet_def sample_row_def sample_load_def)

theorem report_accounts_for_every_session_witness:
  "\<exists>rep w'. runFsmBackfill calm sample_load (sample_opts False) sample_fleet sample_world = (Inr rep, w')
    \<and> fleet_total rep = 4 \<and> br_inserted rep = 1 \<and> rp_removedStale rep = 1 \<and> rp_missingSession rep = 1
    \<and> br_exists rep = 1"
proof -
  obtain rep w' where run: "runFsmBackfill calm sample_load (sample_opts False) sample_fleet sample_world = (Inr rep, w')"
    and counts: "br_inserted rep = 1 \<and> rp_removedStale rep = 1 \<and> rp_missingSession rep = 1 \<and> br_exists rep = 1"
  proof -
    have "case runFsmBackfill calm sample_load (sample_opts False) sample_fleet sample_world of
        (Inr rep, w') \<Rightarrow> br_inserted rep = 1 \<and> rp_removedStale rep = 1 \<and> rp_missingSession rep = 1 \<and> br_exists rep = 1
      | (Inl e, w') \<Rightarrow> False" by code_simp
    then show thesis using that by (auto split: prod.splits sum.splits)
  qed
  have "length (processed_rows (bo_limit (sample_opts False)) sample_fleet) = 4" by code_simp
  then show ?thesis using report_accounts_for_every_session[OF run] run counts by auto
qed

theorem backfill_spares_history_witness:
  "(buildGenesisRecord ''d'' 1)\<lparr>version := 3\<rparr>
     \<in> history (bw_prs (snd (runFsmBackfill calm sample_load (sample_opts False) sample_fleet sample_world)))"
  by (rule backfill_spares_history[where P = "\<lambda>H. (buildGenesisRecord ''d'' 1)\<lparr>version := 3\<rparr> \<in> H"])
    (simp_all add: calm_def sample_world_def history_def)

theorem backfill_run_effect_witness:
  "(case getPrCoordination (bw_prs (snd (runFsmBackfill calm sample_load (sample_opts False) sample_fleet sample_world))) ''a'' of
      Some r \<Rightarrow> state r = REVIEW \<and> verificationRunCount r = 2 \<and> stateEnteredAt r = Some 100 | None \<Rightarrow> False)
   \<and> getPrCoordination (bw_prs (snd (runFsmBackfill calm sample_load (sample_opts False) sample_fleet sample_world))) ''b'' = None"
proof -
  have dry: "\<not> bo_dryRun (sample_opts False)" by (simp add: sample_opts_def)
  note effect = backfill_run_effect[OF calm_undisturbed sample_facts(1,2,3) dry]
  have "(case (case find (\<lambda>row. as_sessionId row = ''a'') (processed_rows (bo_limit (sample_opts False)) sample_fleet) of
       None \<Rightarrow> getPrCoordination (bw_prs sample_world) ''a''
     | Some row \<Rightarrow> row_after sample_load (bo_rebaseline (sample_opts False))
         (fence_at (bo_staleActivityCutoffMs (sample_opts False)) 100) 100 row
         (getPrCoordination (bw_prs sample_world) ''a'')) of
      Some r \<Rightarrow> state r = REVIEW \<and> verificationRunCount r = 2 \<and> stateEnteredAt r = Some 100 | None \<Rightarrow> False)" by code_simp
  moreover have "(case find (\<lambda>row. as_sessionId row = ''b'') (processed_rows (bo_limit (sample_opts False)) sample_fleet) of
       None \<Rightarrow> getPrCoordination (bw_prs sample_world) ''b''
     | Some row \<Rightarrow> row_after sample_load (bo_rebaseline (sample_opts False))
         (fence_at (bo_staleActivityCutoffMs (sample_opts False)) 100) 100 row
         (getPrCoordination (bw_prs sample_world) ''b'')) = None" by code_simp
  ultimately show ?thesis unfolding effect by blast
qed

theorem dry_run_predicts_the_run_witness:
  "\<exists>rep. fst (runFsmBackfill calm sample_load (sample_opts True) sample_fleet sample_world) = Inr (rep\<lparr>rp_dryRun := True\<rparr>)
    \<and> fst (runFsmBackfill calm sample_load (sample_opts False) sample_fleet sample_world) = Inr (rep\<lparr>rp_dryRun := False\<rparr>)"
  using dry_run_predicts_the_run[OF calm_undisturbed sample_facts(1) sample_facts(2)[of True] sample_facts(3)[of True]
      sample_facts(4)[of True]]
  by (auto simp: sample_opts_def)

end
