(* ===== verification/Ci_Signal.thy ===== *)
theory Ci_Signal
  imports Spine_Hazards Session_Phase
begin

text \<open>
  How the state of continuous integration reaches the spine: the collapse of check runs and status contexts into one verdict
  (\<open>reduceCiState\<close> of \<open>services/review-loop-rollup.ts\<close>, the per-name collapse of \<open>github/pr.ts\<close>), the producer
  of \<open>ci.signal\<close> (\<open>session/fsm/ci-producer.ts\<close>) and its webhook fan-out (\<open>services/review-loop-ci-signal.ts\<close>).

  GitHub is a parameter: a poll answers for a pull request and a head, or fails.  The database binding is
  present, so the local-test early returns do not arise; the telemetry of a failed poll is left out.
\<close>

section \<open>One verdict for a head\<close>

text \<open>The fields the collapse reads; the rest of a check run rides along.\<close>

record commit_check_run =
  cr_id :: int
  cr_name :: "string option"
  cr_status :: string
  cr_conclusion :: "string option"

record commit_status_context =
  sc_id :: int
  sc_context :: "string option"
  sc_state :: string

text \<open>
  A JavaScript map keeps the position of a key that is set again, so the map of the latest entry per name is an
  association list updated in place.
\<close>

fun put_latest :: "('a \<Rightarrow> int) \<Rightarrow> string \<Rightarrow> 'a \<Rightarrow> (string \<times> 'a) list \<Rightarrow> (string \<times> 'a) list" where
  "put_latest ident name x [] = [(name, x)]"
| "put_latest ident name x ((other, y) # rest) =
    (if other = name then (name, if ident x > ident y then x else y) # rest
     else (other, y) # put_latest ident name x rest)"

fun latest_named :: "('a \<Rightarrow> int) \<Rightarrow> ('a \<Rightarrow> string option) \<Rightarrow> 'a list \<Rightarrow> (string \<times> 'a) list \<Rightarrow> (string \<times> 'a) list" where
  "latest_named ident name_of [] acc = acc"
| "latest_named ident name_of (x # xs) acc =
    latest_named ident name_of xs
      (case name_of x of None \<Rightarrow> acc | Some name \<Rightarrow> put_latest ident name x acc)"

definition dedupeLatestCheckRunsByName :: "commit_check_run list \<Rightarrow> commit_check_run list" where
  "dedupeLatestCheckRunsByName runs =
    map snd (latest_named cr_id cr_name runs []) @ filter (\<lambda>r. cr_name r = None) runs"

definition FAILING_CHECK_RUN_CONCLUSIONS :: "string list" where
  "FAILING_CHECK_RUN_CONCLUSIONS = [''failure'', ''timed_out'', ''action_required'', ''startup_failure'']"

definition hasPendingCheckRuns :: "commit_check_run list \<Rightarrow> bool" where
  "hasPendingCheckRuns runs \<longleftrightarrow> (\<exists>r \<in> set runs. cr_status r \<noteq> ''completed'')"

definition isFailingCheckRun :: "commit_check_run \<Rightarrow> bool" where
  "isFailingCheckRun r \<longleftrightarrow> cr_status r = ''completed''
     \<and> (case cr_conclusion r of None \<Rightarrow> False | Some c \<Rightarrow> c \<in> set FAILING_CHECK_RUN_CONCLUSIONS)"

definition reduceCiState ::
  "commit_check_run list \<Rightarrow> commit_status_context list \<Rightarrow> review_loop_ci_state" where
  "reduceCiState checkRuns statusContexts =
    (let latest = map snd (latest_named sc_id sc_context statusContexts []);
         pending = (hasPendingCheckRuns checkRuns \<or> (\<exists>c \<in> set latest. sc_state c = ''pending''));
         failing = ((\<exists>r \<in> set checkRuns. isFailingCheckRun r)
                    \<or> (\<exists>c \<in> set latest. sc_state c = ''failure'' \<or> sc_state c = ''error''));
         okSignal = ((\<exists>r \<in> set checkRuns. cr_status r = ''completed'' \<and> cr_conclusion r = Some ''success'')
                     \<or> (\<exists>c \<in> set latest. sc_state c = ''success''))
     in if pending then Ci_State_Pending
        else if failing then Ci_State_Failing
        else if okSignal then Ci_State_Green
        else Ci_State_Absent)"

text \<open>A poll of the head: both lists, the runs collapsed at the fetch.\<close>

definition readHeadCiState ::
  "commit_check_run list \<Rightarrow> commit_status_context list \<Rightarrow> review_loop_ci_state" where
  "readHeadCiState rawRuns statusContexts =
    reduceCiState (dedupeLatestCheckRunsByName rawRuns) statusContexts"

section \<open>The producer\<close>

text \<open>What every live emitter brings to the spine.\<close>

record live_host =
  lh_poll :: ci_poll
  lh_autoVerifyDisabled :: "bool option"
  lh_sink :: "dispatch \<Rightarrow> world \<Rightarrow> sink_error option \<times> world"
  lh_env :: "nat \<Rightarrow> world \<Rightarrow> world"

definition host_deps :: "live_host \<Rightarrow> string \<Rightarrow> live_context \<Rightarrow> live_state deps" where
  "host_deps h sid ctx = liveDeps sid ctx (lh_poll h) (lh_autoVerifyDisabled h) (lh_sink h) (lh_env h)"

definition emit_live ::
  "live_host \<Rightarrow> live_context \<Rightarrow> apply_input \<Rightarrow> world \<Rightarrow> (apply_error + apply_result) \<times> world" where
  "emit_live h ctx inp w =
    (let (res, _, w') = applyEvent (host_deps h (in_sessionId inp) ctx) inp (live_init ctx) w in (res, w'))"

text \<open>\<open>CiSignalState\<close> is the rollup without its pending value.\<close>

fun signal_of_rollup :: "review_loop_ci_state \<Rightarrow> ci_signal_state option" where
  "signal_of_rollup Ci_State_Pending = None"
| "signal_of_rollup Ci_State_Failing = Some Signal_Failing"
| "signal_of_rollup Ci_State_Green = Some Signal_Green"
| "signal_of_rollup Ci_State_Absent = Some Signal_Absent"

definition ciSignalEmissionForRollup ::
  "string \<Rightarrow> review_loop_ci_state \<Rightarrow> apply_input option" where
  "ciSignalEmissionForRollup sid rollup =
    map_option
      (\<lambda>ci. \<lparr>in_sessionId = sid, in_event = Ci_Signal ci, in_metadata = Some (Meta_Ci_Signal rollup),
             in_actor = Actor_Webhook\<rparr>)
      (signal_of_rollup rollup)"

text \<open>Whatever the spine answers or throws is swallowed.\<close>

definition shadowEmitCiSignal :: "live_host \<Rightarrow> string \<Rightarrow> review_loop_ci_state \<Rightarrow> world \<Rightarrow> world" where
  "shadowEmitCiSignal h sid rollup w =
    (case ciSignalEmissionForRollup sid rollup of
       None \<Rightarrow> w
     | Some inp \<Rightarrow> snd (emit_live h (no_context\<lparr>lc_ciBucket := Some (classifyCi rollup)\<rparr>) inp w))"

section \<open>The webhook fan-out\<close>

record listening_session =
  lg_status :: string
  lg_agentRole :: "string option"
  lg_reviewListeningActive :: bool
  lg_reviewListeningPrUrl :: "string option"
  lg_reviewListeningHeadSha :: "string option"
  lg_verificationState :: "verification_state option"

definition isImplementationSessionForPr :: "listening_session option \<Rightarrow> string \<Rightarrow> bool" where
  "isImplementationSessionForPr s pr \<longleftrightarrow>
    (case s of
       None \<Rightarrow> False
     | Some s \<Rightarrow> lg_status s \<noteq> ''archived'' \<and> lg_agentRole s = Some ''implementation''
         \<and> lg_reviewListeningActive s \<and> lg_reviewListeningPrUrl s = Some pr)"

definition tracks_head :: "string \<Rightarrow> string \<Rightarrow> listening_session option \<Rightarrow> bool" where
  "tracks_head pr head s \<longleftrightarrow> isImplementationSessionForPr s pr
     \<and> (case s of None \<Rightarrow> False
        | Some s \<Rightarrow> lg_verificationState s \<noteq> Some Vs_In_Progress \<and> lg_reviewListeningHeadSha s = Some head)"

text \<open>
  The head is polled once, at the first session that passes the guards; a failed poll is thrown out of the
  loop (\<open>Inl\<close>), and what was emitted before stands.
\<close>

fun webhook_loop ::
  "live_host \<Rightarrow> string \<Rightarrow> string \<Rightarrow> review_loop_ci_state option \<Rightarrow> review_loop_ci_state option
     \<Rightarrow> (string \<times> listening_session option) list \<Rightarrow> world \<Rightarrow> (unit + unit) \<times> world" where
  "webhook_loop h pr head answer ci [] w = (Inr (), w)"
| "webhook_loop h pr head answer ci ((sid, s) # rest) w =
    (if \<not> tracks_head pr head s then webhook_loop h pr head answer ci rest w
     else (case orelse ci answer of
             None \<Rightarrow> (Inl (), w)
           | Some c \<Rightarrow> webhook_loop h pr head answer (Some c) rest (shadowEmitCiSignal h sid c w)))"

definition emitReviewLoopCiSignalFromWebhook ::
  "live_host \<Rightarrow> string \<Rightarrow> string \<Rightarrow> review_loop_ci_state option
     \<Rightarrow> (string \<times> listening_session option) list \<Rightarrow> world \<Rightarrow> (unit + unit) \<times> world" where
  "emitReviewLoopCiSignalFromWebhook h pr head answer sessions w =
    webhook_loop h pr head answer None sessions w"

section \<open>A settled signal on a caught-up pull request\<close>

text \<open>The conjunction of the merge-ready door but for the CI verdict, on the tables.\<close>

definition caught_up_row :: "world \<Rightarrow> string \<Rightarrow> fsm_record \<Rightarrow> string \<Rightarrow> string \<Rightarrow> bool" where
  "caught_up_row w sid r pr head \<longleftrightarrow>
     getPrCoordination (wd_prs w) sid = Some r \<and> state r = REVIEW \<and> inFlightEpochId r = None
     \<and> prUrl r = Some pr \<and> pr \<noteq> [] \<and> headSha r = Some head
     \<and> countUndispositionedActionable (wd_items w) sid pr = 0"

lemma quiet_spine_ok:
  assumes "world_ok {} w" and "getPrCoordination (wd_prs w) (in_sessionId inp) = Some r"
    and "transition (state r) (in_event inp) (live_guards sid ctx rs r (in_event inp)) = Inr (Some d)"
    and "nullish (d_regs d) [] = []"
    and "deps = liveDeps sid ctx poll auto noopSideEffectSink quiet"
    and "ct = ticketFor (dp_resolver deps) rs (wd_clock w) r d"
    and "w1 = afterCommit inp ct False (wd_items w) 4 w"
  shows "spine again deps inp rs w = recomputeTail again deps inp ct rs w1"
    and "world_ok {} w1"
    and "getPrCoordination (wd_prs w1) (in_sessionId inp) = Some (ct_result ct)"
proof -
  have q: "dp_env deps = quiet" "dp_sideEffects deps = noopSideEffectSink"
      "dp_resolver deps = liveResolver sid ctx poll auto"
    by (simp_all add: assms(5) liveDeps_def)
  have t: "transition (state r) (in_event inp) (rv_guards (dp_resolver deps) rs r (in_event inp)) = Inr (Some d)"
    using assms(3) by (simp add: q liveResolver_def)
  have wl: "commitWorklist deps inp ct (afterJournal inp ct w)
      = (None, (afterJournal inp ct w)\<lparr>wd_tick := wd_tick w + 3 + 0, wd_items := wd_items w\<rparr>)"
    using assms(4) by (simp add: commitWorklist_def assms(6) afterJournal_def)
  show run: "spine again deps inp rs w = recomputeTail again deps inp ct rs w1" for again
    using quiet_spine[OF q(1,2) assms(1,2) t assms(6) wl] by (simp add: assms(7))
  have "spine None deps inp rs w = (Inr (handledResult ct), rs, w1)"
    by (simp add: run recomputeTail_def)
  then show "world_ok {} w1"
    using solo.spine_well[where k = 0 and inp = inp and rs = rs and w = w and sid = sid and ctx = ctx
        and poll = poll and auto = auto, OF TrueI] assms(1)
    unfolding steps_well_def assms(5)[symmetric] by simp
  have "pk_unique (wd_prs w)" using assms(1) by (simp add: world_ok_def)
  then show "getPrCoordination (wd_prs w1) (in_sessionId inp) = Some (ct_result ct)"
    using committed_table_row(1)[of "wd_prs w" "in_sessionId inp" ct] assms(2)
    by (simp add: assms(7) afterCommit_def assms(6))
qed

lemma green_signal_edge:
  assumes "ci \<noteq> Signal_Failing" and "inFlightEpochId r = None"
  shows "\<exists>d. transition REVIEW (Ci_Signal ci) (live_guards sid ctx rs r e) = Inr (Some d)
    \<and> d_to d = REVIEW \<and> d_regs d = None \<and> w_prUrl (d_writes d) = None \<and> w_headSha (d_writes d) = None
    \<and> w_inFlightEpochId (d_writes d) = None"
  using assms
  by (cases ci; simp add: transition_def coreTransition_def step_defs handled_def live_guards_def write_defs)

lemma caught_up_edge:
  assumes "ls_ciBucket rs = Ci_Green" and "inFlightEpochId r = None"
  shows "transition REVIEW (Caught_Up head) (live_guards sid ctx rs r e)
    = Inr (Some (decide MERGE_READY resetCiFixRounds [Emit_Settle, Notify_User]))"
  using assms
  by (simp add: transition_def coreTransition_def step_defs handled_def live_guards_def review_caught_up_def
      caughtUpCascade_def)

lemma applyFrom_3: "applyFrom 3 deps = spine (Some (applyFrom 2 deps)) deps"
  by (intro ext) (simp add: numeral_eq_Suc)

lemma committed_result_sel:
  "state (ct_result (ticketFor rv rs now r d)) = d_to d"
  "version (ct_result (ticketFor rv rs now r d)) = version r + 1"
  "w_prUrl (d_writes d) = None \<Longrightarrow> prUrl (ct_result (ticketFor rv rs now r d)) = prUrl r"
  by (simp_all add: applyResult_def committed_row_def)

lemma finalDecision_keeps [simp]:
  "w_headSha (d_writes (fst (finalDecision rv rs now r d))) = w_headSha (d_writes d)"
  "w_inFlightEpochId (d_writes (fst (finalDecision rv rs now r d))) = w_inFlightEpochId (d_writes d)"
  by (simp_all add: finalDecision_def Let_def universalPostActions_def applyCiFixResetPostAction_def
      applyArmDeadlinePostAction_def write_defs)

lemma committed_result_more:
  "w_headSha (d_writes d) = None \<Longrightarrow> headSha (ct_result (ticketFor rv rs now r d)) = headSha r"
  "w_inFlightEpochId (d_writes d) = None \<Longrightarrow>
     inFlightEpochId (ct_result (ticketFor rv rs now r d)) = inFlightEpochId r"
  by (simp_all add: applyResult_def committed_row_def)

text \<open>
  A green or absent signal on a row that is caught up but for CI: one commit for the signal, one for the
  caught-up event it re-enters with, which enters MERGE_READY.
\<close>

lemma green_signal_settles:
  assumes deps: "deps = liveDeps (in_sessionId inp) ctx poll auto noopSideEffectSink quiet"
    and ok: "world_ok {} w" and row: "caught_up_row w (in_sessionId inp) r pr head"
    and ev: "in_event inp = Ci_Signal ci" "ci \<noteq> Signal_Failing"
    and green: "lc_ciBucket ctx = Some Ci_Green"
  shows "\<exists>res rs' w' r'. applyEvent deps inp (live_init ctx) w = (Inr res, rs', w')
    \<and> getPrCoordination (wd_prs w') (in_sessionId inp) = Some r'
    \<and> state r' = MERGE_READY \<and> version r' = version r + 2
    \<and> map j_event (wd_journal w') = map j_event (wd_journal w) @ [''ci.signal'', ''caught_up'']
    \<and> world_ok {} w'"
proof -
  let ?sid = "in_sessionId inp"
  let ?rv = "dp_resolver deps"
  define rs where "rs = live_init ctx"
  have get: "getPrCoordination (wd_prs w) ?sid = Some r" and st: "state r = REVIEW"
    and idle: "inFlightEpochId r = None" and pr: "prUrl r = Some pr" "pr \<noteq> []"
    and head: "headSha r = Some head" and none: "countUndispositionedActionable (wd_items w) ?sid pr = 0"
    using row by (simp_all add: caught_up_row_def)
  have bucket: "ls_ciBucket rs = Ci_Green" by (simp add: rs_def live_init_def green)
  obtain d where t: "transition REVIEW (Ci_Signal ci) (live_guards ?sid ctx rs r (Ci_Signal ci)) = Inr (Some d)"
    and d: "d_to d = REVIEW" "d_regs d = None" "w_prUrl (d_writes d) = None" "w_headSha (d_writes d) = None"
      "w_inFlightEpochId (d_writes d) = None"
    using green_signal_edge[OF ev(2) idle] by blast
  define ct where "ct = ticketFor ?rv rs (wd_clock w) r d"
  define w1 where "w1 = afterCommit inp ct False (wd_items w) 4 w"
  define r1 where "r1 = ct_result ct"
  note one = quiet_spine_ok[OF ok get t[folded ev(1) st] _ deps ct_def w1_def]
  have r1: "state r1 = REVIEW" "version r1 = version r + 1" "prUrl r1 = Some pr" "headSha r1 = Some head"
      "inFlightEpochId r1 = None"
    using d pr head idle
    by (simp_all add: r1_def ct_def committed_result_sel committed_result_more del: ticket_sel)
  define w2 where "w2 = interfere deps w1"
  define rs2 where "rs2 = rs\<lparr>ls_autoVerifyDisabled := nullish auto False\<rparr>"
  have q: "dp_env deps = quiet" "?rv = liveResolver ?sid ctx poll auto"
    by (simp_all add: deps liveDeps_def)
  have w2: "w2 = w1\<lparr>wd_tick := wd_tick w1 + 1\<rparr>" by (simp add: w2_def q)
  have none1: "countUndispositionedActionable (wd_items w2) ?sid pr = 0"
    using none by (simp add: w2 w1_def afterCommit_def)
  have inputs: "rv_caughtUpInputs ?rv rs \<lparr>ws_items = wd_items w2, ws_journal = wd_journal w2\<rparr> r1 (Ci_Signal ci)
      = (rs2, True, 0)"
    using r1 none1 pr(2) by (simp add: q liveResolver_def live_caughtUpInputs_def green rs2_def)
  have trigger: "classifyCaughtUpTrigger (state (ct_prev ct)) (in_event inp) (d_to (ct_decision ct)) \<noteq> None"
    using ev st d(1) by (simp add: classifyCaughtUpTrigger_def ct_def)
  have again: "recomputeCaughtUp (d_to (ct_decision ct)) (headSha (ct_result ct)) True 0 = Some (Caught_Up head)"
    using d(1) r1(4) by (simp add: recomputeCaughtUp_def caughtUp_def ct_def r1_def)
  let ?inp2 = "caughtUpInput inp (Caught_Up head)"
  have i2: "in_sessionId ?inp2 = ?sid" "in_event ?inp2 = Caught_Up head" by (simp_all add: caughtUpInput_def)
  have ok2: "world_ok {} w2" and get2: "getPrCoordination (wd_prs w2) (in_sessionId ?inp2) = Some r1"
    using one(2,3) d(2) by (simp_all add: w2 i2 r1_def)
  let ?d2 = "decide MERGE_READY resetCiFixRounds [Emit_Settle, Notify_User]"
  have t2: "transition (state r1) (in_event ?inp2) (live_guards ?sid ctx rs2 r1 (in_event ?inp2)) = Inr (Some ?d2)"
    using caught_up_edge[of rs2 r1] bucket r1(1,5) by (simp add: i2 rs2_def)
  define ct2 where "ct2 = ticketFor ?rv rs2 (wd_clock w2) r1 ?d2"
  define w3 where "w3 = afterCommit ?inp2 ct2 False (wd_items w2) 4 w2"
  note two = quiet_spine_ok[OF ok2 get2 t2 _ deps ct2_def w3_def]
  have last: "recomputeTail again deps ?inp2 ct2 rs2 w3 = (Inr (handledResult ct2), rs2, w3)" for again
    by (auto simp: recomputeTail_def classifyCaughtUpTrigger_def ct2_def i2 split: option.split)
  have reenter: "applyFrom 3 deps ?inp2 rs2 w2 = (Inr (handledResult ct2), rs2, w3)"
    using two(1) last by (simp add: applyFrom_3)
  have "applyEvent deps inp rs w = recomputeTail (Some (applyFrom 3 deps)) deps inp ct rs w1"
    using one(1) d(2) by (simp add: applyEvent_unfold)
  also have "\<dots> = (Inr (handledResult ct), rs2, w3)"
    using trigger inputs again reenter
    by (auto simp: recomputeTail_def w2_def[symmetric] r1_def[symmetric] ev(1))
  finally have run: "applyEvent deps inp (live_init ctx) w = (Inr (handledResult ct), rs2, w3)"
    by (simp add: rs_def)
  have "getPrCoordination (wd_prs w3) ?sid = Some (ct_result ct2)" using two(3) by (simp add: i2)
  moreover have "state (ct_result ct2) = MERGE_READY" "version (ct_result ct2) = version r + 2"
    using r1(2) by (simp_all add: ct2_def committed_result_sel del: ticket_sel)
  moreover have "map j_event (wd_journal w3) = map j_event (wd_journal w) @ [''ci.signal'', ''caught_up'']"
    by (simp add: w3_def w2 w1_def afterCommit_def journalRow_def i2 ev)
  moreover have "world_ok {} w3" using two(2) by simp
  ultimately show ?thesis using run by blast
qed


section \<open>The verdict of a head\<close>

lemma map_of_put_latest:
  "map_of (put_latest ident name x acc) =
    (map_of acc)(name \<mapsto>
      (case map_of acc name of None \<Rightarrow> x | Some y \<Rightarrow> if ident x > ident y then x else y))"
  by (induction ident name x acc rule: put_latest.induct) (auto split: option.split)

lemma keys_put_latest:
  "map fst (put_latest ident name x acc) = (if name \<in> fst ` set acc then map fst acc else map fst acc @ [name])"
  by (induction ident name x acc rule: put_latest.induct) auto

lemma distinct_latest:
  "distinct (map fst acc) \<Longrightarrow> distinct (map fst (latest_named ident name_of xs acc))"
  by (induction ident name_of xs acc rule: latest_named.induct)
    (auto simp: keys_put_latest split: option.split)

definition tracks_at :: "('a \<Rightarrow> int) \<Rightarrow> ('a \<Rightarrow> string option) \<Rightarrow> 'a set \<Rightarrow> string \<Rightarrow> 'a option \<Rightarrow> bool" where
  "tracks_at ident name_of xs n v \<longleftrightarrow>
    (case v of None \<Rightarrow> \<forall>x \<in> xs. name_of x \<noteq> Some n
     | Some z \<Rightarrow> z \<in> xs \<and> name_of z = Some n \<and> (\<forall>y \<in> xs. name_of y = Some n \<longrightarrow> ident y \<le> ident z))"

lemma tracks_put:
  assumes "tracks_at ident name_of xs n v" and "name_of x = Some n"
  shows "tracks_at ident name_of (insert x xs) n
    (Some (case v of None \<Rightarrow> x | Some y \<Rightarrow> if ident x > ident y then x else y))"
proof (cases v)
  case (Some z)
  then have "ident y \<le> ident z" if "y \<in> xs" "name_of y = Some n" for y
    using assms(1) that by (simp add: tracks_at_def)
  then show ?thesis using Some assms by (fastforce simp: tracks_at_def)
qed (use assms in \<open>auto simp: tracks_at_def\<close>)

lemma tracks_other:
  "name_of x \<noteq> Some n \<Longrightarrow> tracks_at ident name_of (insert x xs) n v = tracks_at ident name_of xs n v"
  by (cases v) (auto simp: tracks_at_def)

lemma tracks_latest_named:
  "(\<And>n. tracks_at ident name_of ys n (map_of acc n)) \<Longrightarrow>
     tracks_at ident name_of (ys \<union> set xs) n (map_of (latest_named ident name_of xs acc) n)"
proof (induction ident name_of xs acc arbitrary: ys rule: latest_named.induct)
  case (2 ident name_of x xs acc)
  have "tracks_at ident name_of (insert x ys) k
      (map_of (case name_of x of None \<Rightarrow> acc | Some name \<Rightarrow> put_latest ident name x acc) k)" for k
    using 2(2)[of k] tracks_put[of ident name_of ys k "map_of acc k" x] tracks_other[of name_of x k ident ys]
    by (cases "name_of x = Some k") (auto simp: map_of_put_latest split: option.split)
  then show ?case using 2(1)[of "insert x ys"] by simp
qed simp

text \<open>The values of the map: the entries with a name no later entry has.\<close>

lemma latest_values:
  assumes "inj_on ident (set xs)"
  shows "x \<in> set (map snd (latest_named ident name_of xs [])) \<longleftrightarrow>
    x \<in> set xs \<and> name_of x \<noteq> None \<and> (\<forall>y \<in> set xs. name_of y = name_of x \<longrightarrow> ident y \<le> ident x)"
    (is "_ \<longleftrightarrow> ?latest")
proof -
  let ?acc = "latest_named ident name_of xs []"
  have tracks: "tracks_at ident name_of (set xs) n (map_of ?acc n)" for n
    using tracks_latest_named[of ident name_of "{}" "[]" xs n] by (simp add: tracks_at_def)
  have "x \<in> set (map snd ?acc) \<longleftrightarrow> (\<exists>n. (n, x) \<in> set ?acc)" by force
  also have "\<dots> \<longleftrightarrow> (\<exists>n. map_of ?acc n = Some x)"
    using distinct_latest[of "[]" ident name_of xs] by simp
  also have "\<dots> \<longleftrightarrow> ?latest"
  proof
    assume "\<exists>n. map_of ?acc n = Some x"
    then obtain n where "map_of ?acc n = Some x" by blast
    then show ?latest using tracks[of n] by (simp add: tracks_at_def)
  next
    assume x: ?latest
    then obtain n where n: "name_of x = Some n" by blast
    obtain z where z: "map_of ?acc n = Some z"
      using tracks[of n] x n by (cases "map_of ?acc n") (auto simp: tracks_at_def)
    then have "ident z = ident x" "z \<in> set xs"
      using tracks[of n] x n by (auto simp: tracks_at_def intro: antisym)
    then show "\<exists>n. map_of ?acc n = Some x" using z assms x by (auto simp: inj_on_def)
  qed
  finally show ?thesis .
qed

text \<open>A check run stands unless a later run has its name; an unnamed run always stands, an unnamed context never.\<close>

definition stands :: "commit_check_run list \<Rightarrow> commit_check_run \<Rightarrow> bool" where
  "stands runs r \<longleftrightarrow> r \<in> set runs
     \<and> (cr_name r \<noteq> None \<longrightarrow> (\<forall>r' \<in> set runs. cr_name r' = cr_name r \<longrightarrow> cr_id r' \<le> cr_id r))"

definition stands_context :: "commit_status_context list \<Rightarrow> commit_status_context \<Rightarrow> bool" where
  "stands_context cs c \<longleftrightarrow> c \<in> set cs \<and> sc_context c \<noteq> None
     \<and> (\<forall>c' \<in> set cs. sc_context c' = sc_context c \<longrightarrow> sc_id c' \<le> sc_id c)"

text \<open>
  C37.  The verdict of a head is the one of its standing entries: of the check runs and status contexts no later entry
  of the same name replaces, anything unfinished makes it pending, else any failure failing, else any
  success green, else it is absent; stale conclusions of re-run checks never count.
\<close>

theorem ci_verdict_of_latest:
  assumes "distinct (map cr_id runs)" and "distinct (map sc_id cs)"
  shows "readHeadCiState runs cs =
    (if (\<exists>r. stands runs r \<and> cr_status r \<noteq> ''completed'') \<or> (\<exists>c. stands_context cs c \<and> sc_state c = ''pending'')
     then Ci_State_Pending
     else if (\<exists>r. stands runs r \<and> isFailingCheckRun r)
          \<or> (\<exists>c. stands_context cs c \<and> (sc_state c = ''failure'' \<or> sc_state c = ''error''))
     then Ci_State_Failing
     else if (\<exists>r. stands runs r \<and> cr_conclusion r = Some ''success'')
          \<or> (\<exists>c. stands_context cs c \<and> sc_state c = ''success'')
     then Ci_State_Green
     else Ci_State_Absent)"
proof -
  have runs: "set (dedupeLatestCheckRunsByName runs) = {r. stands runs r}"
    using latest_values[of cr_id runs _ cr_name] assms(1)
    by (auto simp: dedupeLatestCheckRunsByName_def distinct_map stands_def)
  have contexts: "set (map snd (latest_named sc_id sc_context cs [])) = {c. stands_context cs c}"
    using latest_values[of sc_id cs _ sc_context] assms(2)
    by (auto simp: distinct_map stands_context_def)
  show ?thesis
    unfolding readHeadCiState_def reduceCiState_def Let_def hasPendingCheckRuns_def runs contexts
    by (auto simp: Bex_def)
qed


theorem ci_verdict_of_latest_witness:
  "readHeadCiState
     [\<lparr>cr_id = 1, cr_name = Some ''build'', cr_status = ''completed'', cr_conclusion = Some ''failure''\<rparr>,
      \<lparr>cr_id = 2, cr_name = Some ''build'', cr_status = ''completed'', cr_conclusion = Some ''success''\<rparr>] []
   = Ci_State_Green"
proof -
  let ?old = "\<lparr>cr_id = 1, cr_name = Some ''build'', cr_status = ''completed'', cr_conclusion = Some ''failure''\<rparr>"
  let ?new = "\<lparr>cr_id = 2, cr_name = Some ''build'', cr_status = ''completed'', cr_conclusion = Some ''success''\<rparr>"
  have new: "stands [?old, ?new] r \<longleftrightarrow> r = ?new" for r by (auto simp: stands_def)
  have none: "\<not> stands_context [] c" for c by (simp add: stands_context_def)
  show ?thesis
    by (subst ci_verdict_of_latest)
      (simp_all add: new none isFailingCheckRun_def FAILING_CHECK_RUN_CONCLUSIONS_def)
qed

section \<open>A settled poll of a quiet host\<close>

definition quiet_host :: "live_host \<Rightarrow> bool" where
  "quiet_host h \<longleftrightarrow> lh_env h = quiet \<and> lh_sink h = noopSideEffectSink"

lemma interfere_quiet_host [simp]:
  "quiet_host h \<Longrightarrow> interfere (host_deps h sid ctx) w = w\<lparr>wd_tick := wd_tick w + 1\<rparr>"
  by (simp add: quiet_host_def host_deps_def liveDeps_def)

lemma settled_emission:
  assumes host: "quiet_host h" and ok: "world_ok {} w" and row: "caught_up_row w sid r pr head"
    and ci: "ci = Ci_State_Green \<or> ci = Ci_State_Absent"
  shows "\<exists>r'. getPrCoordination (wd_prs (shadowEmitCiSignal h sid ci w)) sid = Some r'
    \<and> state r' = MERGE_READY \<and> version r' = version r + 2
    \<and> map j_event (wd_journal (shadowEmitCiSignal h sid ci w)) = map j_event (wd_journal w) @ [''ci.signal'', ''caught_up'']
    \<and> world_ok {} (shadowEmitCiSignal h sid ci w)"
proof -
  obtain signal where signal: "signal_of_rollup ci = Some signal" "signal \<noteq> Signal_Failing"
    using ci by (cases ci) auto
  let ?ctx = "no_context\<lparr>lc_ciBucket := Some (classifyCi ci)\<rparr>"
  let ?inp = "\<lparr>in_sessionId = sid, in_event = Ci_Signal signal, in_metadata = Some (Meta_Ci_Signal ci),
    in_actor = Actor_Webhook\<rparr>"
  have green: "lc_ciBucket ?ctx = Some Ci_Green" using ci by (auto simp: classifyCi_def)
  have deps: "host_deps h sid ?ctx =
      liveDeps (in_sessionId ?inp) ?ctx (lh_poll h) (lh_autoVerifyDisabled h) noopSideEffectSink quiet"
    using host by (simp add: host_deps_def quiet_host_def)
  have emitted: "shadowEmitCiSignal h sid ci w
      = snd (snd (applyEvent (host_deps h sid ?ctx) ?inp (live_init ?ctx) w))"
    by (simp add: shadowEmitCiSignal_def ciSignalEmissionForRollup_def signal emit_live_def split_beta)
  show ?thesis
    using green_signal_settles[of "host_deps h sid ?ctx" ?inp ?ctx, OF deps ok _ _ signal(2) green] row
    by (fastforce simp: emitted)
qed

lemma caught_up_row_fields:
  assumes "caught_up_row w sid r pr head" and "head \<noteq> []"
  shows "truthy (prUrl r)" "truthy (headSha r)"
  using assms by (simp_all add: caught_up_row_def truthy_def)

lemma caught_up_row_tick [simp]:
  "caught_up_row (w\<lparr>wd_tick := n\<rparr>) sid r pr head = caught_up_row w sid r pr head"
  "caught_up_row (w\<lparr>wd_clock := c\<rparr>) sid r pr head = caught_up_row w sid r pr head"
  by (simp_all add: caught_up_row_def)

section \<open>A single absent read\<close>

text \<open>
  C36.  One absent read mints MERGE_READY: on a session in REVIEW whose head no journal row has ever reported
  absent, the settleable read degrades the same poll to pending, but the webhook fan-out emits it, and
  the row ends in MERGE_READY.  The comment of \<open>honest-ci-read.ts\<close> that a single absent poll can never be the
  observation that mints it holds for the settle seams only.
\<close>

theorem single_absent_read_settles:
  assumes host: "quiet_host h" and ok: "world_ok {} w" and row: "caught_up_row w sid r pr head"
    and head: "head \<noteq> []" and listens: "tracks_head pr head s"
    and poll: "lh_poll h pr head = Some Ci_State_Absent"
    and first: "\<not> isAbsentCiCorroborated (wd_journal w) sid"
  shows "readSettleableHeadCiForRecord (lh_poll h) (wd_journal w) sid r = Some Ci_State_Pending
    \<and> (\<exists>w' r'. emitReviewLoopCiSignalFromWebhook h pr head (lh_poll h pr head) [(sid, s)] w = (Inr (), w')
        \<and> getPrCoordination (wd_prs w') sid = Some r' \<and> state r' = MERGE_READY)"
proof
  show "readSettleableHeadCiForRecord (lh_poll h) (wd_journal w) sid r = Some Ci_State_Pending"
    using row first poll caught_up_row_fields[OF row head]
    by (simp add: readSettleableHeadCiForRecord_def readHeadCiForRecord_def caught_up_row_def)
  show "\<exists>w' r'. emitReviewLoopCiSignalFromWebhook h pr head (lh_poll h pr head) [(sid, s)] w = (Inr (), w')
      \<and> getPrCoordination (wd_prs w') sid = Some r' \<and> state r' = MERGE_READY"
    using settled_emission[OF host ok row, of Ci_State_Absent] listens poll
    by (auto simp: emitReviewLoopCiSignalFromWebhook_def orelse_def)
qed

definition no_ci_host :: live_host where
  "no_ci_host = \<lparr>lh_poll = \<lambda>pr head. Some Ci_State_Absent, lh_autoVerifyDisabled = None,
    lh_sink = noopSideEffectSink, lh_env = quiet\<rparr>"

definition reading_session :: listening_session where
  "reading_session = \<lparr>lg_status = ''active'', lg_agentRole = Some ''implementation'',
    lg_reviewListeningActive = True, lg_reviewListeningPrUrl = Some ''u'', lg_reviewListeningHeadSha = Some ''h'',
    lg_verificationState = None\<rparr>"

lemma no_ci_host_quiet: "quiet_host no_ci_host" "lh_poll no_ci_host pr head = Some Ci_State_Absent"
  by (simp_all add: no_ci_host_def quiet_host_def)

lemma review_seed_caught_up: "caught_up_row (seed_world review_seed) ''s'' review_seed ''u'' ''h''"
  by (simp add: caught_up_row_def seed_world_def countUndispositionedActionable_def)

theorem single_absent_read_settles_witness:
  "readSettleableHeadCiForRecord (lh_poll no_ci_host) [] ''s'' review_seed = Some Ci_State_Pending
    \<and> (\<exists>w' r'. emitReviewLoopCiSignalFromWebhook no_ci_host ''u'' ''h'' (Some Ci_State_Absent)
          [(''s'', Some reading_session)] (seed_world review_seed) = (Inr (), w')
        \<and> getPrCoordination (wd_prs w') ''s'' = Some r' \<and> state r' = MERGE_READY)"
proof -
  have listens: "tracks_head ''u'' ''h'' (Some reading_session)"
    by (simp add: tracks_head_def isImplementationSessionForPr_def reading_session_def)
  have first: "\<not> isAbsentCiCorroborated (wd_journal (seed_world review_seed)) ''s''"
    by (simp add: isAbsentCiCorroborated_def seed_world_def)
  have journal: "wd_journal (seed_world review_seed) = []" by (simp add: seed_world_def)
  show ?thesis
    using single_absent_read_settles[OF no_ci_host_quiet(1) review_seed_ok review_seed_caught_up _ listens
        no_ci_host_quiet(2) first]
    by (simp add: no_ci_host_quiet(2) journal)
qed

end
