(* ===== verification/No_Signal_Advance.thy ===== *)
theory No_Signal_Advance
  imports Ci_Signal
begin

text \<open>
  The no-signal poll of the session alarm (\<open>session/fsm/no-signal-advance-producer.ts\<close>, its two blocks of \<open>alarm\<close> in
  \<open>session/durable-object.ts\<close>): a session in REVIEW that no CI webhook ever reaches polls its head once a window
  and hands the verdict to the spine, an absent one only after two polls of the same head.

  A read the database rejects is left out: the code answers it as it answers a failed poll.
\<close>

section \<open>The no-signal poll\<close>

definition NO_SIGNAL_ADVANCE_WINDOW_MS :: int where
  "NO_SIGNAL_ADVANCE_WINDOW_MS = 90 * 1000"

text \<open>The context key is a JSON text of eight fields; the tuple of the fields carries the same information.\<close>

type_synonym emission_key =
  "fsm_state \<times> string option \<times> bool \<times> verdict option \<times> string option \<times> int \<times> string option \<times> int"

record no_signal_storage =
  ns_deadline :: "int option"
  ns_absentCount :: "(string \<times> int) option"
  ns_lastEmit :: "(ci_signal_state \<times> emission_key) option"

record fire_result =
  fr_ok :: bool
  fr_reArm :: bool
  fr_emitted :: bool
  fr_ciState :: "review_loop_ci_state option"

definition keepAliveState :: "fsm_record \<Rightarrow> bool" where
  "keepAliveState r \<longleftrightarrow> state r \<in> {REVIEW, VERIFYING, MERGE_READY, NEEDS_YOU}"

definition shouldPoll :: "fsm_record \<Rightarrow> bool" where
  "shouldPoll r \<longleftrightarrow> state r = REVIEW"

definition shouldRetainAuxiliaryState :: "fsm_record option \<Rightarrow> bool" where
  "shouldRetainAuxiliaryState rec \<longleftrightarrow>
    (case rec of None \<Rightarrow> False | Some r \<Rightarrow> state r = REVIEW \<or> state r = VERIFYING)"

definition noPollResult :: "bool \<Rightarrow> fire_result" where
  "noPollResult reArm = \<lparr>fr_ok = True, fr_reArm = reArm, fr_emitted = False, fr_ciState = None\<rparr>"

definition faultResult :: fire_result where
  "faultResult = \<lparr>fr_ok = False, fr_reArm = True, fr_emitted = False, fr_ciState = None\<rparr>"

definition polled :: "review_loop_ci_state \<Rightarrow> bool \<Rightarrow> bool \<Rightarrow> fire_result" where
  "polled ci reArm emitted = \<lparr>fr_ok = True, fr_reArm = reArm, fr_emitted = emitted, fr_ciState = Some ci\<rparr>"

definition noSignalEmissionContextKey :: "fsm_record \<Rightarrow> emission_key" where
  "noSignalEmissionContextKey r =
    (state r, headSha r, codeChangedSinceVerification r, verdict r, verdictHeadSha r,
     verificationRunId r, inFlightEpochId r, ciFixRounds r)"

definition absent_count :: "(string \<times> int) option \<Rightarrow> string \<Rightarrow> int" where
  "absent_count raw head =
    (case raw of Some (h, n) \<Rightarrow> if h = head then max 0 n else 0 | None \<Rightarrow> 0)"

definition clear_auxiliary :: "no_signal_storage \<Rightarrow> no_signal_storage" where
  "clear_auxiliary st = st\<lparr>ns_absentCount := None, ns_lastEmit := None\<rparr>"

definition retain_or_clear :: "fsm_record option \<Rightarrow> no_signal_storage \<Rightarrow> no_signal_storage" where
  "retain_or_clear rec st = (if shouldRetainAuxiliaryState rec then st else clear_auxiliary st)"

text \<open>
  The tail of a settled poll: nothing when this verdict was already emitted in this context, else the signal, and
  the context it left is remembered when the spine moved the row and the session still polls.
\<close>

definition emit_settled ::
  "live_host \<Rightarrow> string \<Rightarrow> review_loop_ci_state \<Rightarrow> ci_signal_state \<Rightarrow> fsm_record \<Rightarrow> no_signal_storage \<Rightarrow> world
     \<Rightarrow> fire_result \<times> no_signal_storage \<times> world" where
  "emit_settled h sid ci signal latest st w =
    (if ns_lastEmit st = Some (signal, noSignalEmissionContextKey latest)
     then (polled ci True False, st, w)
     else
       (let w1 = interfere (host_deps h sid no_context) (shadowEmitCiSignal h sid ci w);
            after_emit = getPrCoordination (wd_prs w1) sid;
            reArm = (case after_emit of None \<Rightarrow> False | Some a \<Rightarrow> keepAliveState a);
            st1 = (case after_emit of
                     None \<Rightarrow> st
                   | Some a \<Rightarrow>
                       (if version a \<noteq> version latest \<and> shouldRetainAuxiliaryState after_emit
                        then st\<lparr>ns_lastEmit := Some (signal, noSignalEmissionContextKey a)\<rparr> else st))
        in (polled ci reArm True, retain_or_clear after_emit st1, w1)))"

text \<open>After the second read of the row: the head is still the polled one and the session still polls.\<close>

definition act_on_poll ::
  "live_host \<Rightarrow> string \<Rightarrow> review_loop_ci_state \<Rightarrow> string \<Rightarrow> fsm_record \<Rightarrow> no_signal_storage \<Rightarrow> world
     \<Rightarrow> fire_result \<times> no_signal_storage \<times> world" where
  "act_on_poll h sid ci head latest st w =
    (let count = absent_count (ns_absentCount st) head + 1;
         st' = (if ci = Ci_State_Absent then st\<lparr>ns_absentCount := Some (head, count)\<rparr>
                else st\<lparr>ns_absentCount := None\<rparr>)
     in if ci = Ci_State_Absent \<and> count < 2 then (polled ci True False, st', w)
        else (case signal_of_rollup ci of
                None \<Rightarrow> (polled ci True False, st', w)
              | Some signal \<Rightarrow> emit_settled h sid ci signal latest st' w))"

definition shadowFireDueNoSignalAdvance ::
  "live_host \<Rightarrow> (string \<Rightarrow> bool) \<Rightarrow> string \<Rightarrow> no_signal_storage \<Rightarrow> world
     \<Rightarrow> fire_result \<times> no_signal_storage \<times> world" where
  "shadowFireDueNoSignalAdvance h parses sid st w0 =
    (let w = interfere (host_deps h sid no_context) w0 in
     case getPrCoordination (wd_prs w) sid of
       None \<Rightarrow> (noPollResult False, clear_auxiliary st, w)
     | Some r \<Rightarrow>
         (if \<not> truthy (prUrl r) \<or> \<not> truthy (headSha r) \<or> \<not> keepAliveState r
          then (noPollResult False, clear_auxiliary st, w)
          else if \<not> shouldPoll r then (noPollResult True, retain_or_clear (Some r) st, w)
          else if \<not> parses (nullish (prUrl r) []) then (noPollResult False, clear_auxiliary st, w)
          else
            (let head = nullish (headSha r) [] in
             case lh_poll h (nullish (prUrl r) []) head of
               None \<Rightarrow> (faultResult, st, w)
             | Some ci \<Rightarrow>
                 (let w1 = interfere (host_deps h sid no_context) w in
                  case getPrCoordination (wd_prs w1) sid of
                    None \<Rightarrow> (polled ci False False, clear_auxiliary st, w1)
                  | Some latest \<Rightarrow>
                      (if \<not> keepAliveState latest then (polled ci False False, clear_auxiliary st, w1)
                       else if headSha latest \<noteq> Some head \<or> \<not> shouldPoll latest
                       then (polled ci True False, retain_or_clear (Some latest) st, w1)
                       else act_on_poll h sid ci head latest st w1)))))"

section \<open>Arming and the alarm\<close>

record arm_input =
  ai_prUrl :: string
  ai_ownerUserId :: int
  ai_repoOwner :: string
  ai_repoName :: string
  ai_now :: int

text \<open>
  \<open>trim\<close> of the two names leaves something exactly when they hold a character that is no white space; the callback
  that stores the deadline may throw.
\<close>

definition MAX_SAFE_INTEGER :: int where "MAX_SAFE_INTEGER = 2 ^ 53 - 1"

definition has_text :: "string \<Rightarrow> bool" where
  "has_text s \<longleftrightarrow> (\<exists>c \<in> set s. \<not> js_space c)"

definition armNoSignalAdvanceOnPrOpened :: "arm_input \<Rightarrow> bool \<Rightarrow> int option" where
  "armNoSignalAdvanceOnPrOpened i store_throws =
    (if \<not> (\<bar>ai_ownerUserId i\<bar> \<le> MAX_SAFE_INTEGER) \<or> ai_ownerUserId i \<le> 0 \<or> \<not> has_text (ai_repoOwner i)
        \<or> \<not> has_text (ai_repoName i) \<or> ai_prUrl i = []
     then None
     else if store_throws then None
     else Some (ai_now i + NO_SIGNAL_ADVANCE_WINDOW_MS))"

definition shouldSelfArmNoSignalAdvance :: "bool \<Rightarrow> bool \<Rightarrow> bool" where
  "shouldSelfArmNoSignalAdvance reviewListeningActive hasArmedDeadline \<longleftrightarrow>
    reviewListeningActive \<and> \<not> hasArmedDeadline"

text \<open>
  The two no-signal blocks of one alarm tick: self-arming, then the poll when it is due.  The tick begins at the
  world's clock; \<open>later\<close> is the clock after the poll, when it re-arms.
\<close>

definition self_armed :: "bool \<Rightarrow> int \<Rightarrow> no_signal_storage \<Rightarrow> no_signal_storage" where
  "self_armed listening now st =
    (if shouldSelfArmNoSignalAdvance listening (ns_deadline st \<noteq> None)
     then st\<lparr>ns_deadline := Some (now + NO_SIGNAL_ADVANCE_WINDOW_MS)\<rparr> else st)"

definition poll_due :: "int \<Rightarrow> no_signal_storage \<Rightarrow> bool" where
  "poll_due now st \<longleftrightarrow> (case ns_deadline st of None \<Rightarrow> False | Some deadline \<Rightarrow> deadline \<le> now)"

definition no_signal_alarm ::
  "live_host \<Rightarrow> (string \<Rightarrow> bool) \<Rightarrow> bool \<Rightarrow> string \<Rightarrow> int \<Rightarrow> no_signal_storage \<Rightarrow> world
     \<Rightarrow> no_signal_storage \<times> world" where
  "no_signal_alarm h parses listening sid later st0 w =
    (let now = wd_clock w;
         st = self_armed listening now st0
     in if \<not> poll_due now st then (st, w)
        else
          (let (res, st', w') = shadowFireDueNoSignalAdvance h parses sid st w
           in (if fr_reArm res then st'\<lparr>ns_deadline := Some (later + NO_SIGNAL_ADVANCE_WINDOW_MS)\<rparr>
               else st'\<lparr>ns_deadline := None\<rparr>, w')))"

section \<open>Without continuous integration\<close>

lemma due_poll_acts:
  assumes host: "quiet_host h" and row: "caught_up_row w sid r pr head" and "head \<noteq> []"
    and "parses pr" and "lh_poll h pr head = Some ci"
  shows "shadowFireDueNoSignalAdvance h parses sid st w
    = act_on_poll h sid ci head r st (w\<lparr>wd_tick := wd_tick w + 2\<rparr>)"
proof -
  note f = caught_up_row_fields[OF row assms(3)]
  have polls: "keepAliveState r" "shouldPoll r"
    using row by (simp_all add: caught_up_row_def keepAliveState_def shouldPoll_def)
  show ?thesis
    using row f polls assms(4,5)
    by (simp add: shadowFireDueNoSignalAdvance_def host caught_up_row_def Let_def)
qed

lemma counted_absent:
  "absent_count (Some (head, n)) head = max 0 n"
  by (simp add: absent_count_def)

text \<open>The first absent poll of a head is only counted; the second emits.\<close>

lemma first_absent_counted:
  "absent_count (ns_absentCount st) head = 0 \<Longrightarrow>
     act_on_poll h sid Ci_State_Absent head r st w
       = (polled Ci_State_Absent True False, st\<lparr>ns_absentCount := Some (head, 1)\<rparr>, w)"
  by (simp add: act_on_poll_def)

lemma second_absent_emits:
  assumes "quiet_host h" and "world_ok {} w" and "caught_up_row w sid r pr head"
    and "ns_absentCount st = Some (head, 1)" and "ns_lastEmit st = None"
  shows "\<exists>res st' w' r'. act_on_poll h sid Ci_State_Absent head r st w = (res, st', w')
    \<and> getPrCoordination (wd_prs w') sid = Some r' \<and> state r' = MERGE_READY \<and> fr_reArm res \<and> fr_emitted res"
proof -
  obtain r' where r': "getPrCoordination (wd_prs (shadowEmitCiSignal h sid Ci_State_Absent w)) sid = Some r'"
      "state r' = MERGE_READY"
    using settled_emission[OF assms(1-3), of Ci_State_Absent] by blast
  show ?thesis
    using r' assms(1,4,5)
    by (simp add: act_on_poll_def emit_settled_def counted_absent Let_def polled_def keepAliveState_def)
qed

lemma due_alarm:
  assumes "ns_deadline st = Some d" and "d \<le> wd_clock w"
  shows "no_signal_alarm h parses listening sid later st w =
    (let (res, st', w') = shadowFireDueNoSignalAdvance h parses sid st w
     in (if fr_reArm res then st'\<lparr>ns_deadline := Some (later + NO_SIGNAL_ADVANCE_WINDOW_MS)\<rparr>
         else st'\<lparr>ns_deadline := None\<rparr>, w'))"
  using assms by (simp add: no_signal_alarm_def self_armed_def shouldSelfArmNoSignalAdvance_def poll_due_def Let_def)

text \<open>
  C34.  A pull request without continuous integration settles: a session in REVIEW that is caught up but for CI, on a
  head whose polls answer absent, is left alone by the first due tick, which re-arms the poll one window
  on, and enters MERGE_READY by the next tick at or after that.
\<close>

theorem no_ci_pull_request_settles:
  assumes host: "quiet_host h" and ok: "world_ok {} w" and row: "caught_up_row w sid r pr head"
    and head: "head \<noteq> []" and parses: "parses pr" and poll: "lh_poll h pr head = Some Ci_State_Absent"
    and due: "ns_deadline st = Some d" "d \<le> wd_clock w"
    and fresh: "absent_count (ns_absentCount st) head = 0" "ns_lastEmit st = None"
    and next_tick: "later + NO_SIGNAL_ADVANCE_WINDOW_MS \<le> c"
  shows "\<exists>st1 w1 st2 w2 r2. no_signal_alarm h parses listening sid later st w = (st1, w1)
    \<and> getPrCoordination (wd_prs w1) sid = Some r \<and> wd_journal w1 = wd_journal w
    \<and> ns_deadline st1 = Some (later + NO_SIGNAL_ADVANCE_WINDOW_MS)
    \<and> no_signal_alarm h parses listening sid much_later st1 (w1\<lparr>wd_clock := c\<rparr>) = (st2, w2)
    \<and> getPrCoordination (wd_prs w2) sid = Some r2 \<and> state r2 = MERGE_READY
    \<and> ns_deadline st2 = Some (much_later + NO_SIGNAL_ADVANCE_WINDOW_MS)"
proof -
  define w1 where "w1 = w\<lparr>wd_tick := wd_tick w + 2\<rparr>"
  define st1 where "st1 = st\<lparr>ns_absentCount := Some (head, 1),
    ns_deadline := Some (later + NO_SIGNAL_ADVANCE_WINDOW_MS)\<rparr>"
  have one: "no_signal_alarm h parses listening sid later st w = (st1, w1)"
    using due_poll_acts[where parses = parses, OF host row head parses poll] first_absent_counted[OF fresh(1)]
    by (simp add: due_alarm[OF due] st1_def w1_def polled_def)
  let ?w = "w1\<lparr>wd_clock := c\<rparr>"
  have row1: "caught_up_row ?w sid r pr head" using row by (simp add: w1_def)
  let ?w2 = "?w\<lparr>wd_tick := wd_tick ?w + 2\<rparr>"
  have "world_ok {} ?w2" using ok by (simp add: w1_def world_ok_def journal_covers_def)
  then obtain res st2 w2 r2 where two: "act_on_poll h sid Ci_State_Absent head r st1 ?w2 = (res, st2, w2)"
      "getPrCoordination (wd_prs w2) sid = Some r2" "state r2 = MERGE_READY" "fr_reArm res"
    using second_absent_emits[OF host, of ?w2 sid r pr head st1] row1 fresh(2) by (auto simp: st1_def)
  have "no_signal_alarm h parses listening sid much_later st1 ?w
      = (st2\<lparr>ns_deadline := Some (much_later + NO_SIGNAL_ADVANCE_WINDOW_MS)\<rparr>, w2)"
    using two due_poll_acts[where parses = parses, OF host row1 head parses poll] next_tick
    by (subst due_alarm[where d = "later + NO_SIGNAL_ADVANCE_WINDOW_MS"]) (simp_all add: st1_def)
  then show ?thesis using one two(2,3) row by (simp add: st1_def w1_def caught_up_row_def)
qed

section \<open>The two-poll debounce\<close>

text \<open>
  What a tick saw, for the specification: the clock, the head of the row it polled for, and the answer.  A tick
  is given by the host, the world it starts from and whether the session listens; worlds of successive ticks
  are unrelated but for the clock, so whatever else writes the tables in between is covered.
\<close>

record alarm_tick =
  at_host :: live_host
  at_parses :: "string \<Rightarrow> bool"
  at_listening :: bool
  at_world :: world
  at_rearm :: int

definition polled_head :: "live_host \<Rightarrow> string \<Rightarrow> world \<Rightarrow> string" where
  "polled_head h sid w =
    (case getPrCoordination (wd_prs (interfere (host_deps h sid no_context) w)) sid of
       None \<Rightarrow> [] | Some r \<Rightarrow> nullish (headSha r) [])"

definition seen :: "string \<Rightarrow> no_signal_storage \<Rightarrow> alarm_tick \<Rightarrow> (int \<times> string \<times> fire_result) list" where
  "seen sid st t =
    (let now = wd_clock (at_world t); st' = self_armed (at_listening t) now st
     in if poll_due now st'
        then [(now, polled_head (at_host t) sid (at_world t),
               fst (shadowFireDueNoSignalAdvance (at_host t) (at_parses t) sid st' (at_world t)))]
        else [])"

definition tick_storage :: "string \<Rightarrow> no_signal_storage \<Rightarrow> alarm_tick \<Rightarrow> no_signal_storage" where
  "tick_storage sid st t = fst (no_signal_alarm (at_host t) (at_parses t) (at_listening t) sid (at_rearm t) st (at_world t))"

fun poll_log :: "string \<Rightarrow> no_signal_storage \<Rightarrow> alarm_tick list \<Rightarrow> (int \<times> string \<times> fire_result) list" where
  "poll_log sid st [] = []"
| "poll_log sid st (t # ts) = seen sid st t @ poll_log sid (tick_storage sid st t) ts"

text \<open>The clock readings of the ticks, in order.\<close>

fun clocks :: "alarm_tick list \<Rightarrow> int list" where
  "clocks [] = []"
| "clocks (t # ts) = wd_clock (at_world t) # at_rearm t # clocks ts"

lemma emit_settled_result:
  "fr_ciState (fst (emit_settled h sid ci signal latest st w)) = Some ci"
  "ns_absentCount (fst (snd (emit_settled h sid ci signal latest st w))) \<in> {None, ns_absentCount st}"
  by (auto simp: emit_settled_def polled_def Let_def retain_or_clear_def clear_auxiliary_def split: option.split)

lemma act_on_poll_counts:
  assumes "act_on_poll h sid ci head latest st w = (res, st', w')"
  shows "ns_absentCount st' = None \<or> ci = Ci_State_Absent \<and> (\<exists>n. ns_absentCount st' = Some (head, n))"
    and "fr_emitted res \<Longrightarrow> ci = Ci_State_Absent \<Longrightarrow> \<exists>n > 0. ns_absentCount st = Some (head, n)"
    and "fr_ciState res = Some ci"
proof -
  let ?st = "\<lambda>c. st\<lparr>ns_absentCount := c\<rparr>"
  let ?n = "absent_count (ns_absentCount st) head + 1"
  consider (first) "ci = Ci_State_Absent" "?n < 2"
    | (again) "ci = Ci_State_Absent" "\<not> ?n < 2"
    | (other) signal where "ci \<noteq> Ci_State_Absent" "signal_of_rollup ci = Some signal"
    | (pending) "ci = Ci_State_Pending"
    by (cases ci) auto
  note cases = this
  show "ns_absentCount st' = None \<or> ci = Ci_State_Absent \<and> (\<exists>n. ns_absentCount st' = Some (head, n))"
    using cases
  proof cases
    case again
    then show ?thesis
      using assms emit_settled_result(2)[of h sid ci Signal_Absent latest "?st (Some (head, ?n))" w]
      by (auto simp: act_on_poll_def)
  next
    case (other signal)
    then show ?thesis
      using assms emit_settled_result(2)[of h sid ci signal latest "?st None" w] by (auto simp: act_on_poll_def)
  qed (use assms in \<open>auto simp: act_on_poll_def\<close>)
  show "\<exists>n > 0. ns_absentCount st = Some (head, n)" if "fr_emitted res" "ci = Ci_State_Absent"
  proof (cases "?n < 2")
    case True
    then show ?thesis using assms that by (auto simp: act_on_poll_def polled_def)
  next
    case False
    then show ?thesis by (auto simp: absent_count_def split: option.splits if_splits)
  qed
  show "fr_ciState res = Some ci"
    using cases
  proof cases
    case (other signal)
    then show ?thesis
      using assms emit_settled_result(1)[of h sid ci signal latest "?st None" w] by (auto simp: act_on_poll_def)
  next
    case again
    then show ?thesis
      using assms emit_settled_result(1)[of h sid ci Signal_Absent latest "?st (Some (head, ?n))" w]
      by (auto simp: act_on_poll_def)
  qed (use assms in \<open>auto simp: act_on_poll_def polled_def\<close>)
qed

lemma fire_counts:
  assumes fire: "shadowFireDueNoSignalAdvance h parses sid st w = (res, st', w')"
  shows "ns_absentCount st' \<in> {None, ns_absentCount st}
      \<or> fr_ciState res = Some Ci_State_Absent \<and> (\<exists>n. ns_absentCount st' = Some (polled_head h sid w, n))"
    and "fr_emitted res \<Longrightarrow> fr_ciState res = Some Ci_State_Absent \<Longrightarrow>
      \<exists>n > 0. ns_absentCount st = Some (polled_head h sid w, n)"
proof -
  note defs = shadowFireDueNoSignalAdvance_def noPollResult_def faultResult_def retain_or_clear_def
    clear_auxiliary_def Let_def
  have idle: "\<not> fr_emitted (polled ci reArm False)" for ci reArm by (simp add: polled_def)
  have "(ns_absentCount st' \<in> {None, ns_absentCount st} \<and> \<not> fr_emitted res)
      \<or> (\<exists>ci latest v.  act_on_poll h sid ci (polled_head h sid w) latest st v = (res, st', w'))"
    using fire unfolding defs polled_head_def
    by (auto simp: idle split: option.splits if_splits)
  then consider (idle) "ns_absentCount st' \<in> {None, ns_absentCount st}" "\<not> fr_emitted res"
    | (acts) ci latest v where "act_on_poll h sid ci (polled_head h sid w) latest st v = (res, st', w')"
    by blast
  note cases = this
  show "ns_absentCount st' \<in> {None, ns_absentCount st}
      \<or> fr_ciState res = Some Ci_State_Absent \<and> (\<exists>n. ns_absentCount st' = Some (polled_head h sid w, n))"
    using cases by cases (use act_on_poll_counts(1,3) in \<open>blast+\<close>)
  show "\<exists>n > 0. ns_absentCount st = Some (polled_head h sid w, n)"
    if "fr_emitted res" "fr_ciState res = Some Ci_State_Absent"
    using cases
  proof cases
    case (acts ci latest v)
    then have "ci = Ci_State_Absent" using act_on_poll_counts(3)[OF acts] that(2) by simp
    then show ?thesis using act_on_poll_counts(2)[OF acts that(1)] by simp
  qed (use that in simp)
qed

text \<open>What holds after any ticks: a positive count is backed by a poll, and the next poll is a window away.\<close>

definition backed :: "(int \<times> string \<times> fire_result) set \<Rightarrow> int \<Rightarrow> no_signal_storage \<Rightarrow> bool" where
  "backed past now st \<longleftrightarrow>
     (\<forall>head n. ns_absentCount st = Some (head, n) \<and> n > 0 \<longrightarrow>
        (\<exists>t res. (t, head, res) \<in> past \<and> fr_ciState res = Some Ci_State_Absent))
     \<and> (\<forall>(t, e) \<in> past. t \<le> now \<and> (\<forall>d. ns_deadline st = Some d \<longrightarrow> t + NO_SIGNAL_ADVANCE_WINDOW_MS \<le> d))"

lemma backed_later: "backed past now st \<Longrightarrow> now \<le> later \<Longrightarrow> backed past later st"
  by (fastforce simp: backed_def)

lemma backed_self_armed:
  "backed past now st \<Longrightarrow> now \<le> later \<Longrightarrow> backed past later (self_armed listening later st)"
  by (fastforce simp: backed_def self_armed_def shouldSelfArmNoSignalAdvance_def)

lemma backed_tick:
  assumes "backed past now st" and "now \<le> wd_clock (at_world t)" and "wd_clock (at_world t) \<le> at_rearm t"
  shows "backed (past \<union> set (seen sid st t)) (at_rearm t) (tick_storage sid st t)"
proof -
  let ?now = "wd_clock (at_world t)" and ?st = "self_armed (at_listening t) (wd_clock (at_world t)) st"
  let ?head = "polled_head (at_host t) sid (at_world t)"
  have armed: "backed past ?now ?st" using assms(1,2) by (rule backed_self_armed)
  show ?thesis
  proof (cases "poll_due ?now ?st")
    case False
    then show ?thesis
      using backed_later[OF armed assms(3)] by (simp add: seen_def tick_storage_def no_signal_alarm_def Let_def)
  next
    case True
    obtain res st' w' where fire:
        "shadowFireDueNoSignalAdvance (at_host t) (at_parses t) sid ?st (at_world t) = (res, st', w')"
      by (metis prod_cases3)
    have seen: "seen sid st t = [(?now, ?head, res)]" using True fire by (simp add: seen_def Let_def)
    have storage: "ns_absentCount (tick_storage sid st t) = ns_absentCount st'"
        "ns_deadline (tick_storage sid st t) \<in> {None, Some (at_rearm t + NO_SIGNAL_ADVANCE_WINDOW_MS)}"
      using True fire by (auto simp: tick_storage_def no_signal_alarm_def Let_def)
    let ?past = "past \<union> {(?now, ?head, res)}"
    have counted: "\<exists>t' res'. (t', x, res') \<in> ?past \<and> fr_ciState res' = Some Ci_State_Absent"
      if "ns_absentCount st' = Some (x, n)" "n > 0" for x n
    proof -
      have "ns_absentCount ?st = Some (x, n) \<or> fr_ciState res = Some Ci_State_Absent \<and> x = ?head"
        using fire_counts(1)[OF fire] that(1) by auto
      then show ?thesis using armed that(2) unfolding backed_def by blast
    qed
    have spaced: "t' \<le> at_rearm t \<and> (\<forall>d. ns_deadline (tick_storage sid st t) = Some d \<longrightarrow> t' + NO_SIGNAL_ADVANCE_WINDOW_MS \<le> d)"
      if "(t', e) \<in> ?past" for t' e
      using that armed storage(2) assms(3) by (fastforce simp: backed_def)
    have "set (seen sid st t) = {(?now, ?head, res)}" by (simp add: seen)
    moreover have "backed ?past (at_rearm t) (tick_storage sid st t)"
      unfolding backed_def storage(1)
    proof (intro conjI allI impI ballI)
      fix x n assume "ns_absentCount st' = Some (x, n) \<and> n > 0"
      then show "\<exists>t' res'. (t', x, res') \<in> ?past \<and> fr_ciState res' = Some Ci_State_Absent"
        using counted by blast
    next
      fix p assume "p \<in> ?past"
      then show "case p of (t', e) \<Rightarrow> t' \<le> at_rearm t
          \<and> (\<forall>d. ns_deadline (tick_storage sid st t) = Some d \<longrightarrow> t' + NO_SIGNAL_ADVANCE_WINDOW_MS \<le> d)"
        using spaced by (cases p) blast
    qed
    ultimately show ?thesis by simp
  qed
qed

lemma emission_backed:
  assumes "backed past now st" and "now \<le> wd_clock (at_world t)"
    and "(when_seen, head, res) \<in> set (seen sid st t)" and "fr_emitted res" and "fr_ciState res = Some Ci_State_Absent"
  shows "\<exists>t' res'. (t', head, res') \<in> past \<and> fr_ciState res' = Some Ci_State_Absent
    \<and> t' + NO_SIGNAL_ADVANCE_WINDOW_MS \<le> when_seen"
proof -
  let ?now = "wd_clock (at_world t)" and ?st = "self_armed (at_listening t) (wd_clock (at_world t)) st"
  have armed: "backed past ?now ?st" using assms(1,2) by (rule backed_self_armed)
  have due: "poll_due ?now ?st" and at: "when_seen = ?now" "head = polled_head (at_host t) sid (at_world t)"
      "res = fst (shadowFireDueNoSignalAdvance (at_host t) (at_parses t) sid ?st (at_world t))"
    using assms(3) by (auto simp: seen_def Let_def split: if_splits)
  obtain n where "n > 0" "ns_absentCount ?st = Some (head, n)"
    using fire_counts(2) assms(4,5) at by (metis prod_cases3 fst_conv)
  then obtain t' res' where old: "(t', head, res') \<in> past" "fr_ciState res' = Some Ci_State_Absent"
    using armed by (auto simp: backed_def)
  moreover obtain d where "ns_deadline ?st = Some d" "d \<le> ?now"
    using due by (auto simp: poll_due_def split: option.splits)
  ultimately show ?thesis using armed at(1) by (fastforce simp: backed_def)
qed

lemma poll_log_debounced:
  assumes "backed past now st" and "sorted (now # clocks ts)"
    and "poll_log sid st ts = before @ (t, head, res) # after"
    and "fr_emitted res" and "fr_ciState res = Some Ci_State_Absent"
  shows "\<exists>t' res'. (t', head, res') \<in> past \<union> set before \<and> fr_ciState res' = Some Ci_State_Absent
    \<and> t' + NO_SIGNAL_ADVANCE_WINDOW_MS \<le> t"
  using assms(1-3)
proof (induction ts arbitrary: past now st before)
  case (Cons x ts)
  note IH = Cons.IH and prems = Cons.prems
  have le: "now \<le> wd_clock (at_world x)" "wd_clock (at_world x) \<le> at_rearm x"
    using prems(2) by simp_all
  show ?case
  proof (cases "seen sid st x")
    case Nil
    then show ?thesis
      using IH[of "past \<union> set (seen sid st x)" "at_rearm x" "tick_storage sid st x" before]
        backed_tick[OF prems(1) le, of sid] prems(2,3) by simp
  next
    case (Cons e rest)
    then have e: "seen sid st x = [e]" by (auto simp: seen_def Let_def split: if_splits)
    show ?thesis
    proof (cases before)
      case Nil
      then have "e = (t, head, res)" using prems(3) e by simp
      then show ?thesis using emission_backed[OF prems(1) le(1), of t head res sid] e assms(4,5) by auto
    next
      case (Cons b more)
      then have "poll_log sid (tick_storage sid st x) ts = more @ (t, head, res) # after" "b = e"
        using prems(3) e by simp_all
      then show ?thesis
        using IH[of "past \<union> set (seen sid st x)" "at_rearm x" "tick_storage sid st x" more]
          backed_tick[OF prems(1) le, of sid] prems(2) e Cons by auto
    qed
  qed
qed simp

text \<open>
  C35.  The no-signal poll never takes one absent answer for the absence of CI: whatever the hosts answer and whatever other
  writers leave in the tables between and during the ticks, a tick that emits absent for a head is
  preceded, at least one window earlier, by a tick that polled the same head and read absent.
\<close>

theorem absent_needs_two_polls:
  assumes "ns_absentCount st = None" and "sorted (clocks ts)"
    and "poll_log sid st ts = before @ (t, head, res) # after"
    and "fr_emitted res" and "fr_ciState res = Some Ci_State_Absent"
  shows "\<exists>t' res'. (t', head, res') \<in> set before \<and> fr_ciState res' = Some Ci_State_Absent
    \<and> t' + NO_SIGNAL_ADVANCE_WINDOW_MS \<le> t"
proof (cases ts)
  case (Cons x rest)
  have "backed {} (wd_clock (at_world x)) st" using assms(1) by (simp add: backed_def)
  then show ?thesis using poll_log_debounced[of "{}" _ st ts sid before t head res after] assms Cons by simp
qed (use assms(3) in simp)

section \<open>Witnesses\<close>

definition armed_at :: "int \<Rightarrow> no_signal_storage" where
  "armed_at d = \<lparr>ns_deadline = Some d, ns_absentCount = None, ns_lastEmit = None\<rparr>"

lemma armed_at_sel:
  "ns_deadline (armed_at d) = Some d" "ns_absentCount (armed_at d) = None" "ns_lastEmit (armed_at d) = None"
  by (simp_all add: armed_at_def)

theorem no_ci_pull_request_settles_witness:
  "\<exists>st1 w1 st2 w2 r2. no_signal_alarm no_ci_host (\<lambda>pr. True) True ''s'' 6 (armed_at 4) (seed_world review_seed) = (st1, w1)
    \<and> getPrCoordination (wd_prs w1) ''s'' = Some review_seed
    \<and> no_signal_alarm no_ci_host (\<lambda>pr. True) True ''s'' 90007 st1 (w1\<lparr>wd_clock := 90006\<rparr>) = (st2, w2)
    \<and> getPrCoordination (wd_prs w2) ''s'' = Some r2 \<and> state r2 = MERGE_READY"
proof -
  have clock: "wd_clock (seed_world review_seed) = 5" by (simp add: seed_world_def)
  have count: "absent_count (ns_absentCount (armed_at 4)) ''h'' = 0" by (simp add: armed_at_sel absent_count_def)
  show ?thesis
    using no_ci_pull_request_settles[OF no_ci_host_quiet(1) review_seed_ok review_seed_caught_up _ _
        no_ci_host_quiet(2) armed_at_sel(1) _ count armed_at_sel(3),
        where c = 90006 and later = 6 and much_later = 90007 and parses = "\<lambda>pr. True" and listening = True]
    by (simp add: clock NO_SIGNAL_ADVANCE_WINDOW_MS_def) blast
qed

text \<open>Two ticks at a window's distance.\<close>

definition no_ci_tick :: "int \<Rightarrow> alarm_tick" where
  "no_ci_tick c = \<lparr>at_host = no_ci_host, at_parses = \<lambda>pr. True, at_listening = True,
    at_world = (seed_world review_seed)\<lparr>wd_clock := c\<rparr>, at_rearm = c\<rparr>"

theorem absent_needs_two_polls_witness:
  "\<exists>res res'. poll_log ''s'' (armed_at 0) [no_ci_tick 0, no_ci_tick 90000] = [(0, ''h'', res'), (90000, ''h'', res)]
     \<and> fr_emitted res \<and> \<not> fr_emitted res' \<and> fr_ciState res' = Some Ci_State_Absent
     \<and> (0::int) + NO_SIGNAL_ADVANCE_WINDOW_MS \<le> 90000"
proof -
  let ?w = "\<lambda>c. (seed_world review_seed)\<lparr>wd_clock := c\<rparr>"
  have row: "caught_up_row (?w c) ''s'' review_seed ''u'' ''h''" for c using review_seed_caught_up by simp
  have acts: "shadowFireDueNoSignalAdvance no_ci_host (\<lambda>pr. True) ''s'' st (?w c)
      = act_on_poll no_ci_host ''s'' Ci_State_Absent ''h'' review_seed st ((?w c)\<lparr>wd_tick := wd_tick (?w c) + 2\<rparr>)" for st c
    using due_poll_acts[where parses = "\<lambda>pr. True", OF no_ci_host_quiet(1) row _ _ no_ci_host_quiet(2)] by simp
  let ?st1 = "\<lparr>ns_deadline = Some 90000, ns_absentCount = Some (''h'', 1), ns_lastEmit = None\<rparr>"
  have armed: "self_armed True c st = st" if "ns_deadline st \<noteq> None" for c st
    using that by (simp add: self_armed_def shouldSelfArmNoSignalAdvance_def)
  have one: "shadowFireDueNoSignalAdvance no_ci_host (\<lambda>pr. True) ''s'' (armed_at 0) (?w 0)
      = (polled Ci_State_Absent True False, (armed_at 0)\<lparr>ns_absentCount := Some (''h'', 1)\<rparr>,
         (?w 0)\<lparr>wd_tick := wd_tick (?w 0) + 2\<rparr>)"
    using acts first_absent_counted[of "armed_at 0" "''h''"] by (simp add: armed_at_sel absent_count_def)
  then have st1: "tick_storage ''s'' (armed_at 0) (no_ci_tick 0) = ?st1"
    by (simp add: tick_storage_def no_ci_tick_def due_alarm[where d = 0] armed_at_sel polled_def
        NO_SIGNAL_ADVANCE_WINDOW_MS_def armed_at_def)
  have head: "polled_head no_ci_host ''s'' (?w c) = ''h''" for c
    using no_ci_host_quiet(1) by (simp add: polled_head_def seed_world_def)
  have seen1: "seen ''s'' (armed_at 0) (no_ci_tick 0) = [(0, ''h'', polled Ci_State_Absent True False)]"
    using one by (simp add: seen_def no_ci_tick_def armed armed_at_sel poll_due_def head)
  let ?w2 = "(?w 90000)\<lparr>wd_tick := wd_tick (?w 90000) + 2\<rparr>"
  have "world_ok {} ?w2" using review_seed_ok by (simp add: world_ok_def journal_covers_def)
  then obtain res st2 w2 where two: "act_on_poll no_ci_host ''s'' Ci_State_Absent ''h'' review_seed ?st1 ?w2 = (res, st2, w2)"
      "fr_emitted res"
    using second_absent_emits[OF no_ci_host_quiet(1), of ?w2 "''s''" review_seed "''u''" "''h''" ?st1] row by auto
  have "seen ''s'' ?st1 (no_ci_tick 90000) = [(90000, ''h'', res)]"
    using two acts[of ?st1] by (simp add: seen_def no_ci_tick_def armed poll_due_def head)
  then have log: "poll_log ''s'' (armed_at 0) [no_ci_tick 0, no_ci_tick 90000]
      = [(0, ''h'', polled Ci_State_Absent True False)] @ (90000, ''h'', res) # []"
    by (simp add: st1 seen1)
  have "fr_ciState res = Some Ci_State_Absent" using act_on_poll_counts(3)[OF two(1)] .
  from absent_needs_two_polls[OF armed_at_sel(2) _ log two(2) this]
  have "(0::int) + NO_SIGNAL_ADVANCE_WINDOW_MS \<le> 90000" by (auto simp: no_ci_tick_def)
  then show ?thesis using log two(2) by (auto simp: polled_def)
qed

end
