(* ===== verification/Spec2Isabelle.thy ===== *)
theory Spec2Isabelle
  imports Prelude Fsm_Types Fsm_Guards Fsm_Actions Fsm_Transition Fsm_Transition_Props
    Fsm_State_Graph Disposition_Store Pr_Store Pr_Row_Codec Fsm_Post_Actions Fsm_Resolvers
    Fsm_Invariant Session_Phase Fsm_Project Apply_Event Spine_Guarantee Apply_Event_Props
    Spine_Hazards Session_Lifecycle Session_Reducer Session_Store Session_Run Session_Alarm
    Session_Tick Session_Watchdog Transport_Producer Legacy_Backfill Backfill_Run Ci_Signal No_Signal_Advance
begin

text \<open>
  Verification of the session lifecycle of Cycloid, the control plane that runs coding agents on pull
  requests (\<open>apps/control-plane-worker/src/session\<close>, with the contracts of \<open>shared/session\<close> it shares with
  the UI): the state machine of the coordination record, and the transport sub-machine of the session object.

  The program.  Every session has one coordination record, a row of the table \<open>pr_coordination\<close>: its
  lifecycle state, its pull request and head, the verification run, the ci-fix budget, the epoch in
  flight, the reason it waits for a human.  The record moves by events.  A pure driver (\<open>transition\<close>) maps
  a state, an event and a bag of evaluated guards to a decision: the next state, field writes, side
  effects, worklist registrations.  The spine (\<open>applyEvent\<close>) is the only writer: it reads the row, resolves
  the guards, decides, runs the universal post-actions, writes the row by compare-and-swap on its version,
  appends the journal row, commits the worklist items, dispatches the side effects and, when the caught-up
  recompute asks for it, re-enters itself once.  Producers (transport, publish, webhooks, verification,
  cron) call the spine with events; the read surfaces project the record.

  Theories, and the code each models.
    \<^item> \<open>Prelude\<close>: the JavaScript idioms (optional properties, \<open>??\<close>, truthiness, throwing calls).
    \<^item> \<open>Fsm_Types\<close> (\<open>fsm/types.ts\<close>): states, enums, events, metadata, record, field writes, effects,
      decisions.  \<open>Fsm_Guards\<close> (\<open>fsm/guards.ts\<close>, the caps of \<open>constants/\<close>).  \<open>Fsm_Actions\<close>
      (\<open>fsm/actions.ts\<close>): one definition per writer and effect.
    \<^item> \<open>Fsm_Transition\<close> (\<open>fsm/transition.ts\<close>): one step function per state, the cross-cutting layer, the
      dwell-neutrality rule.  \<open>Fsm_Transition_Props\<close> proves what the driver promises edge by edge;
      \<open>Fsm_State_Graph\<close> states the graph of \<open>docs/fsm.md\<close> as the abstract specification and proves the driver
      refines it exactly.
    \<^item> \<open>Disposition_Store\<close> (\<open>pr-review-item-disposition-db.ts\<close>, the worklist sink of
      \<open>fsm/live-side-effects.ts\<close>) and \<open>Pr_Store\<close> (\<open>pr-coordination-db.ts\<close>, \<open>pr-coordination-events-db.ts\<close>,
      \<open>fsm/genesis.ts\<close>): the tables as lists of rows, every write and the single-table listers.
      \<open>Pr_Row_Codec\<close>: the SQL row image of a record, and the refinement of the record store by it.
    \<^item> \<open>Fsm_Post_Actions\<close> (\<open>fsm/post-actions.ts\<close>, \<open>fsm/caught-up.ts\<close>, \<open>fsm/deadline-producer.ts\<close>) and
      \<open>Fsm_Resolvers\<close> (\<open>fsm/live-resolver.ts\<close>, \<open>fsm/honest-ci-read.ts\<close>, the transport and publish
      resolvers).
    \<^item> \<open>Fsm_Invariant\<close>: the life of one record as a step relation, and the record invariant by rule
      induction.
    \<^item> \<open>Apply_Event\<close> (\<open>fsm/apply-event.ts\<close>): the spine with every awaited call as a point where other
      writers may act.  \<open>Spine_Guarantee\<close> is the rely/guarantee argument, \<open>Apply_Event_Props\<close> the effects of
      one call (its exact writes in an undisturbed world; that an open review holds its cascade back under any
      writers that leave the item and the pull request alone), \<open>Spine_Hazards\<close> questions of timing.
    \<^item> \<open>Session_Phase\<close> (\<open>shared/session/phase.ts\<close>) and \<open>Fsm_Project\<close> (\<open>fsm/project.ts\<close>,
      \<open>fsm/label-projection.ts\<close>, \<open>shared/session/lifecycle-chip.ts\<close>): the read surfaces.

  The transport sub-machine.  A session object keeps a lifecycle state of its own: the sandbox's and the active
  prompt's phase, six deadlines, the review-listening flags.  Events (sandbox messages, deadlines, stops) go
  through a pure reducer to a list of decisions; the applier patches the object's storage, moves its one alarm
  and hands terminals to the prompt's completion.  The alarm turns the due deadlines into a batch of events.
    \<^item> \<open>Session_Lifecycle\<close> (\<open>session/lifecycle/types.ts\<close>, \<open>deadlines.ts\<close>, \<open>terminal-decision.ts\<close>): state,
      patches, events, decisions, precedence of terminal codes.  \<open>Session_Reducer\<close> (\<open>lifecycle/reducer.ts\<close>): one
      definition per event.
    \<^item> \<open>Session_Store\<close> (\<open>session/durable-object.ts\<close>): the storage keys and the \<open>sandbox_state\<close> columns, reading
      and patching them, the alarm's re-projection, the applier.  \<open>Session_Run\<close>: runs of events, one terminal per
      prompt, and the refinement of the reducer by the storage.
    \<^item> \<open>Session_Alarm\<close> (\<open>dispatchLifecycleAlarm\<close>, \<open>disconnect-terminal-precedence.ts\<close>): the batch and its lemmas.
      \<open>Session_Tick\<close> (\<open>runAlarmTick\<close>, \<open>runtime-termination-authority.ts\<close>): one tick of the alarm around the batch,
      with the cleanup early return before it and the disconnect tail after it, where a disconnect the provider
      does not confirm is taken back.  \<open>Session_Watchdog\<close>: a prompt at work is always ended, the alarm is the
      soonest deadline it can serve, and two ways the code loses this.
    \<^item> \<open>Transport_Producer\<close> (\<open>fsm/transport-producer.ts\<close>): the two machines composed behind the
      gates of \<open>processLifecycleEvent\<close>: what the record does when a prompt ends and when a disconnect is taken back.

  Two ways into the record beside the transport events.
    \<^item> \<open>Ci_Signal\<close> (\<open>services/review-loop-rollup.ts\<close>, the collapse of \<open>github/pr.ts\<close>, \<open>fsm/ci-producer.ts\<close>,
      \<open>services/review-loop-ci-signal.ts\<close>): one verdict for a head, its event, the webhook fan-out;
      \<open>No_Signal_Advance\<close> (\<open>fsm/no-signal-advance-producer.ts\<close>): the poll of a session no webhook reaches.
      Their properties run the spine of \<open>Apply_Event\<close> to MERGE_READY: that a pull request without CI gets there, that
      the poll needs two absent answers for it, and that the fan-out needs one.
    \<^item> \<open>Legacy_Backfill\<close> (\<open>fsm/legacy-adapter.ts\<close>, \<open>fsm/backfill.ts\<close>, \<open>fsm/backfill-runner.ts\<close>): rows for
      sessions older than the spine, every store call a turn of an environment that may also reject it;
      which seeds the state machine could have reached.  \<open>Backfill_Run\<close>: a run against its specification \<open>row_after\<close>, the dry run
      against the run, every session counted once, rows with history out of reach.

  Interfaces.  \<open>worklist_store\<close>, \<open>versioned_store\<close>, \<open>guard_source\<close> and \<open>spine_context\<close> are locales: what a
  registration does to an item, what a compare-and-swap does to a version, what a guard bag must say of the
  record it was read from, what the environment of the spine may do; \<open>decision_applier\<close> says what the
  application of one lifecycle decision leaves in a store; \<open>keyed_loop\<close> what a loop over distinct keys leaves
  under each key.  Each is interpreted on the model's own tables, resolvers and worlds, and the properties rest on
  those interpretations.

  Conventions.  A throw is the left side of a sum, \<open>null\<close> and \<open>undefined\<close> are \<open>None\<close> where the code tells
  them apart only by \<open>??\<close>; JavaScript numbers that count or date are unbounded integers, which the code
  never takes near \<open>2 ^ 53\<close>.  The retry loop of the spine has the source's bound \<open>MAX_CAS_ATTEMPTS = 4\<close> and
  answers \<open>lost_race\<close> when it is spent; the re-entry has the source's depth bound 4, and one property shows
  depth one is never exceeded.  Other writers act through \<open>dp_env\<close>, indexed by a tick that every awaited
  store call advances.  \<open>wd_dispatched\<close> is a ghost log of what the side-effect sink was handed.

  Not modelled: the observability emits (isolated in \<open>try\<close>/\<open>catch\<close>, no table); the live side-effect
  executors (sandboxes, GitHub, Slack, Linear); GitHub polls and settings reads, which are parameters of the
  resolvers; a writer between the awaited reads of one \<open>caughtUpInputs\<close>, which the model reads as one snapshot;
  the listers that join other tables; the other producers (review, epoch, head, verification, publish, cron); of
  the session object, everything but the lifecycle storage and alarm: websockets, the prompt queue, the completion
  of a prompt, the passes of other owners in the alarm tick and their alarm candidates (a parameter of the
  re-projection) and the status broadcasts; HTTP routes and the UI.
\<close>

end
